(* ===== verification/Prelude.thy ===== *)
theory Prelude
  imports Main "HOL-Library.Sublist"
begin

text \<open>
  The prelude of the development: the collections of rewrite rules the component theories
  extend, and generic facts on lists and options that several components share.

  \<^item> \<open>go_simps\<close> collects the equations that compute the modelled Go library functions on
    values built from constructors;
  \<^item> \<open>decision_simps\<close> collects the equations that reduce a permission verdict to its
    \<open>Decision\<close> field;
  \<^item> \<open>grant_defs\<close> collects the definitions a grant lookup unfolds to.
\<close>

named_theorems go_simps \<open>equations of the Go library functions\<close>
named_theorems decision_simps \<open>the decision carried by a check result\<close>
named_theorems grant_defs \<open>definitions a grant lookup unfolds to\<close>

section \<open>First match\<close>

text \<open>
  Most loops of the policy code return at the first list element that satisfies a predicate.
  \<open>find\<close> is that loop; these facts read off its result.
\<close>

lemma find_SomeD: "find P xs = Some x \<Longrightarrow> x \<in> set xs \<and> P x"
  by (induction xs) (auto split: if_splits)

lemma find_eq_None_iff: "find P xs = None \<longleftrightarrow> (\<forall>x\<in>set xs. \<not> P x)"
  by (induction xs) auto

lemma find_is_Some_iff: "(\<exists>x. find P xs = Some x) \<longleftrightarrow> (\<exists>x\<in>set xs. P x)"
  by (metis find_SomeD find_eq_None_iff not_Some_eq)

lemma find_Some_exists: "x \<in> set xs \<Longrightarrow> P x \<Longrightarrow> \<exists>y. find P xs = Some y"
  by (auto simp: find_is_Some_iff)

lemma find_append: "find P (xs @ ys) = (case find P xs of None \<Rightarrow> find P ys | Some x \<Rightarrow> Some x)"
  by (induction xs) auto

text \<open>The index of the first element, as \<open>slices.IndexFunc\<close> gives it.\<close>

fun IndexFunc :: "('a \<Rightarrow> bool) \<Rightarrow> 'a list \<Rightarrow> nat option" where
  "IndexFunc P [] = None"
| "IndexFunc P (x # xs) = (if P x then Some 0 else map_option Suc (IndexFunc P xs))"

lemma IndexFunc_find: "(case IndexFunc P xs of None \<Rightarrow> None | Some i \<Rightarrow> Some (xs ! i)) = find P xs"
  by (induction xs) (auto split: option.splits)

section \<open>Deduplication\<close>

text \<open>
  \<open>dedup seen xs\<close> keeps the elements of \<open>xs\<close> that are not in \<open>seen\<close>, each once, in order of
  first occurrence: the loop over a \<open>map[string]bool\<close> of seen values that the code writes in
  several places.
\<close>

fun dedup :: "'a list \<Rightarrow> 'a list \<Rightarrow> 'a list" where
  "dedup seen [] = []"
| "dedup seen (x # xs) = (if x \<in> set seen then dedup seen xs else x # dedup (x # seen) xs)"

lemma set_dedup [simp]: "set (dedup seen xs) = set xs - set seen"
  by (induction seen xs rule: dedup.induct) auto

lemma distinct_dedup [simp]: "distinct (dedup seen xs)"
  by (induction seen xs rule: dedup.induct) auto

lemma dedup_id: "distinct xs \<Longrightarrow> set xs \<inter> set seen = {} \<Longrightarrow> dedup seen xs = xs"
  by (induction seen xs rule: dedup.induct) auto

lemma dedup_eq_Nil_iff: "dedup seen xs = [] \<longleftrightarrow> set xs \<subseteq> set seen"
proof -
  have "dedup seen xs = [] \<longleftrightarrow> set (dedup seen xs) = {}" by (metis set_empty)
  then show ?thesis by auto
qed

section \<open>Traversals that stop at the first failure\<close>

text \<open>
  \<open>all_some f xs\<close> is the loop that computes \<open>f\<close> on every element in order and gives up, with
  nothing, at the first element it is undefined on.
\<close>

fun all_some :: "('a \<Rightarrow> 'b option) \<Rightarrow> 'a list \<Rightarrow> 'b list option" where
  "all_some f [] = Some []"
| "all_some f (x # xs) =
     (case f x of None \<Rightarrow> None | Some y \<Rightarrow> map_option (\<lambda>ys. y # ys) (all_some f xs))"

lemma all_some_None_iff: "all_some f xs = None \<longleftrightarrow> (\<exists>x\<in>set xs. f x = None)"
  by (induction xs) (auto split: option.splits)

lemma all_some_SomeD:
  "all_some f xs = Some ys \<Longrightarrow> length ys = length xs \<and> (\<forall>i<length xs. f (xs ! i) = Some (ys ! i))"
  by (induction xs arbitrary: ys) (fastforce split: option.splits simp: nth_Cons split: nat.splits)+

lemma all_some_Nil_iff: "all_some f xs = Some [] \<longleftrightarrow> xs = []"
  by (cases xs) (auto split: option.splits)

lemma all_some_is_Some_iff: "(\<exists>ys. all_some f xs = Some ys) \<longleftrightarrow> (\<forall>x\<in>set xs. f x \<noteq> None)"
  by (metis all_some_None_iff not_Some_eq)

lemma all_some_iff: "all_some f xs = Some ys \<longleftrightarrow> list_all2 (\<lambda>y x. f x = Some y) ys xs"
  by (induction xs arbitrary: ys) (auto simp: list_all2_Cons2 split: option.splits)

lemma all_some_ne_iff: "(\<exists>ys. all_some f xs = Some ys \<and> ys \<noteq> []) \<longleftrightarrow> xs \<noteq> [] \<and> (\<forall>x\<in>set xs. f x \<noteq> None)"
proof (cases "xs = []")
  case False
  then have "all_some f xs \<noteq> Some []" by (simp add: all_some_Nil_iff)
  then have "(\<exists>ys. all_some f xs = Some ys \<and> ys \<noteq> []) \<longleftrightarrow> (\<exists>ys. all_some f xs = Some ys)" by auto
  with False show ?thesis by (simp add: all_some_is_Some_iff)
qed simp

lemma set_map_filter: "y \<in> set (List.map_filter f xs) \<longleftrightarrow> (\<exists>x\<in>set xs. f x = Some y)"
  by (induction xs) (auto simp: List.map_filter_simps split: option.splits)

lemma bex_map: "(\<exists>y\<in>set (map f xs). P y) \<longleftrightarrow> (\<exists>x\<in>set xs. P (f x))"
  by auto

section \<open>Association lists as Go maps\<close>

text \<open>
  A Go \<open>map[string]string\<close> whose iteration order does not matter is kept as an association
  list with one entry per key; \<open>put\<close> is the assignment \<open>m[k] = v\<close>.
\<close>

fun put :: "'k \<Rightarrow> 'v \<Rightarrow> ('k \<times> 'v) list \<Rightarrow> ('k \<times> 'v) list" where
  "put k v [] = [(k, v)]"
| "put k v ((k', v') # m) = (if k = k' then (k, v) # m else (k', v') # put k v m)"

lemma map_of_put [simp]: "map_of (put k v m) = (map_of m)(k \<mapsto> v)"
  by (induction m) (auto simp: fun_eq_iff)

lemma fst_set_put: "fst ` set (put k v m) = insert k (fst ` set m)"
proof (induction m)
  case (Cons e m)
  then show ?case by (cases e) (simp add: insert_commute)
qed simp

lemma keys_put [simp]: "set (map fst (put k v m)) = insert k (set (map fst m))"
  by (simp add: fst_set_put)

lemma distinct_put [simp]: "distinct (map fst m) \<Longrightarrow> distinct (map fst (put k v m))"
  by (induction m) (auto simp: fst_set_put)

lemma set_put: "set (put k v m) \<subseteq> insert (k, v) (set m)"
  by (induction m) (auto split: if_splits)

end
