(* ===== verification/GoStrings.thy ===== *)
theory GoStrings
  imports Prelude
begin

text \<open>
  The part of Go's \<^verbatim>\<open>strings\<close>, \<^verbatim>\<open>unicode/utf8\<close> and \<^verbatim>\<open>path\<close> packages that the policy and permission
  code uses. A Go string is its sequence of bytes, so it is a \<open>string\<close> (a list of 8-bit
  characters) and \<open>length\<close> is Go's \<open>len\<close>.

  White space is decided on the bytes: the encodings of the white-space code points never
  start with a continuation byte, so scanning byte by byte finds exactly the separators that
  Go finds scanning rune by rune. \<open>ToLower\<close>, \<open>ToUpper\<close> and \<open>EqualFold\<close> fold the ASCII letters;
  case pairs outside ASCII are left as they are, which is the one place where this layer is
  narrower than the library.
\<close>

section \<open>Prefixes, suffixes and cutting\<close>

definition HasPrefix :: "string \<Rightarrow> string \<Rightarrow> bool" where
  "HasPrefix s p \<longleftrightarrow> take (length p) s = p"

definition HasSuffix :: "string \<Rightarrow> string \<Rightarrow> bool" where
  "HasSuffix s p \<longleftrightarrow> take (length p) (rev s) = rev p"

definition TrimPrefix :: "string \<Rightarrow> string \<Rightarrow> string" where
  "TrimPrefix s p = (if HasPrefix s p then drop (length p) s else s)"

definition TrimSuffix :: "string \<Rightarrow> string \<Rightarrow> string" where
  "TrimSuffix s p = (if HasSuffix s p then take (length s - length p) s else s)"

text \<open>\<open>Cut s c\<close> is \<open>strings.Cut\<close> with a one-byte separator: before, after, found.\<close>

fun Cut :: "string \<Rightarrow> char \<Rightarrow> string \<times> string \<times> bool" where
  "Cut [] c = ([], [], False)"
| "Cut (x # s) c =
     (if x = c then ([], s, True)
      else (case Cut s c of (b, a, found) \<Rightarrow> (x # b, a, found)))"

text \<open>\<open>strings.IndexByte\<close>; \<open>None\<close> for \<open>-1\<close>.\<close>

fun IndexByte :: "string \<Rightarrow> char \<Rightarrow> nat option" where
  "IndexByte [] c = None"
| "IndexByte (x # s) c = (if x = c then Some 0 else map_option Suc (IndexByte s c))"

text \<open>\<open>strings.Split\<close> with a one-byte separator.\<close>

fun Split :: "string \<Rightarrow> char \<Rightarrow> string list" where
  "Split [] c = [[]]"
| "Split (x # s) c =
     (if x = c then [] # Split s c
      else (case Split s c of [] \<Rightarrow> [[x]] | w # ws \<Rightarrow> (x # w) # ws))"

fun Join :: "string list \<Rightarrow> string \<Rightarrow> string" where
  "Join [] sep = []"
| "Join [x] sep = x"
| "Join (x # y # xs) sep = x @ sep @ Join (y # xs) sep"

lemma HasPrefix_iff: "HasPrefix s p \<longleftrightarrow> (\<exists>t. s = p @ t)"
  unfolding HasPrefix_def
  by (metis append_eq_conv_conj append_take_drop_id)

lemma HasSuffix_iff: "HasSuffix s p \<longleftrightarrow> (\<exists>t. s = t @ p)"
proof -
  have "HasSuffix s p \<longleftrightarrow> HasPrefix (rev s) (rev p)"
    by (simp add: HasSuffix_def HasPrefix_def)
  also have "\<dots> \<longleftrightarrow> (\<exists>t. rev s = rev p @ t)"
    by (rule HasPrefix_iff)
  also have "\<dots> \<longleftrightarrow> (\<exists>t. s = t @ p)"
    by (metis rev_append rev_rev_ident)
  finally show ?thesis .
qed

lemma HasPrefix_append [simp]: "HasPrefix (p @ s) p"
  by (auto simp: HasPrefix_iff)

lemma HasPrefix_Cons [simp]: "HasPrefix (x # s) (y # p) \<longleftrightarrow> x = y \<and> HasPrefix s p"
  by (auto simp: HasPrefix_def)

lemma HasPrefix_Nil [simp]: "HasPrefix s []" "HasPrefix [] (y # p) = False"
  by (simp_all add: HasPrefix_def)

lemma HasSuffix_append [simp]: "HasSuffix (s @ p) p"
  by (auto simp: HasSuffix_iff)

lemma HasSuffix_single: "HasSuffix s [c] \<longleftrightarrow> s \<noteq> [] \<and> last s = c"
  by (cases s rule: rev_cases) (auto simp: HasSuffix_iff)

lemma TrimPrefix_append [simp]: "TrimPrefix (p @ s) p = s"
  by (simp add: TrimPrefix_def)

lemma TrimSuffix_append [simp]: "TrimSuffix (s @ p) p = s"
  by (simp add: TrimSuffix_def)

lemma Cut_append [simp]: "c \<notin> set b \<Longrightarrow> Cut (b @ c # a) c = (b, a, True)"
  by (induction b) auto

lemma Cut_none [simp]: "c \<notin> set s \<Longrightarrow> Cut s c = (s, [], False)"
  by (induction s) auto

lemma Cut_found: "Cut s c = (b, a, True) \<Longrightarrow> s = b @ c # a \<and> c \<notin> set b"
  by (induction s arbitrary: b) (auto split: if_splits prod.splits)

lemma Cut_not_found: "Cut s c = (b, a, False) \<Longrightarrow> b = s \<and> a = [] \<and> c \<notin> set s"
  by (induction s arbitrary: b) (auto split: if_splits prod.splits)

lemma Cut_sets: "Cut t c = (k, v, b) \<Longrightarrow> set k \<union> set v \<subseteq> set t"
  by (induction t arbitrary: k) (auto split: if_splits prod.splits)

lemma IndexByte_None [simp]: "IndexByte s c = None \<longleftrightarrow> c \<notin> set s"
  by (induction s) auto

lemma IndexByte_append [simp]: "c \<notin> set b \<Longrightarrow> IndexByte (b @ c # a) c = Some (length b)"
  by (induction b) auto

lemma Split_ne [simp]: "Split s c \<noteq> []"
  by (induction s) (auto split: list.splits)

section \<open>White space\<close>

definition ascii_space :: "char \<Rightarrow> bool" where
  "ascii_space c \<longleftrightarrow> c \<in> {CHR 0x09, CHR 0x0A, CHR 0x0B, CHR 0x0C, CHR 0x0D, CHR 0x20}"

text \<open>
  The number of bytes of the white-space rune the string starts with, 0 when it starts with
  none: \<open>unicode.IsSpace\<close> on the first rune (U+0085, U+00A0, U+1680, U+2000 to U+200A,
  U+2028, U+2029, U+202F, U+205F and U+3000 beside the ASCII ones).
\<close>

definition space_tail3 :: "char \<Rightarrow> char \<Rightarrow> char \<Rightarrow> bool" where
  "space_tail3 a b c \<longleftrightarrow>
     (a = CHR 0xE1 \<and> b = CHR 0x9A \<and> c = CHR 0x80) \<or>
     (a = CHR 0xE2 \<and> b = CHR 0x80 \<and>
        c \<in> {CHR 0x80, CHR 0x81, CHR 0x82, CHR 0x83, CHR 0x84, CHR 0x85, CHR 0x86, CHR 0x87,
             CHR 0x88, CHR 0x89, CHR 0x8A, CHR 0xA8, CHR 0xA9, CHR 0xAF}) \<or>
     (a = CHR 0xE2 \<and> b = CHR 0x81 \<and> c = CHR 0x9F) \<or>
     (a = CHR 0xE3 \<and> b = CHR 0x80 \<and> c = CHR 0x80)"

definition space_tail2 :: "char \<Rightarrow> char \<Rightarrow> bool" where
  "space_tail2 a b \<longleftrightarrow> a = CHR 0xC2 \<and> b \<in> {CHR 0x85, CHR 0xA0}"

definition space_len :: "string \<Rightarrow> nat" where
  "space_len s =
     (case s of
        [] \<Rightarrow> 0
      | a # s1 \<Rightarrow>
          if ascii_space a then 1
          else (case s1 of
             [] \<Rightarrow> 0
           | b # s2 \<Rightarrow>
               if space_tail2 a b then 2
               else (case s2 of [] \<Rightarrow> 0 | c # _ \<Rightarrow> if space_tail3 a b c then 3 else 0)))"

text \<open>The same on the reversed string, for the last rune.\<close>

definition space_rlen :: "string \<Rightarrow> nat" where
  "space_rlen s =
     (case s of
        [] \<Rightarrow> 0
      | a # s1 \<Rightarrow>
          if ascii_space a then 1
          else (case s1 of
             [] \<Rightarrow> 0
           | b # s2 \<Rightarrow>
               if space_tail2 b a then 2
               else (case s2 of [] \<Rightarrow> 0 | c # _ \<Rightarrow> if space_tail3 c b a then 3 else 0)))"

function trim_left :: "string \<Rightarrow> string" where
  "trim_left s = (if space_len s = 0 \<or> s = [] then s else trim_left (drop (space_len s) s))"
  by pat_completeness auto
termination
  by (relation "measure length") auto

function trim_rleft :: "string \<Rightarrow> string" where
  "trim_rleft s = (if space_rlen s = 0 \<or> s = [] then s else trim_rleft (drop (space_rlen s) s))"
  by pat_completeness auto
termination
  by (relation "measure length") auto

declare trim_left.simps [simp del] trim_rleft.simps [simp del]

definition TrimSpace :: "string \<Rightarrow> string" where
  "TrimSpace s = rev (trim_rleft (rev (trim_left s)))"

function fields_from :: "string \<Rightarrow> string \<Rightarrow> string list" where
  "fields_from cur s =
     (if s = [] then (if cur = [] then [] else [cur])
      else if space_len s \<noteq> 0
        then (if cur = [] then [] else [cur]) @ fields_from [] (drop (space_len s) s)
      else fields_from (cur @ [hd s]) (tl s))"
  by pat_completeness auto
termination
  by (relation "measure (\<lambda>(cur, s). length s)") auto

declare fields_from.simps [simp del]

text \<open>\<open>strings.Fields\<close>: the maximal runs of bytes between white space.\<close>

definition Fields :: "string \<Rightarrow> string list" where
  "Fields s = fields_from [] s"

text \<open>A character that neither is white space nor starts an encoding of it.\<close>

definition plain_char :: "char \<Rightarrow> bool" where
  "plain_char c \<longleftrightarrow> \<not> ascii_space c \<and> c \<notin> {CHR 0xC2, CHR 0xE1, CHR 0xE2, CHR 0xE3} \<and>
     c \<notin> {CHR 0x80, CHR 0x81, CHR 0x82, CHR 0x83, CHR 0x84, CHR 0x85, CHR 0x86, CHR 0x87,
          CHR 0x88, CHR 0x89, CHR 0x8A, CHR 0xA8, CHR 0xA9, CHR 0xAF, CHR 0x9F, CHR 0xA0}"

definition plain_word :: "string \<Rightarrow> bool" where
  "plain_word w \<longleftrightarrow> w \<noteq> [] \<and> list_all plain_char w"

lemma space_len_plain [simp]: "plain_char c \<Longrightarrow> space_len (c # s) = 0"
  by (auto simp: space_len_def plain_char_def space_tail2_def space_tail3_def split: list.splits)

lemma space_rlen_plain [simp]: "plain_char c \<Longrightarrow> space_rlen (c # s) = 0"
  by (auto simp: space_rlen_def plain_char_def space_tail2_def space_tail3_def split: list.splits)

lemma space_len_Nil [simp]: "space_len [] = 0" "space_rlen [] = 0"
  by (simp_all add: space_len_def space_rlen_def)

lemma space_len_blank [simp]: "space_len (CHR '' '' # s) = 1" "space_rlen (CHR '' '' # s) = 1"
  by (simp_all add: space_len_def space_rlen_def ascii_space_def)

lemma space_len_le: "space_len s \<le> length s"
  by (auto simp: space_len_def split: list.splits)

lemma fields_from_plain:
  "list_all plain_char w \<Longrightarrow> fields_from cur (w @ s) = fields_from (cur @ w) s"
proof (induction w arbitrary: cur)
  case (Cons c w)
  then have "fields_from cur ((c # w) @ s) = fields_from (cur @ [c]) (w @ s)"
    by (simp add: fields_from.simps [of cur "c # w @ s"])
  with Cons show ?case by simp
qed simp

lemma Fields_word [simp]: "plain_word w \<Longrightarrow> Fields w = [w]"
  using fields_from_plain [of w "[]" "[]"]
  by (simp add: Fields_def plain_word_def fields_from.simps [of w "[]"])

lemma Fields_Cons_word: "plain_word w \<Longrightarrow> Fields (w @ CHR '' '' # s) = w # Fields s"
  using fields_from_plain [of w "[]" "CHR '' '' # s"]
  by (simp add: Fields_def plain_word_def fields_from.simps [of w "CHR '' '' # s"])

lemma Fields_Nil [simp]: "Fields [] = []"
  by (simp add: Fields_def fields_from.simps)

lemma Fields_Join: "\<forall>w\<in>set ws. plain_word w \<Longrightarrow> Fields (Join ws '' '') = ws"
proof (induction ws rule: induct_list012)
  case (3 x y zs)
  then show ?case using Fields_Cons_word [of x "Join (y # zs) '' ''"] by simp
qed simp_all

lemma trim_left_plain [simp]: "plain_char c \<Longrightarrow> trim_left (c # s) = c # s"
  by (simp add: trim_left.simps)

lemma trim_rleft_plain [simp]: "plain_char c \<Longrightarrow> trim_rleft (c # s) = c # s"
  by (simp add: trim_rleft.simps)

lemma trim_Nil [simp]: "trim_left [] = []" "trim_rleft [] = []" "TrimSpace [] = []"
  by (simp_all add: trim_left.simps trim_rleft.simps TrimSpace_def)

lemma TrimSpace_blank: "TrimSpace (CHR '' '' # s) = TrimSpace s"
  by (simp add: TrimSpace_def trim_left.simps [of "CHR '' '' # s"])

lemma TrimSpace_plain:
  assumes "s \<noteq> []" "plain_char (hd s)" "plain_char (last s)"
  shows "TrimSpace s = s"
proof -
  from assms(1,2) have l: "trim_left s = s" by (cases s) simp_all
  from assms(1,3) obtain t c where "s = t @ [c]" "plain_char c"
    by (cases s rule: rev_cases) auto
  then show ?thesis using l by (simp add: TrimSpace_def)
qed

lemma TrimSpace_word [simp]: "plain_word w \<Longrightarrow> TrimSpace w = w"
  by (rule TrimSpace_plain)
    (auto simp: plain_word_def list_all_iff)

section \<open>Case folding\<close>

definition lower_char :: "char \<Rightarrow> char" where
  "lower_char c = (if 65 \<le> (of_char c :: nat) \<and> (of_char c :: nat) \<le> 90
                   then char_of ((of_char c :: nat) + 32) else c)"

definition upper_char :: "char \<Rightarrow> char" where
  "upper_char c = (if 97 \<le> (of_char c :: nat) \<and> (of_char c :: nat) \<le> 122
                   then char_of ((of_char c :: nat) - 32) else c)"

definition ToLower :: "string \<Rightarrow> string" where
  "ToLower s = map lower_char s"

definition ToUpper :: "string \<Rightarrow> string" where
  "ToUpper s = map upper_char s"

definition EqualFold :: "string \<Rightarrow> string \<Rightarrow> bool" where
  "EqualFold s t \<longleftrightarrow> ToLower s = ToLower t"

lemma EqualFold_refl [simp]: "EqualFold s s"
  by (simp add: EqualFold_def)

section \<open>Runes\<close>

text \<open>
  \<open>utf8.DecodeRuneInString\<close>: the first code point and its width; an invalid or truncated
  encoding gives the replacement rune U+FFFD with width 1, the empty string width 0.
\<close>

definition cont :: "nat \<Rightarrow> nat \<Rightarrow> nat \<Rightarrow> bool" where
  "cont lo hi b \<longleftrightarrow> lo \<le> b \<and> b \<le> hi"

definition second_range :: "nat \<Rightarrow> nat \<times> nat" where
  "second_range b =
     (if b = 0xE0 then (0xA0, 0xBF) else if b = 0xED then (0x80, 0x9F)
      else if b = 0xF0 then (0x90, 0xBF) else if b = 0xF4 then (0x80, 0x8F) else (0x80, 0xBF))"

definition DecodeRune :: "string \<Rightarrow> nat \<times> nat" where
  "DecodeRune s =
     (case map of_char (take 4 s) of
        [] \<Rightarrow> (0xFFFD, 0)
      | b0 # bs \<Rightarrow>
          (let (lo, hi) = second_range b0 in
           if b0 < 0x80 then (b0, 1)
           else if 0xC2 \<le> b0 \<and> b0 \<le> 0xDF then
             (case bs of b1 # _ \<Rightarrow> if cont 0x80 0xBF b1
                then ((b0 - 0xC0) * 64 + (b1 - 0x80), 2) else (0xFFFD, 1)
              | _ \<Rightarrow> (0xFFFD, 1))
           else if 0xE0 \<le> b0 \<and> b0 \<le> 0xEF then
             (case bs of b1 # b2 # _ \<Rightarrow> if cont lo hi b1 \<and> cont 0x80 0xBF b2
                then ((b0 - 0xE0) * 4096 + (b1 - 0x80) * 64 + (b2 - 0x80), 3) else (0xFFFD, 1)
              | _ \<Rightarrow> (0xFFFD, 1))
           else if 0xF0 \<le> b0 \<and> b0 \<le> 0xF4 then
             (case bs of [b1, b2, b3] \<Rightarrow> if cont lo hi b1 \<and> cont 0x80 0xBF b2 \<and> cont 0x80 0xBF b3
                then ((b0 - 0xF0) * 262144 + (b1 - 0x80) * 4096 + (b2 - 0x80) * 64 + (b3 - 0x80), 4)
                else (0xFFFD, 1)
              | _ \<Rightarrow> (0xFFFD, 1))
           else (0xFFFD, 1)))"

text \<open>\<open>string(r)\<close>, also \<open>Builder.WriteRune\<close>: the encoding of a code point.\<close>

definition EncodeRune :: "nat \<Rightarrow> string" where
  "EncodeRune r =
     (let r = (if 0xD800 \<le> r \<and> r \<le> 0xDFFF \<or> 0x10FFFF < r then 0xFFFD else r) in
      map char_of
       (if r < 0x80 then [r]
        else if r < 0x800 then [0xC0 + r div 64, 0x80 + r mod 64]
        else if r < 0x10000 then [0xE0 + r div 4096, 0x80 + r div 64 mod 64, 0x80 + r mod 64]
        else [0xF0 + r div 262144, 0x80 + r div 4096 mod 64, 0x80 + r div 64 mod 64, 0x80 + r mod 64]))"

definition is_ascii :: "char \<Rightarrow> bool" where
  "is_ascii c \<longleftrightarrow> (of_char c :: nat) < 128"

lemma DecodeRune_ascii: "is_ascii c \<Longrightarrow> DecodeRune (c # s) = (of_char c, 1)"
  by (simp add: DecodeRune_def is_ascii_def split: prod.splits)

lemma EncodeRune_ascii: "is_ascii c \<Longrightarrow> EncodeRune (of_char c) = [c]"
  by (simp add: EncodeRune_def is_ascii_def Let_def)

lemma DecodeRune_Nil [simp]: "DecodeRune [] = (0xFFFD, 0)"
  by (simp add: DecodeRune_def)

lemma DecodeRune_width: "s \<noteq> [] \<Longrightarrow> 1 \<le> snd (DecodeRune s)"
  by (cases s) (auto simp: DecodeRune_def Let_def split: list.splits prod.splits)

subsection \<open>Decoding inverts encoding\<close>

definition is_scalar :: "nat \<Rightarrow> bool" where
  "is_scalar r \<longleftrightarrow> r < 0xD800 \<or> 0xDFFF < r \<and> r \<le> 0x10FFFF"

lemma EncodeRune_scalar:
  "is_scalar r \<Longrightarrow> EncodeRune r = map char_of
       (if r < 0x80 then [r]
        else if r < 0x800 then [0xC0 + r div 64, 0x80 + r mod 64]
        else if r < 0x10000 then [0xE0 + r div 4096, 0x80 + r div 64 mod 64, 0x80 + r mod 64]
        else [0xF0 + r div 262144, 0x80 + r div 4096 mod 64, 0x80 + r div 64 mod 64, 0x80 + r mod 64])"
  unfolding EncodeRune_def Let_def is_scalar_def by (auto simp: not_le)

lemma Decode_Encode2:
  assumes "128 \<le> r" "r < (2048::nat)"
  shows "DecodeRune (EncodeRune r @ t) = (r, 2)"
proof -
  have e: "EncodeRune r = map char_of [0xC0 + r div 64, 0x80 + r mod 64]"
    using assms by (simp add: EncodeRune_def Let_def)
  have "r div 64 < 32" "2 \<le> r div 64" "r mod 64 < 64" "r div 64 * 64 + r mod 64 = r" using assms by auto
  then show ?thesis unfolding e
    by (simp add: DecodeRune_def Let_def cont_def split: prod.splits)
qed

lemma Decode_Encode3:
  assumes "2048 \<le> r" "r < (65536::nat)" "is_scalar r"
  shows "DecodeRune (EncodeRune r @ t) = (r, 3)"
proof -
  define a b c where "a = r div 4096" and "b = r div 64 mod 64" and "c = r mod 64"
  have e: "EncodeRune r = map char_of [0xE0 + a, 0x80 + b, 0x80 + c]"
    using assms by (simp add: EncodeRune_scalar a_def b_def c_def)
  have q: "r div 64 = a * 64 + b"
    using div_mult_mod_eq [of "r div 64" 64] by (simp add: a_def b_def div_mult2_eq [of r 64 64, simplified])
  have r: "a * 4096 + b * 64 + c = r"
    using div_mult_mod_eq [of r 64] by (simp add: q c_def [symmetric] algebra_simps)
  have bd: "a < 16" "b < 64" "c < 64" using assms by (auto simp: a_def b_def c_def)
  have lo: "a = 0 \<Longrightarrow> 32 \<le> b" and hi: "a = 13 \<Longrightarrow> b < 32"
    using assms r bd by (auto simp: is_scalar_def)
  have s: "cont (fst (second_range (0xE0 + a))) (snd (second_range (0xE0 + a))) (0x80 + b)"
    using bd lo hi by (auto simp: second_range_def cont_def)
  show ?thesis unfolding e
    using bd s r
    by (simp add: DecodeRune_def Let_def cont_def [of 128 191] case_prod_beta)
qed

lemma Decode_Encode4:
  assumes "65536 \<le> r" "is_scalar r"
  shows "DecodeRune (EncodeRune r @ t) = (r, 4)"
proof -
  define a b c d where "a = r div 262144" and "b = r div 4096 mod 64" and "c = r div 64 mod 64" and "d = r mod 64"
  have e: "EncodeRune r = map char_of [0xF0 + a, 0x80 + b, 0x80 + c, 0x80 + d]"
    using assms by (simp add: EncodeRune_scalar a_def b_def c_def d_def)
  have p: "r div 4096 = a * 64 + b"
    using div_mult_mod_eq [of "r div 4096" 64] by (simp add: a_def b_def div_mult2_eq [of r 4096 64, simplified])
  have q: "r div 64 = a * 4096 + b * 64 + c"
    using div_mult_mod_eq [of "r div 64" 64] p
    by (simp add: c_def [symmetric] div_mult2_eq [of r 64 64, simplified, symmetric] algebra_simps)
  have r: "a * 262144 + b * 4096 + c * 64 + d = r"
    using div_mult_mod_eq [of r 64] by (simp add: q d_def [symmetric] algebra_simps)
  have bd: "a < 5" "b < 64" "c < 64" "d < 64" using assms by (auto simp: a_def b_def c_def d_def is_scalar_def)
  have lo: "a = 0 \<Longrightarrow> 16 \<le> b" and hi: "a = 4 \<Longrightarrow> b < 16"
    using assms r bd by (auto simp: is_scalar_def)
  have s: "cont (fst (second_range (0xF0 + a))) (snd (second_range (0xF0 + a))) (0x80 + b)"
    using bd lo hi by (auto simp: second_range_def cont_def)
  show ?thesis unfolding e
    using bd s r
    by (simp add: DecodeRune_def Let_def cont_def [of 128 191] case_prod_beta)
qed

lemma DecodeRune_EncodeRune:
  "is_scalar r \<Longrightarrow> DecodeRune (EncodeRune r @ t) = (r, length (EncodeRune r))"
  using Decode_Encode2 [of r t] Decode_Encode3 [of r t] Decode_Encode4 [of r t]
  by (cases "r < 128"; cases "r < 2048"; cases "r < 65536")
    (simp_all add: EncodeRune_scalar DecodeRune_def Let_def split: prod.splits)

lemma EncodeRune_ne: "EncodeRune r \<noteq> []"
  by (simp add: EncodeRune_def Let_def)

text \<open>The bytes of a code point above ASCII are all above ASCII.\<close>

lemma EncodeRune_high: "128 \<le> r \<Longrightarrow> c \<in> set (EncodeRune r) \<Longrightarrow> \<not> is_ascii c"
  unfolding EncodeRune_def Let_def is_ascii_def
  by (auto split: if_splits simp: not_less)

text \<open>A string built from code points, Go's \<open>string([]rune)\<close>: exactly the valid UTF-8 strings.\<close>

definition encode_runes :: "nat list \<Rightarrow> string" where
  "encode_runes rs = concat (map EncodeRune rs)"

lemma encode_runes_simps [simp]:
  "encode_runes [] = []" "encode_runes (r # rs) = EncodeRune r @ encode_runes rs"
  by (simp_all add: encode_runes_def)

lemma EncodeRune_ascii_char: "is_scalar r \<Longrightarrow> is_ascii c \<Longrightarrow> c \<in> set (EncodeRune r) \<Longrightarrow> r = of_char c"
  using EncodeRune_high [of r c] by (cases "r < 128") (auto simp: EncodeRune_scalar)

lemma encode_runes_char: "list_all is_scalar rs \<Longrightarrow> is_ascii c \<Longrightarrow> c \<in> set (encode_runes rs) \<Longrightarrow> of_char c \<in> set rs"
  by (induction rs) (auto dest: EncodeRune_ascii_char)

end
