(* ===== verification/GoStrconv.thy ===== *)
theory GoStrconv
  imports GoStrings
begin

text \<open>
  The decimal conversions of Go's \<^verbatim>\<open>strconv\<close> the program uses for identifiers: \<open>FormatInt\<close> and
  \<open>ParseInt\<close> in base 10 with 64 bits. \<open>None\<close> stands for a syntax or range error.
\<close>

fun format_nat :: "nat \<Rightarrow> string" where
  "format_nat n = (if n < 10 then [char_of (48 + n)] else format_nat (n div 10) @ [char_of (48 + n mod 10)])"

declare format_nat.simps [simp del]

definition FormatInt :: "int \<Rightarrow> string" where
  "FormatInt i = (if i < 0 then CHR ''-'' # format_nat (nat (- i)) else format_nat (nat i))"

definition is_digit :: "char \<Rightarrow> bool" where
  "is_digit c \<longleftrightarrow> 48 \<le> (of_char c :: nat) \<and> (of_char c :: nat) \<le> 57"

fun digits_val :: "nat \<Rightarrow> string \<Rightarrow> nat option" where
  "digits_val n [] = Some n"
| "digits_val n (c # s) = (if is_digit c then digits_val (10 * n + (of_char c - 48)) s else None)"

definition ParseInt :: "string \<Rightarrow> int option" where
  "ParseInt s =
     (case s of
        [] \<Rightarrow> None
      | c # t \<Rightarrow>
          (let neg = (c = CHR ''-''); ds = (if c = CHR ''+'' \<or> c = CHR ''-'' then t else s) in
           if ds = [] then None
           else (case digits_val 0 ds of
               None \<Rightarrow> None
             | Some n \<Rightarrow>
                 if \<not> neg \<and> 2 ^ 63 \<le> n then None
                 else if neg \<and> 2 ^ 63 < n then None
                 else Some (if neg then - int n else int n))))"

lemma digit_char [simp]: "(n :: nat) < 10 \<Longrightarrow> is_digit (char_of (48 + n)) \<and> (of_char (char_of (48 + n) :: char) :: nat) = 48 + n"
  by (simp add: is_digit_def)

lemma digits_val_append:
  "digits_val n (s @ t) = (case digits_val n s of None \<Rightarrow> None | Some m \<Rightarrow> digits_val m t)"
  by (induction s arbitrary: n) auto

lemma digits_val_format: "digits_val 0 (format_nat n) = Some n"
proof (induction n rule: format_nat.induct)
  case (1 n)
  show ?case
  proof (cases "n < 10")
    case True
    then show ?thesis by (simp add: format_nat.simps [of n])
  next
    case False
    then have "format_nat n = format_nat (n div 10) @ [char_of (48 + n mod 10)]"
      by (simp add: format_nat.simps [of n])
    then show ?thesis using 1 False by (simp add: digits_val_append)
  qed
qed

lemma format_nat_hd: "\<exists>c t. format_nat n = c # t \<and> is_digit c"
proof (induction n rule: format_nat.induct)
  case (1 n)
  show ?case
  proof (cases "n < 10")
    case True
    then show ?thesis by (simp add: format_nat.simps [of n])
  next
    case False
    with 1 show ?thesis by (subst format_nat.simps) auto
  qed
qed

lemma is_digit_sign: "is_digit c \<Longrightarrow> c \<noteq> CHR ''-'' \<and> c \<noteq> CHR ''+''"
  by (auto simp: is_digit_def)

text \<open>Every 64-bit identifier survives being written and read back.\<close>

lemma ParseInt_FormatInt:
  assumes "- (2 ^ 63) \<le> i" "i < 2 ^ 63"
  shows "ParseInt (FormatInt i) = Some i"
proof (cases "i < 0")
  case True
  have "nat (- i) \<le> 2 ^ 63" using assms(1) by (simp add: nat_le_iff)
  with True show ?thesis
    using format_nat_hd [of "nat (- i)"] digits_val_format [of "nat (- i)"]
    by (auto simp: FormatInt_def ParseInt_def Let_def)
next
  case False
  then have n: "nat i < 2 ^ 63" using assms(2) by (simp add: nat_less_iff)
  obtain c t where ct: "format_nat (nat i) = c # t" "is_digit c" using format_nat_hd by blast
  with is_digit_sign [OF ct(2)] False n digits_val_format [of "nat i"] show ?thesis
    by (simp add: FormatInt_def ParseInt_def Let_def)
qed

lemma FormatInt_hd: "\<exists>c t. FormatInt i = c # t \<and> (is_digit c \<or> c = CHR ''-'')"
  using format_nat_hd [of "nat i"] by (auto simp: FormatInt_def)

end
