(* ===== verification/PolicyEntity.thy ===== *)
theory PolicyEntity
  imports GoStrconv
begin

text \<open>
  The policy data of the program: \<^verbatim>\<open>internal/model/entity/policy/{policy,permission_mode}.go\<close>,
  the policy groups with their built-in table and the registry of extension groups
  (\<^verbatim>\<open>policy_group_entity/policy_group.go\<close>), and the JSON columns policies are stored in
  (\<^verbatim>\<open>internal/pkg/jsonfield/jsonfield.go\<close>).

  A policy column is a JSON text. Its content matters here only through the fields the policy
  types read, so a column is either empty, or text that does not decode, or an object with
  those fields; a field that is absent or null decodes to the empty list. The identical Go
  types \<open>CommandPolicy\<close>, \<open>RedisPolicy\<close>, \<open>EtcdPolicy\<close>, \<open>KafkaPolicy\<close>, \<open>K8sPolicy\<close>, \<open>OSSPolicy\<close> and
  \<open>ExtensionPolicy\<close> (an allow list, a deny list, group references, the same JSON keys) are one
  record.
\<close>

section \<open>Policies\<close>

record RulePolicy =
  rp_AllowList :: "string list"
  rp_DenyList :: "string list"
  rp_Groups :: "string list"

type_synonym CommandPolicy = RulePolicy
type_synonym RedisPolicy = RulePolicy
type_synonym EtcdPolicy = RulePolicy
type_synonym KafkaPolicy = RulePolicy
type_synonym K8sPolicy = RulePolicy
type_synonym OSSPolicy = RulePolicy
type_synonym ExtensionPolicy = RulePolicy

record QueryPolicy =
  qp_AllowTypes :: "string list"
  qp_DenyTypes :: "string list"
  qp_DenyFlags :: "string list"
  qp_Groups :: "string list"

record MongoPolicy =
  mp_AllowTypes :: "string list"
  mp_DenyTypes :: "string list"
  mp_Groups :: "string list"

definition RulePolicy0 :: RulePolicy where
  "RulePolicy0 = \<lparr> rp_AllowList = [], rp_DenyList = [], rp_Groups = [] \<rparr>"

definition QueryPolicy0 :: QueryPolicy where
  "QueryPolicy0 = \<lparr> qp_AllowTypes = [], qp_DenyTypes = [], qp_DenyFlags = [], qp_Groups = [] \<rparr>"

definition MongoPolicy0 :: MongoPolicy where
  "MongoPolicy0 = \<lparr> mp_AllowTypes = [], mp_DenyTypes = [], mp_Groups = [] \<rparr>"

lemma policy0_sel [simp]:
  "rp_AllowList RulePolicy0 = []" "rp_DenyList RulePolicy0 = []" "rp_Groups RulePolicy0 = []"
  "qp_AllowTypes QueryPolicy0 = []" "qp_DenyTypes QueryPolicy0 = []"
  "qp_DenyFlags QueryPolicy0 = []" "qp_Groups QueryPolicy0 = []"
  "mp_AllowTypes MongoPolicy0 = []" "mp_DenyTypes MongoPolicy0 = []" "mp_Groups MongoPolicy0 = []"
  by (simp_all add: RulePolicy0_def QueryPolicy0_def MongoPolicy0_def)

definition rp_IsEmpty :: "RulePolicy \<Rightarrow> bool" where
  "rp_IsEmpty p \<longleftrightarrow> rp_AllowList p = [] \<and> rp_DenyList p = [] \<and> rp_Groups p = []"

definition qp_IsEmpty :: "QueryPolicy \<Rightarrow> bool" where
  "qp_IsEmpty p \<longleftrightarrow>
     qp_AllowTypes p = [] \<and> qp_DenyTypes p = [] \<and> qp_DenyFlags p = [] \<and> qp_Groups p = []"

definition mp_IsEmpty :: "MongoPolicy \<Rightarrow> bool" where
  "mp_IsEmpty p \<longleftrightarrow> mp_AllowTypes p = [] \<and> mp_DenyTypes p = [] \<and> mp_Groups p = []"

subsection \<open>Identifiers of the built-in groups\<close>

definition BuiltinLinuxReadOnly :: string where "BuiltinLinuxReadOnly = ''builtin:linux-readonly''"
definition BuiltinK8sReadOnly :: string where "BuiltinK8sReadOnly = ''builtin:k8s-readonly''"
definition BuiltinK8sDangerousDeny :: string where "BuiltinK8sDangerousDeny = ''builtin:k8s-dangerous-deny''"
definition BuiltinDockerReadOnly :: string where "BuiltinDockerReadOnly = ''builtin:docker-readonly''"
definition BuiltinCpFullAccess :: string where "BuiltinCpFullAccess = ''builtin:cp-full-access''"
definition BuiltinDangerousDeny :: string where "BuiltinDangerousDeny = ''builtin:dangerous-deny''"
definition BuiltinSQLReadOnly :: string where "BuiltinSQLReadOnly = ''builtin:sql-readonly''"
definition BuiltinSQLDangerousDeny :: string where "BuiltinSQLDangerousDeny = ''builtin:sql-dangerous-deny''"
definition BuiltinRedisReadOnly :: string where "BuiltinRedisReadOnly = ''builtin:redis-readonly''"
definition BuiltinRedisDangerousDeny :: string where "BuiltinRedisDangerousDeny = ''builtin:redis-dangerous-deny''"
definition BuiltinMongoReadOnly :: string where "BuiltinMongoReadOnly = ''builtin:mongo-readonly''"
definition BuiltinMongoReadWrite :: string where "BuiltinMongoReadWrite = ''builtin:mongo-readwrite''"
definition BuiltinMongoDangerousDeny :: string where "BuiltinMongoDangerousDeny = ''builtin:mongo-dangerous-deny''"
definition BuiltinKafkaMetadataReadOnly :: string where "BuiltinKafkaMetadataReadOnly = ''builtin:kafka-metadata-readonly''"
definition BuiltinKafkaMessageRead :: string where "BuiltinKafkaMessageRead = ''builtin:kafka-message-read''"
definition BuiltinKafkaSchemaReadOnly :: string where "BuiltinKafkaSchemaReadOnly = ''builtin:kafka-schema-readonly''"
definition BuiltinKafkaConnectReadOnly :: string where "BuiltinKafkaConnectReadOnly = ''builtin:kafka-connect-readonly''"
definition BuiltinKafkaOperator :: string where "BuiltinKafkaOperator = ''builtin:kafka-operator''"
definition BuiltinKafkaSecurityAdmin :: string where "BuiltinKafkaSecurityAdmin = ''builtin:kafka-security-admin''"
definition BuiltinKafkaDangerousDeny :: string where "BuiltinKafkaDangerousDeny = ''builtin:kafka-dangerous-deny''"
definition BuiltinKafkaMessageWriteDeny :: string where "BuiltinKafkaMessageWriteDeny = ''builtin:kafka-message-write-deny''"
definition BuiltinEtcdReadOnly :: string where "BuiltinEtcdReadOnly = ''builtin:etcd-readonly''"
definition BuiltinEtcdDangerousDeny :: string where "BuiltinEtcdDangerousDeny = ''builtin:etcd-dangerous-deny''"
definition BuiltinOSSReadOnly :: string where "BuiltinOSSReadOnly = ''builtin:oss-readonly''"
definition BuiltinOSSDangerousDeny :: string where "BuiltinOSSDangerousDeny = ''builtin:oss-dangerous-deny''"
definition BuiltinPrefix :: string where "BuiltinPrefix = ''builtin:''"

lemmas builtin_ids =
  BuiltinLinuxReadOnly_def BuiltinK8sReadOnly_def BuiltinK8sDangerousDeny_def
  BuiltinDockerReadOnly_def BuiltinCpFullAccess_def BuiltinDangerousDeny_def
  BuiltinSQLReadOnly_def BuiltinSQLDangerousDeny_def BuiltinRedisReadOnly_def
  BuiltinRedisDangerousDeny_def BuiltinMongoReadOnly_def BuiltinMongoReadWrite_def
  BuiltinMongoDangerousDeny_def BuiltinKafkaMetadataReadOnly_def BuiltinKafkaMessageRead_def
  BuiltinKafkaSchemaReadOnly_def BuiltinKafkaConnectReadOnly_def BuiltinKafkaOperator_def
  BuiltinKafkaSecurityAdmin_def BuiltinKafkaDangerousDeny_def
  BuiltinKafkaMessageWriteDeny_def BuiltinEtcdReadOnly_def BuiltinEtcdDangerousDeny_def
  BuiltinOSSReadOnly_def BuiltinOSSDangerousDeny_def BuiltinPrefix_def

subsection \<open>Defaults\<close>

definition DefaultCommandPolicy :: CommandPolicy where
  "DefaultCommandPolicy = RulePolicy0 \<lparr> rp_Groups := [BuiltinLinuxReadOnly, BuiltinDangerousDeny] \<rparr>"

definition DefaultQueryPolicy :: QueryPolicy where
  "DefaultQueryPolicy = QueryPolicy0 \<lparr> qp_Groups := [BuiltinSQLReadOnly, BuiltinSQLDangerousDeny] \<rparr>"

definition DefaultRedisPolicy :: RedisPolicy where
  "DefaultRedisPolicy = RulePolicy0 \<lparr> rp_Groups := [BuiltinRedisReadOnly, BuiltinRedisDangerousDeny] \<rparr>"

definition DefaultMongoPolicy :: MongoPolicy where
  "DefaultMongoPolicy = MongoPolicy0 \<lparr> mp_Groups := [BuiltinMongoReadOnly, BuiltinMongoDangerousDeny] \<rparr>"

definition DefaultKafkaPolicy :: KafkaPolicy where
  "DefaultKafkaPolicy =
     RulePolicy0 \<lparr> rp_Groups := [BuiltinKafkaMetadataReadOnly, BuiltinKafkaDangerousDeny] \<rparr>"

definition DefaultK8sPolicy :: K8sPolicy where
  "DefaultK8sPolicy = RulePolicy0 \<lparr> rp_Groups := [BuiltinK8sReadOnly, BuiltinK8sDangerousDeny] \<rparr>"

definition DefaultOSSPolicy :: OSSPolicy where
  "DefaultOSSPolicy = RulePolicy0 \<lparr> rp_Groups := [BuiltinOSSReadOnly, BuiltinOSSDangerousDeny] \<rparr>"

definition DefaultEtcdPolicy :: EtcdPolicy where
  "DefaultEtcdPolicy = RulePolicy0 \<lparr> rp_Groups := [BuiltinEtcdReadOnly, BuiltinEtcdDangerousDeny] \<rparr>"

section \<open>JSON columns\<close>

record policy_fields =
  pf_allow_list :: "string list"
  pf_deny_list :: "string list"
  pf_allow_types :: "string list"
  pf_deny_types :: "string list"
  pf_deny_flags :: "string list"
  pf_groups :: "string list"

definition policy_fields0 :: policy_fields where
  "policy_fields0 = \<lparr> pf_allow_list = [], pf_deny_list = [], pf_allow_types = [], pf_deny_types = [],
     pf_deny_flags = [], pf_groups = [] \<rparr>"

datatype policy_json = JsonEmpty | JsonBad | JsonObj policy_fields

text \<open>\<open>json.Unmarshal\<close> into each policy type; an empty text is an error.\<close>

definition rule_of_fields :: "policy_fields \<Rightarrow> RulePolicy" where
  "rule_of_fields f =
     \<lparr> rp_AllowList = pf_allow_list f, rp_DenyList = pf_deny_list f, rp_Groups = pf_groups f \<rparr>"

definition query_of_fields :: "policy_fields \<Rightarrow> QueryPolicy" where
  "query_of_fields f = \<lparr> qp_AllowTypes = pf_allow_types f, qp_DenyTypes = pf_deny_types f,
     qp_DenyFlags = pf_deny_flags f, qp_Groups = pf_groups f \<rparr>"

definition mongo_of_fields :: "policy_fields \<Rightarrow> MongoPolicy" where
  "mongo_of_fields f =
     \<lparr> mp_AllowTypes = pf_allow_types f, mp_DenyTypes = pf_deny_types f, mp_Groups = pf_groups f \<rparr>"

definition json_Unmarshal :: "(policy_fields \<Rightarrow> 'p) \<Rightarrow> policy_json \<Rightarrow> 'p option" where
  "json_Unmarshal of_fields j = (case j of JsonObj f \<Rightarrow> Some (of_fields f) | _ \<Rightarrow> None)"

text \<open>\<open>json.Marshal\<close> of each policy type.\<close>

definition fields_of_rule :: "RulePolicy \<Rightarrow> policy_fields" where
  "fields_of_rule p = policy_fields0 \<lparr> pf_allow_list := rp_AllowList p, pf_deny_list := rp_DenyList p,
     pf_groups := rp_Groups p \<rparr>"

definition fields_of_query :: "QueryPolicy \<Rightarrow> policy_fields" where
  "fields_of_query p = policy_fields0 \<lparr> pf_allow_types := qp_AllowTypes p,
     pf_deny_types := qp_DenyTypes p, pf_deny_flags := qp_DenyFlags p, pf_groups := qp_Groups p \<rparr>"

definition fields_of_mongo :: "MongoPolicy \<Rightarrow> policy_fields" where
  "fields_of_mongo p = policy_fields0 \<lparr> pf_allow_types := mp_AllowTypes p,
     pf_deny_types := mp_DenyTypes p, pf_groups := mp_Groups p \<rparr>"

definition UnmarshalOrDefault :: "'p \<Rightarrow> (policy_fields \<Rightarrow> 'p) \<Rightarrow> policy_json \<Rightarrow> 'p option" where
  "UnmarshalOrDefault zero of_fields raw =
     (if raw = JsonEmpty then Some zero else json_Unmarshal of_fields raw)"

definition MarshalOrClear :: "('p \<Rightarrow> policy_fields) \<Rightarrow> ('p \<Rightarrow> bool) \<Rightarrow> 'p option \<Rightarrow> policy_json" where
  "MarshalOrClear to_fields isEmpty v =
     (case v of None \<Rightarrow> JsonEmpty | Some p \<Rightarrow> if isEmpty p then JsonEmpty else JsonObj (to_fields p))"

lemma of_fields_rule [simp]: "rule_of_fields (fields_of_rule p) = p"
  by (simp add: rule_of_fields_def fields_of_rule_def policy_fields0_def)

lemma of_fields_query [simp]: "query_of_fields (fields_of_query p) = p"
  by (simp add: query_of_fields_def fields_of_query_def policy_fields0_def)

lemma of_fields_mongo [simp]: "mongo_of_fields (fields_of_mongo p) = p"
  by (simp add: mongo_of_fields_def fields_of_mongo_def policy_fields0_def)

lemma IsEmpty_zero:
  "rp_IsEmpty p \<longleftrightarrow> p = RulePolicy0" "qp_IsEmpty q \<longleftrightarrow> q = QueryPolicy0" "mp_IsEmpty m \<longleftrightarrow> m = MongoPolicy0"
  by (auto simp: rp_IsEmpty_def qp_IsEmpty_def mp_IsEmpty_def RulePolicy0_def QueryPolicy0_def
        MongoPolicy0_def)

text \<open>
  Every policy type is stored and read back unchanged: an empty policy clears the column and an
  empty column reads as the empty policy.
\<close>

locale policy_column =
  fixes zero :: 'p and of_fields :: "policy_fields \<Rightarrow> 'p" and to_fields :: "'p \<Rightarrow> policy_fields"
    and isEmpty :: "'p \<Rightarrow> bool"
  assumes decode_encode: "of_fields (to_fields p) = p" and empty_zero: "isEmpty p \<longleftrightarrow> p = zero"
begin

lemma round_trip:
  "UnmarshalOrDefault zero of_fields (MarshalOrClear to_fields isEmpty (Some p)) = Some p"
  by (simp add: UnmarshalOrDefault_def MarshalOrClear_def json_Unmarshal_def decode_encode empty_zero)

end

interpretation rule_column: policy_column RulePolicy0 rule_of_fields fields_of_rule rp_IsEmpty
  by unfold_locales (simp_all add: IsEmpty_zero)

interpretation query_column: policy_column QueryPolicy0 query_of_fields fields_of_query qp_IsEmpty
  by unfold_locales (simp_all add: IsEmpty_zero)

interpretation mongo_column: policy_column MongoPolicy0 mongo_of_fields fields_of_mongo mp_IsEmpty
  by unfold_locales (simp_all add: IsEmpty_zero)

section \<open>Permission modes\<close>

definition PermissionModeInherit :: string where "PermissionModeInherit = []"
definition PermissionModeDefault :: string where "PermissionModeDefault = ''default''"
definition PermissionModeAssisted :: string where "PermissionModeAssisted = ''assisted''"
definition PermissionModeAutopilot :: string where "PermissionModeAutopilot = ''autopilot''"

lemmas permission_modes =
  PermissionModeInherit_def PermissionModeDefault_def PermissionModeAssisted_def
  PermissionModeAutopilot_def

definition ValidatePermissionMode :: "string \<Rightarrow> bool" where
  "ValidatePermissionMode mode \<longleftrightarrow>
     mode \<in> set [PermissionModeInherit, PermissionModeDefault, PermissionModeAssisted,
       PermissionModeAutopilot]"

section \<open>Policy groups\<close>

definition PolicyTypeCommand :: string where "PolicyTypeCommand = ''command''"
definition PolicyTypeQuery :: string where "PolicyTypeQuery = ''query''"
definition PolicyTypeRedis :: string where "PolicyTypeRedis = ''redis''"
definition PolicyTypeMongo :: string where "PolicyTypeMongo = ''mongo''"
definition PolicyTypeKafka :: string where "PolicyTypeKafka = ''kafka''"
definition PolicyTypeEtcd :: string where "PolicyTypeEtcd = ''etcd''"
definition PolicyTypeOSS :: string where "PolicyTypeOSS = ''oss''"

lemmas policy_types =
  PolicyTypeCommand_def PolicyTypeQuery_def PolicyTypeRedis_def PolicyTypeMongo_def
  PolicyTypeKafka_def PolicyTypeEtcd_def PolicyTypeOSS_def

record PolicyGroup =
  pg_ID :: int
  pg_Name :: string
  pg_Description :: string
  pg_PolicyType :: string
  pg_Policy :: policy_json
  pg_Createtime :: int
  pg_Updatetime :: int
  pg_BuiltinID :: string
  pg_ExtensionName :: string

record PolicyGroupItem =
  pi_ID :: string
  pi_Name :: string
  pi_Description :: string
  pi_PolicyType :: string
  pi_Policy :: policy_json
  pi_Builtin :: bool
  pi_ExtensionName :: string
  pi_Createtime :: int
  pi_Updatetime :: int

definition ToItem :: "PolicyGroup \<Rightarrow> PolicyGroupItem" where
  "ToItem pg =
     \<lparr> pi_ID = (if pg_BuiltinID pg \<noteq> [] then pg_BuiltinID pg else FormatInt (pg_ID pg)),
       pi_Name = pg_Name pg, pi_Description = pg_Description pg, pi_PolicyType = pg_PolicyType pg,
       pi_Policy = pg_Policy pg, pi_Builtin = (pg_BuiltinID pg \<noteq> []),
       pi_ExtensionName = pg_ExtensionName pg, pi_Createtime = pg_Createtime pg,
       pi_Updatetime = pg_Updatetime pg \<rparr>"

subsection \<open>The built-in groups\<close>

definition builtin_group :: "string \<Rightarrow> string \<Rightarrow> string \<Rightarrow> string \<Rightarrow> policy_fields \<Rightarrow> PolicyGroup" where
  "builtin_group bid name desc type f =
     \<lparr> pg_ID = 0, pg_Name = name, pg_Description = desc, pg_PolicyType = type, pg_Policy = JsonObj f,
       pg_Createtime = 0, pg_Updatetime = 0, pg_BuiltinID = bid, pg_ExtensionName = [] \<rparr>"

definition group_LinuxReadOnly :: PolicyGroup where
  "group_LinuxReadOnly = builtin_group BuiltinLinuxReadOnly ''Linux Read-Only''
     ''Common Linux read-only commands'' PolicyTypeCommand
     (policy_fields0 \<lparr> pf_allow_list := [''ls *'', ''cat *'', ''head *'', ''tail *'',
        ''grep *'', ''find *'', ''pwd'', ''wc *'', ''whoami'', ''hostname'', ''uname *'', ''id'',
        ''date'', ''env'', ''printenv *'', ''which *'', ''file *'', ''stat *'', ''df *'', ''du *'',
        ''free *'', ''uptime'', ''ps *'', ''top -b -n 1 *'', ''netstat *'', ''ss *'', ''ip *'',
        ''ifconfig *'', ''mount'', ''lsblk *'', ''blkid *'', ''lsof *'', ''vmstat *'',
        ''iostat *'', ''systemctl status *'', ''journalctl *''] \<rparr>)"

definition group_K8sReadOnly :: PolicyGroup where
  "group_K8sReadOnly = builtin_group BuiltinK8sReadOnly ''Kubernetes Read-Only''
     ''Kubernetes read-only commands'' PolicyTypeCommand
     (policy_fields0 \<lparr> pf_allow_list := [''kubectl get *'', ''kubectl describe *'',
        ''kubectl logs *'', ''kubectl top *'', ''kubectl explain *'', ''kubectl api-resources *'',
        ''kubectl api-versions'', ''kubectl cluster-info *'', ''kubectl config view *'',
        ''kubectl config get-contexts *'', ''kubectl version *'',
        ''kubectl auth can-i *''] \<rparr>)"

definition group_K8sDangerousDeny :: PolicyGroup where
  "group_K8sDangerousDeny = builtin_group BuiltinK8sDangerousDeny ''Kubernetes Dangerous Deny''
     ''Deny dangerous Kubernetes commands'' PolicyTypeCommand
     (policy_fields0 \<lparr> pf_deny_list := [''kubectl delete *'', ''kubectl replace --force *'',
        ''kubectl drain *'', ''kubectl debug *'', ''kubectl drain --force *''] \<rparr>)"

definition group_DockerReadOnly :: PolicyGroup where
  "group_DockerReadOnly = builtin_group BuiltinDockerReadOnly ''Docker Read-Only''
     ''Docker read-only commands'' PolicyTypeCommand
     (policy_fields0 \<lparr> pf_allow_list := [''docker ps *'', ''docker images *'',
        ''docker logs *'', ''docker inspect *'', ''docker stats *'', ''docker top *'',
        ''docker port *'', ''docker diff *'', ''docker history *'', ''docker info'',
        ''docker version'', ''docker network ls *'', ''docker network inspect *'',
        ''docker volume ls *'', ''docker volume inspect *'', ''docker compose ps *'',
        ''docker compose logs *''] \<rparr>)"

definition group_DangerousDeny :: PolicyGroup where
  "group_DangerousDeny = builtin_group BuiltinDangerousDeny ''Dangerous Command Deny''
     ''Deny dangerous system commands'' PolicyTypeCommand
     (policy_fields0 \<lparr> pf_deny_list := [''rm -rf /*'', ''mkfs *'', ''dd *'', ''shutdown *'',
        ''reboot *'', ''poweroff *'', ''halt *''] \<rparr>)"

definition group_CpFullAccess :: PolicyGroup where
  "group_CpFullAccess = builtin_group BuiltinCpFullAccess ''File Transfer Full Access''
     ''Allow cp reads and writes on every remote path'' PolicyTypeCommand
     (policy_fields0 \<lparr> pf_allow_list := [''cp:*''] \<rparr>)"

definition group_SQLReadOnly :: PolicyGroup where
  "group_SQLReadOnly = builtin_group BuiltinSQLReadOnly ''SQL Read-Only''
     ''Allow query-only SQL statements'' PolicyTypeQuery
     (policy_fields0 \<lparr> pf_allow_types := [''SELECT'', ''SHOW'', ''DESCRIBE'', ''EXPLAIN'',
        ''USE''] \<rparr>)"

definition group_SQLDangerousDeny :: PolicyGroup where
  "group_SQLDangerousDeny = builtin_group BuiltinSQLDangerousDeny ''SQL Dangerous Deny''
     ''Deny dangerous SQL operations'' PolicyTypeQuery
     (policy_fields0 \<lparr> pf_deny_types := [''DROP TABLE'', ''DROP DATABASE'', ''TRUNCATE'',
        ''GRANT'', ''REVOKE'', ''CREATE USER'', ''DROP USER'', ''ALTER USER''],
        pf_deny_flags := [''no_where_delete'', ''no_where_update'', ''prepare''] \<rparr>)"

definition group_RedisReadOnly :: PolicyGroup where
  "group_RedisReadOnly = builtin_group BuiltinRedisReadOnly ''Redis Read-Only''
     ''Allow Redis read-only commands'' PolicyTypeRedis
     (policy_fields0 \<lparr> pf_allow_list := [''GET'', ''MGET'', ''STRLEN'', ''HGET'',
        ''HGETALL'', ''HKEYS'', ''HVALS'', ''HLEN'', ''HMGET'', ''HEXISTS'', ''LRANGE'', ''LLEN'',
        ''LINDEX'', ''SMEMBERS'', ''SCARD'', ''SISMEMBER'', ''ZRANGE'', ''ZCARD'', ''ZSCORE'',
        ''ZRANK'', ''ZCOUNT'', ''TYPE'', ''TTL'', ''PTTL'', ''EXISTS'', ''DBSIZE'', ''KEYS'',
        ''SCAN'', ''INFO'', ''PING''] \<rparr>)"

definition group_RedisDangerousDeny :: PolicyGroup where
  "group_RedisDangerousDeny = builtin_group BuiltinRedisDangerousDeny ''Redis Dangerous Deny''
     ''Deny dangerous Redis commands'' PolicyTypeRedis
     (policy_fields0 \<lparr> pf_deny_list := [''FLUSHDB'', ''FLUSHALL'', ''CONFIG SET *'',
        ''CONFIG RESETSTAT'', ''DEBUG *'', ''SHUTDOWN *'', ''SLAVEOF *'', ''REPLICAOF *'',
        ''ACL DELUSER *'', ''ACL SETUSER *'', ''SCRIPT FLUSH'', ''CLUSTER RESET *''] \<rparr>)"

definition group_MongoReadOnly :: PolicyGroup where
  "group_MongoReadOnly = builtin_group BuiltinMongoReadOnly ''MongoDB Read-Only''
     ''Allow MongoDB read-only operations'' PolicyTypeMongo
     (policy_fields0 \<lparr> pf_allow_types := [''find'', ''findOne'', ''aggregate'',
        ''countDocuments''] \<rparr>)"

definition group_MongoReadWrite :: PolicyGroup where
  "group_MongoReadWrite = builtin_group BuiltinMongoReadWrite ''MongoDB Read-Write''
     ''Allow MongoDB CRUD operations'' PolicyTypeMongo
     (policy_fields0 \<lparr> pf_allow_types := [''find'', ''findOne'', ''aggregate'',
        ''countDocuments'', ''insertOne'', ''insertMany'', ''updateOne'', ''updateMany'',
        ''deleteOne'', ''deleteMany''] \<rparr>)"

definition group_MongoDangerousDeny :: PolicyGroup where
  "group_MongoDangerousDeny = builtin_group BuiltinMongoDangerousDeny ''MongoDB Dangerous Deny''
     ''Deny dangerous MongoDB operations'' PolicyTypeMongo
     (policy_fields0 \<lparr> pf_deny_types := [''dropDatabase'', ''dropCollection''] \<rparr>)"

definition group_KafkaMetadataReadOnly :: PolicyGroup where
  "group_KafkaMetadataReadOnly = builtin_group BuiltinKafkaMetadataReadOnly ''Kafka Metadata Read-Only''
     ''Allow Kafka cluster, broker, topic, and consumer group metadata reads'' PolicyTypeKafka
     (policy_fields0 \<lparr> pf_allow_list := [''cluster.read *'', ''broker.read *'',
        ''cluster.config.read *'', ''topic.list *'', ''topic.read *'', ''topic.config.read *'',
        ''consumer_group.list *'', ''consumer_group.read *''] \<rparr>)"

definition group_KafkaMessageRead :: PolicyGroup where
  "group_KafkaMessageRead = builtin_group BuiltinKafkaMessageRead ''Kafka Message Read''
     ''Allow bounded Kafka message browsing'' PolicyTypeKafka
     (policy_fields0 \<lparr> pf_allow_list := [''message.read *''] \<rparr>)"

definition group_KafkaSchemaReadOnly :: PolicyGroup where
  "group_KafkaSchemaReadOnly = builtin_group BuiltinKafkaSchemaReadOnly ''Kafka Schema Registry Read-Only''
     ''Allow Schema Registry read operations'' PolicyTypeKafka
     (policy_fields0 \<lparr> pf_allow_list := [''schema.read *''] \<rparr>)"

definition group_KafkaConnectReadOnly :: PolicyGroup where
  "group_KafkaConnectReadOnly = builtin_group BuiltinKafkaConnectReadOnly ''Kafka Connect Read-Only''
     ''Allow Kafka Connect read operations'' PolicyTypeKafka
     (policy_fields0 \<lparr> pf_allow_list := [''connect.read *''] \<rparr>)"

definition group_KafkaOperator :: PolicyGroup where
  "group_KafkaOperator = builtin_group BuiltinKafkaOperator ''Kafka Operator''
     ''Allow Kafka topic, message, and consumer group administration'' PolicyTypeKafka
     (policy_fields0 \<lparr> pf_allow_list := [''topic.create *'', ''topic.config.write *'',
        ''topic.partitions.write *'', ''topic.records.delete *'', ''message.write *'',
        ''consumer_group.offset.write *'', ''consumer_group.delete *'', ''schema.write *'',
        ''schema.delete *'', ''connect.write *'', ''connect.state.write *'',
        ''connect.delete *''] \<rparr>)"

definition group_KafkaSecurityAdmin :: PolicyGroup where
  "group_KafkaSecurityAdmin = builtin_group BuiltinKafkaSecurityAdmin ''Kafka Security Admin''
     ''Allow Kafka ACL changes'' PolicyTypeKafka
     (policy_fields0 \<lparr> pf_allow_list := [''acl.read *'', ''acl.write *''] \<rparr>)"

definition group_KafkaMessageWriteDeny :: PolicyGroup where
  "group_KafkaMessageWriteDeny = builtin_group BuiltinKafkaMessageWriteDeny ''Kafka Message Write Deny''
     ''Deny producing messages to Kafka topics'' PolicyTypeKafka
     (policy_fields0 \<lparr> pf_deny_list := [''message.write *''] \<rparr>)"

definition group_KafkaDangerousDeny :: PolicyGroup where
  "group_KafkaDangerousDeny = builtin_group BuiltinKafkaDangerousDeny ''Kafka Dangerous Deny''
     ''Deny destructive and high-risk Kafka operations'' PolicyTypeKafka
     (policy_fields0 \<lparr> pf_deny_list := [''topic.delete *'', ''topic.records.delete *'',
        ''consumer_group.offset.write *'', ''consumer_group.delete *'', ''acl.write *'',
        ''schema.delete *'', ''connect.delete *''] \<rparr>)"

definition group_EtcdReadOnly :: PolicyGroup where
  "group_EtcdReadOnly = builtin_group BuiltinEtcdReadOnly ''etcd Read-Only''
     ''Allow etcd read-only operations'' PolicyTypeEtcd
     (policy_fields0 \<lparr> pf_allow_list := [''get *'', ''endpoint *'', ''member list'',
        ''lease list''] \<rparr>)"

definition group_EtcdDangerousDeny :: PolicyGroup where
  "group_EtcdDangerousDeny = builtin_group BuiltinEtcdDangerousDeny ''etcd Dangerous Deny''
     ''Deny dangerous etcd operations'' PolicyTypeEtcd
     (policy_fields0 \<lparr> pf_deny_list := [''auth enable'', ''auth disable'', ''user add *'',
        ''user delete *'', ''user passwd *'', ''role add *'', ''role delete *'',
        ''role grant-permission *'', ''role revoke-permission *'', ''member add *'',
        ''member remove *'', ''member update *'', ''move-leader *'', ''defrag'', ''compact *'',
        ''alarm disarm *'', ''snapshot save *''] \<rparr>)"

definition group_OSSReadOnly :: PolicyGroup where
  "group_OSSReadOnly = builtin_group BuiltinOSSReadOnly ''OSS Read-Only''
     ''Allow listing buckets/objects and reading object content'' PolicyTypeOSS
     (policy_fields0 \<lparr> pf_allow_list := [''bucket.list *'', ''object.list *'',
        ''object.read *''] \<rparr>)"

definition group_OSSDangerousDeny :: PolicyGroup where
  "group_OSSDangerousDeny = builtin_group BuiltinOSSDangerousDeny ''OSS Dangerous Deny''
     ''Deny issuing presigned URLs that grant write access outside the product'' PolicyTypeOSS
     (policy_fields0 \<lparr> pf_deny_list := [''object.presign.write *''] \<rparr>)"

lemmas builtin_group_defs =
  group_LinuxReadOnly_def group_K8sReadOnly_def group_K8sDangerousDeny_def
  group_DockerReadOnly_def group_DangerousDeny_def group_CpFullAccess_def
  group_SQLReadOnly_def group_SQLDangerousDeny_def group_RedisReadOnly_def
  group_RedisDangerousDeny_def group_MongoReadOnly_def group_MongoReadWrite_def
  group_MongoDangerousDeny_def group_KafkaMetadataReadOnly_def group_KafkaMessageRead_def
  group_KafkaSchemaReadOnly_def group_KafkaConnectReadOnly_def group_KafkaOperator_def
  group_KafkaSecurityAdmin_def group_KafkaMessageWriteDeny_def group_KafkaDangerousDeny_def
  group_EtcdReadOnly_def group_EtcdDangerousDeny_def group_OSSReadOnly_def
  group_OSSDangerousDeny_def

text \<open>The registry: the kinds in the order of their first registration, and the groups of each.\<close>

type_synonym builtin_registry = "string list \<times> (string \<rightharpoonup> PolicyGroup list)"

definition registerBuiltinGroups :: "string \<Rightarrow> PolicyGroup list \<Rightarrow> builtin_registry \<Rightarrow> builtin_registry" where
  "registerBuiltinGroups kind groups reg =
     (case reg of (order, byKind) \<Rightarrow>
        case byKind kind of
          None \<Rightarrow> (order @ [kind], byKind(kind \<mapsto> groups))
        | Some gs \<Rightarrow> (order, byKind(kind \<mapsto> gs @ groups)))"

definition builtin_init :: builtin_registry where
  "builtin_init =
     registerBuiltinGroups PolicyTypeOSS
     [group_OSSReadOnly, group_OSSDangerousDeny]
     (registerBuiltinGroups PolicyTypeEtcd
     [group_EtcdReadOnly, group_EtcdDangerousDeny]
     (registerBuiltinGroups PolicyTypeKafka
     [group_KafkaMetadataReadOnly, group_KafkaMessageRead, group_KafkaSchemaReadOnly, group_KafkaConnectReadOnly, group_KafkaOperator, group_KafkaSecurityAdmin, group_KafkaMessageWriteDeny, group_KafkaDangerousDeny]
     (registerBuiltinGroups PolicyTypeMongo
     [group_MongoReadOnly, group_MongoReadWrite, group_MongoDangerousDeny]
     (registerBuiltinGroups PolicyTypeRedis
     [group_RedisReadOnly, group_RedisDangerousDeny]
     (registerBuiltinGroups PolicyTypeQuery
     [group_SQLReadOnly, group_SQLDangerousDeny]
     (registerBuiltinGroups PolicyTypeCommand
     [group_LinuxReadOnly, group_K8sReadOnly, group_K8sDangerousDeny, group_DockerReadOnly, group_DangerousDeny, group_CpFullAccess]
     (([], \<lambda>_. None))))))))"

definition BuiltinGroups :: "PolicyGroup list" where
  "BuiltinGroups =
     (case builtin_init of (order, byKind) \<Rightarrow>
        concat (map (\<lambda>kind. case byKind kind of None \<Rightarrow> [] | Some gs \<Rightarrow> gs) order))"

definition isBuiltinKind :: "string \<Rightarrow> bool" where
  "isBuiltinKind kind \<longleftrightarrow> snd builtin_init kind \<noteq> None"

text \<open>The map from identifier to group keeps, for a repeated identifier, the last group.\<close>

definition FindBuiltin :: "string \<Rightarrow> PolicyGroup option" where
  "FindBuiltin i = find (\<lambda>pg. pg_BuiltinID pg = i) (rev BuiltinGroups)"

definition IsBuiltinID :: "string \<Rightarrow> bool" where
  "IsBuiltinID i = HasPrefix i BuiltinPrefix"

subsection \<open>Extension groups\<close>

text \<open>The table of extension groups, with one entry per identifier.\<close>

type_synonym ext_groups = "(string \<times> PolicyGroup) list"

definition ExtensionPrefix :: string where "ExtensionPrefix = ''ext:''"

definition IsExtensionID :: "string \<Rightarrow> bool" where
  "IsExtensionID i = HasPrefix i ExtensionPrefix"

text \<open>The error of a refused registration carries the identifier and the extension that owns it.\<close>

definition RegisterExtensionGroup :: "PolicyGroup \<Rightarrow> ext_groups \<Rightarrow> (string \<times> string) + ext_groups" where
  "RegisterExtensionGroup pg m =
     (case map_of m (pg_BuiltinID pg) of
        Some existing \<Rightarrow> Inl (pg_BuiltinID pg, pg_ExtensionName existing)
      | None \<Rightarrow> Inr (put (pg_BuiltinID pg) pg m))"

definition FindExtensionGroup :: "ext_groups \<Rightarrow> string \<Rightarrow> PolicyGroup option" where
  "FindExtensionGroup m i = map_of m i"

definition hasExtensionPolicyType :: "ext_groups \<Rightarrow> string \<Rightarrow> bool" where
  "hasExtensionPolicyType m policyType = list_ex (\<lambda>e. pg_PolicyType (snd e) = policyType) m"

definition ExtensionGroups :: "ext_groups \<Rightarrow> PolicyGroup list" where
  "ExtensionGroups m = map snd m"

definition UnregisterExtensionGroups :: "string \<Rightarrow> ext_groups \<Rightarrow> ext_groups" where
  "UnregisterExtensionGroups policyType m = filter (\<lambda>e. pg_PolicyType (snd e) \<noteq> policyType) m"

definition UnregisterExtensionGroupsByExtension :: "string \<Rightarrow> ext_groups \<Rightarrow> ext_groups" where
  "UnregisterExtensionGroupsByExtension extName m = filter (\<lambda>e. pg_ExtensionName (snd e) \<noteq> extName) m"

definition pg_Validate :: "ext_groups \<Rightarrow> PolicyGroup \<Rightarrow> bool" where
  "pg_Validate m pg \<longleftrightarrow>
     (if pg_Name pg = [] then False
      else if \<not> isBuiltinKind (pg_PolicyType pg) \<and> \<not> hasExtensionPolicyType m (pg_PolicyType pg) then False
      else True)"

section \<open>Facts about the built-in groups\<close>

lemma BuiltinGroups_eq:
  "BuiltinGroups =
     [group_LinuxReadOnly, group_K8sReadOnly, group_K8sDangerousDeny, group_DockerReadOnly,
      group_DangerousDeny, group_CpFullAccess, group_SQLReadOnly, group_SQLDangerousDeny,
      group_RedisReadOnly, group_RedisDangerousDeny, group_MongoReadOnly,
      group_MongoReadWrite, group_MongoDangerousDeny, group_KafkaMetadataReadOnly,
      group_KafkaMessageRead, group_KafkaSchemaReadOnly, group_KafkaConnectReadOnly,
      group_KafkaOperator, group_KafkaSecurityAdmin, group_KafkaMessageWriteDeny,
      group_KafkaDangerousDeny, group_EtcdReadOnly, group_EtcdDangerousDeny,
      group_OSSReadOnly, group_OSSDangerousDeny]"
  by (simp add: BuiltinGroups_def builtin_init_def registerBuiltinGroups_def policy_types)

lemma builtin_group_sel [simp]:
  "pg_BuiltinID (builtin_group i n d t f) = i" "pg_PolicyType (builtin_group i n d t f) = t"
  "pg_Policy (builtin_group i n d t f) = JsonObj f" "pg_ExtensionName (builtin_group i n d t f) = []"
  by (simp_all add: builtin_group_def)

lemma BuiltinGroups_prefix: "\<forall>pg\<in>set BuiltinGroups. IsBuiltinID (pg_BuiltinID pg)"
  by (simp add: BuiltinGroups_eq builtin_group_defs IsBuiltinID_def builtin_ids)

lemma BuiltinGroups_distinct: "distinct (map pg_BuiltinID BuiltinGroups)"
  by (simp add: BuiltinGroups_eq builtin_group_defs builtin_ids)

lemma find_distinct:
  "distinct (map f xs) \<Longrightarrow> x \<in> set xs \<Longrightarrow> find (\<lambda>y. f y = f x) xs = Some x"
  by (induction xs) force+

lemma FindBuiltin_BuiltinGroups: "pg \<in> set BuiltinGroups \<Longrightarrow> FindBuiltin (pg_BuiltinID pg) = Some pg"
  unfolding FindBuiltin_def
  by (rule find_distinct) (simp_all add: BuiltinGroups_distinct flip: rev_map)

lemma FindBuiltin_SomeD: "FindBuiltin i = Some pg \<Longrightarrow> pg \<in> set BuiltinGroups \<and> pg_BuiltinID pg = i"
  unfolding FindBuiltin_def by (drule find_SomeD) simp

lemma builtin_ext_disjoint: "IsBuiltinID i \<Longrightarrow> \<not> IsExtensionID i"
  by (auto simp: IsBuiltinID_def IsExtensionID_def BuiltinPrefix_def ExtensionPrefix_def HasPrefix_iff)

lemma FormatInt_not_prefixed: "\<not> IsBuiltinID (FormatInt i) \<and> \<not> IsExtensionID (FormatInt i)"
  using FormatInt_hd [of i]
  by (auto simp: IsBuiltinID_def IsExtensionID_def BuiltinPrefix_def ExtensionPrefix_def is_digit_def)

section \<open>Facts about extension groups\<close>

definition ext_groups_ok :: "ext_groups \<Rightarrow> bool" where
  "ext_groups_ok m \<longleftrightarrow> distinct (map fst m) \<and> (\<forall>(i, pg)\<in>set m. pg_BuiltinID pg = i)"

lemma ext_groups_ok_filter: "ext_groups_ok m \<Longrightarrow> ext_groups_ok (filter P m)"
  by (auto simp: ext_groups_ok_def distinct_map_filter)

lemma put_set_subset: "set (put k v m) \<subseteq> insert (k, v) (set m)"
  by (induction m) (auto split: if_splits)

lemma RegisterExtensionGroup_ok:
  "ext_groups_ok m \<Longrightarrow> RegisterExtensionGroup pg m = Inr m' \<Longrightarrow> ext_groups_ok m'"
  using put_set_subset [of "pg_BuiltinID pg" pg m]
  by (fastforce simp: ext_groups_ok_def RegisterExtensionGroup_def split: option.splits)

end
