(* ===== verification/Aictx.thy ===== *)
theory Aictx
  imports GoStrings "HOL-Library.Word"
begin

text \<open>
  The verdict type that every permission check returns (\<^verbatim>\<open>internal/ai/aictx\<close>) and the message
  helpers of \<^verbatim>\<open>internal/ai/policy/policy_i18n.go\<close>. The zero value of a \<open>CheckResult\<close> is an
  \<open>Allow\<close>, as in Go, where \<open>Allow\<close> is the first constant of its enumeration.
\<close>

section \<open>Decisions\<close>

datatype Decision = Allow | Deny | NeedConfirm

definition SourcePolicyAllow :: string where "SourcePolicyAllow = ''policy_allow''"
definition SourcePolicyDeny :: string where "SourcePolicyDeny = ''policy_deny''"
definition SourceUserAllow :: string where "SourceUserAllow = ''user_allow''"
definition SourceUserDeny :: string where "SourceUserDeny = ''user_deny''"
definition SourceGrantAllow :: string where "SourceGrantAllow = ''grant_allow''"
definition SourceGrantDeny :: string where "SourceGrantDeny = ''grant_deny''"
definition SourceAssistedAllow :: string where "SourceAssistedAllow = ''assisted_allow''"
definition SourceAutopilotAllow :: string where "SourceAutopilotAllow = ''autopilot_allow''"
definition SourceAutopilotDeny :: string where "SourceAutopilotDeny = ''autopilot_deny''"

lemmas decision_sources =
  SourcePolicyAllow_def SourcePolicyDeny_def SourceUserAllow_def SourceUserDeny_def
  SourceGrantAllow_def SourceGrantDeny_def SourceAssistedAllow_def SourceAutopilotAllow_def
  SourceAutopilotDeny_def

section \<open>Review results\<close>

datatype ReviewOutcome = ReviewPass | ReviewReject | ReviewFail

text \<open>The probabilities are carried as the bit pattern of the 64-bit float; nothing computes with them.\<close>

record ReviewInfo =
  ri_Mode :: string
  ri_Outcome :: ReviewOutcome
  ri_Reason :: string
  ri_Failed :: "string list"
  ri_Scores :: "(string \<times> 64 word) list"
  ri_DurationMs :: int
  ri_Cached :: bool
  ri_Attempts :: int
  ri_Extension :: string
  ri_Version :: string
  ri_FailedNames :: "(string \<times> (string \<times> string) list) list"

text \<open>
  \<open>BatchReview\<close>: of the reviews of one batch, the one the audit row records; the variable
  \<open>failed\<close> of the loop is the second argument.
\<close>

fun BatchReview_from :: "ReviewInfo option list \<Rightarrow> ReviewInfo option \<Rightarrow> ReviewInfo option" where
  "BatchReview_from [] failed = failed"
| "BatchReview_from (None # rs) failed = BatchReview_from rs failed"
| "BatchReview_from (Some r # rs) failed =
     (if ri_Outcome r = ReviewReject then Some r
      else if ri_Outcome r = ReviewFail \<and> failed = None then BatchReview_from rs (Some r)
      else BatchReview_from rs failed)"

definition BatchReview :: "ReviewInfo option list \<Rightarrow> ReviewInfo option" where
  "BatchReview reviews = BatchReview_from reviews None"

section \<open>Check results\<close>

record CheckResult =
  cr_Decision :: Decision
  cr_Message :: string
  cr_HintRules :: "string list"
  cr_DecisionSource :: string
  cr_MatchedPattern :: string
  cr_Review :: "ReviewInfo option"
  cr_Unreviewable :: bool

definition CheckResult0 :: CheckResult where
  "CheckResult0 = \<lparr> cr_Decision = Allow, cr_Message = [], cr_HintRules = [], cr_DecisionSource = [],
     cr_MatchedPattern = [], cr_Review = None, cr_Unreviewable = False \<rparr>"

lemma CheckResult0_sel [simp, decision_simps]:
  "cr_Decision CheckResult0 = Allow" "cr_Message CheckResult0 = []"
  "cr_HintRules CheckResult0 = []" "cr_DecisionSource CheckResult0 = []"
  "cr_MatchedPattern CheckResult0 = []" "cr_Review CheckResult0 = None"
  "cr_Unreviewable CheckResult0 = False"
  by (simp_all add: CheckResult0_def)

definition DecisionString :: "CheckResult \<Rightarrow> string" where
  "DecisionString r =
     (case cr_Decision r of Allow \<Rightarrow> ''allow'' | Deny \<Rightarrow> ''deny'' | NeedConfirm \<Rightarrow> [])"

text \<open>The three shapes of verdict the policy checks build over and over.\<close>

definition allow_policy :: "string \<Rightarrow> CheckResult" where
  "allow_policy pattern = CheckResult0 \<lparr> cr_Decision := Allow, cr_DecisionSource := SourcePolicyAllow,
     cr_MatchedPattern := pattern \<rparr>"

definition deny_policy :: "string \<Rightarrow> string \<Rightarrow> CheckResult" where
  "deny_policy msg pattern = CheckResult0 \<lparr> cr_Decision := Deny, cr_Message := msg,
     cr_DecisionSource := SourcePolicyDeny, cr_MatchedPattern := pattern \<rparr>"

definition need_confirm :: CheckResult where
  "need_confirm = CheckResult0 \<lparr> cr_Decision := NeedConfirm \<rparr>"

lemma verdict_sel [simp, decision_simps]:
  "cr_Decision (allow_policy p) = Allow" "cr_MatchedPattern (allow_policy p) = p"
  "cr_DecisionSource (allow_policy p) = SourcePolicyAllow"
  "cr_Decision (deny_policy m p) = Deny" "cr_MatchedPattern (deny_policy m p) = p"
  "cr_Message (deny_policy m p) = m" "cr_DecisionSource (deny_policy m p) = SourcePolicyDeny"
  "cr_Decision need_confirm = NeedConfirm" "cr_MatchedPattern need_confirm = []"
  "cr_Unreviewable need_confirm = False" "cr_Unreviewable (allow_policy p) = False"
  "cr_Unreviewable (deny_policy m p) = False" "cr_HintRules need_confirm = []"
  by (simp_all add: allow_policy_def deny_policy_def need_confirm_def)

section \<open>Messages\<close>

text \<open>
  The part of a request context the policy code reads for its messages is the language. A
  format string is filled in as \<open>fmt.Sprintf\<close> does for its \<^verbatim>\<open>%s\<close>, \<^verbatim>\<open>%v\<close> and \<^verbatim>\<open>%d\<close> verbs, the only
  verbs the messages use, on arguments given as the text they print as. Chinese texts are given by their UTF-8 bytes.
\<close>

definition utf8 :: "nat list \<Rightarrow> string" where
  "utf8 bs = map char_of bs"

definition IsZh :: "string \<Rightarrow> bool" where
  "IsZh lang = (if lang = [] then False else HasPrefix (ToLower lang) ''zh'')"

definition PolicyMsg :: "string \<Rightarrow> string \<Rightarrow> string \<Rightarrow> string" where
  "PolicyMsg lang en zh = (if IsZh lang then zh else en)"

fun Sprintf :: "string \<Rightarrow> string list \<Rightarrow> string" where
  "Sprintf [] args = []"
| "Sprintf [c] args = [c]"
| "Sprintf (c # d # f) args =
     (if c = CHR ''%'' \<and> (d = CHR ''s'' \<or> d = CHR ''v'' \<or> d = CHR ''d'') then
        (case args of [] \<Rightarrow> ''%!'' @ [d] @ ''(MISSING)'' @ Sprintf f [] | a # as \<Rightarrow> a @ Sprintf f as)
      else c # Sprintf (d # f) args)"

definition PolicyFmt :: "string \<Rightarrow> string \<Rightarrow> string \<Rightarrow> string list \<Rightarrow> string" where
  "PolicyFmt lang enFmt zhFmt args = (if IsZh lang then Sprintf zhFmt args else Sprintf enFmt args)"

section \<open>Batch reviews\<close>

lemma BatchReview_from_reject:
  "(\<exists>r. Some r \<in> set rs \<and> ri_Outcome r = ReviewReject) \<Longrightarrow>
     \<exists>r. BatchReview_from rs f = Some r \<and> Some r \<in> set rs \<and> ri_Outcome r = ReviewReject"
  by (induction rs f rule: BatchReview_from.induct) auto

lemma BatchReview_from_no_reject:
  "\<forall>r. Some r \<in> set rs \<longrightarrow> ri_Outcome r \<noteq> ReviewReject \<Longrightarrow>
     BatchReview_from rs f =
       (case f of Some r \<Rightarrow> Some r
        | None \<Rightarrow> Option.bind (find (\<lambda>x. \<exists>r. x = Some r \<and> ri_Outcome r = ReviewFail) rs) id)"
  by (induction rs f rule: BatchReview_from.induct) (auto split: option.splits)

text \<open>
  A batch that has a rejected review reports a rejected one; otherwise the first failed one,
  and nothing when every review passed or is missing.
\<close>

lemma BatchReview_spec:
  "case BatchReview rs of
     Some r \<Rightarrow> Some r \<in> set rs \<and> ri_Outcome r \<noteq> ReviewPass \<and>
       (ri_Outcome r = ReviewFail \<longrightarrow> (\<forall>r'. Some r' \<in> set rs \<longrightarrow> ri_Outcome r' \<noteq> ReviewReject))
   | None \<Rightarrow> \<forall>r. Some r \<in> set rs \<longrightarrow> ri_Outcome r = ReviewPass"
proof (cases "\<exists>r. Some r \<in> set rs \<and> ri_Outcome r = ReviewReject")
  case True
  from BatchReview_from_reject [OF this, of None] show ?thesis by (auto simp: BatchReview_def)
next
  case False
  let ?P = "\<lambda>x. \<exists>r. x = Some r \<and> ri_Outcome r = ReviewFail"
  have eq: "BatchReview rs = Option.bind (find ?P rs) id"
    using BatchReview_from_no_reject [of rs None] False by (auto simp: BatchReview_def)
  show ?thesis
  proof (cases "find ?P rs")
    case None
    then have "\<forall>x\<in>set rs. \<not> ?P x" by (simp add: find_eq_None_iff)
    then have "ri_Outcome r = ReviewPass" if "Some r \<in> set rs" for r
      using False that by (cases "ri_Outcome r") auto
    then show ?thesis using eq None by simp
  next
    case (Some x)
    then show ?thesis using False eq find_SomeD [OF Some] by auto
  qed
qed

end
