(* ===== verification/Entities.thy ===== *)
theory Entities
  imports PolicyEntity Aictx
begin

text \<open>
  The stored entities permission checks read and write: assets and groups with their policy
  columns (\<^verbatim>\<open>asset_entity/asset.go\<close>, \<^verbatim>\<open>group_entity/group.go\<close>), grant sessions and items
  (\<^verbatim>\<open>grant_entity/grant.go\<close>, \<^verbatim>\<open>grant_repo/grant.go\<close>), and the state \<open>world\<close> every check sees.
  An asset has one policy column, read according to its type; a group has one column per
  built-in kind and one column of extension policies by name.
\<close>

section \<open>Assets and groups\<close>

record Asset =
  a_ID :: int
  a_Name :: string
  a_Type :: string
  a_GroupID :: int
  a_Config :: string
  a_CmdPolicy :: policy_json
  a_PermissionMode :: string

datatype ext_json = ExtEmpty | ExtBad | ExtObj "(string \<times> ExtensionPolicy) list"

record Group =
  g_ID :: int
  g_Name :: string
  g_ParentID :: int
  g_CmdPolicy :: policy_json
  g_QryPolicy :: policy_json
  g_RdsPolicy :: policy_json
  g_MgoPolicy :: policy_json
  g_KfkPolicy :: policy_json
  g_K8sPol :: policy_json
  g_EtdPolicy :: policy_json
  g_OssPolicy :: policy_json
  g_ExtPolicy :: ext_json
  g_PermissionMode :: string

text \<open>A policy holder: the interface \<open>policy.Holder\<close>, which assets and groups implement.\<close>

datatype Holder = HAsset Asset | HGroup Group

abbreviation get_rule :: "policy_json \<Rightarrow> RulePolicy option" where
  "get_rule \<equiv> UnmarshalOrDefault RulePolicy0 rule_of_fields"

definition GetCommandPolicy :: "Holder \<Rightarrow> CommandPolicy option" where
  "GetCommandPolicy h = (case h of HAsset a \<Rightarrow> get_rule (a_CmdPolicy a) | HGroup g \<Rightarrow> get_rule (g_CmdPolicy g))"

definition GetQueryPolicy :: "Holder \<Rightarrow> QueryPolicy option" where
  "GetQueryPolicy h = UnmarshalOrDefault QueryPolicy0 query_of_fields
     (case h of HAsset a \<Rightarrow> a_CmdPolicy a | HGroup g \<Rightarrow> g_QryPolicy g)"

definition GetRedisPolicy :: "Holder \<Rightarrow> RedisPolicy option" where
  "GetRedisPolicy h = (case h of HAsset a \<Rightarrow> get_rule (a_CmdPolicy a) | HGroup g \<Rightarrow> get_rule (g_RdsPolicy g))"

definition GetMongoPolicy :: "Holder \<Rightarrow> MongoPolicy option" where
  "GetMongoPolicy h = UnmarshalOrDefault MongoPolicy0 mongo_of_fields
     (case h of HAsset a \<Rightarrow> a_CmdPolicy a | HGroup g \<Rightarrow> g_MgoPolicy g)"

definition GetKafkaPolicy :: "Holder \<Rightarrow> KafkaPolicy option" where
  "GetKafkaPolicy h = (case h of HAsset a \<Rightarrow> get_rule (a_CmdPolicy a) | HGroup g \<Rightarrow> get_rule (g_KfkPolicy g))"

definition GetK8sPolicy :: "Holder \<Rightarrow> K8sPolicy option" where
  "GetK8sPolicy h = (case h of HAsset a \<Rightarrow> get_rule (a_CmdPolicy a) | HGroup g \<Rightarrow> get_rule (g_K8sPol g))"

definition GetEtcdPolicy :: "Holder \<Rightarrow> EtcdPolicy option" where
  "GetEtcdPolicy h = (case h of HAsset a \<Rightarrow> get_rule (a_CmdPolicy a) | HGroup g \<Rightarrow> get_rule (g_EtdPolicy g))"

definition GetOSSPolicy :: "Holder \<Rightarrow> OSSPolicy option" where
  "GetOSSPolicy h = (case h of HAsset a \<Rightarrow> get_rule (a_CmdPolicy a) | HGroup g \<Rightarrow> get_rule (g_OssPolicy g))"

definition extensionPolicies :: "Group \<Rightarrow> (string \<times> ExtensionPolicy) list option" where
  "extensionPolicies g =
     (case g_ExtPolicy g of ExtEmpty \<Rightarrow> Some [] | ExtBad \<Rightarrow> None | ExtObj faces \<Rightarrow> Some faces)"

definition GetExtensionPolicy :: "Holder \<Rightarrow> string \<Rightarrow> ExtensionPolicy option" where
  "GetExtensionPolicy h policyType =
     (case h of
        HAsset a \<Rightarrow> get_rule (a_CmdPolicy a)
      | HGroup g \<Rightarrow>
          (case extensionPolicies g of
             None \<Rightarrow> None
           | Some faces \<Rightarrow>
               (case map_of faces policyType of None \<Rightarrow> Some RulePolicy0 | Some p \<Rightarrow> Some p)))"

abbreviation put_rule :: "RulePolicy \<Rightarrow> policy_json" where
  "put_rule p \<equiv> MarshalOrClear fields_of_rule rp_IsEmpty (Some p)"

definition SetCommandPolicy :: "CommandPolicy \<Rightarrow> Holder \<Rightarrow> Holder" where
  "SetCommandPolicy p h = (case h of HAsset a \<Rightarrow> HAsset (a \<lparr> a_CmdPolicy := put_rule p \<rparr>)
     | HGroup g \<Rightarrow> HGroup (g \<lparr> g_CmdPolicy := put_rule p \<rparr>))"

definition SetQueryPolicy :: "QueryPolicy \<Rightarrow> Holder \<Rightarrow> Holder" where
  "SetQueryPolicy p h = (let j = MarshalOrClear fields_of_query qp_IsEmpty (Some p) in
     case h of HAsset a \<Rightarrow> HAsset (a \<lparr> a_CmdPolicy := j \<rparr>) | HGroup g \<Rightarrow> HGroup (g \<lparr> g_QryPolicy := j \<rparr>))"

definition SetRedisPolicy :: "RedisPolicy \<Rightarrow> Holder \<Rightarrow> Holder" where
  "SetRedisPolicy p h = (case h of HAsset a \<Rightarrow> HAsset (a \<lparr> a_CmdPolicy := put_rule p \<rparr>)
     | HGroup g \<Rightarrow> HGroup (g \<lparr> g_RdsPolicy := put_rule p \<rparr>))"

definition SetMongoPolicy :: "MongoPolicy \<Rightarrow> Holder \<Rightarrow> Holder" where
  "SetMongoPolicy p h = (let j = MarshalOrClear fields_of_mongo mp_IsEmpty (Some p) in
     case h of HAsset a \<Rightarrow> HAsset (a \<lparr> a_CmdPolicy := j \<rparr>) | HGroup g \<Rightarrow> HGroup (g \<lparr> g_MgoPolicy := j \<rparr>))"

definition SetKafkaPolicy :: "KafkaPolicy \<Rightarrow> Holder \<Rightarrow> Holder" where
  "SetKafkaPolicy p h = (case h of HAsset a \<Rightarrow> HAsset (a \<lparr> a_CmdPolicy := put_rule p \<rparr>)
     | HGroup g \<Rightarrow> HGroup (g \<lparr> g_KfkPolicy := put_rule p \<rparr>))"

definition SetK8sPolicy :: "K8sPolicy \<Rightarrow> Holder \<Rightarrow> Holder" where
  "SetK8sPolicy p h = (case h of HAsset a \<Rightarrow> HAsset (a \<lparr> a_CmdPolicy := put_rule p \<rparr>)
     | HGroup g \<Rightarrow> HGroup (g \<lparr> g_K8sPol := put_rule p \<rparr>))"

definition SetEtcdPolicy :: "EtcdPolicy \<Rightarrow> Holder \<Rightarrow> Holder" where
  "SetEtcdPolicy p h = (case h of HAsset a \<Rightarrow> HAsset (a \<lparr> a_CmdPolicy := put_rule p \<rparr>)
     | HGroup g \<Rightarrow> HGroup (g \<lparr> g_EtdPolicy := put_rule p \<rparr>))"

definition SetOSSPolicy :: "OSSPolicy \<Rightarrow> Holder \<Rightarrow> Holder" where
  "SetOSSPolicy p h = (case h of HAsset a \<Rightarrow> HAsset (a \<lparr> a_CmdPolicy := put_rule p \<rparr>)
     | HGroup g \<Rightarrow> HGroup (g \<lparr> g_OssPolicy := put_rule p \<rparr>))"

text \<open>\<open>None\<close> when the group's column does not decode; the holder is then left as it was.\<close>

definition SetExtensionPolicy :: "string \<Rightarrow> ExtensionPolicy \<Rightarrow> Holder \<Rightarrow> Holder option" where
  "SetExtensionPolicy policyType p h =
     (case h of
        HAsset a \<Rightarrow> Some (HAsset (a \<lparr> a_CmdPolicy := put_rule p \<rparr>))
      | HGroup g \<Rightarrow>
          (case extensionPolicies g of
             None \<Rightarrow> None
           | Some faces \<Rightarrow>
               (let faces' = (if rp_IsEmpty p then filter (\<lambda>e. fst e \<noteq> policyType) faces
                              else put policyType p faces)
                in Some (HGroup (g \<lparr> g_ExtPolicy := (if faces' = [] then ExtEmpty else ExtObj faces') \<rparr>)))))"

lemmas policy_getters =
  GetCommandPolicy_def GetQueryPolicy_def GetRedisPolicy_def GetMongoPolicy_def GetKafkaPolicy_def
  GetK8sPolicy_def GetEtcdPolicy_def GetOSSPolicy_def

lemmas policy_setters =
  SetCommandPolicy_def SetQueryPolicy_def SetRedisPolicy_def SetMongoPolicy_def SetKafkaPolicy_def
  SetK8sPolicy_def SetEtcdPolicy_def SetOSSPolicy_def

text \<open>What is set is what is read, on every column of either kind of holder.\<close>

lemma get_set:
  "GetCommandPolicy (SetCommandPolicy p h) = Some p" "GetRedisPolicy (SetRedisPolicy p h) = Some p"
  "GetKafkaPolicy (SetKafkaPolicy p h) = Some p" "GetK8sPolicy (SetK8sPolicy p h) = Some p"
  "GetEtcdPolicy (SetEtcdPolicy p h) = Some p" "GetOSSPolicy (SetOSSPolicy p h) = Some p"
  "GetQueryPolicy (SetQueryPolicy q h) = Some q" "GetMongoPolicy (SetMongoPolicy m h) = Some m"
  by (cases h; simp add: policy_getters policy_setters Let_def rule_column.round_trip
        query_column.round_trip mongo_column.round_trip)+

lemma map_of_filter_ne: "map_of (filter (\<lambda>e. fst e \<noteq> k) m) = (map_of m)(k := None)"
  by (induction m) (auto simp: fun_eq_iff)

lemma get_set_ext:
  assumes "SetExtensionPolicy t p h = Some h'"
  shows "GetExtensionPolicy h' t = Some p"
proof (cases h)
  case (HAsset a)
  with assms show ?thesis
    by (auto simp: SetExtensionPolicy_def GetExtensionPolicy_def rule_column.round_trip)
next
  case (HGroup g)
  with assms obtain faces where f: "extensionPolicies g = Some faces"
    by (auto simp: SetExtensionPolicy_def split: option.splits)
  let ?m = "if rp_IsEmpty p then filter (\<lambda>e. fst e \<noteq> t) faces else put t p faces"
  have h': "h' = HGroup (g \<lparr> g_ExtPolicy := (if ?m = [] then ExtEmpty else ExtObj ?m) \<rparr>)"
    using assms f HGroup by (simp add: SetExtensionPolicy_def Let_def split: if_splits)
  have "extensionPolicies (g \<lparr> g_ExtPolicy := (if ?m = [] then ExtEmpty else ExtObj ?m) \<rparr>) = Some ?m"
    by (simp add: extensionPolicies_def)
  moreover have "map_of ?m t = (if rp_IsEmpty p then None else Some p)"
    by (simp add: map_of_filter_ne)
  ultimately show ?thesis
    by (simp add: h' GetExtensionPolicy_def IsEmpty_zero)
qed

section \<open>Grants\<close>

definition GrantStatusPending :: int where "GrantStatusPending = 1"
definition GrantStatusApproved :: int where "GrantStatusApproved = 2"
definition GrantStatusRejected :: int where "GrantStatusRejected = 3"

record GrantSession =
  gs_ID :: string
  gs_Description :: string
  gs_Status :: int

record GrantItem =
  gi_GrantSessionID :: string
  gi_ItemIndex :: nat
  gi_ToolName :: string
  gi_AssetID :: int
  gi_AssetName :: string
  gi_GroupID :: int
  gi_GroupName :: string
  gi_Command :: string
  gi_Detail :: string

record grant_db =
  db_sessions :: "GrantSession list"
  db_items :: "GrantItem list"

definition GetSession :: "grant_db \<Rightarrow> string \<Rightarrow> GrantSession option" where
  "GetSession db i = find (\<lambda>s. gs_ID s = i) (db_sessions db)"

text \<open>The primary key of \<open>grant_sessions\<close> makes a second insertion of an identifier fail.\<close>

definition CreateSession :: "GrantSession \<Rightarrow> grant_db \<Rightarrow> grant_db option" where
  "CreateSession s db =
     (if list_ex (\<lambda>s'. gs_ID s' = gs_ID s) (db_sessions db) then None
      else Some (db \<lparr> db_sessions := db_sessions db @ [s] \<rparr>))"

definition UpdateSessionStatus :: "string \<Rightarrow> int \<Rightarrow> grant_db \<Rightarrow> grant_db" where
  "UpdateSessionStatus i status db =
     db \<lparr> db_sessions := map (\<lambda>s. if gs_ID s = i then s \<lparr> gs_Status := status \<rparr> else s) (db_sessions db) \<rparr>"

definition CreateItems :: "GrantItem list \<Rightarrow> grant_db \<Rightarrow> grant_db" where
  "CreateItems items db = db \<lparr> db_items := db_items db @ items \<rparr>"

definition ListItems :: "grant_db \<Rightarrow> string \<Rightarrow> GrantItem list" where
  "ListItems db i = sort_key gi_ItemIndex (filter (\<lambda>it. gi_GrantSessionID it = i) (db_items db))"

definition UpdateItems :: "string \<Rightarrow> GrantItem list \<Rightarrow> grant_db \<Rightarrow> grant_db" where
  "UpdateItems i items db =
     db \<lparr> db_items := filter (\<lambda>it. gi_GrantSessionID it \<noteq> i) (db_items db) @ items \<rparr>"

definition ListApprovedItems :: "grant_db \<Rightarrow> string \<Rightarrow> GrantItem list" where
  "ListApprovedItems db i =
     (if list_ex (\<lambda>s. gs_ID s = i \<and> gs_Status s = GrantStatusApproved) (db_sessions db)
      then filter (\<lambda>it. gi_GrantSessionID it = i) (db_items db) else [])"

section \<open>The state of a check\<close>

text \<open>
  What a permission check reads: the tables of assets, groups and policy groups (\<open>None\<close> for a
  table means its query fails or no repository is registered), the registered extension
  groups, the grant tables, and the session and language of the request.
\<close>

record world =
  w_Assets :: "int \<Rightarrow> Asset option"
  w_Groups :: "int \<Rightarrow> Group option"
  w_PolicyGroups :: "PolicyGroup list option"
  w_ExtGroups :: ext_groups
  w_Grants :: "grant_db option"
  w_Session :: string
  w_Lang :: string

end
