(* ===== verification/GoPath.thy ===== *)
theory GoPath
  imports GoStrings
begin

text \<open>
  Go's \<^verbatim>\<open>path.Match\<close> and \<^verbatim>\<open>path.Clean\<close>, on which every glob rule of the policy engine rests.
  \<open>path_Match\<close> follows the library's own algorithm (\<open>scanChunk\<close>, \<open>matchChunk\<close>, \<open>getEsc\<close> and the
  greedy loop over star-separated chunks); \<open>None\<close> is \<open>ErrBadPattern\<close>. The lemmas give its value
  on patterns without wildcards (\<open>lit_of\<close>) and on a wildcard-free pattern followed by one star.
\<close>

section \<open>path.Match\<close>

datatype chunk_res = BadPattern | NoMatch | Rest string

text \<open>The chunk up to the next star outside brackets, and what follows it.\<close>

fun scan_body :: "bool \<Rightarrow> string \<Rightarrow> string \<times> string" where
  "scan_body inrange [] = ([], [])"
| "scan_body inrange [c] =
     (if c = CHR ''*'' \<and> \<not> inrange then ([], [c]) else ([c], []))"
| "scan_body inrange (c # d # p) =
     (if c = CHR 0x5C then (case scan_body inrange p of (a, b) \<Rightarrow> (c # d # a, b))
      else if c = CHR ''['' then (case scan_body True (d # p) of (a, b) \<Rightarrow> (c # a, b))
      else if c = CHR '']'' then (case scan_body False (d # p) of (a, b) \<Rightarrow> (c # a, b))
      else if c = CHR ''*'' \<and> \<not> inrange then ([], c # d # p)
      else (case scan_body inrange (d # p) of (a, b) \<Rightarrow> (c # a, b)))"

definition scanChunk :: "string \<Rightarrow> bool \<times> string \<times> string" where
  "scanChunk p = (p \<noteq> [] \<and> hd p = CHR ''*'', scan_body False (dropWhile (\<lambda>c. c = CHR ''*'') p))"

lemma scan_body_append: "scan_body r p = (a, b) \<Longrightarrow> p = a @ b"
  by (induction r p arbitrary: a b rule: scan_body.induct) (auto split: if_splits prod.splits)

lemma scan_body_ne: "p \<noteq> [] \<Longrightarrow> hd p \<noteq> CHR ''*'' \<Longrightarrow> fst (scan_body r p) \<noteq> []"
  by (induction r p rule: scan_body.induct) (auto split: if_splits prod.splits)

lemma scanChunk_shorter:
  assumes "p \<noteq> []" "scanChunk p = (star, chunk, rest)"
  shows "length rest < length p"
proof (cases "hd p = CHR ''*''")
  case True
  let ?q = "dropWhile (\<lambda>c. c = CHR ''*'') p"
  have "?q = chunk @ rest" using assms(2) scan_body_append by (auto simp: scanChunk_def)
  moreover have "length ?q < length p"
    using assms(1) True by (cases p) (auto simp: le_imp_less_Suc length_dropWhile_le)
  ultimately show ?thesis by simp
next
  case False
  then have q: "dropWhile (\<lambda>c. c = CHR ''*'') p = p" by (cases p) auto
  with assms(2) have "scan_body False p = (chunk, rest)" by (simp add: scanChunk_def)
  then show ?thesis
    using scan_body_ne [OF assms(1) False, of False] scan_body_append [of False p chunk rest]
    by (cases chunk) auto
qed

definition getEsc :: "string \<Rightarrow> (nat \<times> string) option" where
  "getEsc chunk =
     (case chunk of
        [] \<Rightarrow> None
      | c # t \<Rightarrow>
          if c = CHR ''-'' \<or> c = CHR '']'' then None
          else (let body = (if c = CHR 0x5C then t else chunk);
                    (r, n) = DecodeRune body;
                    rest = drop n body
                in if body = [] \<or> (r = 0xFFFD \<and> n = 1) \<or> rest = [] then None
                   else Some (r, rest)))"

lemma getEsc_shorter: "getEsc chunk = Some (r, rest) \<Longrightarrow> length rest < length chunk \<and> rest \<noteq> []"
proof (cases chunk)
  case (Cons c t)
  assume g: "getEsc chunk = Some (r, rest)"
  define body where "body = (if c = CHR 0x5C then t else chunk)"
  from g Cons have ne: "body \<noteq> []" "rest = drop (snd (DecodeRune body)) body" "rest \<noteq> []"
    by (auto simp: getEsc_def body_def Let_def split: if_splits prod.splits)
  moreover have "length body \<le> length chunk" by (simp add: body_def Cons)
  ultimately show ?thesis using DecodeRune_width [OF ne(1)] by (cases body) auto
qed (simp add: getEsc_def)

text \<open>The ranges of a character class; the result is whether \<open>r\<close> is in one and what follows \<open>]\<close>.\<close>

function class_ranges :: "nat \<Rightarrow> bool \<Rightarrow> nat \<Rightarrow> string \<Rightarrow> (bool \<times> string) option" where
  "class_ranges r m nrange chunk =
     (if chunk \<noteq> [] \<and> hd chunk = CHR '']'' \<and> 0 < nrange then Some (m, tl chunk)
      else (case getEsc chunk of
         None \<Rightarrow> None
       | Some (lo, c1) \<Rightarrow>
           if hd c1 = CHR ''-'' then
             (case getEsc (tl c1) of
                None \<Rightarrow> None
              | Some (hi, c2) \<Rightarrow> class_ranges r (m \<or> (lo \<le> r \<and> r \<le> hi)) (Suc nrange) c2)
           else class_ranges r (m \<or> (lo \<le> r \<and> r \<le> lo)) (Suc nrange) c1))"
  by pat_completeness auto
termination
proof (relation "measure (\<lambda>(r, m, n, chunk). length chunk)", goal_cases)
  case (2 r m n chunk x2 lo c1 x2a hi c2)
  then have "length c1 < length chunk" "length c2 < length (tl c1)"
    using getEsc_shorter by (metis, metis)
  then show ?case by simp
qed (auto dest!: getEsc_shorter)

declare class_ranges.simps [simp del]

lemma class_ranges_shorter:
  "class_ranges r m n chunk = Some (m', rest) \<Longrightarrow> length rest < length chunk"
proof (induction r m n chunk rule: class_ranges.induct)
  case (1 r m n chunk)
  show ?case
  proof (cases "chunk \<noteq> [] \<and> hd chunk = CHR '']'' \<and> 0 < n")
    case True
    with "1.prems" have "rest = tl chunk" by (simp add: class_ranges.simps [of r m n chunk])
    with True show ?thesis by (cases chunk) simp_all
  next
    case False
    from False "1.prems" obtain lo c1 where e1: "getEsc chunk = Some (lo, c1)"
      by (auto simp: class_ranges.simps [of r m n chunk] split: option.splits)
    note l1 = getEsc_shorter [OF e1]
    show ?thesis
    proof (cases "hd c1 = CHR ''-''")
      case True
      with False "1.prems" e1 obtain hi c2 where e2: "getEsc (tl c1) = Some (hi, c2)"
        by (auto simp: class_ranges.simps [of r m n chunk] split: option.splits)
      have "class_ranges r m n chunk = class_ranges r (m \<or> (lo \<le> r \<and> r \<le> hi)) (Suc n) c2"
        using False True e1 e2 by (subst class_ranges.simps) auto
      with "1.prems" "1.IH"(1) [OF False e1 refl True e2 refl] l1 getEsc_shorter [OF e2]
      show ?thesis by auto
    next
      case no: False
      have "class_ranges r m n chunk = class_ranges r (m \<or> (lo \<le> r \<and> r \<le> lo)) (Suc n) c1"
        using False no e1 by (subst class_ranges.simps) auto
      with "1.prems" "1.IH"(2) [OF False e1 refl no] l1 show ?thesis by simp
    qed
  qed
qed

text \<open>
  \<open>matchChunk\<close>: after the match has failed the loop goes on over the chunk, without reading the
  name, to find a malformed pattern.
\<close>

function chunk_from :: "bool \<Rightarrow> string \<Rightarrow> string \<Rightarrow> chunk_res" where
  "chunk_from failed0 [] s = (if failed0 then NoMatch else Rest s)"
| "chunk_from failed0 (c # chunk) s =
     (let failed = (failed0 \<or> s = []) in
      if c = CHR ''['' then
        (let (r, n) = (if failed then (0, 0) else DecodeRune s);
             (negated, body) = (if chunk \<noteq> [] \<and> hd chunk = CHR ''^'' then (True, tl chunk) else (False, chunk))
         in case class_ranges r False 0 body of
              None \<Rightarrow> BadPattern
            | Some (m, rest) \<Rightarrow> chunk_from (failed \<or> m = negated) rest (drop n s))
      else if c = CHR ''?'' then
        (if failed then chunk_from True chunk s
         else chunk_from (hd s = CHR ''/'') chunk (drop (snd (DecodeRune s)) s))
      else if c = CHR 0x5C then
        (case chunk of
           [] \<Rightarrow> BadPattern
         | d # chunk' \<Rightarrow>
             if failed then chunk_from True chunk' s else chunk_from (d \<noteq> hd s) chunk' (tl s))
      else if failed then chunk_from True chunk s
      else chunk_from (c \<noteq> hd s) chunk (tl s))"
  by pat_completeness auto
termination
  by (relation "measure (\<lambda>(f, chunk, s). length chunk)")
    (auto dest!: class_ranges_shorter split: if_splits)

declare chunk_from.simps(2) [simp del]

definition matchChunk :: "string \<Rightarrow> string \<Rightarrow> chunk_res" where
  "matchChunk chunk s = chunk_from False chunk s"

text \<open>The loop that retries the chunk further right, under a star, without skipping a slash.\<close>

fun star_skip :: "string \<Rightarrow> bool \<Rightarrow> string \<Rightarrow> chunk_res" where
  "star_skip chunk last_chunk [] = NoMatch"
| "star_skip chunk last_chunk (c # name) =
     (if c = CHR ''/'' then NoMatch
      else (case matchChunk chunk name of
         BadPattern \<Rightarrow> BadPattern
       | NoMatch \<Rightarrow> star_skip chunk last_chunk name
       | Rest t \<Rightarrow> if last_chunk \<and> t \<noteq> [] then star_skip chunk last_chunk name else Rest t))"

function check_rest :: "string \<Rightarrow> bool option" where
  "check_rest p =
     (if p = [] then Some False
      else (case scanChunk p of (star, chunk, rest) \<Rightarrow>
        if matchChunk chunk [] = BadPattern then None else check_rest rest))"
  by pat_completeness auto
termination
  by (relation "measure length") (auto dest: scanChunk_shorter [OF _ sym])

declare check_rest.simps [simp del]

function path_Match :: "string \<Rightarrow> string \<Rightarrow> bool option" where
  "path_Match p name =
     (if p = [] then Some (name = [])
      else (case scanChunk p of (star, chunk, rest) \<Rightarrow>
        if star \<and> chunk = [] then Some (CHR ''/'' \<notin> set name)
        else (case matchChunk chunk name of
            BadPattern \<Rightarrow> None
          | Rest t \<Rightarrow>
              if t = [] \<or> rest \<noteq> [] then path_Match rest t
              else if star then (case star_skip chunk (rest = []) name of
                      BadPattern \<Rightarrow> None
                    | NoMatch \<Rightarrow> check_rest rest
                    | Rest t' \<Rightarrow> path_Match rest t')
              else check_rest rest
          | NoMatch \<Rightarrow>
              if star then (case star_skip chunk (rest = []) name of
                      BadPattern \<Rightarrow> None
                    | NoMatch \<Rightarrow> check_rest rest
                    | Rest t' \<Rightarrow> path_Match rest t')
              else check_rest rest)))"
  by pat_completeness auto
termination
  by (relation "measure (\<lambda>(p, name). length p)") (auto dest: scanChunk_shorter [OF _ sym])

declare path_Match.simps [simp del]

section \<open>Patterns without wildcards\<close>

text \<open>
  The name a wildcard-free pattern stands for: its bytes with the escapes removed; \<open>None\<close> when
  the pattern has a wildcard, a class, or ends in a lone backslash.
\<close>

fun lit_of :: "string \<Rightarrow> string option" where
  "lit_of [] = Some []"
| "lit_of [c] = (if c \<in> set ''*?['' \<or> c = CHR 0x5C then None else Some [c])"
| "lit_of (c # d # p) =
     (if c = CHR 0x5C then map_option (\<lambda>s. d # s) (lit_of p)
      else if c \<in> set ''*?['' then None
      else map_option (\<lambda>s. c # s) (lit_of (d # p)))"

lemma scan_body_lit: "lit_of p = Some s \<Longrightarrow> scan_body False p = (p, [])"
  by (induction p arbitrary: s rule: lit_of.induct) (auto split: if_splits)

lemma scan_body_lit_star:
  "lit_of p = Some s \<Longrightarrow> scan_body False (p @ CHR ''*'' # q) = (p, CHR ''*'' # q)"
proof (induction p arbitrary: s rule: lit_of.induct)
  case 1
  then show ?case by (cases q) auto
next
  case (2 c)
  then show ?case by (cases q) (auto split: if_splits)
next
  case (3 c d p)
  then show ?case by (auto split: if_splits)
qed

lemma lit_of_Nil_iff: "lit_of p = Some [] \<longleftrightarrow> p = []"
  by (cases p rule: lit_of.cases) auto

lemma lit_of_hd: "lit_of p = Some s \<Longrightarrow> p \<noteq> [] \<Longrightarrow> hd p \<noteq> CHR ''*''"
  by (cases p rule: lit_of.cases) (auto split: if_splits)

lemma chunk_from_lit:
  "lit_of p = Some s \<Longrightarrow>
     chunk_from f p t = (if \<not> f \<and> HasPrefix t s then Rest (drop (length s) t) else NoMatch)"
proof (induction p arbitrary: s f t rule: lit_of.induct)
  case (2 c)
  then show ?case
    by (cases t) (auto simp: chunk_from.simps(2) Let_def split: if_splits)
next
  case (3 c d p)
  show ?case
  proof (cases "c = CHR 0x5C")
    case True
    with "3.prems" obtain s' where s': "lit_of p = Some s'" "s = d # s'" by auto
    show ?thesis using True s' "3.IH"(1) [OF True s'(1)]
      by (cases t) (auto simp: chunk_from.simps(2) Let_def)
  next
    case False
    with "3.prems" obtain s' where
      s': "lit_of (d # p) = Some s'" "s = c # s'" "c \<notin> set ''*?[''"
      by (auto split: if_splits)
    show ?thesis using False s' "3.IH"(2) [OF False s'(3) s'(1)]
      by (cases t) (auto simp: chunk_from.simps(2) [of _ c] Let_def)
  qed
qed simp

text \<open>A wildcard-free pattern matches exactly the name it stands for.\<close>

lemma path_Match_lit:
  assumes "lit_of p = Some s"
  shows "path_Match p name = Some (name = s)"
proof (cases "p = []")
  case True
  with assms show ?thesis by (simp add: path_Match.simps)
next
  case False
  then have s: "s \<noteq> []" using assms lit_of_Nil_iff by blast
  have "dropWhile (\<lambda>c. c = CHR ''*'') p = p"
    using lit_of_hd [OF assms False] False by (cases p) auto
  then have sc: "scanChunk p = (False, p, [])"
    using scan_body_lit [OF assms] lit_of_hd [OF assms False] by (simp add: scanChunk_def)
  have m: "matchChunk p name = (if HasPrefix name s then Rest (drop (length s) name) else NoMatch)"
    using chunk_from_lit [OF assms, of False name] by (simp add: matchChunk_def)
  have pre: "HasPrefix name s \<Longrightarrow> name \<noteq> s \<Longrightarrow> drop (length s) name \<noteq> []"
    by (auto simp: HasPrefix_iff)
  show ?thesis
    using False s pre
    by (auto simp: path_Match.simps [of p] path_Match.simps [of "[]"] sc m check_rest.simps HasPrefix_def)
qed

text \<open>Followed by one star it matches the names that extend it within one path segment.\<close>

lemma path_Match_lit_star:
  assumes "lit_of p = Some s" "p \<noteq> []"
  shows "path_Match (p @ ''*'') name = Some (\<exists>x. name = s @ x \<and> CHR ''/'' \<notin> set x)"
proof -
  have "dropWhile (\<lambda>c. c = CHR ''*'') (p @ ''*'') = p @ ''*''"
    using lit_of_hd [OF assms] assms(2) by (cases p) auto
  then have sc: "scanChunk (p @ ''*'') = (False, p, ''*'')"
    using scan_body_lit_star [OF assms(1), of "[]"] lit_of_hd [OF assms] assms(2)
    by (simp add: scanChunk_def)
  have m: "matchChunk p name = (if HasPrefix name s then Rest (drop (length s) name) else NoMatch)"
    using chunk_from_lit [OF assms(1), of False name] by (simp add: matchChunk_def)
  have star: "scanChunk ''*'' = (True, [], [])" by (simp add: scanChunk_def)
  have cr: "check_rest ''*'' = Some False"
    by (simp add: check_rest.simps [of "''*''"] star matchChunk_def check_rest.simps [of "[]"])
  show ?thesis
    by (auto simp: path_Match.simps [of "p @ ''*''"] path_Match.simps [of "''*''"] sc m star cr
          HasPrefix_iff)
qed

lemma path_Match_star: "path_Match ''*'' name = Some (CHR ''/'' \<notin> set name)"
  by (simp add: path_Match.simps scanChunk_def)

text \<open>Putting a backslash before the characters of \<open>chars\<close>; the shape of every quoting the code does.\<close>

definition quote_with :: "string \<Rightarrow> string \<Rightarrow> string" where
  "quote_with chars s = concat (map (\<lambda>c. if c \<in> set chars then [CHR 0x5C, c] else [c]) s)"

lemma quote_with_simps [simp]:
  "quote_with chars [] = []"
  "quote_with chars (c # s) = (if c \<in> set chars then [CHR 0x5C, c] else [c]) @ quote_with chars s"
  by (simp_all add: quote_with_def)

lemma quote_with_append: "quote_with chars (s @ t) = quote_with chars s @ quote_with chars t"
  by (simp add: quote_with_def)

lemma quote_with_id: "\<forall>c\<in>set s. c \<notin> set chars \<Longrightarrow> quote_with chars s = s"
  by (induction s) auto

lemma lit_of_Cons_plain:
  "c \<notin> set ''*?['' \<Longrightarrow> c \<noteq> CHR 0x5C \<Longrightarrow> lit_of (c # p) = map_option (\<lambda>s. c # s) (lit_of p)"
  by (cases p) auto

lemma lit_of_quote_some:
  "\<forall>c\<in>set s. c \<in> set ''*?['' \<longrightarrow> c \<in> set chars \<Longrightarrow> CHR 0x5C \<in> set chars \<Longrightarrow> lit_of (quote_with chars s) = Some s"
proof (induction s)
  case (Cons c s)
  show ?case
  proof (cases "c \<in> set chars")
    case False
    then have "c \<notin> set ''*?[''" "c \<noteq> CHR 0x5C" using Cons.prems by auto
    then show ?thesis using False Cons lit_of_Cons_plain [of c] by simp
  qed (use Cons in simp)
qed simp

lemma lit_of_quote_with:
  "set ''*?['' \<subseteq> set chars \<Longrightarrow> CHR 0x5C \<in> set chars \<Longrightarrow> lit_of (quote_with chars s) = Some s"
  by (rule lit_of_quote_some) auto

section \<open>path.Clean\<close>

text \<open>
  \<open>path.Clean\<close> on the segments between slashes: empty and \<open>.\<close> segments go, \<open>..\<close> removes the
  segment before it, or goes too at the root, or stays where there is nothing to remove.
\<close>

fun clean_comps :: "bool \<Rightarrow> string list \<Rightarrow> string list \<Rightarrow> string list" where
  "clean_comps rooted stack [] = rev stack"
| "clean_comps rooted stack (c # cs) =
     (if c = [] \<or> c = ''.'' then clean_comps rooted stack cs
      else if c = ''..'' then
        (case stack of
           [] \<Rightarrow> clean_comps rooted (if rooted then [] else [c]) cs
         | t # ts \<Rightarrow> if t = ''..'' then clean_comps rooted (c # stack) cs else clean_comps rooted ts cs)
      else clean_comps rooted (c # stack) cs)"

definition path_Clean :: "string \<Rightarrow> string" where
  "path_Clean s =
     (if s = [] then ''.''
      else (let rooted = (hd s = CHR ''/'');
                out = Join (clean_comps rooted [] (Split s (CHR ''/''))) ''/''
            in if rooted then CHR ''/'' # out else if out = [] then ''.'' else out))"

lemma clean_comps_no_dotdot:
  "''..'' \<notin> set stack \<Longrightarrow> ''..'' \<notin> set (clean_comps True stack cs)"
  by (induction "True" stack cs rule: clean_comps.induct) (auto split: list.splits)

lemma clean_comps_no_slash:
  "\<forall>c\<in>set stack \<union> set cs. CHR ''/'' \<notin> set c \<Longrightarrow> \<forall>c\<in>set (clean_comps r stack cs). CHR ''/'' \<notin> set c"
  by (induction r stack cs rule: clean_comps.induct) (auto split: list.splits)

lemma Split_no_sep: "c \<in> set (Split s x) \<Longrightarrow> x \<notin> set c"
  by (induction s arbitrary: c) (auto split: if_splits list.splits)

lemma Split_Join:
  "ws \<noteq> [] \<Longrightarrow> \<forall>w\<in>set ws. x \<notin> set w \<Longrightarrow> Split (Join ws [x]) x = ws"
proof (induction ws rule: induct_list012)
  case (2 w)
  have "x \<notin> set w \<Longrightarrow> Split w x = [w]" for w by (induction w) auto
  with 2 show ?case by simp
next
  case (3 w v ws)
  have "x \<notin> set w \<Longrightarrow> Split (w @ x # t) x = w # Split t x" for w t
    by (induction w) auto
  with 3 show ?case by simp
qed simp

end
