(* ===== verification/CommandRule.thy ===== *)
theory CommandRule
  imports GoPath
begin

text \<open>
  Command rules (\<^verbatim>\<open>internal/ai/policy/command_rule.go\<close>): the tokenizer with its expansion of
  combined short flags, the parser of rules and of actual commands, the stripping of leading
  environment assignments and its list of dangerous variables, and the matcher every shell
  allow, deny and grant rule goes through. The lemmas characterise a match, show that harmless
  assignments are invisible to rules and that a dangerous one can only be matched by a rule
  that spells it out.
\<close>

section \<open>Globs\<close>

definition isWildcardAll :: "string \<Rightarrow> bool" where
  "isWildcardAll rule \<longleftrightarrow> TrimSpace rule = ''*''"

definition matchGlobPattern :: "string \<Rightarrow> string \<Rightarrow> bool" where
  "matchGlobPattern pattern value =
     (case path_Match pattern value of None \<Rightarrow> pattern = value | Some m \<Rightarrow> m)"

lemma matchGlobPattern_lit: "lit_of p = Some s \<Longrightarrow> matchGlobPattern p v \<longleftrightarrow> v = s"
  by (simp add: matchGlobPattern_def path_Match_lit)

section \<open>Tokens\<close>

text \<open>
  \<open>make([]string, len(chars))\<close> has one element per byte and the loop fills those at which a rune
  starts, so a rune of several bytes leaves empty tokens behind it.
\<close>

function short_flags :: "string \<Rightarrow> string list" where
  "short_flags s =
     (if s = [] then []
      else (case DecodeRune s of (r, n) \<Rightarrow>
        (CHR ''-'' # EncodeRune r) # replicate (n - 1) [] @ short_flags (drop n s)))"
  by pat_completeness auto
termination
proof (relation "measure length", goal_cases)
  case (2 s r n)
  then have "1 \<le> n" using DecodeRune_width [of s] by (metis snd_conv)
  with 2 show ?case by simp
qed simp

declare short_flags.simps [simp del]

definition expandShortFlag :: "string \<Rightarrow> string list" where
  "expandShortFlag token =
     (if \<not> HasPrefix token ''-'' \<or> HasPrefix token ''--'' then [token]
      else (let chars = tl token in
        if length chars \<le> 1 \<or> CHR ''='' \<in> set token then [token] else short_flags chars))"

definition tokenize :: "string \<Rightarrow> string list" where
  "tokenize s = concat (map expandShortFlag (Fields s))"

definition isFlag :: "string \<Rightarrow> bool" where
  "isFlag s = HasPrefix s ''-''"

section \<open>Parsing\<close>

record ParsedCommand =
  pc_Program :: string
  pc_SubCommands :: "string list"
  pc_Flags :: "(string \<times> string) list"
  pc_Wildcard :: bool

definition ParsedCommand0 :: ParsedCommand where
  "ParsedCommand0 = \<lparr> pc_Program = [], pc_SubCommands = [], pc_Flags = [], pc_Wildcard = False \<rparr>"

definition add_flag :: "string \<Rightarrow> string \<Rightarrow> ParsedCommand \<Rightarrow> ParsedCommand" where
  "add_flag k v r = r \<lparr> pc_Flags := put k v (pc_Flags r) \<rparr>"

definition add_sub :: "string \<Rightarrow> ParsedCommand \<Rightarrow> ParsedCommand" where
  "add_sub t r = r \<lparr> pc_SubCommands := pc_SubCommands r @ [t] \<rparr>"

text \<open>
  One iteration of the loop on a token that takes no value from the token after it, and the
  loop itself, which looks one token ahead for the value of a flag.
\<close>

definition flag_token :: "string \<Rightarrow> ParsedCommand \<Rightarrow> ParsedCommand" where
  "flag_token t result =
     (if CHR ''='' \<in> set t then (case Cut t (CHR ''='') of (k, v, _) \<Rightarrow> add_flag k v result)
      else add_flag t [] result)"

definition takes_next :: "string \<Rightarrow> string \<Rightarrow> bool" where
  "takes_next t next \<longleftrightarrow> isFlag t \<and> CHR ''='' \<notin> set t \<and> \<not> isFlag next"

definition rule_token :: "string \<Rightarrow> ParsedCommand \<Rightarrow> ParsedCommand" where
  "rule_token t result =
     (if isFlag t then flag_token t result
      else if t = ''*'' then result \<lparr> pc_Wildcard := True \<rparr>
      else add_sub t result)"

fun rule_loop :: "string list \<Rightarrow> ParsedCommand \<Rightarrow> ParsedCommand" where
  "rule_loop [] result = result"
| "rule_loop [t] result = rule_token t result"
| "rule_loop (t # next # ts) result =
     (if takes_next t next then rule_loop ts (add_flag t next result)
      else rule_loop (next # ts) (rule_token t result))"

definition ParseCommandRule :: "string \<Rightarrow> ParsedCommand" where
  "ParseCommandRule rule =
     (case tokenize rule of
        [] \<Rightarrow> ParsedCommand0
      | p # ts \<Rightarrow> rule_loop ts (ParsedCommand0 \<lparr> pc_Program := p \<rparr>))"

definition command_token :: "string \<Rightarrow> ParsedCommand \<Rightarrow> ParsedCommand" where
  "command_token t result = (if isFlag t then flag_token t result else add_sub t result)"

fun command_loop :: "string list \<Rightarrow> ParsedCommand \<Rightarrow> ParsedCommand" where
  "command_loop [] result = result"
| "command_loop [t] result = command_token t result"
| "command_loop (t # next # ts) result =
     (if takes_next t next then command_loop ts (add_flag t next result)
      else command_loop (next # ts) (command_token t result))"

section \<open>Environment assignments\<close>

definition dangerousEnvAssigns :: "string list" where
  "dangerousEnvAssigns =
     [''PATH'', ''LD_PRELOAD'', ''LD_LIBRARY_PATH'', ''LD_AUDIT'', ''LD_DEBUG'',
      ''DYLD_INSERT_LIBRARIES'', ''DYLD_LIBRARY_PATH'', ''DYLD_FALLBACK_LIBRARY_PATH'',
      ''IFS'', ''BASH_ENV'', ''ENV'', ''SHELLOPTS'', ''BASHOPTS'', ''BASH_FUNC'',
      ''PROMPT_COMMAND'', ''PS4'', ''GIT_CONFIG_GLOBAL'', ''GIT_CONFIG_SYSTEM'', ''NIX_PATH'',
      ''PYTHONPATH'', ''PERL5LIB'', ''RUBYLIB'', ''NODE_OPTIONS'']"

definition isDangerousEnvAssign :: "string \<Rightarrow> bool" where
  "isDangerousEnvAssign t =
     (case IndexByte t (CHR ''='') of
        None \<Rightarrow> False
      | Some eq \<Rightarrow> if eq = 0 then False else take eq t \<in> set dangerousEnvAssigns)"

definition name_start :: "char \<Rightarrow> bool" where
  "name_start c \<longleftrightarrow> c = CHR ''_'' \<or> (65 \<le> (of_char c :: nat) \<and> (of_char c :: nat) \<le> 90) \<or>
     (97 \<le> (of_char c :: nat) \<and> (of_char c :: nat) \<le> 122)"

definition name_char :: "char \<Rightarrow> bool" where
  "name_char c \<longleftrightarrow> name_start c \<or> (48 \<le> (of_char c :: nat) \<and> (of_char c :: nat) \<le> 57)"

definition looksLikeEnvAssign :: "string \<Rightarrow> bool" where
  "looksLikeEnvAssign t =
     (case IndexByte t (CHR ''='') of
        None \<Rightarrow> False
      | Some eq \<Rightarrow> if eq = 0 then False
          else name_start (hd t) \<and> list_all name_char (tl (take eq t)))"

fun stripLeadingAssigns :: "string list \<Rightarrow> string list" where
  "stripLeadingAssigns [] = []"
| "stripLeadingAssigns (t # ts) =
     (if looksLikeEnvAssign t then
        (if isDangerousEnvAssign t then t # ts else stripLeadingAssigns ts)
      else t # ts)"

definition ParseActualCommand :: "string \<Rightarrow> ParsedCommand" where
  "ParseActualCommand command =
     (case stripLeadingAssigns (tokenize command) of
        [] \<Rightarrow> ParsedCommand0
      | p # ts \<Rightarrow> command_loop ts (ParsedCommand0 \<lparr> pc_Program := p \<rparr>))"

section \<open>Matching\<close>

definition matchSubCommand :: "string \<Rightarrow> string list \<Rightarrow> bool" where
  "matchSubCommand pattern subs = list_ex (\<lambda>sub. matchGlobPattern pattern sub) subs"

definition match_flag :: "(string \<times> string) list \<Rightarrow> string \<times> string \<Rightarrow> bool" where
  "match_flag actual fv =
     (case map_of actual (fst fv) of
        None \<Rightarrow> False
      | Some v \<Rightarrow> snd fv = [] \<or> snd fv = ''*'' \<or> matchGlobPattern (snd fv) v)"

definition MatchCommandRule :: "string \<Rightarrow> string \<Rightarrow> bool" where
  "MatchCommandRule rule command =
     (if isWildcardAll rule then TrimSpace command \<noteq> []
      else (let r = ParseCommandRule rule in
        if pc_Program r = [] then False
        else (let c = ParseActualCommand command in
          if pc_Program c = [] then False
          else if pc_Program r \<noteq> pc_Program c then False
          else if \<not> list_all (\<lambda>sub. matchSubCommand sub (pc_SubCommands c)) (pc_SubCommands r) then False
          else if \<not> list_all (match_flag (pc_Flags c)) (pc_Flags r) then False
          else if \<not> pc_Wildcard r \<and>
                  (length (pc_SubCommands r) < length (pc_SubCommands c) \<or>
                   list_ex (\<lambda>fv. map_of (pc_Flags r) (fst fv) = None) (pc_Flags c)) then False
          else True)))"

fun allowed_loop :: "string list \<Rightarrow> string list \<Rightarrow> string list \<Rightarrow> string list option" where
  "allowed_loop allowRules matched [] = Some matched"
| "allowed_loop allowRules matched (cmd # cmds) =
     (case find (\<lambda>rule. MatchCommandRule rule cmd) allowRules of
        None \<Rightarrow> None
      | Some rule \<Rightarrow> allowed_loop allowRules
          (if rule \<in> set matched then matched else matched @ [rule]) cmds)"

text \<open>
  The matched rules are the keys of a Go map, whose order is unspecified; the model lists them
  in the order of their first match.
\<close>

definition AllSubCommandsAllowed :: "string list \<Rightarrow> string list \<Rightarrow> bool \<times> string" where
  "AllSubCommandsAllowed subCmds allowRules =
     (if allowRules = [] then (False, [])
      else (case allowed_loop allowRules [] subCmds of
          None \<Rightarrow> (False, [])
        | Some rules \<Rightarrow> (True, Join rules '', '')))"

definition FindHintRules :: "string \<Rightarrow> string list \<Rightarrow> string list" where
  "FindHintRules command allowRules =
     (case stripLeadingAssigns (tokenize command) of
        [] \<Rightarrow> []
      | program # _ \<Rightarrow>
          filter (\<lambda>rule. case tokenize rule of [] \<Rightarrow> False | p # _ \<Rightarrow> p = program) allowRules)"

section \<open>Facts about parsing\<close>

lemma add_sel [simp]:
  "pc_Program (add_flag k v r) = pc_Program r" "pc_Program (add_sub t r) = pc_Program r"
  "pc_Wildcard (add_flag k v r) = pc_Wildcard r" "pc_Wildcard (add_sub t r) = pc_Wildcard r"
  "pc_SubCommands (add_flag k v r) = pc_SubCommands r"
  "pc_SubCommands (add_sub t r) = pc_SubCommands r @ [t]"
  "pc_Flags (add_flag k v r) = put k v (pc_Flags r)" "pc_Flags (add_sub t r) = pc_Flags r"
  by (simp_all add: add_flag_def add_sub_def)

lemma token_sel [simp]:
  "pc_Program (flag_token t r) = pc_Program r" "pc_Program (rule_token t r) = pc_Program r"
  "pc_Program (command_token t r) = pc_Program r"
  "pc_Wildcard (flag_token t r) = pc_Wildcard r" "pc_Wildcard (command_token t r) = pc_Wildcard r"
  "pc_SubCommands (flag_token t r) = pc_SubCommands r"
  by (simp_all add: flag_token_def rule_token_def command_token_def split: prod.splits)

lemma rule_loop_Program [simp]: "pc_Program (rule_loop ts r) = pc_Program r"
  by (induction ts r rule: rule_loop.induct) auto

lemma command_loop_sel [simp]:
  "pc_Program (command_loop ts r) = pc_Program r" "pc_Wildcard (command_loop ts r) = pc_Wildcard r"
  by (induction ts r rule: command_loop.induct) auto

lemma ParsedCommand0_sel [simp]:
  "pc_Program ParsedCommand0 = []" "pc_SubCommands ParsedCommand0 = []"
  "pc_Flags ParsedCommand0 = []" "pc_Wildcard ParsedCommand0 = False"
  by (simp_all add: ParsedCommand0_def)

lemma pc_Program_ParseCommandRule:
  "pc_Program (ParseCommandRule rule) = (case tokenize rule of [] \<Rightarrow> [] | p # _ \<Rightarrow> p)"
  by (simp add: ParseCommandRule_def split: list.splits)

lemma pc_Program_ParseActualCommand:
  "pc_Program (ParseActualCommand c) =
     (case stripLeadingAssigns (tokenize c) of [] \<Rightarrow> [] | p # _ \<Rightarrow> p)"
  by (simp add: ParseActualCommand_def split: list.splits)

text \<open>A command without a rule's wildcard parses into the same structure as the rule.\<close>

lemma rule_loop_eq_command_loop:
  "''*'' \<notin> set ts \<Longrightarrow> rule_loop ts r = command_loop ts r"
  by (induction ts r rule: rule_loop.induct) (auto simp: rule_token_def command_token_def)

lemma list_ex_map_of_None:
  "list_ex (\<lambda>fv. map_of m (fst fv) = None) fs \<longleftrightarrow> \<not> set (map fst fs) \<subseteq> dom (map_of m)"
  by (auto simp: list_ex_iff domIff) (metis fst_conv option.distinct(1))

text \<open>
  What a match means, for a rule other than the bare star: same program, every positional word
  of the rule matched by some word of the command, every flag of the rule present with a
  matching value, and, without a wildcard, no more words than the rule has and no flag the
  rule does not name.
\<close>

lemma MatchCommandRule_iff:
  fixes rule command :: string
  assumes "\<not> isWildcardAll rule"
  defines "r \<equiv> ParseCommandRule rule" and "c \<equiv> ParseActualCommand command"
  shows "MatchCommandRule rule command \<longleftrightarrow>
     pc_Program r \<noteq> [] \<and> pc_Program c = pc_Program r \<and>
     (\<forall>sub\<in>set (pc_SubCommands r). \<exists>w\<in>set (pc_SubCommands c). matchGlobPattern sub w) \<and>
     (\<forall>fv\<in>set (pc_Flags r). match_flag (pc_Flags c) fv) \<and>
     (pc_Wildcard r \<or>
        length (pc_SubCommands c) \<le> length (pc_SubCommands r) \<and>
        set (map fst (pc_Flags c)) \<subseteq> dom (map_of (pc_Flags r)))"
  using assms(1) unfolding r_def c_def
  by (auto simp: MatchCommandRule_def Let_def list_all_iff list_ex_map_of_None matchSubCommand_def
        list_ex_iff not_less)

lemma MatchCommandRule_Program:
  assumes "\<not> isWildcardAll rule" "MatchCommandRule rule command"
  shows "\<exists>p ts us. p \<noteq> [] \<and> tokenize rule = p # ts \<and> stripLeadingAssigns (tokenize command) = p # us"
proof -
  from MatchCommandRule_iff [OF assms(1)] assms(2)
  have p: "pc_Program (ParseCommandRule rule) \<noteq> []"
    "pc_Program (ParseActualCommand command) = pc_Program (ParseCommandRule rule)" by blast+
  then show ?thesis
    by (auto simp: pc_Program_ParseCommandRule pc_Program_ParseActualCommand split: list.splits)
qed

section \<open>Facts about environment assignments\<close>

lemma stripLeadingAssigns_safe:
  "\<forall>a\<in>set as. looksLikeEnvAssign a \<and> \<not> isDangerousEnvAssign a \<Longrightarrow>
     stripLeadingAssigns (as @ ts) = stripLeadingAssigns ts"
  by (induction as) auto

lemma stripLeadingAssigns_dangerous:
  "looksLikeEnvAssign d \<Longrightarrow> isDangerousEnvAssign d \<Longrightarrow> stripLeadingAssigns (d # ts) = d # ts"
  by simp

lemma stripLeadingAssigns_head:
  "stripLeadingAssigns ts = a # us \<Longrightarrow> looksLikeEnvAssign a \<Longrightarrow> isDangerousEnvAssign a"
  by (induction ts) (auto split: if_splits)

lemma ParseActualCommand_strip:
  "stripLeadingAssigns (tokenize c) = stripLeadingAssigns (tokenize c') \<Longrightarrow>
     ParseActualCommand c = ParseActualCommand c'"
  by (simp add: ParseActualCommand_def)

lemma stripLeadingAssigns_suffix: "\<exists>as. tokenize_c = as @ stripLeadingAssigns tokenize_c \<and>
    (\<forall>a\<in>set as. looksLikeEnvAssign a \<and> \<not> isDangerousEnvAssign a)"
proof (induction tokenize_c)
  case (Cons t ts)
  then obtain as where as: "ts = as @ stripLeadingAssigns ts"
    "\<forall>a\<in>set as. looksLikeEnvAssign a \<and> \<not> isDangerousEnvAssign a" by blast
  show ?case
  proof (cases "looksLikeEnvAssign t \<and> \<not> isDangerousEnvAssign t")
    case True
    with as show ?thesis by (intro exI [of _ "t # as"]) auto
  qed (auto intro: exI [of _ "[]"])
qed simp

section \<open>Facts about allow lists\<close>

lemma allowed_loop_eq:
  "allowed_loop rules m cmds \<noteq> None \<longleftrightarrow> (\<forall>cmd\<in>set cmds. \<exists>rule\<in>set rules. MatchCommandRule rule cmd)"
  by (induction rules m cmds rule: allowed_loop.induct)
    (auto simp: find_eq_None_iff split: option.splits dest: find_SomeD)

lemma fst_AllSubCommandsAllowed:
  "fst (AllSubCommandsAllowed cmds rules) \<longleftrightarrow>
     rules \<noteq> [] \<and> (\<forall>cmd\<in>set cmds. \<exists>rule\<in>set rules. MatchCommandRule rule cmd)"
  using allowed_loop_eq [of rules "[]" cmds]
  by (auto simp: AllSubCommandsAllowed_def split: option.splits)

lemma allowed_loop_rules:
  "allowed_loop rules m cmds = Some rs \<Longrightarrow> set m \<subseteq> set rules \<Longrightarrow> distinct m \<Longrightarrow>
     set m \<subseteq> set rs \<and> set rs \<subseteq> set rules \<and> distinct rs \<and>
     (\<forall>r\<in>set rs - set m. \<exists>cmd\<in>set cmds. MatchCommandRule r cmd)"
proof (induction rules m cmds arbitrary: rs rule: allowed_loop.induct)
  case (2 rules m cmd cmds)
  then obtain rule where f: "find (\<lambda>rule. MatchCommandRule rule cmd) rules = Some rule"
    by (auto split: option.splits)
  let ?m = "if rule \<in> set m then m else m @ [rule]"
  have "set ?m \<subseteq> set rules" "distinct ?m" using 2 find_SomeD [OF f] by auto
  moreover have "allowed_loop rules ?m cmds = Some rs" using 2 f by simp
  ultimately show ?case using "2.IH" [OF f] find_SomeD [OF f] by (auto split: if_splits)
qed simp

end
