(* ===== verification/PolicyResolve.thy ===== *)
theory PolicyResolve
  imports Entities CommandRule
begin

text \<open>
  From a policy holder to the rules in force: the chain of groups above an asset
  (\<^verbatim>\<open>internal/ai/policy/format.go\<close>), the lookup of referenced policy groups and their merge by
  kind (\<^verbatim>\<open>policy_group_resolve.go\<close>), the effective policy of every kind with its defaults
  (\<^verbatim>\<open>policy_effective.go\<close>), and the verdict on shell commands that cannot be split
  (\<^verbatim>\<open>command_unenumerable.go\<close>).
\<close>

section \<open>Values and lists\<close>

definition policyValueMatches :: "string \<Rightarrow> string \<Rightarrow> bool" where
  "policyValueMatches rule v \<longleftrightarrow> isWildcardAll rule \<or> EqualFold (TrimSpace rule) (TrimSpace v)"

definition containsPolicyValue :: "string list \<Rightarrow> string \<Rightarrow> bool" where
  "containsPolicyValue rules v = list_ex (\<lambda>rule. policyValueMatches rule v) rules"

definition containsStr :: "string list \<Rightarrow> string \<Rightarrow> bool" where
  "containsStr items s = list_ex (\<lambda>item. item = s) items"

definition AppendUnique :: "string list \<Rightarrow> string list \<Rightarrow> string list" where
  "AppendUnique base items = base @ dedup base items"

lemma set_AppendUnique [simp]: "set (AppendUnique base items) = set base \<union> set items"
  by (auto simp: AppendUnique_def)

lemma distinct_AppendUnique: "distinct base \<Longrightarrow> distinct (AppendUnique base items)"
  by (auto simp: AppendUnique_def)

lemma AppendUnique_eq_Nil [simp]: "AppendUnique base items = [] \<longleftrightarrow> base = [] \<and> items = []"
  by (auto simp: AppendUnique_def dedup_eq_Nil_iff)

section \<open>Group chains\<close>

fun chain_from :: "world \<Rightarrow> nat \<Rightarrow> int \<Rightarrow> Group list" where
  "chain_from w 0 currentID = []"
| "chain_from w (Suc n) currentID =
     (if currentID \<le> 0 then []
      else (case w_Groups w currentID of
          None \<Rightarrow> []
        | Some g \<Rightarrow> g # chain_from w n (g_ParentID g)))"

definition ResolveGroupChain :: "world \<Rightarrow> int \<Rightarrow> Group list" where
  "ResolveGroupChain w groupID = chain_from w 5 groupID"

section \<open>Referenced policy groups\<close>

definition ListByIDs :: "PolicyGroup list \<Rightarrow> int list \<Rightarrow> PolicyGroup list" where
  "ListByIDs table ids = filter (\<lambda>pg. pg_ID pg \<in> set ids) table"

fun fetch_named :: "world \<Rightarrow> string list \<Rightarrow> PolicyGroup list" where
  "fetch_named w [] = []"
| "fetch_named w (i # ids) =
     (if IsBuiltinID i then
        (case FindBuiltin i of None \<Rightarrow> [] | Some pg \<Rightarrow> [pg])
      else if IsExtensionID i then
        (case FindExtensionGroup (w_ExtGroups w) i of None \<Rightarrow> [] | Some pg \<Rightarrow> [pg])
      else []) @ fetch_named w ids"

fun db_ids :: "string list \<Rightarrow> int list" where
  "db_ids [] = []"
| "db_ids (i # ids) =
     (if IsBuiltinID i \<or> IsExtensionID i then db_ids ids
      else (case ParseInt i of None \<Rightarrow> db_ids ids | Some n \<Rightarrow> n # db_ids ids))"

definition fetchPolicyGroups :: "world \<Rightarrow> string list \<Rightarrow> PolicyGroup list" where
  "fetchPolicyGroups w ids =
     fetch_named w ids @
     (if db_ids ids = [] then []
      else (case w_PolicyGroups w of None \<Rightarrow> [] | Some table \<Rightarrow> ListByIDs table (db_ids ids)))"

text \<open>
  The policies of the fetched groups of one kind; a group of another kind, or whose policy does
  not decode, contributes nothing. This is the loop all seven resolvers share.
\<close>

definition group_policies :: "world \<Rightarrow> string \<Rightarrow> (policy_fields \<Rightarrow> 'p) \<Rightarrow> string list \<Rightarrow> 'p list" where
  "group_policies w policyType of_fields ids =
     List.map_filter (\<lambda>pg. if pg_PolicyType pg \<noteq> policyType then None
                      else json_Unmarshal of_fields (pg_Policy pg)) (fetchPolicyGroups w ids)"

definition rule_groups :: "world \<Rightarrow> string \<Rightarrow> string list \<Rightarrow> string list \<times> string list" where
  "rule_groups w policyType ids =
     (if ids = [] then ([], [])
      else (let ps = group_policies w policyType rule_of_fields ids in
        (concat (map rp_AllowList ps), concat (map rp_DenyList ps))))"

definition ResolveCommandGroups :: "world \<Rightarrow> string list \<Rightarrow> string list \<times> string list" where
  "ResolveCommandGroups w ids = rule_groups w PolicyTypeCommand ids"

definition ResolveRedisGroups :: "world \<Rightarrow> string list \<Rightarrow> string list \<times> string list" where
  "ResolveRedisGroups w ids = rule_groups w PolicyTypeRedis ids"

definition ResolveEtcdGroups :: "world \<Rightarrow> string list \<Rightarrow> string list \<times> string list" where
  "ResolveEtcdGroups w ids = rule_groups w PolicyTypeEtcd ids"

definition ResolveKafkaGroups :: "world \<Rightarrow> string list \<Rightarrow> string list \<times> string list" where
  "ResolveKafkaGroups w ids = rule_groups w PolicyTypeKafka ids"

definition ResolveOSSGroups :: "world \<Rightarrow> string list \<Rightarrow> string list \<times> string list" where
  "ResolveOSSGroups w ids = rule_groups w PolicyTypeOSS ids"

definition ResolveMongoGroups :: "world \<Rightarrow> string list \<Rightarrow> string list \<times> string list" where
  "ResolveMongoGroups w ids =
     (if ids = [] then ([], [])
      else (let ps = group_policies w PolicyTypeMongo mongo_of_fields ids in
        (concat (map mp_AllowTypes ps), concat (map mp_DenyTypes ps))))"

definition ResolveQueryGroups :: "world \<Rightarrow> string list \<Rightarrow> string list \<times> string list \<times> string list" where
  "ResolveQueryGroups w ids =
     (if ids = [] then ([], [], [])
      else (let ps = group_policies w PolicyTypeQuery query_of_fields ids in
        (concat (map qp_AllowTypes ps), concat (map qp_DenyTypes ps), concat (map qp_DenyFlags ps))))"

section \<open>Effective policies\<close>

definition expand_rules ::
  "(string list \<Rightarrow> string list \<times> string list) \<Rightarrow> RulePolicy option \<Rightarrow> RulePolicy" where
  "expand_rules resolve p =
     (case p of
        None \<Rightarrow> RulePolicy0
      | Some p \<Rightarrow>
          (case (if rp_Groups p = [] then ([], []) else resolve (rp_Groups p)) of (allow, deny) \<Rightarrow>
             RulePolicy0 \<lparr> rp_AllowList := rp_AllowList p @ allow, rp_DenyList := rp_DenyList p @ deny \<rparr>))"

definition effective_rules ::
  "(string list \<Rightarrow> string list \<times> string list) \<Rightarrow> RulePolicy \<Rightarrow> RulePolicy option \<Rightarrow> RulePolicy" where
  "effective_rules resolve dflt custom =
     (case custom of
        None \<Rightarrow> expand_rules resolve (Some dflt)
      | Some p \<Rightarrow> if rp_IsEmpty p then expand_rules resolve (Some dflt) else expand_rules resolve custom)"

definition expandRedisPolicy :: "world \<Rightarrow> RedisPolicy option \<Rightarrow> RedisPolicy" where
  "expandRedisPolicy w p = expand_rules (ResolveRedisGroups w) p"

definition EffectiveRedisPolicy :: "world \<Rightarrow> RedisPolicy option \<Rightarrow> RedisPolicy" where
  "EffectiveRedisPolicy w custom = effective_rules (ResolveRedisGroups w) DefaultRedisPolicy custom"

definition expandEtcdPolicy :: "world \<Rightarrow> EtcdPolicy option \<Rightarrow> EtcdPolicy" where
  "expandEtcdPolicy w p = expand_rules (ResolveEtcdGroups w) p"

definition EffectiveEtcdPolicy :: "world \<Rightarrow> EtcdPolicy option \<Rightarrow> EtcdPolicy" where
  "EffectiveEtcdPolicy w custom = effective_rules (ResolveEtcdGroups w) DefaultEtcdPolicy custom"

definition expandKafkaPolicy :: "world \<Rightarrow> KafkaPolicy option \<Rightarrow> KafkaPolicy" where
  "expandKafkaPolicy w p = expand_rules (ResolveKafkaGroups w) p"

definition EffectiveKafkaPolicy :: "world \<Rightarrow> KafkaPolicy option \<Rightarrow> KafkaPolicy" where
  "EffectiveKafkaPolicy w custom = effective_rules (ResolveKafkaGroups w) DefaultKafkaPolicy custom"

definition expandOSSPolicy :: "world \<Rightarrow> OSSPolicy option \<Rightarrow> OSSPolicy" where
  "expandOSSPolicy w p = expand_rules (ResolveOSSGroups w) p"

definition EffectiveOSSPolicy :: "world \<Rightarrow> OSSPolicy option \<Rightarrow> OSSPolicy" where
  "EffectiveOSSPolicy w custom = effective_rules (ResolveOSSGroups w) DefaultOSSPolicy custom"

definition expandK8sPolicy :: "world \<Rightarrow> K8sPolicy option \<Rightarrow> K8sPolicy" where
  "expandK8sPolicy w p = expand_rules (ResolveCommandGroups w) p"

definition EffectiveK8sPolicy :: "world \<Rightarrow> K8sPolicy option \<Rightarrow> K8sPolicy" where
  "EffectiveK8sPolicy w custom = effective_rules (ResolveCommandGroups w) DefaultK8sPolicy custom"

definition expandMongoPolicy :: "world \<Rightarrow> MongoPolicy option \<Rightarrow> MongoPolicy" where
  "expandMongoPolicy w p =
     (case p of
        None \<Rightarrow> MongoPolicy0
      | Some p \<Rightarrow>
          (case (if mp_Groups p = [] then ([], []) else ResolveMongoGroups w (mp_Groups p)) of (allow, deny) \<Rightarrow>
             MongoPolicy0 \<lparr> mp_AllowTypes := mp_AllowTypes p @ allow, mp_DenyTypes := mp_DenyTypes p @ deny \<rparr>))"

definition EffectiveMongoPolicy :: "world \<Rightarrow> MongoPolicy option \<Rightarrow> MongoPolicy" where
  "EffectiveMongoPolicy w custom =
     (case custom of
        None \<Rightarrow> expandMongoPolicy w (Some DefaultMongoPolicy)
      | Some p \<Rightarrow> if mp_IsEmpty p then expandMongoPolicy w (Some DefaultMongoPolicy)
                  else expandMongoPolicy w custom)"

definition expandQueryPolicy :: "world \<Rightarrow> QueryPolicy option \<Rightarrow> QueryPolicy" where
  "expandQueryPolicy w p =
     (case p of
        None \<Rightarrow> QueryPolicy0
      | Some p \<Rightarrow>
          (case (if qp_Groups p = [] then ([], [], []) else ResolveQueryGroups w (qp_Groups p)) of
             (allow, deny, flags) \<Rightarrow>
               QueryPolicy0 \<lparr> qp_AllowTypes := qp_AllowTypes p @ allow,
                 qp_DenyTypes := qp_DenyTypes p @ deny, qp_DenyFlags := qp_DenyFlags p @ flags \<rparr>))"

definition EffectiveQueryPolicy :: "world \<Rightarrow> QueryPolicy option \<Rightarrow> QueryPolicy" where
  "EffectiveQueryPolicy w custom =
     (case custom of
        None \<Rightarrow> expandQueryPolicy w (Some DefaultQueryPolicy)
      | Some p \<Rightarrow> if qp_IsEmpty p then expandQueryPolicy w (Some DefaultQueryPolicy)
                  else expandQueryPolicy w custom)"

section \<open>Messages\<close>

definition FormatDenyMessage :: "string \<Rightarrow> string \<Rightarrow> string \<Rightarrow> string list \<Rightarrow> string" where
  "FormatDenyMessage assetName command reason hints =
     (if assetName \<noteq> []
      then ''Command denied ('' @ reason @ '').'' @ [CHR 0x0A] @ ''Asset: '' @ assetName @ [CHR 0x0A] @
           ''Command: '' @ command
      else ''Command denied ('' @ reason @ '').'' @ [CHR 0x0A] @ ''Command: '' @ command) @
     (if hints = [] then []
      else [CHR 0x0A, CHR 0x0A] @ ''Allowed command patterns for this asset:'' @ [CHR 0x0A] @
           concat (map (\<lambda>h. ''- '' @ h @ [CHR 0x0A]) hints) @
           [CHR 0x0A] @ ''Please adjust the command accordingly and retry.'')"

section \<open>Shell commands that cannot be split\<close>

definition ShellCommandRules :: "string list \<Rightarrow> string list" where
  "ShellCommandRules rules = filter (\<lambda>rule. \<not> HasPrefix rule ''cp:'') rules"

definition unenumerableShellMessage :: "string \<Rightarrow> string option \<Rightarrow> string" where
  "unenumerableShellMessage lang parseErr =
     (case parseErr of
        Some e \<Rightarrow> PolicyFmt lang
          (''%v; the policy cannot check its sub-commands one by one, so no allow rule can match it. '' @
           ''Fix the command syntax and retry'')
          (''%v'' @ utf8 [239, 188, 155, 231, 173, 150, 231, 149, 165, 230, 151, 160, 230, 179, 149,
          233, 128, 144, 230, 157, 161, 230, 160, 161, 233, 170, 140, 229, 133, 182, 228, 184, 173,
          231, 154, 132, 229, 173, 144, 229, 145, 189, 228, 187, 164, 239, 188,
          140] @ ''allow '' @ utf8 [232, 167, 132, 229, 136, 153, 230, 151, 160, 230, 179, 149, 229,
          140, 185, 233, 133, 141, 229, 174, 131, 227, 128, 130, 232, 175, 183, 228, 191, 174, 230,
          173, 163, 229, 145, 189, 228, 187, 164, 232, 175, 173, 230, 179, 149, 229, 144, 142, 233,
          135, 141, 232, 175, 149])
          [e]
      | None \<Rightarrow> PolicyMsg lang
          (''no executable command was recognized, so no allow rule can match it. '' @
           ''Fix the command and retry'')
          (utf8 [230, 156, 170, 232, 175, 134, 229, 136, 171, 229, 136, 176, 229, 143, 175, 230,
          137, 167, 232, 161, 140, 231, 154, 132, 229, 145, 189, 228, 187, 164, 239, 188,
          140] @ ''allow '' @ utf8 [232, 167, 132, 229, 136, 153, 230, 151, 160, 230, 179, 149, 229,
          140, 185, 233, 133, 141, 229, 174, 131, 227, 128, 130, 232, 175, 183, 228, 191, 174, 230,
          173, 163, 229, 145, 189, 228, 187, 164, 229, 144, 142, 233, 135, 141, 232, 175, 149]))"

definition msg_blocked :: "string \<Rightarrow> string" where
  "msg_blocked lang = PolicyMsg lang ''command blocked by policy''
     (utf8 [229, 145, 189, 228, 187, 164, 232, 162, 171, 231, 173, 150, 231, 149, 165, 231, 166,
        129, 230, 173, 162, 230, 137, 167, 232, 161, 140])"

definition DecideUnenumerableShell ::
  "string \<Rightarrow> string \<Rightarrow> string option \<Rightarrow> string list \<Rightarrow> string list \<Rightarrow> CheckResult" where
  "DecideUnenumerableShell lang command parseErr allowRules denyRules =
     (if TrimSpace command = [] then need_confirm \<lparr> cr_Unreviewable := True \<rparr>
      else (case find isWildcardAll denyRules of
          Some rule \<Rightarrow> deny_policy (msg_blocked lang) rule
        | None \<Rightarrow>
            (case find isWildcardAll allowRules of
               Some rule \<Rightarrow>
                 if denyRules = [] then allow_policy rule
                 else need_confirm \<lparr> cr_Message := unenumerableShellMessage lang parseErr,
                        cr_Unreviewable := True \<rparr>
             | None \<Rightarrow> need_confirm \<lparr> cr_Message := unenumerableShellMessage lang parseErr,
                        cr_Unreviewable := True \<rparr>)))"

section \<open>Facts\<close>

lemma chain_from_length: "length (chain_from w n i) \<le> n"
  by (induction w n i rule: chain_from.induct) (auto split: option.splits)

lemma chain_from_hd: "chain_from w n i = g # gs \<Longrightarrow> w_Groups w i = Some g"
  by (cases n) (auto split: option.splits if_splits)

lemma chain_from_linked:
  "Suc k < length (chain_from w n i) \<Longrightarrow>
     w_Groups w (g_ParentID (chain_from w n i ! k)) = Some (chain_from w n i ! Suc k)"
proof (induction w n i arbitrary: k rule: chain_from.induct)
  case (2 w n i)
  then obtain g where g: "\<not> i \<le> 0" "w_Groups w i = Some g"
    by (auto split: option.splits if_splits)
  then have c: "chain_from w (Suc n) i = g # chain_from w n (g_ParentID g)" by simp
  show ?case
  proof (cases k)
    case 0
    with "2.prems" c have "chain_from w n (g_ParentID g) \<noteq> []" by auto
    then obtain g' gs where "chain_from w n (g_ParentID g) = g' # gs" by (cases "chain_from w n (g_ParentID g)") auto
    with chain_from_hd [OF this] c 0 show ?thesis by simp
  next
    case (Suc k')
    with "2.IH" [OF g, of k'] "2.prems" c show ?thesis by simp
  qed
qed simp

definition named_group :: "world \<Rightarrow> string \<Rightarrow> PolicyGroup option" where
  "named_group w i =
     (if IsBuiltinID i then FindBuiltin i
      else if IsExtensionID i then FindExtensionGroup (w_ExtGroups w) i else None)"

lemma fetch_named_set: "pg \<in> set (fetch_named w ids) \<longleftrightarrow> (\<exists>i\<in>set ids. named_group w i = Some pg)"
proof (induction ids)
  case (Cons i ids)
  have "fetch_named w (i # ids) =
      (case named_group w i of None \<Rightarrow> [] | Some pg \<Rightarrow> [pg]) @ fetch_named w ids"
    by (simp add: named_group_def)
  with Cons show ?case by (auto split: option.splits)
qed simp

lemma json_Unmarshal_Some: "json_Unmarshal f j = Some p \<longleftrightarrow> (\<exists>x. j = JsonObj x \<and> p = f x)"
  by (cases j) (auto simp: json_Unmarshal_def)

lemma set_group_policies:
  "p \<in> set (group_policies w t f ids) \<longleftrightarrow>
     (\<exists>pg x. pg \<in> set (fetchPolicyGroups w ids) \<and> pg_PolicyType pg = t \<and> pg_Policy pg = JsonObj x \<and> p = f x)"
  by (fastforce simp: group_policies_def set_map_filter json_Unmarshal_Some split: if_splits)

lemma DecideUnenumerableShell_iff:
  assumes "TrimSpace command \<noteq> []"
  shows "cr_Decision (DecideUnenumerableShell lang command e allow deny) = Deny \<longleftrightarrow> (\<exists>r\<in>set deny. isWildcardAll r)"
    and "cr_Decision (DecideUnenumerableShell lang command e allow deny) = Allow \<longleftrightarrow>
      deny = [] \<and> (\<exists>r\<in>set allow. isWildcardAll r)"
  using assms
  by (auto simp: DecideUnenumerableShell_def find_eq_None_iff split: option.splits dest: find_SomeD)

end
