(* ===== verification/ShellCommand.thy ===== *)
theory ShellCommand
  imports CommandRule
begin

text \<open>
  Splitting a shell command into the units a policy judges (\<^verbatim>\<open>internal/ai/policy/command_shell.go\<close>)
  and the word lexer of the command DSLs (\<^verbatim>\<open>internal/ai/cmdline/cmdline.go\<close>).

  The shell grammar is the \<^verbatim>\<open>mvdan.cc/sh/v3/syntax\<close> package, which is not part of the program: its
  syntax tree is a datatype with the nodes and fields the program reads, and its parser, its
  word printer and the spelling of its redirection operators are the parameter \<open>shell\<close>. Where
  the program walks a node with \<open>syntax.Walk\<close> until it meets statements, the datatype carries
  the statements that walk meets, in order (\<open>OtherCmd\<close>, \<open>ParamExp\<close>, \<open>ArithmExp\<close>). The body of a
  here-document, the elements of an array assignment and the index of an assignment are in the
  tree although the program never looks at them.
\<close>

section \<open>Syntax trees\<close>

datatype redir_op =
  RdrOut | AppOut | RdrIn | RdrInOut | DplIn | DplOut | RdrClob | AppClob | Hdoc | DashHdoc
  | WordHdoc | RdrAll | RdrAllClob | AppAll | AppAllClob

datatype word = Word "word_part list"
and word_part =
    Lit string
  | SglQuoted bool string
  | DblQuoted "word_part list"
  | CmdSubst "stmt list"
  | ProcSubst "stmt list"
  | ParamExp "stmt list"
  | ArithmExp "stmt list"
  | OtherPart
and redir = Redir redir_op "word option" "word option"
and assign = Assign "string option" "word option" "word list" "stmt list"
and command =
    CallExpr "assign list" "word list"
  | BinaryCmd stmt stmt
  | FuncDecl stmt
  | OtherCmd "stmt list"
and stmt = Stmt "redir list" "command option" bool bool

record shell =
  sh_Parse :: "string \<Rightarrow> string + stmt list"
  sh_Print :: "word \<Rightarrow> string"
  sh_OpString :: "redir_op \<Rightarrow> string"

section \<open>Extraction\<close>

definition safeRedirTargets :: "string list" where
  "safeRedirTargets = [''/dev/null'', ''/dev/stderr'', ''/dev/stdout'']"

definition isOutputWriteRedir :: "redir_op \<Rightarrow> bool" where
  "isOutputWriteRedir op =
     (case op of RdrOut \<Rightarrow> True | AppOut \<Rightarrow> True | RdrInOut \<Rightarrow> True | RdrClob \<Rightarrow> True | AppClob \<Rightarrow> True
      | RdrAll \<Rightarrow> True | RdrAllClob \<Rightarrow> True | AppAll \<Rightarrow> True | AppAllClob \<Rightarrow> True | _ \<Rightarrow> False)"

definition printWord :: "shell \<Rightarrow> word option \<Rightarrow> string" where
  "printWord sh w = (case w of None \<Rightarrow> [] | Some w \<Rightarrow> TrimSpace (sh_Print sh w))"

definition printWords :: "shell \<Rightarrow> word list \<Rightarrow> string" where
  "printWords sh ws = TrimSpace (Join (map (sh_Print sh) ws) '' '')"

definition printAssign :: "shell \<Rightarrow> assign \<Rightarrow> string" where
  "printAssign sh a =
     (case a of Assign name val _ _ \<Rightarrow>
        (case name of None \<Rightarrow> [] | Some n \<Rightarrow> n) @ ''='' @
        (case val of None \<Rightarrow> [] | Some w \<Rightarrow> sh_Print sh w))"

definition printCall :: "shell \<Rightarrow> assign list \<Rightarrow> word list \<Rightarrow> string" where
  "printCall sh assigns args =
     (let buf = Join (map (printAssign sh) assigns) '' ''; as = printWords sh args in
      if as = [] then TrimSpace buf
      else TrimSpace ((if buf = [] then [] else buf @ '' '') @ as))"

definition redirCommand :: "shell \<Rightarrow> redir_op \<Rightarrow> word option \<Rightarrow> string list" where
  "redirCommand sh op w =
     (if \<not> isOutputWriteRedir op then []
      else (let target = printWord sh w in
        if target = [] then [] else if target \<in> set safeRedirTargets then []
        else [sh_OpString sh op @ '' '' @ target]))"

text \<open>
  The closures append to the shared slice \<open>cmds\<close>; each definition here returns what it appends,
  in order.
\<close>

fun extractFromWord :: "shell \<Rightarrow> word \<Rightarrow> string list"
  and extractFromWordPart :: "shell \<Rightarrow> word_part \<Rightarrow> string list"
  and extractFromRedir :: "shell \<Rightarrow> redir \<Rightarrow> string list"
  and extractFromAssign :: "shell \<Rightarrow> assign \<Rightarrow> string list"
  and extractFromCommand :: "shell \<Rightarrow> command \<Rightarrow> string list"
  and extractFromStmt :: "shell \<Rightarrow> stmt \<Rightarrow> string list"
where
  "extractFromWord sh (Word ps) = concat (map (extractFromWordPart sh) ps)"
| "extractFromWordPart sh (Lit s) = []"
| "extractFromWordPart sh (SglQuoted d s) = []"
| "extractFromWordPart sh (DblQuoted ps) = concat (map (extractFromWordPart sh) ps)"
| "extractFromWordPart sh (CmdSubst ss) = concat (map (extractFromStmt sh) ss)"
| "extractFromWordPart sh (ProcSubst ss) = concat (map (extractFromStmt sh) ss)"
| "extractFromWordPart sh (ParamExp ss) = concat (map (extractFromStmt sh) ss)"
| "extractFromWordPart sh (ArithmExp ss) = concat (map (extractFromStmt sh) ss)"
| "extractFromWordPart sh OtherPart = []"
| "extractFromRedir sh (Redir op w hdoc) =
     (case w of None \<Rightarrow> [] | Some w' \<Rightarrow> extractFromWord sh w') @ redirCommand sh op w"
| "extractFromAssign sh (Assign name val elems idx) =
     (case val of None \<Rightarrow> [] | Some w \<Rightarrow> extractFromWord sh w)"
| "extractFromCommand sh (BinaryCmd x y) = extractFromStmt sh x @ extractFromStmt sh y"
| "extractFromCommand sh (CallExpr assigns args) =
     concat (map (extractFromAssign sh) assigns) @
     (if args = [] then []
      else (let s = printCall sh assigns args in if s = [] then [] else [s]) @
           concat (map (extractFromWord sh) args))"
| "extractFromCommand sh (FuncDecl body) = []"
| "extractFromCommand sh (OtherCmd ss) = concat (map (extractFromStmt sh) ss)"
| "extractFromStmt sh (Stmt redirs cmd bg neg) =
     concat (map (extractFromRedir sh) redirs) @
     (case cmd of None \<Rightarrow> [] | Some c \<Rightarrow> extractFromCommand sh c)"

definition ExtractSubCommands :: "shell \<Rightarrow> string \<Rightarrow> string + string list" where
  "ExtractSubCommands sh command =
     (case sh_Parse sh command of
        Inl e \<Rightarrow> Inl (''shell parse failed: '' @ e)
      | Inr stmts \<Rightarrow> Inr (concat (map (extractFromStmt sh) stmts)))"

section \<open>What a statement may run\<close>

text \<open>
  The specification: \<open>stmt_runs full s asg ar\<close> when running \<open>s\<close> may run the simple command with
  assignments \<open>asg\<close> and arguments \<open>ar\<close>: directly, through a pipeline or list, inside a control
  structure, or in a substitution of a word it expands. A declared function body does not run.
  With \<open>full\<close> it also counts the places the shell expands and the extraction leaves out: the
  body of a here-document, array elements and the index of an assignment.
\<close>

inductive stmt_runs :: "bool \<Rightarrow> stmt \<Rightarrow> assign list \<Rightarrow> word list \<Rightarrow> bool"
  and command_runs :: "bool \<Rightarrow> command \<Rightarrow> assign list \<Rightarrow> word list \<Rightarrow> bool"
  and word_runs :: "bool \<Rightarrow> word \<Rightarrow> assign list \<Rightarrow> word list \<Rightarrow> bool"
  and part_runs :: "bool \<Rightarrow> word_part \<Rightarrow> assign list \<Rightarrow> word list \<Rightarrow> bool"
  for full :: bool
where
  runs_redir: "Redir op (Some w) hdoc \<in> set redirs \<Longrightarrow> word_runs full w a r \<Longrightarrow>
     stmt_runs full (Stmt redirs c bg neg) a r"
| runs_hdoc: "full \<Longrightarrow> Redir op w (Some h) \<in> set redirs \<Longrightarrow> word_runs full h a r \<Longrightarrow>
     stmt_runs full (Stmt redirs c bg neg) a r"
| runs_cmd: "command_runs full c a r \<Longrightarrow> stmt_runs full (Stmt redirs (Some c) bg neg) a r"
| runs_call: "r \<noteq> [] \<Longrightarrow> command_runs full (CallExpr a r) a r"
| runs_arg: "w \<in> set args \<Longrightarrow> word_runs full w a r \<Longrightarrow> command_runs full (CallExpr assigns args) a r"
| runs_assign: "Assign n (Some w) elems idx \<in> set assigns \<Longrightarrow> word_runs full w a r \<Longrightarrow>
     command_runs full (CallExpr assigns args) a r"
| runs_elem: "full \<Longrightarrow> Assign n v elems idx \<in> set assigns \<Longrightarrow> w \<in> set elems \<Longrightarrow> word_runs full w a r \<Longrightarrow>
     command_runs full (CallExpr assigns args) a r"
| runs_index: "full \<Longrightarrow> Assign n v elems idx \<in> set assigns \<Longrightarrow> s \<in> set idx \<Longrightarrow> stmt_runs full s a r \<Longrightarrow>
     command_runs full (CallExpr assigns args) a r"
| runs_left: "stmt_runs full x a r \<Longrightarrow> command_runs full (BinaryCmd x y) a r"
| runs_right: "stmt_runs full y a r \<Longrightarrow> command_runs full (BinaryCmd x y) a r"
| runs_other: "s \<in> set ss \<Longrightarrow> stmt_runs full s a r \<Longrightarrow> command_runs full (OtherCmd ss) a r"
| runs_word: "p \<in> set ps \<Longrightarrow> part_runs full p a r \<Longrightarrow> word_runs full (Word ps) a r"
| runs_dbl: "p \<in> set ps \<Longrightarrow> part_runs full p a r \<Longrightarrow> part_runs full (DblQuoted ps) a r"
| runs_cmdsubst: "s \<in> set ss \<Longrightarrow> stmt_runs full s a r \<Longrightarrow> part_runs full (CmdSubst ss) a r"
| runs_procsubst: "s \<in> set ss \<Longrightarrow> stmt_runs full s a r \<Longrightarrow> part_runs full (ProcSubst ss) a r"
| runs_param: "s \<in> set ss \<Longrightarrow> stmt_runs full s a r \<Longrightarrow> part_runs full (ParamExp ss) a r"
| runs_arithm: "s \<in> set ss \<Longrightarrow> stmt_runs full s a r \<Longrightarrow> part_runs full (ArithmExp ss) a r"

text \<open>The extraction misses no simple command outside those three places.\<close>

lemma extract_complete:
  "stmt_runs full s a r \<Longrightarrow> \<not> full \<Longrightarrow> printCall sh a r \<noteq> [] \<Longrightarrow> printCall sh a r \<in> set (extractFromStmt sh s)"
  "command_runs full c a r \<Longrightarrow> \<not> full \<Longrightarrow> printCall sh a r \<noteq> [] \<Longrightarrow> printCall sh a r \<in> set (extractFromCommand sh c)"
  "word_runs full w a r \<Longrightarrow> \<not> full \<Longrightarrow> printCall sh a r \<noteq> [] \<Longrightarrow> printCall sh a r \<in> set (extractFromWord sh w)"
  "part_runs full p a r \<Longrightarrow> \<not> full \<Longrightarrow> printCall sh a r \<noteq> [] \<Longrightarrow> printCall sh a r \<in> set (extractFromWordPart sh p)"
proof (induction rule: stmt_runs_command_runs_word_runs_part_runs.inducts)
  case (runs_redir op w hdoc redirs a r c bg neg)
  then show ?case by (force intro!: bexI [where x = "Redir op (Some w) hdoc"])
next
  case (runs_assign n w elems idx assigns a r args)
  then show ?case by (force intro!: bexI [where x = "Assign n (Some w) elems idx"])
qed (auto simp: Let_def)

text \<open>The same for output redirections: every write to a file the shell opens is a unit.\<close>

lemma extract_redir:
  "Redir op w hdoc \<in> set redirs \<Longrightarrow> set (redirCommand sh op w) \<subseteq> set (extractFromStmt sh (Stmt redirs c bg neg))"
  by (force intro: bexI [where x = "Redir op w hdoc"])

end
