(* ===== verification/Cmdline.thy ===== *)
theory Cmdline
  imports ShellCommand "HOL-Library.List_Lexorder" "HOL-Library.Char_ord"
begin

text \<open>
  The lexer of the command DSLs (\<^verbatim>\<open>internal/ai/cmdline/cmdline.go\<close>): \<open>Words\<close> on the shell tree,
  \<open>Parse\<close> and \<open>Render\<close> of a command with flags, and the quoting they share. Errors are the
  messages of the code. The lemmas show that unescaping undoes the quoting of a value and that
  \<open>Parse\<close> reads back the words \<open>Render\<close> writes.
\<close>

section \<open>Words\<close>

fun unescapeDblQuotedLit :: "string \<Rightarrow> string" where
  "unescapeDblQuotedLit [] = []"
| "unescapeDblQuotedLit [c] = [c]"
| "unescapeDblQuotedLit (c # d # s) =
     (if c = CHR 0x5C \<and> d \<in> {CHR 0x5C, CHR 0x22, CHR ''$'', CHR 0x60} then d # unescapeDblQuotedLit s
      else if c = CHR 0x5C \<and> d = CHR 0x0A then unescapeDblQuotedLit s
      else c # unescapeDblQuotedLit (d # s))"

fun unescapeUnquotedLit :: "string \<Rightarrow> string" where
  "unescapeUnquotedLit [] = []"
| "unescapeUnquotedLit [c] = [c]"
| "unescapeUnquotedLit (c # d # s) =
     (if c = CHR 0x5C then (if d \<noteq> CHR 0x0A then d # unescapeUnquotedLit s else unescapeUnquotedLit s)
      else c # unescapeUnquotedLit (d # s))"

definition unsupported_construct :: string where
  "unsupported_construct = ''unsupported shell construct in command''"

text \<open>The text of one part, or the error; the builder \<open>b\<close> is the text so far.\<close>

function appendWordPart :: "string \<Rightarrow> word_part \<Rightarrow> bool \<Rightarrow> string + string"
  and appendWordParts :: "string \<Rightarrow> word_part list \<Rightarrow> bool \<Rightarrow> string + string"
where
  "appendWordPart b part inDblQuoted =
     (case part of
        Lit v \<Rightarrow> Inr (b @ (if inDblQuoted then unescapeDblQuotedLit v else v))
      | SglQuoted d v \<Rightarrow> Inr (b @ v)
      | DblQuoted ps \<Rightarrow> appendWordParts b ps True
      | _ \<Rightarrow> Inl unsupported_construct)"
| "appendWordParts b [] inDblQuoted = Inr b"
| "appendWordParts b (p # ps) inDblQuoted =
     (case appendWordPart b p inDblQuoted of
        Inl e \<Rightarrow> Inl e
      | Inr b' \<Rightarrow> appendWordParts b' ps inDblQuoted)"
  by pat_completeness auto
termination
  by (relation "measure (\<lambda>x. case x of Inl (b, p, d) \<Rightarrow> 2 * size p
        | Inr (b, ps, d) \<Rightarrow> 2 * size_list size ps + 1)") auto

fun wordLiteral :: "word \<Rightarrow> string + string" where
  "wordLiteral (Word ps) = appendWordParts [] ps False"

fun word_literals :: "word list \<Rightarrow> string + string list" where
  "word_literals [] = Inr []"
| "word_literals (w # ws) =
     (case wordLiteral w of
        Inl e \<Rightarrow> Inl e
      | Inr s \<Rightarrow> (case word_literals ws of Inl e \<Rightarrow> Inl e | Inr ss \<Rightarrow> Inr (s # ss)))"

definition Words :: "shell \<Rightarrow> string \<Rightarrow> string + string list" where
  "Words sh s =
     (case sh_Parse sh s of
        Inl e \<Rightarrow> Inl (''invalid command: '' @ e)
      | Inr [] \<Rightarrow> Inl ''empty command''
      | Inr [Stmt redirs cmd bg neg] \<Rightarrow>
          if redirs \<noteq> [] then Inl ''shell redirection is not supported''
          else if bg then Inl ''shell backgrounding (&) is not supported''
          else if neg then Inl ''shell negation (!) is not supported''
          else (case cmd of
              Some (CallExpr assigns args) \<Rightarrow>
                if assigns \<noteq> [] then Inl ''shell variable assignments are not supported''
                else (case word_literals args of
                    Inl e \<Rightarrow> Inl e
                  | Inr [] \<Rightarrow> Inl ''empty command''
                  | Inr ws \<Rightarrow> Inr ws)
            | _ \<Rightarrow> Inl ''only a simple command is supported'')
      | Inr _ \<Rightarrow> Inl ''only a single command is supported'')"

fun dbl_literals :: "word_part list \<Rightarrow> string option" where
  "dbl_literals [] = Some []"
| "dbl_literals (Lit v # ps) = map_option (\<lambda>s. unescapeDblQuotedLit v @ s) (dbl_literals ps)"
| "dbl_literals (_ # ps) = None"

fun shell_parts :: "word_part list \<Rightarrow> string option" where
  "shell_parts [] = Some []"
| "shell_parts (Lit v # ps) = map_option (\<lambda>s. unescapeUnquotedLit v @ s) (shell_parts ps)"
| "shell_parts (SglQuoted dollar v # ps) =
     (if dollar then None else map_option (\<lambda>s. v @ s) (shell_parts ps))"
| "shell_parts (DblQuoted qs # ps) =
     (case dbl_literals qs of None \<Rightarrow> None | Some v \<Rightarrow> map_option (\<lambda>s. v @ s) (shell_parts ps))"
| "shell_parts (_ # ps) = None"

fun ShellValue :: "word \<Rightarrow> string option" where
  "ShellValue (Word ps) = shell_parts ps"

section \<open>Quoting\<close>

definition safe_char :: "char \<Rightarrow> bool" where
  "safe_char c \<longleftrightarrow> name_char c \<or> c \<in> set ''@%+=:,./-''"

definition safeUnquotedWord :: "string \<Rightarrow> bool" where
  "safeUnquotedWord s \<longleftrightarrow> s \<noteq> [] \<and> list_all safe_char s"

definition safeVerbWord :: "string \<Rightarrow> bool" where
  "safeVerbWord s \<longleftrightarrow> s \<noteq> [] \<and> list_all (\<lambda>c. safe_char c \<and> c \<noteq> CHR ''='') s"

definition ValidFlagName :: "string \<Rightarrow> bool" where
  "ValidFlagName name \<longleftrightarrow> safeUnquotedWord name \<and> CHR ''='' \<notin> set name"

definition dbl_special :: string where
  "dbl_special = [CHR 0x5C, CHR 0x22, CHR ''$'', CHR 0x60]"

definition escapeDblQuoted :: "string \<Rightarrow> string" where
  "escapeDblQuoted s = concat (map (\<lambda>c. if c \<in> set dbl_special then [CHR 0x5C, c] else [c]) s)"

definition QuoteIfNeeded :: "string \<Rightarrow> string" where
  "QuoteIfNeeded s =
     (if safeUnquotedWord s then s
      else if CHR 0x27 \<notin> set s then CHR 0x27 # s @ [CHR 0x27]
      else CHR 0x22 # escapeDblQuoted s @ [CHR 0x22])"

section \<open>Commands\<close>

record Command =
  c_Verb :: string
  c_Args :: "string list"
  c_Flags :: "(string \<times> string) list"

text \<open>The option \<open>WithValueFlags\<close> is the predicate \<open>takesValue\<close>; without it no flag takes a value.\<close>

type_synonym value_flags = "string \<Rightarrow> string \<Rightarrow> bool"

definition no_value_flags :: value_flags where
  "no_value_flags verb name = False"

definition verbSurvivesCommandPosition :: "shell \<Rightarrow> string \<Rightarrow> bool" where
  "verbSurvivesCommandPosition sh verb \<longleftrightarrow> Words sh (verb @ '' __probe__'') = Inr [verb, ''__probe__'']"

datatype parse_error =
    WordsError string
  | InvalidVerb string
  | KeywordVerb string
  | MalformedFlag string
  | InvalidFlagName string
  | MissingFlagValue string
  | DuplicateFlag string

definition validateVerb :: "shell \<Rightarrow> string \<Rightarrow> parse_error option" where
  "validateVerb sh verb =
     (if \<not> safeVerbWord verb then Some (InvalidVerb verb)
      else if \<not> verbSurvivesCommandPosition sh verb then Some (KeywordVerb verb)
      else None)"

definition add_cflag :: "string \<Rightarrow> string \<Rightarrow> Command \<Rightarrow> parse_error + Command" where
  "add_cflag name v c =
     (case map_of (c_Flags c) name of
        Some _ \<Rightarrow> Inl (DuplicateFlag name)
      | None \<Rightarrow> Inr (c \<lparr> c_Flags := put name v (c_Flags c) \<rparr>))"

fun parse_words :: "value_flags \<Rightarrow> string list \<Rightarrow> Command \<Rightarrow> parse_error + Command" where
  "parse_words takes [] c = Inr c"
| "parse_words takes (w # rest) c =
     (if \<not> HasPrefix w ''--'' then parse_words takes rest (c \<lparr> c_Args := c_Args c @ [w] \<rparr>)
      else (case Cut (drop 2 w) (CHR ''='') of (name, val, found) \<Rightarrow>
        if name = [] then Inl (MalformedFlag w)
        else if \<not> safeUnquotedWord name then Inl (InvalidFlagName name)
        else if \<not> found \<and> takes (c_Verb c) name then
          (case rest of
             [] \<Rightarrow> Inl (MissingFlagValue name)
           | v # rest' \<Rightarrow>
               if HasPrefix v ''--'' then Inl (MissingFlagValue name)
               else (case add_cflag name v c of Inl e \<Rightarrow> Inl e | Inr c' \<Rightarrow> parse_words takes rest' c'))
        else (case add_cflag name (if found then val else ''true'') c of
            Inl e \<Rightarrow> Inl e | Inr c' \<Rightarrow> parse_words takes rest c')))"

definition Parse :: "shell \<Rightarrow> value_flags \<Rightarrow> string \<Rightarrow> parse_error + Command" where
  "Parse sh takes s =
     (case Words sh s of
        Inl e \<Rightarrow> Inl (WordsError e)
      | Inr [] \<Rightarrow> Inl (WordsError ''empty command'')
      | Inr (verb # rest) \<Rightarrow>
          (case validateVerb sh verb of
             Some e \<Rightarrow> Inl e
           | None \<Rightarrow> parse_words takes rest \<lparr> c_Verb = verb, c_Args = [], c_Flags = [] \<rparr>))"

definition flag_value :: "Command \<Rightarrow> string \<Rightarrow> string" where
  "flag_value c name = (case map_of (c_Flags c) name of None \<Rightarrow> [] | Some v \<Rightarrow> v)"

definition flag_names :: "Command \<Rightarrow> string list" where
  "flag_names c = sort (remdups (map fst (c_Flags c)))"

definition render_flag :: "value_flags \<Rightarrow> (string \<Rightarrow> string) \<Rightarrow> Command \<Rightarrow> string \<Rightarrow> string" where
  "render_flag takes quote c name =
     (if flag_value c name = ''true'' \<and> \<not> takes (c_Verb c) name then ''--'' @ name
      else ''--'' @ name @ ''='' @ quote (flag_value c name))"

definition render_words :: "value_flags \<Rightarrow> (string \<Rightarrow> string) \<Rightarrow> Command \<Rightarrow> string list" where
  "render_words takes quote c =
     c_Verb c # map quote (c_Args c) @ map (render_flag takes quote c) (flag_names c)"

definition Render :: "value_flags \<Rightarrow> Command \<Rightarrow> string" where
  "Render takes c = Join (render_words takes QuoteIfNeeded c) '' ''"

section \<open>Facts\<close>

lemma escapeDblQuoted_simps [simp]:
  "escapeDblQuoted [] = []"
  "escapeDblQuoted (c # s) = (if c \<in> set dbl_special then [CHR 0x5C, c] else [c]) @ escapeDblQuoted s"
  by (simp_all add: escapeDblQuoted_def)

lemma unescape_plain: "c \<noteq> CHR 0x5C \<Longrightarrow> unescapeDblQuotedLit (c # s) = c # unescapeDblQuotedLit s"
  by (cases s) auto

lemma unescape_escape: "unescapeDblQuotedLit (escapeDblQuoted s) = s"
proof (induction s)
  case (Cons c s)
  show ?case
  proof (cases "c \<in> set dbl_special")
    case True
    then have "c \<in> {CHR 0x5C, CHR 0x22, CHR ''$'', CHR 0x60}" by (auto simp: dbl_special_def)
    with True Cons show ?thesis by simp
  next
    case False
    then have "c \<noteq> CHR 0x5C" by (auto simp: dbl_special_def)
    with False Cons show ?thesis by (simp add: unescape_plain)
  qed
qed simp

lemma put_new: "k \<notin> fst ` set m \<Longrightarrow> put k v m = m @ [(k, v)]"
  by (induction m) force+

lemma parse_words_args:
  "\<forall>a\<in>set as. \<not> HasPrefix a ''--'' \<Longrightarrow>
     parse_words takes (as @ rest) c = parse_words takes rest (c \<lparr> c_Args := c_Args c @ as \<rparr>)"
  by (induction as arbitrary: c) auto

lemma parse_words_flag:
  assumes "ValidFlagName n" "n \<notin> fst ` set (c_Flags c)" "c_Verb c = c_Verb c0"
  shows "parse_words takes (render_flag takes id c0 n # rest) c =
     parse_words takes rest (c \<lparr> c_Flags := c_Flags c @ [(n, flag_value c0 n)] \<rparr>)"
proof -
  from assms(1) have n: "n \<noteq> []" "safeUnquotedWord n" "CHR ''='' \<notin> set n"
    by (auto simp: ValidFlagName_def safeUnquotedWord_def)
  have add: "add_cflag n v c = Inr (c \<lparr> c_Flags := c_Flags c @ [(n, v)] \<rparr>)" for v
    using assms(2) by (simp add: add_cflag_def put_new map_of_eq_None_iff [THEN iffD2])
  show ?thesis
  proof (cases "flag_value c0 n = ''true'' \<and> \<not> takes (c_Verb c0) n")
    case True
    then show ?thesis using n add assms(3) by (simp add: render_flag_def)
  next
    case False
    then show ?thesis using n add Cut_append [OF n(3), of "flag_value c0 n"]
      by (auto simp: render_flag_def)
  qed
qed

lemma parse_words_flags:
  assumes "c_Verb c = c_Verb c0"
  shows "\<forall>n\<in>set ns. ValidFlagName n \<Longrightarrow> distinct ns \<Longrightarrow> set ns \<inter> fst ` set (c_Flags c) = {} \<Longrightarrow>
     parse_words takes (map (render_flag takes id c0) ns) c =
       Inr (c \<lparr> c_Flags := c_Flags c @ map (\<lambda>n. (n, flag_value c0 n)) ns \<rparr>)"
  using assms
proof (induction ns arbitrary: c)
  case (Cons n ns)
  let ?c = "c \<lparr> c_Flags := c_Flags c @ [(n, flag_value c0 n)] \<rparr>"
  have "parse_words takes (map (render_flag takes id c0) (n # ns)) c =
      parse_words takes (map (render_flag takes id c0) ns) ?c"
    using Cons.prems by (simp only: list.map) (intro parse_words_flag, auto)
  also have "\<dots> = Inr (?c \<lparr> c_Flags := c_Flags ?c @ map (\<lambda>n. (n, flag_value c0 n)) ns \<rparr>)"
    using Cons.prems by (intro Cons.IH) auto
  also have "\<dots> = Inr (c \<lparr> c_Flags := c_Flags c @ map (\<lambda>n. (n, flag_value c0 n)) (n # ns) \<rparr>)"
    by simp
  finally show ?case .
qed simp

lemma flag_values_map:
  assumes "distinct (map fst (c_Flags c))"
  shows "map (\<lambda>n. (n, flag_value c n)) (map fst (c_Flags c)) = c_Flags c"
  using assms by (auto simp: flag_value_def intro!: map_idI split: option.splits)

lemma parse_render_words:
  assumes "\<forall>a\<in>set (c_Args c). \<not> HasPrefix a ''--''"
    and "\<forall>n\<in>fst ` set (c_Flags c). ValidFlagName n"
    and "sorted (map fst (c_Flags c))" "distinct (map fst (c_Flags c))"
  shows "parse_words takes (tl (render_words takes id c)) \<lparr> c_Verb = c_Verb c, c_Args = [], c_Flags = [] \<rparr> = Inr c"
proof -
  have names: "flag_names c = map fst (c_Flags c)"
    using assms(3,4) by (simp add: flag_names_def distinct_remdups_id sorted_sort_id)
  let ?c = "\<lparr> c_Verb = c_Verb c, c_Args = c_Args c, c_Flags = [] \<rparr>"
  have "parse_words takes (map (render_flag takes id c) (map fst (c_Flags c))) ?c =
      Inr (?c \<lparr> c_Flags := c_Flags ?c @ map (\<lambda>n. (n, flag_value c n)) (map fst (c_Flags c)) \<rparr>)"
    using assms(2,4) by (intro parse_words_flags) auto
  also have "\<dots> = Inr c"
    unfolding flag_values_map [OF assms(4)] by simp
  finally show ?thesis
    using assms(1) by (simp only: render_words_def list.sel list.map_id parse_words_args names) simp
qed

end
