(* ===== verification/RuleMatchers.thy ===== *)
theory RuleMatchers
  imports PolicyResolve Cmdline
begin

text \<open>
  The matchers of the non-shell kinds and the checks built on them: Redis and etcd
  (\<^verbatim>\<open>internal/ai/policy/redis_policy.go\<close>), MongoDB (\<^verbatim>\<open>mongo_rule.go\<close>, \<^verbatim>\<open>mongo_policy.go\<close>), Kafka
  (\<^verbatim>\<open>kafka_policy.go\<close>), object storage (\<^verbatim>\<open>oss_policy.go\<close>), Kubernetes (\<^verbatim>\<open>k8s_policy.go\<close>) and file
  paths (\<^verbatim>\<open>path_policy.go\<close>). What these checks have in common, that a deny rule always wins
  and that a non-empty allow list must cover every unit, is the locale \<open>deny_first\<close>, with one
  interpretation per kind.
\<close>

section \<open>Redis and etcd\<close>

definition redisMultiWordCmds :: "string list" where
  "redisMultiWordCmds =
     [''CONFIG'', ''ACL'', ''CLUSTER'', ''CLIENT'', ''DEBUG'', ''MEMORY'', ''MODULE'', ''SCRIPT'',
      ''SLOWLOG'', ''OBJECT'', ''XGROUP'', ''XINFO'']"

definition splitRulePair :: "shell \<Rightarrow> string \<Rightarrow> string \<Rightarrow> string list \<times> string list" where
  "splitRulePair sh rule cmd =
     (case (Words sh rule, Words sh cmd) of
        (Inr ruleTokens, Inr cmdTokens) \<Rightarrow> (ruleTokens, cmdTokens)
      | _ \<Rightarrow> (Fields rule, Fields cmd))"

record redisCommand =
  rc_Name :: string
  rc_Args :: "string list"

definition parseRedisCommand :: "string list \<Rightarrow> redisCommand" where
  "parseRedisCommand tokens =
     (case tokens of
        [] \<Rightarrow> \<lparr> rc_Name = [], rc_Args = [] \<rparr>
      | t # rest \<Rightarrow>
          (let name = ToUpper t in
           case rest of
             s # rest' \<Rightarrow>
               if name \<in> set redisMultiWordCmds
               then \<lparr> rc_Name = name @ '' '' @ ToUpper s, rc_Args = rest' \<rparr>
               else \<lparr> rc_Name = name, rc_Args = rest \<rparr>
           | [] \<Rightarrow> \<lparr> rc_Name = name, rc_Args = [] \<rparr>))"

definition path_matched :: "string \<Rightarrow> string \<Rightarrow> bool" where
  "path_matched pattern name \<longleftrightarrow> path_Match pattern name = Some True"

definition MatchRedisRule :: "shell \<Rightarrow> string \<Rightarrow> string \<Rightarrow> bool" where
  "MatchRedisRule sh rule cmd =
     (case splitRulePair sh rule cmd of (ruleTokens, cmdTokens) \<Rightarrow>
        let command = parseRedisCommand cmdTokens in
        if rc_Name command = [] then False
        else if isWildcardAll rule then True
        else if ruleTokens = [] then False
        else if ToUpper (hd ruleTokens) \<in> set redisMultiWordCmds \<and> length ruleTokens = 2 \<and>
                isWildcardAll (ruleTokens ! 1) \<and> 2 \<le> length cmdTokens \<and>
                EqualFold (hd ruleTokens) (hd cmdTokens) then True
        else (let r = parseRedisCommand ruleTokens in
          if rc_Name r \<noteq> rc_Name command then False
          else if rc_Args r = [] \<or> rc_Args r = [''*''] then True
          else if rc_Args command = [] then False
          else path_matched (hd (rc_Args r)) (hd (rc_Args command))))"

text \<open>
  The loop both Redis-shaped and MongoDB checks run: the first deny rule that matches denies;
  with an allow list, a match allows and anything else needs confirmation; without one the
  command is allowed.
\<close>

definition first_match_check ::
  "(string \<Rightarrow> 'c \<Rightarrow> bool) \<Rightarrow> ('c \<Rightarrow> string) \<Rightarrow> (string \<Rightarrow> CheckResult) \<Rightarrow> string list \<Rightarrow> string list \<Rightarrow> 'c \<Rightarrow> CheckResult" where
  "first_match_check matchFn msg allowed allow deny cmd =
     (case find (\<lambda>rule. matchFn rule cmd) deny of
        Some rule \<Rightarrow> deny_policy (msg cmd) rule
      | None \<Rightarrow>
          if allow \<noteq> [] then
            (case find (\<lambda>rule. matchFn rule cmd) allow of
               Some rule \<Rightarrow> allowed rule
             | None \<Rightarrow> need_confirm)
          else allow_policy [])"

definition checkRedisPolicyRules :: "shell \<Rightarrow> string \<Rightarrow> RedisPolicy option \<Rightarrow> string \<Rightarrow> CheckResult" where
  "checkRedisPolicyRules sh lang policy cmd =
     (case policy of
        None \<Rightarrow> allow_policy []
      | Some p \<Rightarrow> first_match_check (MatchRedisRule sh)
          (\<lambda>cmd. PolicyFmt lang ''Redis command denied by policy: %s''
                   (''Redis '' @ utf8 [229, 145, 189, 228, 187, 164, 232, 162, 171, 231, 173, 150,
                   231, 149, 165, 231, 166, 129, 230, 173, 162] @ '': %s'') [cmd])
          (\<lambda>rule. allow_policy []) (rp_AllowList p) (rp_DenyList p) cmd)"

definition CheckRedisPolicy :: "shell \<Rightarrow> world \<Rightarrow> RedisPolicy option \<Rightarrow> string \<Rightarrow> CheckResult" where
  "CheckRedisPolicy sh w policy cmd =
     checkRedisPolicyRules sh (w_Lang w) (Some (EffectiveRedisPolicy w policy)) cmd"

definition CheckEtcdPolicy :: "shell \<Rightarrow> world \<Rightarrow> EtcdPolicy option \<Rightarrow> string \<Rightarrow> CheckResult" where
  "CheckEtcdPolicy sh w policy cmd =
     checkRedisPolicyRules sh (w_Lang w) (Some (EffectiveEtcdPolicy w policy)) cmd"

section \<open>MongoDB\<close>

definition mongoRuleParts :: "string list \<Rightarrow> string \<times> string" where
  "mongoRuleParts tokens =
     (case tokens of
        [] \<Rightarrow> ([], [])
      | op # rest \<Rightarrow>
          (case find (\<lambda>t. \<not> HasPrefix t ''--'') rest of None \<Rightarrow> (op, []) | Some t \<Rightarrow> (op, t)))"

definition MatchMongoRule :: "shell \<Rightarrow> string \<Rightarrow> string \<Rightarrow> bool" where
  "MatchMongoRule sh rule command =
     (case splitRulePair sh rule command of (ruleTokens, cmdTokens) \<Rightarrow>
      case mongoRuleParts cmdTokens of (cmdOp, cmdCollection) \<Rightarrow>
        if cmdOp = [] then False
        else if isWildcardAll rule then True
        else (case mongoRuleParts ruleTokens of (ruleOp, ruleCollection) \<Rightarrow>
          if ruleOp = [] \<or> \<not> EqualFold ruleOp cmdOp then False
          else if ruleCollection = [] \<or> ruleCollection = ''*'' then True
          else if cmdCollection = [] then False
          else path_matched ruleCollection cmdCollection))"

definition checkMongoPolicyRules :: "shell \<Rightarrow> string \<Rightarrow> MongoPolicy option \<Rightarrow> string \<Rightarrow> CheckResult" where
  "checkMongoPolicyRules sh lang policy command =
     (case policy of
        None \<Rightarrow> allow_policy []
      | Some p \<Rightarrow> first_match_check (MatchMongoRule sh)
          (\<lambda>cmd. PolicyFmt lang ''MongoDB operation %s denied by policy''
                   (''MongoDB '' @ utf8 [230, 147, 141, 228, 189, 156] @ '' %s '' @ utf8 [232, 162,
                   171, 231, 173, 150, 231, 149, 165, 231, 166, 129, 230, 173, 162]) [cmd])
          (\<lambda>rule. allow_policy []) (mp_AllowTypes p) (mp_DenyTypes p) command)"

definition CheckMongoDBPolicy :: "shell \<Rightarrow> world \<Rightarrow> MongoPolicy option \<Rightarrow> string \<Rightarrow> CheckResult" where
  "CheckMongoDBPolicy sh w p command =
     checkMongoPolicyRules sh (w_Lang w) (Some (EffectiveMongoPolicy w p)) command"

section \<open>Kafka\<close>

definition splitKafkaRule :: "string \<Rightarrow> (string \<times> string) option" where
  "splitKafkaRule v = (case Fields (TrimSpace v) of [action, resource] \<Rightarrow> Some (action, resource) | _ \<Rightarrow> None)"

definition MatchKafkaRule :: "string \<Rightarrow> string \<Rightarrow> bool" where
  "MatchKafkaRule rule command =
     (if isWildcardAll rule then splitKafkaRule command \<noteq> None
      else (case splitKafkaRule rule of
          None \<Rightarrow> False
        | Some (ruleAction, ruleResource) \<Rightarrow>
            (case splitKafkaRule command of
               None \<Rightarrow> False
             | Some (commandAction, commandResource) \<Rightarrow>
                 path_matched (ToLower ruleAction) (ToLower commandAction) \<and>
                 path_matched ruleResource commandResource)))"

definition checkKafkaPolicyRules :: "string \<Rightarrow> KafkaPolicy option \<Rightarrow> string \<Rightarrow> CheckResult" where
  "checkKafkaPolicyRules lang policy command =
     (case policy of
        None \<Rightarrow> allow_policy []
      | Some p \<Rightarrow> first_match_check MatchKafkaRule
          (\<lambda>cmd. PolicyFmt lang ''Kafka operation denied by policy: %s''
                   (''Kafka '' @ utf8 [230, 147, 141, 228, 189, 156, 232, 162, 171, 231, 173, 150,
                   231, 149, 165, 231, 166, 129, 230, 173, 162] @ '': %s'') [cmd])
          (\<lambda>rule. allow_policy rule) (rp_AllowList p) (rp_DenyList p) command)"

definition CheckKafkaPolicy :: "world \<Rightarrow> KafkaPolicy option \<Rightarrow> string \<Rightarrow> CheckResult" where
  "CheckKafkaPolicy w policy command =
     checkKafkaPolicyRules (w_Lang w) (Some (EffectiveKafkaPolicy w policy)) command"

section \<open>Object storage\<close>

text \<open>Cutting at the first white space; the second part starts with it.\<close>

fun cut_space :: "string \<Rightarrow> (string \<times> string) option" where
  "cut_space [] = None"
| "cut_space (c # s) =
     (if space_len (c # s) \<noteq> 0 then Some ([], c # s)
      else (case cut_space s of None \<Rightarrow> None | Some (a, b) \<Rightarrow> Some (c # a, b)))"

definition splitOSSRule :: "string \<Rightarrow> (string \<times> string) option" where
  "splitOSSRule v =
     (case cut_space (TrimSpace v) of
        None \<Rightarrow> None
      | Some (action, rest) \<Rightarrow>
          if action = [] then None
          else (let resource = TrimSpace rest in
            if resource = [] then None else Some (action, resource)))"

definition splitOSSResource :: "string \<Rightarrow> string \<times> string" where
  "splitOSSResource resource =
     (case IndexByte resource (CHR ''/'') of
        None \<Rightarrow> (resource, [])
      | Some idx \<Rightarrow> (take idx resource, drop (Suc idx) resource))"

definition matchOSSResource :: "string \<Rightarrow> string \<Rightarrow> bool" where
  "matchOSSResource rulePattern v =
     (case splitOSSResource rulePattern of (ruleBucket, ruleKey) \<Rightarrow>
      case splitOSSResource v of (valueBucket, valueKey) \<Rightarrow>
        if \<not> path_matched ruleBucket valueBucket then False
        else if ruleKey = [] then True
        else if HasSuffix ruleKey ''/'' then HasPrefix valueKey ruleKey
        else path_matched ruleKey valueKey)"

definition MatchOSSRule :: "string \<Rightarrow> string \<Rightarrow> bool" where
  "MatchOSSRule rule command =
     (if isWildcardAll rule then splitOSSRule command \<noteq> None
      else (case splitOSSRule rule of
          None \<Rightarrow> False
        | Some (ruleAction, ruleResource) \<Rightarrow>
            (case splitOSSRule command of
               None \<Rightarrow> False
             | Some (commandAction, commandResource) \<Rightarrow>
                 path_matched (ToLower ruleAction) (ToLower commandAction) \<and>
                 matchOSSResource ruleResource commandResource)))"

text \<open>The nested loops over units and rules that look for a denied unit.\<close>

fun first_denied :: "(string \<Rightarrow> 'c \<Rightarrow> bool) \<Rightarrow> string list \<Rightarrow> 'c list \<Rightarrow> ('c \<times> string) option" where
  "first_denied matchFn deny [] = None"
| "first_denied matchFn deny (u # us) =
     (case find (\<lambda>rule. matchFn rule u) deny of
        Some rule \<Rightarrow> Some (u, rule)
      | None \<Rightarrow> first_denied matchFn deny us)"

text \<open>
  The loop that asks an allow rule for every string; \<open>None\<close> when one has none. In the code an
  empty rule text counts as no match, since the matched rule is kept in a string.
\<close>

fun oss_allow_loop :: "string list \<Rightarrow> string \<Rightarrow> string list \<Rightarrow> string option" where
  "oss_allow_loop allow firstMatched [] = Some firstMatched"
| "oss_allow_loop allow firstMatched (ps # rest) =
     (case find (\<lambda>rule. MatchOSSRule rule ps) allow of
        None \<Rightarrow> None
      | Some matched \<Rightarrow>
          if matched = [] then None
          else oss_allow_loop allow (if firstMatched = [] then matched else firstMatched) rest)"

definition checkOSSPolicyRules :: "string \<Rightarrow> OSSPolicy \<Rightarrow> string list \<Rightarrow> CheckResult" where
  "checkOSSPolicyRules lang p policyStrings =
     (if policyStrings = [] then need_confirm
      else (case first_denied MatchOSSRule (rp_DenyList p) policyStrings of
          Some (ps, rule) \<Rightarrow> deny_policy
            (PolicyFmt lang ''OSS operation denied by policy: %s'' (''OSS '' @ utf8 [230, 147, 141,
            228, 189, 156, 232, 162, 171, 231, 173, 150, 231, 149, 165, 231, 166, 129, 230, 173,
            162] @ '': %s'') [ps]) rule
        | None \<Rightarrow>
            if rp_AllowList p = [] then allow_policy []
            else (case oss_allow_loop (rp_AllowList p) [] policyStrings of
                None \<Rightarrow> need_confirm
              | Some firstMatched \<Rightarrow> allow_policy firstMatched)))"

definition CheckOSSPolicy :: "world \<Rightarrow> OSSPolicy option \<Rightarrow> string list \<Rightarrow> CheckResult" where
  "CheckOSSPolicy w policy policyStrings =
     checkOSSPolicyRules (w_Lang w) (EffectiveOSSPolicy w policy) policyStrings"

section \<open>Kubernetes\<close>

definition k8s_units_check :: "string \<Rightarrow> K8sPolicy \<Rightarrow> string list \<Rightarrow> CheckResult" where
  "k8s_units_check lang p subCmds =
     (case first_denied MatchCommandRule (rp_DenyList p) subCmds of
        Some (sub, rule) \<Rightarrow> deny_policy
          (PolicyFmt lang ''kubectl command denied by policy: %s'' (''kubectl '' @ utf8 [229, 145,
          189, 228, 187, 164, 232, 162, 171, 231, 173, 150, 231, 149, 165, 231, 166, 129, 230, 173,
          162] @ '': %s'') [sub]) rule
      | None \<Rightarrow>
          if rp_AllowList p \<noteq> [] then
            (case AllSubCommandsAllowed subCmds (rp_AllowList p) of (ok, matched) \<Rightarrow>
               if ok then allow_policy matched else need_confirm)
          else allow_policy [])"

definition checkK8sPolicyRules :: "shell \<Rightarrow> string \<Rightarrow> K8sPolicy option \<Rightarrow> string \<Rightarrow> CheckResult" where
  "checkK8sPolicyRules sh lang policy command =
     (case policy of
        None \<Rightarrow> allow_policy []
      | Some p \<Rightarrow>
          (case ExtractSubCommands sh command of
             Inl e \<Rightarrow> need_confirm
           | Inr subCmds \<Rightarrow> if subCmds = [] then need_confirm else k8s_units_check lang p subCmds))"

definition CheckK8sPolicy :: "shell \<Rightarrow> world \<Rightarrow> K8sPolicy option \<Rightarrow> string \<Rightarrow> CheckResult" where
  "CheckK8sPolicy sh w policy command =
     checkK8sPolicyRules sh (w_Lang w) (Some (EffectiveK8sPolicy w policy)) command"

section \<open>Paths\<close>

definition canonicalPathName :: "string \<Rightarrow> bool" where
  "canonicalPathName name =
     (if HasSuffix name ''/'' \<and> name \<noteq> ''/'' then path_Clean (TrimSuffix name ''/'') @ ''/'' = name
      else path_Clean name = name)"

definition MatchPathRule :: "string \<Rightarrow> string \<Rightarrow> bool" where
  "MatchPathRule rule filePath =
     (if rule = [] \<or> filePath = [] then False
      else if \<not> canonicalPathName filePath then False
      else if rule = ''*'' \<or> rule = filePath then True
      else if HasSuffix rule ''/'' then HasPrefix filePath rule
      else path_matched rule filePath)"

section \<open>Deny first, then allow all\<close>

text \<open>
  The contract of a check on a list of units: it denies exactly when some unit matches a deny
  rule, and allows exactly when none does and, if there are allow rules, each unit matches one.
\<close>

locale deny_first =
  fixes matches :: "string \<Rightarrow> 'c \<Rightarrow> bool"
    and check :: "string list \<Rightarrow> string list \<Rightarrow> 'c list \<Rightarrow> CheckResult"
  assumes denies: "us \<noteq> [] \<Longrightarrow>
      cr_Decision (check allow deny us) = Deny \<longleftrightarrow> (\<exists>u\<in>set us. \<exists>r\<in>set deny. matches r u)"
    and allows: "us \<noteq> [] \<Longrightarrow>
      cr_Decision (check allow deny us) = Allow \<longleftrightarrow>
        (\<forall>u\<in>set us. \<forall>r\<in>set deny. \<not> matches r u) \<and>
        (allow = [] \<or> (\<forall>u\<in>set us. \<exists>r\<in>set allow. matches r u))"
begin

text \<open>No allow rule lifts a denial, and more deny rules never turn a denial into something else.\<close>

lemma deny_wins:
  assumes "us \<noteq> []" "u \<in> set us" "r \<in> set deny" "matches r u"
  shows "cr_Decision (check allow deny us) = Deny"
  using assms by (auto simp: denies)

lemma deny_mono:
  "us \<noteq> [] \<Longrightarrow> set deny \<subseteq> set deny' \<Longrightarrow> cr_Decision (check allow deny us) = Deny \<Longrightarrow>
     cr_Decision (check allow' deny' us) = Deny"
  by (auto simp: denies)

lemma confirms:
  "us \<noteq> [] \<Longrightarrow> cr_Decision (check allow deny us) = NeedConfirm \<longleftrightarrow>
     (\<forall>u\<in>set us. \<forall>r\<in>set deny. \<not> matches r u) \<and> allow \<noteq> [] \<and>
     (\<exists>u\<in>set us. \<forall>r\<in>set allow. \<not> matches r u)"
  using denies [of us allow deny] allows [of us allow deny]
  by (cases "cr_Decision (check allow deny us)") auto

text \<open>The decision depends on the rules as sets: neither order nor repetition matters.\<close>

lemma decision_cong:
  assumes "us \<noteq> []" "set allow = set allow'" "set deny = set deny'"
  shows "cr_Decision (check allow deny us) = cr_Decision (check allow' deny' us)"
proof -
  have "allow = [] \<longleftrightarrow> allow' = []" using assms(2) by (metis set_empty)
  with assms denies [of us allow deny] allows [of us allow deny]
    denies [of us allow' deny'] allows [of us allow' deny']
  show ?thesis by (cases "cr_Decision (check allow deny us)"; cases "cr_Decision (check allow' deny' us)") auto
qed

text \<open>A unit on its own is at least as permitted as any list that contains it.\<close>

lemma allow_unit:
  "us \<noteq> [] \<Longrightarrow> u \<in> set us \<Longrightarrow> cr_Decision (check allow deny us) = Allow \<Longrightarrow>
     cr_Decision (check allow deny [u]) = Allow"
  by (auto simp: allows)

end

lemma first_denied_iff:
  "first_denied m deny us \<noteq> None \<longleftrightarrow> (\<exists>u\<in>set us. \<exists>r\<in>set deny. m r u)"
  by (induction m deny us rule: first_denied.induct)
    (auto simp: find_eq_None_iff split: option.splits dest: find_SomeD)

lemma first_denied_SomeD:
  "first_denied m deny us = Some (u, r) \<Longrightarrow> u \<in> set us \<and> r \<in> set deny \<and> m r u"
  by (induction m deny us rule: first_denied.induct) (auto split: option.splits dest: find_SomeD)

lemma first_match_check_denies:
  "(\<And>r. cr_Decision (allowed r) = Allow) \<Longrightarrow>
   cr_Decision (first_match_check m msg allowed allow deny c) = Deny \<longleftrightarrow> (\<exists>r\<in>set deny. m r c)"
  by (auto simp: first_match_check_def find_eq_None_iff split: option.splits dest: find_SomeD)

lemma first_match_check_allows:
  "(\<And>r. cr_Decision (allowed r) = Allow) \<Longrightarrow>
   cr_Decision (first_match_check m msg allowed allow deny c) = Allow \<longleftrightarrow>
     (\<forall>r\<in>set deny. \<not> m r c) \<and> (allow = [] \<or> (\<exists>r\<in>set allow. m r c))"
  by (auto simp: first_match_check_def find_eq_None_iff split: option.splits dest: find_SomeD)

text \<open>A check of single commands, lifted to the one-element list it is called on.\<close>

definition single_check :: "(string list \<Rightarrow> string list \<Rightarrow> 'c \<Rightarrow> CheckResult) \<Rightarrow> string list \<Rightarrow> string list \<Rightarrow> 'c list \<Rightarrow> CheckResult" where
  "single_check chk allow deny us =
     (if \<forall>u\<in>set us. cr_Decision (chk allow deny u) = Allow then allow_policy []
      else case find (\<lambda>u. cr_Decision (chk allow deny u) = Deny) us of
        Some u \<Rightarrow> chk allow deny u | None \<Rightarrow> need_confirm)"

lemma single_check_one: "cr_Decision (single_check chk allow deny [u]) = cr_Decision (chk allow deny u)"
  by (cases "cr_Decision (chk allow deny u)") (auto simp: single_check_def)

lemma single_check_deny_first:
  assumes "\<And>allow deny c. cr_Decision (chk allow deny c) = Deny \<longleftrightarrow> (\<exists>r\<in>set deny. m r c)"
    and "\<And>allow deny c. cr_Decision (chk allow deny c) = Allow \<longleftrightarrow>
      (\<forall>r\<in>set deny. \<not> m r c) \<and> (allow = [] \<or> (\<exists>r\<in>set allow. m r c))"
  shows "deny_first m (single_check chk)"
proof
  fix us :: "'a list" and allow deny
  assume "us \<noteq> []"
  show "cr_Decision (single_check chk allow deny us) = Deny \<longleftrightarrow> (\<exists>u\<in>set us. \<exists>r\<in>set deny. m r u)"
    using assms(1) [of allow deny] assms(2) [of allow deny]
    by (auto simp: single_check_def find_eq_None_iff split: option.splits dest: find_SomeD)
  show "cr_Decision (single_check chk allow deny us) = Allow \<longleftrightarrow>
      (\<forall>u\<in>set us. \<forall>r\<in>set deny. \<not> m r u) \<and> (allow = [] \<or> (\<forall>u\<in>set us. \<exists>r\<in>set allow. m r u))"
    using assms(2) [of allow deny] assms(1) [of allow deny]
    by (auto simp: single_check_def find_eq_None_iff split: option.splits dest: find_SomeD)
qed

abbreviation rules_of :: "string list \<Rightarrow> string list \<Rightarrow> RulePolicy" where
  "rules_of allow deny \<equiv> RulePolicy0 \<lparr> rp_AllowList := allow, rp_DenyList := deny \<rparr>"

interpretation redis: deny_first "MatchRedisRule sh"
  "single_check (\<lambda>allow deny. checkRedisPolicyRules sh lang (Some (rules_of allow deny)))" for sh lang
  by (rule single_check_deny_first)
    (simp_all add: checkRedisPolicyRules_def first_match_check_denies first_match_check_allows)

interpretation mongo: deny_first "MatchMongoRule sh"
  "single_check (\<lambda>allow deny. checkMongoPolicyRules sh lang
     (Some (MongoPolicy0 \<lparr> mp_AllowTypes := allow, mp_DenyTypes := deny \<rparr>)))" for sh lang
  by (rule single_check_deny_first)
    (simp_all add: checkMongoPolicyRules_def first_match_check_denies first_match_check_allows)

interpretation kafka: deny_first MatchKafkaRule
  "single_check (\<lambda>allow deny. checkKafkaPolicyRules lang (Some (rules_of allow deny)))" for lang
  by (rule single_check_deny_first)
    (simp_all add: checkKafkaPolicyRules_def first_match_check_denies first_match_check_allows)

lemma MatchOSSRule_Nil [simp]: "MatchOSSRule [] ps = False"
  by (simp add: MatchOSSRule_def isWildcardAll_def splitOSSRule_def)

lemma oss_allow_loop_iff:
  "oss_allow_loop allow fm us \<noteq> None \<longleftrightarrow> (\<forall>u\<in>set us. \<exists>r\<in>set allow. MatchOSSRule r u)"
proof (induction allow fm us rule: oss_allow_loop.induct)
  case (2 allow fm u us)
  show ?case
  proof (cases "find (\<lambda>rule. MatchOSSRule rule u) allow")
    case None
    then have "\<forall>r\<in>set allow. \<not> MatchOSSRule r u" by (simp add: find_eq_None_iff)
    with None show ?thesis by simp
  next
    case (Some r)
    then have "r \<in> set allow" "MatchOSSRule r u" using find_SomeD by fast+
    moreover from this have "r \<noteq> []" by auto
    ultimately show ?thesis using 2 Some by auto
  qed
qed simp

interpretation oss: deny_first MatchOSSRule "\<lambda>allow deny. checkOSSPolicyRules lang (rules_of allow deny)" for lang
proof
  fix us :: "string list" and allow deny
  assume us: "us \<noteq> []"
  have al: "oss_allow_loop allow [] us = None \<longleftrightarrow> \<not> (\<forall>u\<in>set us. \<exists>r\<in>set allow. MatchOSSRule r u)"
    using oss_allow_loop_iff by blast
  have de: "first_denied MatchOSSRule deny us = None \<longleftrightarrow> \<not> (\<exists>u\<in>set us. \<exists>r\<in>set deny. MatchOSSRule r u)"
    using first_denied_iff by blast
  show "cr_Decision (checkOSSPolicyRules lang (rules_of allow deny) us) = Deny \<longleftrightarrow>
      (\<exists>u\<in>set us. \<exists>r\<in>set deny. MatchOSSRule r u)"
    using us de by (auto simp: checkOSSPolicyRules_def split: option.splits)
  show "cr_Decision (checkOSSPolicyRules lang (rules_of allow deny) us) = Allow \<longleftrightarrow>
      (\<forall>u\<in>set us. \<forall>r\<in>set deny. \<not> MatchOSSRule r u) \<and>
      (allow = [] \<or> (\<forall>u\<in>set us. \<exists>r\<in>set allow. MatchOSSRule r u))"
    using us de al by (auto simp: checkOSSPolicyRules_def split: option.splits)
qed

interpretation k8s: deny_first MatchCommandRule "\<lambda>allow deny. k8s_units_check lang (rules_of allow deny)" for lang
proof
  fix us :: "string list" and allow deny
  assume us: "us \<noteq> []"
  have de: "first_denied MatchCommandRule deny us = None \<longleftrightarrow> \<not> (\<exists>u\<in>set us. \<exists>r\<in>set deny. MatchCommandRule r u)"
    using first_denied_iff by blast
  note al = fst_AllSubCommandsAllowed [of us allow]
  show "cr_Decision (k8s_units_check lang (rules_of allow deny) us) = Deny \<longleftrightarrow>
      (\<exists>u\<in>set us. \<exists>r\<in>set deny. MatchCommandRule r u)"
    using de by (auto simp: k8s_units_check_def split: option.splits prod.splits)
  show "cr_Decision (k8s_units_check lang (rules_of allow deny) us) = Allow \<longleftrightarrow>
      (\<forall>u\<in>set us. \<forall>r\<in>set deny. \<not> MatchCommandRule r u) \<and>
      (allow = [] \<or> (\<forall>u\<in>set us. \<exists>r\<in>set allow. MatchCommandRule r u))"
    using de al by (auto simp: k8s_units_check_def split: option.splits prod.splits)
qed

section \<open>Facts about paths and resources\<close>

lemma path_matched_lit: "lit_of p = Some s \<Longrightarrow> path_matched p name \<longleftrightarrow> name = s"
  by (simp add: path_matched_def path_Match_lit)

text \<open>A canonical absolute path has no parent reference, whatever trailing slash it has.\<close>

lemma Split_rooted: "Split (CHR ''/'' # s) (CHR ''/'') = [] # Split s (CHR ''/'')"
  by simp

lemma path_Clean_rooted_no_dotdot:
  "''..'' \<notin> set (Split (path_Clean (CHR ''/'' # s)) (CHR ''/''))"
proof -
  define cs where "cs = clean_comps True [] (Split (CHR ''/'' # s) (CHR ''/''))"
  have nd: "''..'' \<notin> set cs" unfolding cs_def by (rule clean_comps_no_dotdot) simp
  have ns: "\<forall>c\<in>set cs. CHR ''/'' \<notin> set c"
    unfolding cs_def by (rule clean_comps_no_slash) (auto simp del: Split.simps dest: Split_no_sep)
  have pc: "path_Clean (CHR ''/'' # s) = CHR ''/'' # Join cs ''/''"
    by (simp add: path_Clean_def Let_def cs_def)
  show ?thesis
  proof (cases "cs = []")
    case True
    then show ?thesis unfolding pc by simp
  next
    case False
    show ?thesis unfolding pc Split_rooted Split_Join [OF False ns] using nd by auto
  qed
qed

lemma canonical_rooted_no_dotdot:
  assumes "canonicalPathName p" "hd p = CHR ''/''" "p \<noteq> []"
  shows "''..'' \<notin> set (Split p (CHR ''/''))"
proof (cases "HasSuffix p ''/'' \<and> p \<noteq> ''/''")
  case False
  from assms(2,3) obtain s where s: "p = CHR ''/'' # s" by (cases p) auto
  from assms(1) False have "path_Clean p = p" by (auto simp: canonicalPathName_def)
  then show ?thesis using path_Clean_rooted_no_dotdot [of s] s by metis
next
  case True
  then obtain q where q: "p = q @ ''/''" by (auto simp: HasSuffix_iff)
  with True assms(2) obtain s where s: "q = CHR ''/'' # s" by (cases q) auto
  from True assms(1) q have "path_Clean q @ ''/'' = p" by (simp add: canonicalPathName_def)
  with q have "path_Clean q = q" by simp
  then have nd: "''..'' \<notin> set (Split q (CHR ''/''))"
    using path_Clean_rooted_no_dotdot [of s] s by metis
  have "Split (q @ ''/'') (CHR ''/'') = Split q (CHR ''/'') @ [[]]" for q
    by (induction q) (auto split: list.splits)
  with nd q show ?thesis by auto
qed

end
