(* ===== verification/QueryCheck.thy ===== *)
theory QueryCheck
  imports PolicyResolve
begin

text \<open>
  SQL statements (\<^verbatim>\<open>internal/ai/policy/query_policy.go\<close>, \<^verbatim>\<open>classify_asset.go\<close>, \<^verbatim>\<open>format.go\<close>): their
  classification, by the host's parser or by the asset's driver, and the check of a list of
  statements against a policy of types and flags. The TiDB parser, the decoding of a database
  configuration and the database drivers are not part of the program: they are the parameter
  \<open>sqlenv\<close>; the parser's statement nodes are a datatype with the constructors the program
  distinguishes.
\<close>

section \<open>Classification\<close>

record StatementInfo =
  si_Type :: string
  si_Raw :: string
  si_Dangerous :: bool
  si_Reason :: string

datatype sql_node =
    SelectStmt | InsertStmt | UpdateStmt bool | DeleteStmt bool | DropTableStmt | DropDatabaseStmt
  | TruncateTableStmt | CreateTableStmt | CreateDatabaseStmt | AlterTableStmt | GrantStmt | RevokeStmt
  | CreateUserStmt | DropUserStmt | AlterUserStmt | PrepareStmt | ExecuteStmt | CallStmt | ShowStmt
  | ExplainStmt | UseStmt | OtherNode

text \<open>The argument of \<open>UpdateStmt\<close> and \<open>DeleteStmt\<close> tells whether there is a WHERE clause.\<close>

record sql_stmt =
  ss_Node :: sql_node
  ss_Text :: string

datatype classify_error = DriverUnavailable string | ClassifyFailed string

fun error_text :: "classify_error \<Rightarrow> string" where
  "error_text (DriverUnavailable e) = e"
| "error_text (ClassifyFailed e) = e"

record sql_driver =
  sd_ID :: string
  sd_Classifies :: bool
  sd_Classify :: "string \<Rightarrow> string + StatementInfo list"

record sqlenv =
  se_Parse :: "string \<Rightarrow> string + sql_stmt list"
  se_ConfigDriver :: "string \<Rightarrow> string + string"
  se_Lookup :: "string \<Rightarrow> classify_error + sql_driver"

definition classifyStmt :: "sql_stmt \<Rightarrow> StatementInfo" where
  "classifyStmt s =
     (let info = (\<lambda>t. \<lparr> si_Type = t, si_Raw = ss_Text s, si_Dangerous = False, si_Reason = [] \<rparr>);
          danger = (\<lambda>t r. \<lparr> si_Type = t, si_Raw = ss_Text s, si_Dangerous = True, si_Reason = r \<rparr>)
      in case ss_Node s of
           SelectStmt \<Rightarrow> info ''SELECT''
         | InsertStmt \<Rightarrow> info ''INSERT''
         | UpdateStmt whr \<Rightarrow> if whr then info ''UPDATE'' else danger ''UPDATE'' ''no_where_update''
         | DeleteStmt whr \<Rightarrow> if whr then info ''DELETE'' else danger ''DELETE'' ''no_where_delete''
         | DropTableStmt \<Rightarrow> info ''DROP TABLE''
         | DropDatabaseStmt \<Rightarrow> info ''DROP DATABASE''
         | TruncateTableStmt \<Rightarrow> info ''TRUNCATE''
         | CreateTableStmt \<Rightarrow> info ''CREATE TABLE''
         | CreateDatabaseStmt \<Rightarrow> info ''CREATE DATABASE''
         | AlterTableStmt \<Rightarrow> info ''ALTER TABLE''
         | GrantStmt \<Rightarrow> info ''GRANT''
         | RevokeStmt \<Rightarrow> info ''REVOKE''
         | CreateUserStmt \<Rightarrow> info ''CREATE USER''
         | DropUserStmt \<Rightarrow> info ''DROP USER''
         | AlterUserStmt \<Rightarrow> info ''ALTER USER''
         | PrepareStmt \<Rightarrow> danger ''PREPARE'' ''prepare''
         | ExecuteStmt \<Rightarrow> danger ''EXECUTE'' ''prepare''
         | CallStmt \<Rightarrow> danger ''CALL'' ''call''
         | ShowStmt \<Rightarrow> info ''SHOW''
         | ExplainStmt \<Rightarrow> info ''EXPLAIN''
         | UseStmt \<Rightarrow> info ''USE''
         | OtherNode \<Rightarrow> info ''OTHER'')"

definition ClassifyStatements :: "sqlenv \<Rightarrow> string \<Rightarrow> classify_error + StatementInfo list" where
  "ClassifyStatements se sqlText =
     (case se_Parse se sqlText of
        Inl e \<Rightarrow> Inl (ClassifyFailed (''SQL parse failed: '' @ e))
      | Inr stmts \<Rightarrow> if stmts = [] then Inl (ClassifyFailed ''empty SQL'') else Inr (map classifyStmt stmts))"

definition ClassifyForAsset :: "sqlenv \<Rightarrow> Asset option \<Rightarrow> string \<Rightarrow> classify_error + StatementInfo list" where
  "ClassifyForAsset se asset sqlText =
     (case asset of
        None \<Rightarrow> ClassifyStatements se sqlText
      | Some a \<Rightarrow>
          if a_Type a \<noteq> ''database'' \<or> a_Config a = [] then ClassifyStatements se sqlText
          else (case se_ConfigDriver se (a_Config a) of
              Inl e \<Rightarrow> Inl (ClassifyFailed e)
            | Inr driver \<Rightarrow>
                if driver = [] then ClassifyStatements se sqlText
                else (case se_Lookup se driver of
                    Inl e \<Rightarrow> Inl e
                  | Inr d \<Rightarrow>
                      if \<not> sd_Classifies d then ClassifyStatements se sqlText
                      else (case sd_Classify d sqlText of
                          Inl e \<Rightarrow> Inl (ClassifyFailed e)
                        | Inr stmts \<Rightarrow>
                            if stmts = [] then Inl (ClassifyFailed (''driver '' @ [CHR 0x22] @ sd_ID d @ [CHR 0x22] @ '': empty SQL''))
                            else Inr stmts))))"

definition ClassifyDenyMessage :: "string \<Rightarrow> classify_error \<Rightarrow> string" where
  "ClassifyDenyMessage lang e =
     (case e of
        DriverUnavailable t \<Rightarrow> PolicyFmt lang ''Database driver unavailable, execution denied: %v''
          (utf8 [230, 149, 176, 230, 141, 174, 229, 186, 147, 233, 169, 177, 229, 138, 168, 228,
          184, 141, 229, 143, 175, 231, 148, 168, 239, 188, 140, 230, 139, 146, 231, 187, 157, 230,
          137, 167, 232, 161, 140] @ '': %v'') [t]
      | ClassifyFailed t \<Rightarrow> PolicyFmt lang ''SQL parse failed, execution denied: %v''
          (''SQL '' @ utf8 [232, 167, 163, 230, 158, 144, 229, 164, 177, 232, 180, 165, 239, 188,
          140, 230, 139, 146, 231, 187, 157, 230, 137, 167, 232, 161, 140] @ '': %v'') [t])"

definition StmtRawTexts :: "StatementInfo list \<Rightarrow> string list" where
  "StmtRawTexts stmts = filter (\<lambda>t. t \<noteq> []) (map (\<lambda>s. TrimSpace (si_Raw s)) stmts)"

section \<open>Checking\<close>

fun query_loop :: "string \<Rightarrow> QueryPolicy \<Rightarrow> StatementInfo list \<Rightarrow> CheckResult" where
  "query_loop lang p [] = allow_policy []"
| "query_loop lang p (s # stmts) =
     (case find (\<lambda>denied. policyValueMatches denied (si_Type s)) (qp_DenyTypes p) of
        Some denied \<Rightarrow> deny_policy
          (PolicyFmt lang ''SQL statement type %s denied by policy''
             (''SQL '' @ utf8 [232, 175, 173, 229, 143, 165, 231, 177, 187, 229, 158,
             139] @ '' %s '' @ utf8 [232, 162, 171, 231, 173, 150, 231, 149, 165, 231, 166, 129,
             230, 173, 162]) [si_Type s]) denied
      | None \<Rightarrow>
          if si_Dangerous s \<and> containsStr (qp_DenyFlags p) (si_Reason s) then deny_policy
            (PolicyFmt lang ''SQL statement denied by policy: %s (%s)''
               (''SQL '' @ utf8 [232, 175, 173, 229, 143, 165, 232, 162, 171, 231, 173, 150, 231,
               149, 165, 231, 166, 129, 230, 173,
               162] @ '': %s (%s)'') [si_Reason s, si_Raw s]) (si_Reason s)
          else if qp_AllowTypes p \<noteq> [] \<and> \<not> containsPolicyValue (qp_AllowTypes p) (si_Type s)
          then need_confirm
          else query_loop lang p stmts)"

definition checkQueryPolicyRules :: "string \<Rightarrow> QueryPolicy option \<Rightarrow> StatementInfo list \<Rightarrow> CheckResult" where
  "checkQueryPolicyRules lang policy stmts =
     (case policy of None \<Rightarrow> allow_policy [] | Some p \<Rightarrow> query_loop lang p stmts)"

definition CheckQueryPolicy :: "world \<Rightarrow> QueryPolicy option \<Rightarrow> StatementInfo list \<Rightarrow> CheckResult" where
  "CheckQueryPolicy w policy stmts =
     checkQueryPolicyRules (w_Lang w) (Some (EffectiveQueryPolicy w policy)) stmts"

section \<open>Facts\<close>

text \<open>A statement some deny type or deny flag of the policy forbids, and one the allow types cover.\<close>

definition stmt_denied :: "QueryPolicy \<Rightarrow> StatementInfo \<Rightarrow> bool" where
  "stmt_denied p s \<longleftrightarrow> (\<exists>d\<in>set (qp_DenyTypes p). policyValueMatches d (si_Type s)) \<or>
     (si_Dangerous s \<and> si_Reason s \<in> set (qp_DenyFlags p))"

definition stmt_allowed :: "QueryPolicy \<Rightarrow> StatementInfo \<Rightarrow> bool" where
  "stmt_allowed p s \<longleftrightarrow> qp_AllowTypes p = [] \<or> (\<exists>a\<in>set (qp_AllowTypes p). policyValueMatches a (si_Type s))"

lemma query_loop_Cons:
  "cr_Decision (query_loop lang p (s # stmts)) =
     (if stmt_denied p s then Deny else if stmt_allowed p s then cr_Decision (query_loop lang p stmts)
      else NeedConfirm)"
  by (auto simp: stmt_denied_def stmt_allowed_def containsStr_def containsPolicyValue_def list_ex_iff
        find_eq_None_iff split: option.splits dest: find_SomeD)

declare query_loop.simps(2) [simp del]

lemma query_loop_allow:
  "cr_Decision (query_loop lang p stmts) = Allow \<longleftrightarrow>
     (\<forall>s\<in>set stmts. \<not> stmt_denied p s \<and> stmt_allowed p s)"
  by (induction stmts) (auto simp: query_loop_Cons)

text \<open>
  The statements are judged in order and the first that is not plainly allowed decides: a
  denied one denies, an uncovered one asks for confirmation.
\<close>

lemma query_loop_first:
  "cr_Decision (query_loop lang p stmts) =
     (case find (\<lambda>s. stmt_denied p s \<or> \<not> stmt_allowed p s) stmts of
        None \<Rightarrow> Allow
      | Some s \<Rightarrow> if stmt_denied p s then Deny else NeedConfirm)"
  by (induction stmts) (auto simp: query_loop_Cons)

lemma query_loop_deny:
  "cr_Decision (query_loop lang p stmts) = Deny \<longleftrightarrow>
     (\<exists>pre s post. stmts = pre @ s # post \<and> stmt_denied p s \<and>
        (\<forall>t\<in>set pre. \<not> stmt_denied p t \<and> stmt_allowed p t))"
proof (induction stmts)
  case (Cons t stmts)
  show ?case
  proof (cases "stmt_denied p t")
    case True
    then show ?thesis by (auto simp: query_loop_Cons intro!: exI [of _ "[]"])
  next
    case False
    show ?thesis
    proof (cases "stmt_allowed p t")
      case True
      have "(\<exists>pre s post. t # stmts = pre @ s # post \<and> stmt_denied p s \<and>
            (\<forall>t\<in>set pre. \<not> stmt_denied p t \<and> stmt_allowed p t)) \<longleftrightarrow>
          (\<exists>pre s post. stmts = pre @ s # post \<and> stmt_denied p s \<and>
            (\<forall>t\<in>set pre. \<not> stmt_denied p t \<and> stmt_allowed p t))" (is "?L \<longleftrightarrow> ?R")
      proof
        assume ?L
        then obtain pre s post where l: "t # stmts = pre @ s # post" "stmt_denied p s"
          "\<forall>t\<in>set pre. \<not> stmt_denied p t \<and> stmt_allowed p t" by blast
        with False obtain pre' where "pre = t # pre'" by (cases pre) auto
        with l show ?R by auto
      next
        assume ?R
        then obtain pre s post where "stmts = pre @ s # post" "stmt_denied p s"
          "\<forall>t\<in>set pre. \<not> stmt_denied p t \<and> stmt_allowed p t" by blast
        with False True show ?L by (intro exI [of _ "t # pre"]) auto
      qed
      with Cons False True show ?thesis by (simp add: query_loop_Cons)
    next
      case no: False
      then show ?thesis using False by (auto simp: query_loop_Cons Cons_eq_append_conv)
    qed
  qed
qed simp

lemma checkQueryPolicyRules_cong:
  assumes "set (qp_AllowTypes p) = set (qp_AllowTypes q)" "set (qp_DenyTypes p) = set (qp_DenyTypes q)"
    "set (qp_DenyFlags p) = set (qp_DenyFlags q)"
  shows "cr_Decision (checkQueryPolicyRules lang (Some p) stmts) = cr_Decision (checkQueryPolicyRules lang (Some q) stmts)"
proof -
  have "qp_AllowTypes p = [] \<longleftrightarrow> qp_AllowTypes q = []" using assms(1) by (metis set_empty)
  with assms have "stmt_denied p = stmt_denied q" "stmt_allowed p = stmt_allowed q"
    by (auto simp: stmt_denied_def stmt_allowed_def fun_eq_iff)
  then show ?thesis by (simp add: checkQueryPolicyRules_def query_loop_first split: option.split)
qed

end
