(* ===== verification/PolicyTester.thy ===== *)
theory PolicyTester
  imports RuleMatchers QueryCheck
begin

text \<open>
  The rules of the groups above an asset, which apply to every kind of asset, and the policy
  test panel (\<^verbatim>\<open>internal/ai/policy/policy_tester.go\<close>, \<^verbatim>\<open>policy_kind.go\<close>): for each kind the verdict
  the panel shows for a command under the policy being edited.
\<close>

section \<open>Group rules\<close>

type_synonym MatchFunc = "string \<Rightarrow> string \<Rightarrow> bool"

text \<open>A rule and where it comes from.\<close>

record taggedRule =
  tr_Rule :: string
  tr_Source :: string

definition tag :: "string \<Rightarrow> string \<Rightarrow> taggedRule" where
  "tag source rule = \<lparr> tr_Rule = rule, tr_Source = source \<rparr>"

definition taggedRuleTexts :: "taggedRule list \<Rightarrow> string list" where
  "taggedRuleTexts rules = map tr_Rule rules"

fun collectGroupGenericRules :: "world \<Rightarrow> Group list \<Rightarrow> taggedRule list \<times> taggedRule list" where
  "collectGroupGenericRules w [] = ([], [])"
| "collectGroupGenericRules w (g # gs) =
     (case collectGroupGenericRules w gs of (deny, allow) \<Rightarrow>
        case GetCommandPolicy (HGroup g) of
          None \<Rightarrow> (deny, allow)
        | Some p \<Rightarrow>
            (case (if rp_Groups p = [] then ([], []) else ResolveCommandGroups w (rp_Groups p)) of
               (grpAllow, grpDeny) \<Rightarrow>
                 (map (tag (g_Name g)) (grpDeny @ rp_DenyList p) @ deny,
                  map (tag (g_Name g)) (grpAllow @ rp_AllowList p) @ allow)))"

definition GroupGenericCommandRules :: "world \<Rightarrow> Group list \<Rightarrow> string list \<times> string list" where
  "GroupGenericCommandRules w groups =
     (case collectGroupGenericRules w groups of (groupDeny, groupAllow) \<Rightarrow>
        (taggedRuleTexts groupAllow, taggedRuleTexts groupDeny))"

fun first_tagged :: "MatchFunc \<Rightarrow> taggedRule list \<Rightarrow> string list \<Rightarrow> (string \<times> taggedRule) option" where
  "first_tagged matchFn rules [] = None"
| "first_tagged matchFn rules (u # us) =
     (case find (\<lambda>tr. matchFn (tr_Rule tr) u) rules of
        Some tr \<Rightarrow> Some (u, tr)
      | None \<Rightarrow> first_tagged matchFn rules us)"

text \<open>The first rule that matches each unit in turn; \<open>None\<close> when a unit has none.\<close>

fun tagged_hits :: "MatchFunc \<Rightarrow> taggedRule list \<Rightarrow> string list \<Rightarrow> taggedRule list option" where
  "tagged_hits matchFn rules us = all_some (\<lambda>u. find (\<lambda>tr. matchFn (tr_Rule tr) u) rules) us"

text \<open>\<open>firstMatched\<close> keeps the first non-empty rule text among the hits.\<close>

definition first_nonempty :: "string list \<Rightarrow> string" where
  "first_nonempty ts = (case find (\<lambda>t. t \<noteq> []) ts of None \<Rightarrow> [] | Some t \<Rightarrow> t)"

definition CheckGroupGenericPolicy :: "world \<Rightarrow> int \<Rightarrow> string list \<Rightarrow> MatchFunc \<Rightarrow> CheckResult" where
  "CheckGroupGenericPolicy w assetID subCmds matchFn =
     (if subCmds = [] then need_confirm
      else (case w_Assets w assetID of
          None \<Rightarrow> need_confirm
        | Some asset \<Rightarrow>
            if a_GroupID asset = 0 then need_confirm
            else (case collectGroupGenericRules w (ResolveGroupChain w (a_GroupID asset)) of
                (allDeny, allAllow) \<Rightarrow>
                  (case first_tagged matchFn allDeny subCmds of
                     Some (sub, tr) \<Rightarrow> deny_policy
                       (PolicyFmt (w_Lang w) ''command denied by group [%s] policy: %s''
                          (utf8 [229, 145, 189, 228, 187, 164, 232, 162, 171, 231, 187,
                          132] @ '' [%s] '' @ utf8 [231, 173, 150, 231, 149, 165, 231, 166, 129,
                          230, 173, 162] @ '': %s'') [tr_Source tr, sub]) (tr_Rule tr)
                   | None \<Rightarrow>
                       if allAllow = [] then need_confirm
                       else (case tagged_hits matchFn allAllow subCmds of
                           None \<Rightarrow> need_confirm
                         | Some hits \<Rightarrow> allow_policy (first_nonempty (map tr_Rule hits)))))))"

section \<open>The test panel\<close>

record PolicyTestOutput =
  po_Decision :: Decision
  po_MatchedPattern :: string
  po_MatchedSource :: string
  po_Message :: string

definition out :: "Decision \<Rightarrow> PolicyTestOutput" where
  "out d = \<lparr> po_Decision = d, po_MatchedPattern = [], po_MatchedSource = [], po_Message = [] \<rparr>"

lemma out_sel [simp]: "po_Decision (out d) = d"
  by (simp add: out_def)

definition checkGeneric :: "Decision \<Rightarrow> taggedRule list \<Rightarrow> string \<Rightarrow> MatchFunc \<Rightarrow> PolicyTestOutput option" where
  "checkGeneric d rules command matchFn =
     map_option (\<lambda>tr. (out d) \<lparr> po_MatchedPattern := tr_Rule tr, po_MatchedSource := tr_Source tr \<rparr>)
       (find (\<lambda>tr. matchFn (tr_Rule tr) command) rules)"

definition checkGenericDeny :: "taggedRule list \<Rightarrow> string \<Rightarrow> MatchFunc \<Rightarrow> PolicyTestOutput option" where
  "checkGenericDeny = checkGeneric Deny"

definition checkGenericAllow :: "taggedRule list \<Rightarrow> string \<Rightarrow> MatchFunc \<Rightarrow> PolicyTestOutput option" where
  "checkGenericAllow = checkGeneric Allow"

definition unenumerableTestOutput :: "CheckResult \<Rightarrow> taggedRule list list \<Rightarrow> PolicyTestOutput" where
  "unenumerableTestOutput result tagged =
     (let o' = (out (cr_Decision result)) \<lparr> po_MatchedPattern := cr_MatchedPattern result,
                 po_Message := cr_Message result \<rparr> in
      if cr_MatchedPattern result = [] then o'
      else (case find (\<lambda>tr. tr_Rule tr = cr_MatchedPattern result) (concat tagged) of
          None \<Rightarrow> o' | Some tr \<Rightarrow> o' \<lparr> po_MatchedSource := tr_Source tr \<rparr>))"

definition deny_output :: "CheckResult \<Rightarrow> PolicyTestOutput" where
  "deny_output result = (out Deny) \<lparr> po_MatchedPattern := cr_MatchedPattern result,
     po_Message := cr_Message result \<rparr>"

lemma deny_output_sel [simp]: "po_Decision (deny_output r) = Deny"
  by (simp add: deny_output_def)

text \<open>The source shown for the first hit that has one, with its rule.\<close>

definition hits_output :: "taggedRule list \<Rightarrow> PolicyTestOutput" where
  "hits_output hits =
     (case find (\<lambda>tr. tr_Source tr \<noteq> []) hits of
        Some tr \<Rightarrow> (out Allow) \<lparr> po_MatchedSource := tr_Source tr, po_MatchedPattern := tr_Rule tr \<rparr>
      | None \<Rightarrow> (out Allow) \<lparr> po_MatchedPattern := (if hits = [] then [] else tr_Rule (last hits)) \<rparr>)"

lemma hits_output_sel [simp]: "po_Decision (hits_output h) = Allow"
  by (simp add: hits_output_def split: option.split)

definition groupAllowAllStmts :: "taggedRule list \<Rightarrow> string list \<Rightarrow> MatchFunc \<Rightarrow> PolicyTestOutput option" where
  "groupAllowAllStmts rules stmts matchFn =
     (if rules = [] \<or> stmts = [] then None else map_option hits_output (tagged_hits matchFn rules stmts))"

definition groupGenericAllowAllSubCmds :: "taggedRule list \<Rightarrow> string list \<Rightarrow> MatchFunc \<Rightarrow> PolicyTestOutput option" where
  "groupGenericAllowAllSubCmds rules subCmds matchFn =
     (if rules = [] then None else map_option hits_output (tagged_hits matchFn rules subCmds))"

subsection \<open>Merging the policies of the chain\<close>

text \<open>The first non-empty allow list counts, all deny lists do; both without repetitions.\<close>

fun merge_rules :: "(RulePolicy \<Rightarrow> RulePolicy) \<Rightarrow> RulePolicy \<Rightarrow> RulePolicy list \<Rightarrow> RulePolicy" where
  "merge_rules expand merged [] = merged"
| "merge_rules expand merged (p # ps) =
     (let e = expand p;
          m = (if rp_AllowList merged = [] \<and> rp_AllowList e \<noteq> []
               then merged \<lparr> rp_AllowList := AppendUnique (rp_AllowList merged) (rp_AllowList e) \<rparr> else merged)
      in merge_rules expand (m \<lparr> rp_DenyList := AppendUnique (rp_DenyList m) (rp_DenyList e) \<rparr>) ps)"

definition chain_policies :: "(Holder \<Rightarrow> 'p option) \<Rightarrow> 'p option \<Rightarrow> Group list \<Rightarrow> 'p list" where
  "chain_policies getter current groups =
     (case current of None \<Rightarrow> [] | Some p \<Rightarrow> [p]) @ List.map_filter (\<lambda>g. getter (HGroup g)) groups"

definition mergeRedisPoliciesForTest :: "world \<Rightarrow> RedisPolicy option \<Rightarrow> Group list \<Rightarrow> RedisPolicy" where
  "mergeRedisPoliciesForTest w current groups =
     merge_rules (\<lambda>p. expandRedisPolicy w (Some p)) RulePolicy0 (chain_policies GetRedisPolicy current groups)"

definition mergeEtcdPoliciesForTest :: "world \<Rightarrow> EtcdPolicy option \<Rightarrow> Group list \<Rightarrow> EtcdPolicy" where
  "mergeEtcdPoliciesForTest w current groups =
     merge_rules (\<lambda>p. expandEtcdPolicy w (Some p)) RulePolicy0 (chain_policies GetEtcdPolicy current groups)"

definition mergeKafkaPoliciesForTest :: "world \<Rightarrow> KafkaPolicy option \<Rightarrow> Group list \<Rightarrow> KafkaPolicy" where
  "mergeKafkaPoliciesForTest w current groups =
     merge_rules (\<lambda>p. expandKafkaPolicy w (Some p)) RulePolicy0 (chain_policies GetKafkaPolicy current groups)"

definition mergeOSSPoliciesForTest :: "world \<Rightarrow> OSSPolicy option \<Rightarrow> Group list \<Rightarrow> OSSPolicy" where
  "mergeOSSPoliciesForTest w current groups =
     merge_rules (\<lambda>p. expandOSSPolicy w (Some p)) RulePolicy0 (chain_policies GetOSSPolicy current groups)"

definition mergeK8sPoliciesForTest :: "world \<Rightarrow> K8sPolicy option \<Rightarrow> Group list \<Rightarrow> K8sPolicy" where
  "mergeK8sPoliciesForTest w current groups =
     merge_rules (\<lambda>p. expandK8sPolicy w (Some p)) RulePolicy0 (chain_policies GetK8sPolicy current groups)"

fun merge_mongo :: "world \<Rightarrow> MongoPolicy \<Rightarrow> MongoPolicy list \<Rightarrow> MongoPolicy" where
  "merge_mongo w merged [] = merged"
| "merge_mongo w merged (p # ps) =
     (let e = expandMongoPolicy w (Some p);
          m = (if mp_AllowTypes merged = [] \<and> mp_AllowTypes e \<noteq> []
               then merged \<lparr> mp_AllowTypes := AppendUnique (mp_AllowTypes merged) (mp_AllowTypes e) \<rparr> else merged)
      in merge_mongo w (m \<lparr> mp_DenyTypes := AppendUnique (mp_DenyTypes m) (mp_DenyTypes e) \<rparr>) ps)"

definition mergeMongoPoliciesForTest :: "world \<Rightarrow> MongoPolicy option \<Rightarrow> Group list \<Rightarrow> MongoPolicy" where
  "mergeMongoPoliciesForTest w current groups =
     merge_mongo w MongoPolicy0 (chain_policies GetMongoPolicy current groups)"

fun merge_query :: "world \<Rightarrow> QueryPolicy \<Rightarrow> QueryPolicy list \<Rightarrow> QueryPolicy" where
  "merge_query w merged [] = merged"
| "merge_query w merged (p # ps) =
     (let e = expandQueryPolicy w (Some p);
          m = (if qp_AllowTypes merged = [] \<and> qp_AllowTypes e \<noteq> []
               then merged \<lparr> qp_AllowTypes := AppendUnique (qp_AllowTypes merged) (qp_AllowTypes e) \<rparr> else merged)
      in merge_query w (m \<lparr> qp_DenyTypes := AppendUnique (qp_DenyTypes m) (qp_DenyTypes e),
           qp_DenyFlags := AppendUnique (qp_DenyFlags m) (qp_DenyFlags e) \<rparr>) ps)"

definition mergeQueryPoliciesForTest :: "world \<Rightarrow> QueryPolicy option \<Rightarrow> Group list \<Rightarrow> QueryPolicy" where
  "mergeQueryPoliciesForTest w current groups =
     merge_query w QueryPolicy0 (chain_policies GetQueryPolicy current groups)"

subsection \<open>One test per kind\<close>

text \<open>
  The shape of a test on one command: group deny rules, then the policy of the kind, then group
  allow rules for what the policy leaves open.
\<close>

definition generic_test ::
  "(string \<Rightarrow> string) \<Rightarrow> MatchFunc \<Rightarrow> taggedRule list \<times> taggedRule list \<Rightarrow> (string \<Rightarrow> CheckResult) \<Rightarrow> string \<Rightarrow> PolicyTestOutput" where
  "generic_test msg matchFn rules chk command =
     (case rules of (groupDeny, groupAllow) \<Rightarrow>
        (case checkGenericDeny groupDeny command matchFn of
           Some o' \<Rightarrow> o' \<lparr> po_Message := msg command \<rparr>
         | None \<Rightarrow>
             (let result = chk command in
              case cr_Decision result of
                Deny \<Rightarrow> deny_output result
              | NeedConfirm \<Rightarrow>
                  (case checkGenericAllow groupAllow command matchFn of
                     Some o' \<Rightarrow> o' | None \<Rightarrow> out NeedConfirm)
              | Allow \<Rightarrow> out Allow)))"

definition testRedisPolicy :: "shell \<Rightarrow> world \<Rightarrow> RedisPolicy option \<Rightarrow> Group list \<Rightarrow> string \<Rightarrow> PolicyTestOutput" where
  "testRedisPolicy sh w current groups command =
     generic_test (\<lambda>c. PolicyFmt (w_Lang w) ''Redis command denied by group policy: %s''
         (''Redis '' @ utf8 [229, 145, 189, 228, 187, 164, 232, 162, 171, 231, 187, 132, 231, 173,
         150, 231, 149, 165, 231, 166, 129, 230, 173, 162] @ '': %s'') [c])
       (MatchRedisRule sh) (collectGroupGenericRules w groups)
       (checkRedisPolicyRules sh (w_Lang w)
          (Some (EffectiveRedisPolicy w (Some (mergeRedisPoliciesForTest w current groups)))))
       command"

definition testEtcdPolicy :: "shell \<Rightarrow> world \<Rightarrow> EtcdPolicy option \<Rightarrow> Group list \<Rightarrow> string \<Rightarrow> PolicyTestOutput" where
  "testEtcdPolicy sh w current groups command =
     generic_test (\<lambda>c. PolicyFmt (w_Lang w) ''etcd command denied by group policy: %s''
         (''etcd '' @ utf8 [229, 145, 189, 228, 187, 164, 232, 162, 171, 231, 187, 132, 231, 173,
         150, 231, 149, 165, 231, 166, 129, 230, 173, 162] @ '': %s'') [c])
       (MatchRedisRule sh) (collectGroupGenericRules w groups)
       (checkRedisPolicyRules sh (w_Lang w)
          (Some (EffectiveEtcdPolicy w (Some (mergeEtcdPoliciesForTest w current groups)))))
       command"

definition testMongoPolicy :: "shell \<Rightarrow> world \<Rightarrow> MongoPolicy option \<Rightarrow> Group list \<Rightarrow> string \<Rightarrow> PolicyTestOutput" where
  "testMongoPolicy sh w current groups command =
     generic_test (\<lambda>c. PolicyFmt (w_Lang w) ''MongoDB operation denied by group policy: %s''
         (''MongoDB '' @ utf8 [230, 147, 141, 228, 189, 156, 232, 162, 171, 231, 187, 132, 231, 173,
         150, 231, 149, 165, 231, 166, 129, 230, 173, 162] @ '': %s'') [c])
       (MatchMongoRule sh) (collectGroupGenericRules w groups)
       (checkMongoPolicyRules sh (w_Lang w)
          (Some (EffectiveMongoPolicy w (Some (mergeMongoPoliciesForTest w current groups)))))
       command"

definition testKafkaPolicy :: "world \<Rightarrow> KafkaPolicy option \<Rightarrow> Group list \<Rightarrow> string \<Rightarrow> PolicyTestOutput" where
  "testKafkaPolicy w current groups command =
     generic_test (\<lambda>c. PolicyFmt (w_Lang w) ''Kafka operation denied by group policy: %s''
         (''Kafka '' @ utf8 [230, 147, 141, 228, 189, 156, 232, 162, 171, 231, 187, 132, 231, 173,
         150, 231, 149, 165, 231, 166, 129, 230, 173, 162] @ '': %s'') [c])
       MatchCommandRule (collectGroupGenericRules w groups)
       (checkKafkaPolicyRules (w_Lang w)
          (Some (EffectiveKafkaPolicy w (Some (mergeKafkaPoliciesForTest w current groups)))))
       command"

definition testOSSPolicy :: "world \<Rightarrow> OSSPolicy option \<Rightarrow> Group list \<Rightarrow> string \<Rightarrow> PolicyTestOutput" where
  "testOSSPolicy w current groups command =
     generic_test (\<lambda>c. PolicyFmt (w_Lang w) ''OSS operation denied by group policy: %s''
         (''OSS '' @ utf8 [230, 147, 141, 228, 189, 156, 232, 162, 171, 231, 187, 132, 231, 173,
         150, 231, 149, 165, 231, 166, 129, 230, 173, 162] @ '': %s'') [c])
       MatchOSSRule (collectGroupGenericRules w groups)
       (\<lambda>c. checkOSSPolicyRules (w_Lang w)
          (EffectiveOSSPolicy w (Some (mergeOSSPoliciesForTest w current groups))) [c])
       command"

definition testQueryPolicyForAsset ::
  "sqlenv \<Rightarrow> world \<Rightarrow> Asset option \<Rightarrow> QueryPolicy option \<Rightarrow> Group list \<Rightarrow> string \<Rightarrow> PolicyTestOutput" where
  "testQueryPolicyForAsset se w asset current groups command =
     (case ClassifyForAsset se asset command of
        Inl e \<Rightarrow> (out Deny) \<lparr> po_Message := ClassifyDenyMessage (w_Lang w) e \<rparr>
      | Inr stmts \<Rightarrow>
          (let stmtTexts = (if StmtRawTexts stmts = [] then [command] else StmtRawTexts stmts) in
           case collectGroupGenericRules w groups of (groupDeny, groupAllow) \<Rightarrow>
             (case first_tagged MatchCommandRule groupDeny stmtTexts of
                Some (t, tr) \<Rightarrow> (out Deny) \<lparr> po_MatchedPattern := tr_Rule tr, po_MatchedSource := tr_Source tr,
                  po_Message := PolicyFmt (w_Lang w) ''SQL statement denied by group policy: %s''
                    (''SQL '' @ utf8 [232, 175, 173, 229, 143, 165, 232, 162, 171, 231, 187, 132,
                    231, 173, 150, 231, 149, 165, 231, 166, 129, 230, 173, 162] @ '': %s'') [t] \<rparr>
              | None \<Rightarrow>
                  (let result = checkQueryPolicyRules (w_Lang w)
                     (Some (EffectiveQueryPolicy w (Some (mergeQueryPoliciesForTest w current groups)))) stmts in
                   case cr_Decision result of
                     Deny \<Rightarrow> deny_output result
                   | NeedConfirm \<Rightarrow>
                       (case groupAllowAllStmts groupAllow stmtTexts MatchCommandRule of
                          Some o' \<Rightarrow> o' | None \<Rightarrow> out NeedConfirm)
                   | Allow \<Rightarrow> out Allow))))"

definition testQueryPolicy ::
  "sqlenv \<Rightarrow> world \<Rightarrow> QueryPolicy option \<Rightarrow> Group list \<Rightarrow> string \<Rightarrow> PolicyTestOutput" where
  "testQueryPolicy se w current groups command = testQueryPolicyForAsset se w None current groups command"

definition testK8sPolicy :: "shell \<Rightarrow> world \<Rightarrow> K8sPolicy option \<Rightarrow> Group list \<Rightarrow> string \<Rightarrow> PolicyTestOutput" where
  "testK8sPolicy sh w current groups command =
     (case collectGroupGenericRules w groups of (groupDeny, groupAllow) \<Rightarrow>
      let merged = mergeK8sPoliciesForTest w current groups;
          effective = EffectiveK8sPolicy w (Some merged);
          unsplit = (\<lambda>e. unenumerableTestOutput
            (DecideUnenumerableShell (w_Lang w) command e
               (ShellCommandRules (taggedRuleTexts groupAllow @ rp_AllowList effective))
               (ShellCommandRules (taggedRuleTexts groupDeny @ rp_DenyList effective)))
            [groupDeny, groupAllow])
      in case ExtractSubCommands sh command of
           Inl e \<Rightarrow> unsplit (Some e)
         | Inr subCmds \<Rightarrow>
             if subCmds = [] then unsplit None
             else (case first_tagged MatchCommandRule groupDeny subCmds of
                 Some (sub, tr) \<Rightarrow> (out Deny) \<lparr> po_MatchedPattern := tr_Rule tr, po_MatchedSource := tr_Source tr,
                   po_Message := PolicyFmt (w_Lang w) ''command denied by group [%s] policy: %s''
                     (utf8 [229, 145, 189, 228, 187, 164, 232, 162, 171, 231, 187,
                     132] @ '' [%s] '' @ utf8 [231, 173, 150, 231, 149, 165, 231, 166, 129, 230,
                     173, 162] @ '': %s'') [tr_Source tr, sub] \<rparr>
               | None \<Rightarrow>
                   (let result = checkK8sPolicyRules sh (w_Lang w) (Some effective) command in
                    case cr_Decision result of
                      Deny \<Rightarrow> deny_output result
                    | NeedConfirm \<Rightarrow>
                        (case groupGenericAllowAllSubCmds groupAllow subCmds MatchCommandRule of
                           Some o' \<Rightarrow> o' | None \<Rightarrow> out NeedConfirm)
                    | Allow \<Rightarrow> out Allow)))"

text \<open>The source of the first allowed command whose rule has one.\<close>

fun allow_source :: "taggedRule list \<Rightarrow> string list \<Rightarrow> string" where
  "allow_source rules [] = []"
| "allow_source rules (cmd # cmds) =
     (case find (\<lambda>tr. MatchCommandRule (tr_Rule tr) cmd) rules of
        None \<Rightarrow> allow_source rules cmds
      | Some tr \<Rightarrow> if tr_Source tr \<noteq> [] then tr_Source tr else allow_source rules cmds)"

definition testSSHPolicy :: "shell \<Rightarrow> world \<Rightarrow> CommandPolicy option \<Rightarrow> Group list \<Rightarrow> string \<Rightarrow> PolicyTestOutput" where
  "testSSHPolicy sh w current groups command =
     (let (ownDeny, ownAllow) =
        (case current of
           None \<Rightarrow> ([], [])
         | Some p \<Rightarrow>
             (case (if rp_Groups p = [] then ([], []) else ResolveCommandGroups w (rp_Groups p)) of
                (grpAllow, grpDeny) \<Rightarrow>
                  (map (tag []) (grpDeny @ rp_DenyList p), map (tag []) (grpAllow @ rp_AllowList p))));
        (groupDeny, groupAllow) = collectGroupGenericRules w groups;
        denyRules = ownDeny @ groupDeny;
        allowRules = ownAllow @ groupAllow;
        allowFlat = map tr_Rule allowRules;
        unsplit = (\<lambda>e. unenumerableTestOutput
          (DecideUnenumerableShell (w_Lang w) command e (ShellCommandRules allowFlat)
             (ShellCommandRules (taggedRuleTexts denyRules))) [denyRules, allowRules])
      in case ExtractSubCommands sh command of
           Inl e \<Rightarrow> unsplit (Some e)
         | Inr subCmds \<Rightarrow>
             if subCmds = [] then unsplit None
             else (case first_tagged MatchCommandRule denyRules subCmds of
                 Some (cmd, tr) \<Rightarrow> (out Deny) \<lparr> po_MatchedPattern := tr_Rule tr, po_MatchedSource := tr_Source tr,
                   po_Message := FormatDenyMessage [] command (msg_blocked (w_Lang w)) (FindHintRules cmd allowFlat) \<rparr>
               | None \<Rightarrow>
                   if allowFlat \<noteq> [] \<and> fst (AllSubCommandsAllowed subCmds allowFlat)
                   then (out Allow) \<lparr> po_MatchedSource := allow_source allowRules subCmds \<rparr>
                   else out NeedConfirm))"

subsection \<open>Dispatch\<close>

text \<open>The policy being edited, by its Go type; \<open>EtcdPolicy\<close> is an alias of \<open>RedisPolicy\<close>.\<close>

datatype current_policy =
  CurCommand CommandPolicy | CurQuery QueryPolicy | CurRedis RedisPolicy | CurMongo MongoPolicy
  | CurKafka KafkaPolicy | CurK8s K8sPolicy | CurOSS OSSPolicy

definition as_command :: "current_policy option \<Rightarrow> CommandPolicy option" where
  "as_command c = (case c of Some (CurCommand p) \<Rightarrow> Some p | _ \<Rightarrow> None)"

definition as_query :: "current_policy option \<Rightarrow> QueryPolicy option" where
  "as_query c = (case c of Some (CurQuery p) \<Rightarrow> Some p | _ \<Rightarrow> None)"

definition as_redis :: "current_policy option \<Rightarrow> RedisPolicy option" where
  "as_redis c = (case c of Some (CurRedis p) \<Rightarrow> Some p | _ \<Rightarrow> None)"

definition as_mongo :: "current_policy option \<Rightarrow> MongoPolicy option" where
  "as_mongo c = (case c of Some (CurMongo p) \<Rightarrow> Some p | _ \<Rightarrow> None)"

definition as_kafka :: "current_policy option \<Rightarrow> KafkaPolicy option" where
  "as_kafka c = (case c of Some (CurKafka p) \<Rightarrow> Some p | _ \<Rightarrow> None)"

definition as_k8s :: "current_policy option \<Rightarrow> K8sPolicy option" where
  "as_k8s c = (case c of Some (CurK8s p) \<Rightarrow> Some p | _ \<Rightarrow> None)"

definition as_oss :: "current_policy option \<Rightarrow> OSSPolicy option" where
  "as_oss c = (case c of Some (CurOSS p) \<Rightarrow> Some p | _ \<Rightarrow> None)"

definition policyKinds :: "string list" where
  "policyKinds = [''command'', ''query'', ''redis'', ''k8s'', ''etcd'', ''mongo'', ''kafka'', ''oss'']"

definition ResolvePolicyKind :: "(string \<rightharpoonup> string) \<Rightarrow> string \<Rightarrow> string option" where
  "ResolvePolicyKind assetKindOf s =
     (let s' = (if s = ''kubernetes'' then ''k8s'' else s);
          kind = (case assetKindOf s' of None \<Rightarrow> s' | Some k \<Rightarrow> k)
      in if kind \<in> set policyKinds then Some kind else None)"

definition DecodeCurrentPolicy :: "string \<Rightarrow> policy_json \<Rightarrow> current_policy option" where
  "DecodeCurrentPolicy kind raw =
     (if kind = ''command'' then map_option CurCommand (json_Unmarshal rule_of_fields raw)
      else if kind = ''query'' then map_option CurQuery (json_Unmarshal query_of_fields raw)
      else if kind = ''redis'' \<or> kind = ''etcd'' then map_option CurRedis (json_Unmarshal rule_of_fields raw)
      else if kind = ''k8s'' then map_option CurK8s (json_Unmarshal rule_of_fields raw)
      else if kind = ''mongo'' then map_option CurMongo (json_Unmarshal mongo_of_fields raw)
      else if kind = ''kafka'' then map_option CurKafka (json_Unmarshal rule_of_fields raw)
      else if kind = ''oss'' then map_option CurOSS (json_Unmarshal rule_of_fields raw)
      else None)"

definition resolveTestScope :: "world \<Rightarrow> int \<Rightarrow> int \<Rightarrow> Asset option \<times> Group list" where
  "resolveTestScope w assetID groupID =
     (let asset = (if 0 < assetID then w_Assets w assetID else None);
          start = (if 0 < assetID then (case asset of None \<Rightarrow> 0 | Some a \<Rightarrow> a_GroupID a)
                   else if 0 < groupID then (case w_Groups w groupID of None \<Rightarrow> 0 | Some g \<Rightarrow> g_ParentID g)
                   else 0)
      in (asset, if start = 0 then [] else chain_from w 5 start))"

definition TestPolicy ::
  "shell \<Rightarrow> sqlenv \<Rightarrow> world \<Rightarrow> string \<Rightarrow> int \<Rightarrow> int \<Rightarrow> current_policy option \<Rightarrow> string \<Rightarrow> PolicyTestOutput" where
  "TestPolicy sh se w kind assetID groupID current command =
     (if kind \<notin> set policyKinds then out NeedConfirm
      else (case resolveTestScope w assetID groupID of (asset, groups) \<Rightarrow>
        if kind = ''command'' then testSSHPolicy sh w (as_command current) groups command
        else if kind = ''query'' then testQueryPolicyForAsset se w asset (as_query current) groups command
        else if kind = ''redis'' then testRedisPolicy sh w (as_redis current) groups command
        else if kind = ''k8s'' then testK8sPolicy sh w (as_k8s current) groups command
        else if kind = ''etcd'' then testEtcdPolicy sh w (as_redis current) groups command
        else if kind = ''mongo'' then testMongoPolicy sh w (as_mongo current) groups command
        else if kind = ''kafka'' then testKafkaPolicy w (as_kafka current) groups command
        else testOSSPolicy w (as_oss current) groups command))"

end
