(* ===== verification/ExtResource.thy ===== *)
theory ExtResource
  imports CommandRule
begin

text \<open>
  Resource globs of extension rules (\<^verbatim>\<open>internal/ai/policy/ext_resource.go\<close>): the glob tokenizer,
  the two memoised searches that decide whether two globs may overlap (deny side) and whether
  one covers the other (allow side), and the decisions built on them. The specification is
  \<open>toks_match\<close>, the set of names, as sequences of code points, that a token list stands for:
  the overlap search never misses a common name, and the cover search only answers yes when
  every name of the resource is a name of the rule.
\<close>

section \<open>Tokens\<close>

datatype globTok = globLit nat | globAny | globStar | globClass string

definition slash :: nat where "slash = 47"

text \<open>
  \<open>class_len b s\<close> is the number of bytes up to and including the bracket that closes a class,
  \<open>b\<close> telling whether a closing bracket may stand here (it may not come first).
\<close>

fun class_len :: "bool \<Rightarrow> string \<Rightarrow> nat option" where
  "class_len b [] = None"
| "class_len b [c] = (if c = CHR '']'' \<and> b then Some 1 else None)"
| "class_len b (c # d # s) =
     (if c = CHR '']'' \<and> b then Some 1
      else if c = CHR 0x5C then map_option (\<lambda>n. n + 2) (class_len True s)
      else map_option Suc (class_len True (d # s)))"

definition classEnd :: "string \<Rightarrow> nat option" where
  "classEnd p =
     (let k = (if drop 1 p \<noteq> [] \<and> p ! 1 = CHR ''^'' then 2 else 1) in
      case class_len False (drop k p) of
        None \<Rightarrow> None
      | Some n \<Rightarrow> if path_Match (take (k + n) p) ''a'' = None then None else Some (k + n))"

lemma classEnd_pos: "classEnd p = Some n \<Longrightarrow> 0 < n"
  by (auto simp: classEnd_def Let_def split: option.splits if_splits)

function parse_from :: "globTok list \<Rightarrow> string \<Rightarrow> globTok list option" where
  "parse_from toks [] = Some toks"
| "parse_from toks (c # s) =
     (if c = CHR ''*'' then
        parse_from (if toks = [] \<or> last toks \<noteq> globStar then toks @ [globStar] else toks) s
      else if c = CHR ''?'' then parse_from (toks @ [globAny]) s
      else if c = CHR ''['' then
        (case classEnd (c # s) of
           None \<Rightarrow> None
         | Some n \<Rightarrow> parse_from (toks @ [globClass (take n (c # s))]) (drop n (c # s)))
      else if c = CHR 0x5C then
        (if s = [] then None
         else (case DecodeRune s of (r, w) \<Rightarrow> parse_from (toks @ [globLit r]) (drop w s)))
      else (case DecodeRune (c # s) of (r, w) \<Rightarrow>
              parse_from (toks @ [globLit r]) (drop w (c # s))))"
  by pat_completeness auto
termination
proof (relation "measure (\<lambda>(toks, s). length s)", goal_cases)
  case (4 toks c s n)
  then show ?case using classEnd_pos [of "c # s" n] by simp
next
  case (6 toks c s r w)
  then have "1 \<le> w" using DecodeRune_width [of "c # s"] by (metis list.distinct(1) snd_conv)
  then show ?case by simp
qed auto

declare parse_from.simps(2) [simp del]

definition parseGlob :: "string \<Rightarrow> globTok list option" where
  "parseGlob p = parse_from [] p"

fun literal :: "globTok list \<Rightarrow> string option" where
  "literal [] = Some []"
| "literal (globLit r # toks) = map_option (\<lambda>s. EncodeRune r @ s) (literal toks)"
| "literal (_ # toks) = None"

definition mayBeUnslashed :: "globTok \<Rightarrow> bool" where
  "mayBeUnslashed t = (case t of globLit r \<Rightarrow> r \<noteq> slash | _ \<Rightarrow> True)"

fun charsMayMeet :: "globTok \<Rightarrow> globTok \<Rightarrow> bool" where
  "charsMayMeet (globLit r) (globLit r') = (r = r')"
| "charsMayMeet (globLit r) globAny = (r \<noteq> slash)"
| "charsMayMeet (globLit r) (globClass c) = matchGlobPattern c (EncodeRune r)"
| "charsMayMeet globAny (globLit r) = (r \<noteq> slash)"
| "charsMayMeet (globClass c) (globLit r) = matchGlobPattern c (EncodeRune r)"
| "charsMayMeet _ _ = True"

definition starAbsorbs :: "globTok \<Rightarrow> bool" where
  "starAbsorbs r =
     (case r of globStar \<Rightarrow> True | globAny \<Rightarrow> True | globLit c \<Rightarrow> c \<noteq> slash | globClass _ \<Rightarrow> False)"

definition tokenCovers :: "globTok \<Rightarrow> globTok \<Rightarrow> bool" where
  "tokenCovers g r =
     (case g of
        globStar \<Rightarrow> starAbsorbs r
      | globAny \<Rightarrow> r = globAny \<or> (case r of globLit c \<Rightarrow> c \<noteq> slash | _ \<Rightarrow> False)
      | globLit l \<Rightarrow> r = globLit l
      | globClass cls \<Rightarrow> (case r of globLit c \<Rightarrow> matchGlobPattern cls (EncodeRune c) | _ \<Rightarrow> False))"

section \<open>The memoised searches\<close>

type_synonym seen = "(nat \<times> nat) set"

text \<open>
  The closures \<open>reach\<close> share the map \<open>seen\<close>, which is passed along here; \<open>or_else\<close> is Go's
  short-circuit disjunction on such computations and \<open>and_then\<close> guards one by a condition.
\<close>

definition or_else :: "bool \<times> seen \<Rightarrow> (seen \<Rightarrow> bool \<times> seen) \<Rightarrow> bool \<times> seen" where
  "or_else r k = (if fst r then r else k (snd r))"

definition and_then :: "bool \<Rightarrow> (seen \<Rightarrow> bool \<times> seen) \<Rightarrow> seen \<Rightarrow> bool \<times> seen" where
  "and_then c k s = (if c then k s else (False, s))"

lemma or_else_cong [fundef_cong]:
  "r = r' \<Longrightarrow> (\<And>s. s = snd r' \<Longrightarrow> k s = k' s) \<Longrightarrow> or_else r k = or_else r' k'"
  by (simp add: or_else_def)

lemma and_then_cong [fundef_cong]:
  "c = c' \<Longrightarrow> s = s' \<Longrightarrow> (c' \<Longrightarrow> k s' = k' s') \<Longrightarrow> and_then c k s = and_then c' k' s'"
  by (simp add: and_then_def)

function overlap_reach :: "globTok list \<Rightarrow> globTok list \<Rightarrow> nat \<Rightarrow> nat \<Rightarrow> seen \<Rightarrow> bool \<times> seen" where
  "overlap_reach a b i j seen =
     (if i = length a \<and> j = length b then (True, seen)
      else if (i, j) \<in> seen then (False, seen)
      else
        or_else (or_else (or_else (or_else
          (and_then (i < length a \<and> a ! i = globStar) (overlap_reach a b (i + 1) j)
             (insert (i, j) seen))
          (and_then (i < length a \<and> a ! i = globStar \<and>
                     j < length b \<and> b ! j \<noteq> globStar \<and> mayBeUnslashed (b ! j))
             (overlap_reach a b i (j + 1))))
          (and_then (j < length b \<and> b ! j = globStar) (overlap_reach a b i (j + 1))))
          (and_then (j < length b \<and> b ! j = globStar \<and>
                     i < length a \<and> a ! i \<noteq> globStar \<and> mayBeUnslashed (a ! i))
             (overlap_reach a b (i + 1) j)))
          (and_then (i < length a \<and> j < length b \<and> a ! i \<noteq> globStar \<and> b ! j \<noteq> globStar \<and>
                     charsMayMeet (a ! i) (b ! j))
             (overlap_reach a b (i + 1) (j + 1))))"
  by pat_completeness auto
termination
  by (relation "measure (\<lambda>(a, b, i, j, seen). (length a - i) + (length b - j))") auto

function cover_reach :: "globTok list \<Rightarrow> globTok list \<Rightarrow> nat \<Rightarrow> nat \<Rightarrow> seen \<Rightarrow> bool \<times> seen" where
  "cover_reach g res i j seen =
     (if i = length g then (j = length res, seen)
      else if (i, j) \<in> seen then (False, seen)
      else
        or_else (or_else
          (and_then (i < length g \<and> j < length res \<and> tokenCovers (g ! i) (res ! j))
             (cover_reach g res (i + 1) (j + 1)) (insert (i, j) seen))
          (and_then (i < length g \<and> g ! i = globStar) (cover_reach g res (i + 1) j)))
          (and_then (i < length g \<and> g ! i = globStar \<and> j < length res \<and> starAbsorbs (res ! j))
             (cover_reach g res i (j + 1))))"
  by pat_completeness auto
termination
  by (relation "measure (\<lambda>(g, res, i, j, seen). (length g - i) + (length res - j))") auto

declare overlap_reach.simps [simp del] cover_reach.simps [simp del]

definition globsOverlap :: "globTok list \<Rightarrow> globTok list \<Rightarrow> bool" where
  "globsOverlap a b = fst (overlap_reach a b 0 0 {})"

definition globCoversTokens :: "globTok list \<Rightarrow> globTok list \<Rightarrow> bool" where
  "globCoversTokens g res = fst (cover_reach g res 0 0 {})"

section \<open>Decisions on resources\<close>

definition globMayMatch :: "string \<Rightarrow> string \<Rightarrow> bool" where
  "globMayMatch glob resource =
     (case parseGlob resource of
        None \<Rightarrow> True
      | Some res \<Rightarrow>
          (case literal res of
             Some name \<Rightarrow> matchGlobPattern glob name
           | None \<Rightarrow> (case parseGlob glob of None \<Rightarrow> True | Some g \<Rightarrow> globsOverlap g res)))"

definition globCovers :: "string \<Rightarrow> string \<Rightarrow> bool" where
  "globCovers glob resource =
     (case parseGlob resource of
        None \<Rightarrow> False
      | Some res \<Rightarrow>
          (case literal res of
             Some name \<Rightarrow> matchGlobPattern glob name
           | None \<Rightarrow> (case parseGlob glob of None \<Rightarrow> False | Some g \<Rightarrow> globCoversTokens g res)))"

fun display_from :: "string \<Rightarrow> string" where
  "display_from [] = []"
| "display_from [c] = [c]"
| "display_from (c # d # s) = (if c = CHR 0x5C then d # display_from s else c # display_from (d # s))"

definition DisplayExtensionResource :: "string \<Rightarrow> string" where
  "DisplayExtensionResource resource =
     (if CHR 0x5C \<notin> set resource then resource else display_from resource)"

section \<open>The names a glob stands for\<close>

definition tok_char :: "globTok \<Rightarrow> nat \<Rightarrow> bool" where
  "tok_char t x =
     (case t of globLit r \<Rightarrow> x = r | globAny \<Rightarrow> x \<noteq> slash | globStar \<Rightarrow> False
      | globClass c \<Rightarrow> matchGlobPattern c (EncodeRune x))"

fun toks_match :: "globTok list \<Rightarrow> nat list \<Rightarrow> bool" where
  "toks_match [] w \<longleftrightarrow> w = []"
| "toks_match (t # ts) [] \<longleftrightarrow> t = globStar \<and> toks_match ts []"
| "toks_match (t # ts) (x # w) \<longleftrightarrow>
     (if t = globStar then toks_match ts (x # w) \<or> (x \<noteq> slash \<and> toks_match (t # ts) w)
      else tok_char t x \<and> toks_match ts w)"

lemma star_match_append:
  "slash \<notin> set u \<Longrightarrow> toks_match (globStar # ts) v \<Longrightarrow> toks_match (globStar # ts) (u @ v)"
  by (induction u) auto

lemma star_match_iff:
  "toks_match (globStar # ts) w \<longleftrightarrow> (\<exists>u v. w = u @ v \<and> slash \<notin> set u \<and> toks_match ts v)"
proof
  show "toks_match (globStar # ts) w \<Longrightarrow> \<exists>u v. w = u @ v \<and> slash \<notin> set u \<and> toks_match ts v"
  proof (induction w)
    case Nil
    then show ?case by simp
  next
    case (Cons x w)
    then consider "toks_match ts (x # w)" | "x \<noteq> slash" "toks_match (globStar # ts) w" by auto
    then show ?case
    proof cases
      case 1
      then show ?thesis by (intro exI [of _ "[]"] exI [of _ "x # w"]) simp
    next
      case 2
      with Cons.IH obtain u v where "w = u @ v" "slash \<notin> set u" "toks_match ts v" by blast
      with 2 show ?thesis by (intro exI [of _ "x # u"] exI [of _ v]) simp
    qed
  qed
next
  assume "\<exists>u v. w = u @ v \<and> slash \<notin> set u \<and> toks_match ts v"
  then obtain u v where w: "w = u @ v" "slash \<notin> set u" "toks_match ts v" by blast
  from w(3) have "toks_match (globStar # ts) v" by (cases v) auto
  with w star_match_append show "toks_match (globStar # ts) w" by blast
qed

section \<open>Memoisation is transparent\<close>

text \<open>The searches without the map of visited positions, on the remaining tokens.\<close>

fun overlaps :: "globTok list \<Rightarrow> globTok list \<Rightarrow> bool" where
  "overlaps [] [] \<longleftrightarrow> True"
| "overlaps (x # a) [] \<longleftrightarrow> x = globStar \<and> overlaps a []"
| "overlaps [] (y # b) \<longleftrightarrow> y = globStar \<and> overlaps [] b"
| "overlaps (x # a) (y # b) \<longleftrightarrow>
     x = globStar \<and> overlaps a (y # b) \<or>
     x = globStar \<and> y \<noteq> globStar \<and> mayBeUnslashed y \<and> overlaps (x # a) b \<or>
     y = globStar \<and> overlaps (x # a) b \<or>
     y = globStar \<and> x \<noteq> globStar \<and> mayBeUnslashed x \<and> overlaps a (y # b) \<or>
     x \<noteq> globStar \<and> y \<noteq> globStar \<and> charsMayMeet x y \<and> overlaps a b"

fun covers :: "globTok list \<Rightarrow> globTok list \<Rightarrow> bool" where
  "covers [] res \<longleftrightarrow> res = []"
| "covers (x # g) [] \<longleftrightarrow> x = globStar \<and> covers g []"
| "covers (x # g) (y # res) \<longleftrightarrow>
     tokenCovers x y \<and> covers g res \<or>
     x = globStar \<and> covers g (y # res) \<or>
     x = globStar \<and> starAbsorbs y \<and> covers (x # g) res"

text \<open>
  \<open>memo_ok V s v seen res\<close>: a search that starts with the visited set \<open>seen\<close> and visits
  positions of index sum at least \<open>s\<close> ends with the verdict \<open>v\<close>; when that is negative, every
  visited position from \<open>s\<close> on has a negative verdict \<open>V\<close>, and none below \<open>s\<close> was added. Since
  every step increases the index sum, a position met again is never still being explored.
\<close>

definition seen_ok :: "(nat \<Rightarrow> nat \<Rightarrow> bool) \<Rightarrow> nat \<Rightarrow> seen \<Rightarrow> bool" where
  "seen_ok V s seen \<longleftrightarrow> (\<forall>(x, y)\<in>seen. s \<le> x + y \<longrightarrow> \<not> V x y)"

definition memo_ok :: "(nat \<Rightarrow> nat \<Rightarrow> bool) \<Rightarrow> nat \<Rightarrow> bool \<Rightarrow> seen \<Rightarrow> bool \<times> seen \<Rightarrow> bool" where
  "memo_ok V s v seen res \<longleftrightarrow> fst res = v \<and>
     (\<not> v \<longrightarrow> seen_ok V s (snd res) \<and> (\<forall>(x, y)\<in>snd res. x + y < s \<longrightarrow> (x, y) \<in> seen))"

lemma seen_ok_mono: "seen_ok V s seen \<Longrightarrow> s \<le> s' \<Longrightarrow> seen_ok V s' seen"
  by (auto simp: seen_ok_def)

lemma memo_ok_weaken:
  "memo_ok V s' v seen res \<Longrightarrow> seen_ok V s seen \<Longrightarrow> s \<le> s' \<Longrightarrow> memo_ok V s v seen res"
  unfolding memo_ok_def seen_ok_def by (fastforce simp: not_le)

lemma memo_ok_or:
  assumes "memo_ok V s v1 seen r"
    and "seen_ok V s (snd r) \<Longrightarrow> memo_ok V s v2 (snd r) (k (snd r))"
  shows "memo_ok V s (v1 \<or> v2) seen (or_else r k)"
  using assms unfolding memo_ok_def or_else_def by fastforce

lemma memo_ok_and:
  assumes "seen_ok V s seen" "c \<Longrightarrow> memo_ok V s v seen (k seen)"
  shows "memo_ok V s (c \<and> v) seen (and_then c k seen)"
  using assms by (auto simp: memo_ok_def and_then_def)

lemma memo_ok_node:
  assumes "seen_ok V (i + j) seen" "memo_ok V (Suc (i + j)) (V i j) (insert (i, j) seen) r"
  shows "memo_ok V (i + j) (V i j) seen r"
proof (cases "V i j")
  case True
  with assms(2) show ?thesis by (simp add: memo_ok_def)
next
  case False
  from assms(2) False have r: "\<not> fst r" "seen_ok V (Suc (i + j)) (snd r)"
    "\<And>x y. (x, y) \<in> snd r \<Longrightarrow> x + y < Suc (i + j) \<Longrightarrow> (x, y) \<in> insert (i, j) seen"
    by (auto simp: memo_ok_def)
  have "\<not> V x y" if "(x, y) \<in> snd r" "i + j \<le> x + y" for x y
  proof (cases "Suc (i + j) \<le> x + y")
    case True
    with r(2) that show ?thesis by (auto simp: seen_ok_def)
  next
    case small: False
    with r(3) [OF that(1)] have "(x, y) = (i, j) \<or> (x, y) \<in> seen" by auto
    with False assms(1) that(2) show ?thesis by (auto simp: seen_ok_def)
  qed
  moreover have "(x, y) \<in> seen" if "(x, y) \<in> snd r" "x + y < i + j" for x y
    using r(3) [OF that(1)] that(2) by auto
  ultimately show ?thesis using False r(1) by (auto simp: memo_ok_def seen_ok_def)
qed

lemma memo_ok_revisit: "seen_ok V (i + j) seen \<Longrightarrow> (i, j) \<in> seen \<Longrightarrow> memo_ok V (i + j) (V i j) seen (False, seen)"
  by (auto simp: memo_ok_def seen_ok_def)

lemma memo_ok_call:
  assumes "c \<Longrightarrow> seen_ok V s' seen \<Longrightarrow> memo_ok V s' v seen (k seen)" "seen_ok V s seen" "s \<le> s'"
  shows "memo_ok V s (c \<and> v) seen (and_then c k seen)"
  using assms by (intro memo_ok_and) (auto intro: memo_ok_weaken seen_ok_mono)

lemma overlaps_drop:
  assumes "i \<le> length a" "j \<le> length b" "\<not> (i = length a \<and> j = length b)"
  shows "overlaps (drop i a) (drop j b) \<longleftrightarrow>
     (((((i < length a \<and> a ! i = globStar) \<and> overlaps (drop (i + 1) a) (drop j b)) \<or>
        ((i < length a \<and> a ! i = globStar \<and> j < length b \<and> b ! j \<noteq> globStar \<and> mayBeUnslashed (b ! j)) \<and>
           overlaps (drop i a) (drop (j + 1) b))) \<or>
       ((j < length b \<and> b ! j = globStar) \<and> overlaps (drop i a) (drop (j + 1) b))) \<or>
      ((j < length b \<and> b ! j = globStar \<and> i < length a \<and> a ! i \<noteq> globStar \<and> mayBeUnslashed (a ! i)) \<and>
         overlaps (drop (i + 1) a) (drop j b))) \<or>
     ((i < length a \<and> j < length b \<and> a ! i \<noteq> globStar \<and> b ! j \<noteq> globStar \<and>
         charsMayMeet (a ! i) (b ! j)) \<and> overlaps (drop (i + 1) a) (drop (j + 1) b))"
proof -
  consider "i < length a" "j < length b" | "i < length a" "j = length b" | "i = length a" "j < length b"
    using assms by linarith
  then show ?thesis
    by cases (simp_all add: Cons_nth_drop_Suc [symmetric])
qed

lemma covers_drop:
  assumes "i < length g" "j \<le> length res"
  shows "covers (drop i g) (drop j res) \<longleftrightarrow>
     ((i < length g \<and> j < length res \<and> tokenCovers (g ! i) (res ! j)) \<and>
        covers (drop (i + 1) g) (drop (j + 1) res) \<or>
      (i < length g \<and> g ! i = globStar) \<and> covers (drop (i + 1) g) (drop j res)) \<or>
     (i < length g \<and> g ! i = globStar \<and> j < length res \<and> starAbsorbs (res ! j)) \<and>
        covers (drop i g) (drop (j + 1) res)"
proof -
  consider "j < length res" | "j = length res" using assms by linarith
  then show ?thesis using assms(1)
    by cases (simp_all add: Cons_nth_drop_Suc [symmetric])
qed

text \<open>
  Both searches, by induction on what is left of the two lists: the conditions of a node are
  composed in the order of the code, and each call is a smaller instance.
\<close>

lemma overlap_reach_ok:
  fixes a b :: "globTok list"
  defines "V \<equiv> \<lambda>i j. overlaps (drop i a) (drop j b)"
  shows "i \<le> length a \<Longrightarrow> j \<le> length b \<Longrightarrow> seen_ok V (i + j) seen \<Longrightarrow>
     memo_ok V (i + j) (V i j) seen (overlap_reach a b i j seen)"
proof (induction "(length a - i) + (length b - j)" arbitrary: i j seen rule: less_induct)
  case less
  have call: "memo_ok V (Suc (i + j)) (c \<and> V i' j') sn (and_then c (overlap_reach a b i' j') sn)"
    if "seen_ok V (Suc (i + j)) sn" "i + j < i' + j'" "i \<le> i'" "j \<le> j'"
      "c \<Longrightarrow> i' \<le> length a \<and> j' \<le> length b" for c i' j' sn
  proof (rule memo_ok_call [OF _ that(1)])
    assume "c" "seen_ok V (i' + j') sn"
    then show "memo_ok V (i' + j') (V i' j') sn (overlap_reach a b i' j' sn)"
      using that less.prems by (intro less.hyps) auto
  qed (use that in simp)
  show ?case
  proof (cases "i = length a \<and> j = length b")
    case True
    then show ?thesis by (simp add: overlap_reach.simps memo_ok_def V_def)
  next
    case nfin: False
    show ?thesis
    proof (cases "(i, j) \<in> seen")
      case True
      then have "overlap_reach a b i j seen = (False, seen)" using nfin by (simp add: overlap_reach.simps)
      then show ?thesis using memo_ok_revisit [OF less.prems(3) True] by simp
    next
      case False
      have Vd: "overlaps (drop i a) (drop j b) = V i j" for i j by (simp add: V_def)
      note V_eq = overlaps_drop [OF less.prems(1,2) nfin, unfolded Vd]
      have start: "seen_ok V (Suc (i + j)) (insert (i, j) seen)"
        using less.prems(3) by (auto simp: seen_ok_def)
      have "memo_ok V (Suc (i + j)) (V i j) (insert (i, j) seen) (overlap_reach a b i j seen)"
        unfolding overlap_reach.simps [of a b i j seen] if_not_P [OF nfin] if_not_P [OF False] V_eq
        by (intro memo_ok_or call) (use start less.prems(1,2) in auto)
      then show ?thesis by (rule memo_ok_node [OF less.prems(3)])
    qed
  qed
qed

lemma cover_reach_ok:
  fixes g res :: "globTok list"
  defines "V \<equiv> \<lambda>i j. covers (drop i g) (drop j res)"
  shows "i \<le> length g \<Longrightarrow> j \<le> length res \<Longrightarrow> seen_ok V (i + j) seen \<Longrightarrow>
     memo_ok V (i + j) (V i j) seen (cover_reach g res i j seen)"
proof (induction "(length g - i) + (length res - j)" arbitrary: i j seen rule: less_induct)
  case less
  have call: "memo_ok V (Suc (i + j)) (c \<and> V i' j') sn (and_then c (cover_reach g res i' j') sn)"
    if "seen_ok V (Suc (i + j)) sn" "i + j < i' + j'" "i \<le> i'" "j \<le> j'"
      "c \<Longrightarrow> i' \<le> length g \<and> j' \<le> length res" for c i' j' sn
  proof (rule memo_ok_call [OF _ that(1)])
    assume "c" "seen_ok V (i' + j') sn"
    then show "memo_ok V (i' + j') (V i' j') sn (cover_reach g res i' j' sn)"
      using that less.prems by (intro less.hyps) auto
  qed (use that in simp)
  show ?case
  proof (cases "i = length g")
    case True
    then show ?thesis using less.prems by (auto simp: cover_reach.simps memo_ok_def V_def)
  next
    case nfin: False
    show ?thesis
    proof (cases "(i, j) \<in> seen")
      case True
      then have "cover_reach g res i j seen = (False, seen)" using nfin by (simp add: cover_reach.simps)
      then show ?thesis using memo_ok_revisit [OF less.prems(3) True] by simp
    next
      case False
      have Vd: "covers (drop i g) (drop j res) = V i j" for i j by (simp add: V_def)
      have "i < length g" using less.prems(1) nfin by simp
      note V_eq = covers_drop [OF this less.prems(2), unfolded Vd]
      have start: "seen_ok V (Suc (i + j)) (insert (i, j) seen)"
        using less.prems(3) by (auto simp: seen_ok_def)
      have "memo_ok V (Suc (i + j)) (V i j) (insert (i, j) seen) (cover_reach g res i j seen)"
        unfolding cover_reach.simps [of g res i j seen] if_not_P [OF nfin] if_not_P [OF False] V_eq
        by (intro memo_ok_or call) (use start less.prems(1,2) in auto)
      then show ?thesis by (rule memo_ok_node [OF less.prems(3)])
    qed
  qed
qed

lemma globsOverlap_eq: "globsOverlap a b = overlaps a b"
  using overlap_reach_ok [of 0 a 0 b "{}"] by (simp add: globsOverlap_def memo_ok_def seen_ok_def)

lemma globCoversTokens_eq: "globCoversTokens g res = covers g res"
  using cover_reach_ok [of 0 g 0 res "{}"] by (simp add: globCoversTokens_def memo_ok_def seen_ok_def)

section \<open>Soundness of the two comparisons\<close>

lemma tok_char_unslashed: "tok_char t x \<Longrightarrow> x \<noteq> slash \<Longrightarrow> mayBeUnslashed t"
  by (auto simp: tok_char_def mayBeUnslashed_def split: globTok.splits)

lemma tok_chars_meet: "tok_char s x \<Longrightarrow> tok_char t x \<Longrightarrow> charsMayMeet s t"
  by (cases s; cases t) (auto simp: tok_char_def)

lemma common_name_overlaps: "toks_match a w \<Longrightarrow> toks_match b w \<Longrightarrow> overlaps a b"
proof (induction "length a + length b + length w" arbitrary: a b w rule: less_induct)
  case less
  show ?case
  proof (cases a)
    case Nil
    with less show ?thesis by (cases b) auto
  next
    case a: (Cons s a')
    show ?thesis
    proof (cases b)
      case Nil
      with less a show ?thesis by auto
    next
      case b: (Cons t b')
      show ?thesis
      proof (cases w)
        case Nil
        with less a b show ?thesis by auto
      next
        case w: (Cons x w')
        note ih = less.hyps
        show ?thesis
          using less.prems ih [of a' b w] ih [of a b' w] ih [of a b w'] ih [of a' b w'] ih [of a b' w']
            ih [of a' b' w'] tok_char_unslashed tok_chars_meet
          unfolding a b w by (auto split: if_splits)
      qed
    qed
  qed
qed

lemma starAbsorbs_char: "starAbsorbs t \<Longrightarrow> t \<noteq> globStar \<Longrightarrow> tok_char t x \<Longrightarrow> x \<noteq> slash"
  by (auto simp: starAbsorbs_def tok_char_def split: globTok.splits)

lemma absorbed_match:
  assumes "starAbsorbs t" "toks_match (t # ts) w"
  shows "\<exists>u v. w = u @ v \<and> slash \<notin> set u \<and> toks_match ts v"
proof (cases "t = globStar")
  case True
  with assms(2) star_match_iff show ?thesis by simp
next
  case False
  with assms(2) obtain x w' where "w = x # w'" "tok_char t x" "toks_match ts w'" by (cases w) auto
  with starAbsorbs_char [OF assms(1) False] show ?thesis
    by (intro exI [of _ "[x]"] exI [of _ w']) auto
qed

lemma tokenCovers_char:
  "tokenCovers g r \<Longrightarrow> g \<noteq> globStar \<Longrightarrow> r \<noteq> globStar \<and> (\<forall>x. tok_char r x \<longrightarrow> tok_char g x)"
  by (auto simp: tokenCovers_def tok_char_def split: globTok.splits)

lemma tokenCovers_match:
  assumes "tokenCovers g r" "toks_match (r # res) w" "\<And>v. toks_match res v \<Longrightarrow> toks_match gs v"
  shows "toks_match (g # gs) w"
proof (cases "g = globStar")
  case True
  with assms(1) have "starAbsorbs r" by (simp add: tokenCovers_def)
  with absorbed_match [OF this assms(2)] assms(3) True show ?thesis
    using star_match_iff by auto
next
  case False
  with tokenCovers_char [OF assms(1)] assms(2,3) show ?thesis by (cases w) auto
qed

lemma covers_names: "covers g res \<Longrightarrow> toks_match res w \<Longrightarrow> toks_match g w"
proof (induction g res arbitrary: w rule: covers.induct)
  case (3 x g y res)
  then consider "tokenCovers x y" "covers g res" | "x = globStar" "covers g (y # res)"
    | "x = globStar" "starAbsorbs y" "covers (x # g) res" by auto
  then show ?case
  proof cases
    case 1
    with 3 show ?thesis by (intro tokenCovers_match [of x y res]) auto
  next
    case 2
    with 3 have "toks_match g w" by blast
    with 2 show ?thesis by (cases w) auto
  next
    case 3
    with absorbed_match [OF 3(2) "3.prems"(2)] obtain u v
      where w: "w = u @ v" "slash \<notin> set u" "toks_match res v" by blast
    with 3 "3.IH"(3) [of v] have "toks_match (globStar # g) v" by auto
    with 3 w star_match_append show ?thesis by simp
  qed
qed auto

end
