(* ===== verification/PolicyExt.thy ===== *)
theory PolicyExt
  imports PolicyResolve ExtResource
begin

text \<open>
  The policy of extension calls (\<^verbatim>\<open>internal/ai/policy/policy_ext.go\<close>): rules of the form
  \<open>action\<close> or \<open>action:glob\<close>, denial of any resource a deny rule may touch, permission only when
  every resource is covered, and the result a set of grants completes. It comes with the
  decoding of the classification a guest returns (\<^verbatim>\<open>pkg/extension/policy_resource.go\<close>), where a
  literal resource is quoted into the glob that stands for exactly itself.
\<close>

section \<open>Decoding the classification of a call\<close>

text \<open>The fields of the reply once the JSON is read; a missing or null field of pointer type is \<open>None\<close>.\<close>

record policy_reply =
  pd_Action :: string
  pd_Resource :: string
  pd_Resources :: "string list option"
  pd_Reject :: "string option"

datatype decision_error = BadReply | RejectsAndClassifies | ArgsRejectedError string | BothResourceFields

definition literalGlobChars :: string where "literalGlobChars = ''*?['' @ [CHR 0x5C]"

definition wildcardQuotedChars :: string where "wildcardQuotedChars = ''[]'' @ [CHR 0x5C]"

definition quoteGlob :: "string \<Rightarrow> string \<Rightarrow> string" where
  "quoteGlob s chars = (if \<not> list_ex (\<lambda>c. c \<in> set chars) s then s else quote_with chars s)"

definition decodePolicyDecision :: "policy_reply option \<Rightarrow> decision_error + string \<times> string list" where
  "decodePolicyDecision raw =
     (case raw of
        None \<Rightarrow> Inl BadReply
      | Some d \<Rightarrow>
          (case pd_Reject d of
             Some reason \<Rightarrow>
               if pd_Action d \<noteq> [] \<or> pd_Resource d \<noteq> [] \<or> pd_Resources d \<noteq> None
               then Inl RejectsAndClassifies else Inl (ArgsRejectedError reason)
           | None \<Rightarrow>
               (case pd_Resources d of
                  None \<Rightarrow>
                    if pd_Resource d = [] then Inr (pd_Action d, [])
                    else Inr (pd_Action d, [quoteGlob (pd_Resource d) literalGlobChars])
                | Some rs \<Rightarrow>
                    if pd_Resource d \<noteq> [] then Inl BothResourceFields
                    else Inr (pd_Action d, map (\<lambda>r. quoteGlob r wildcardQuotedChars) rs))))"

section \<open>Rules\<close>

definition ExtensionResources :: "string list \<Rightarrow> string list" where
  "ExtensionResources resources = (if resources = [] then [[]] else resources)"

definition ExtensionRuleParts :: "string \<Rightarrow> string \<times> string \<times> bool" where
  "ExtensionRuleParts rule = Cut rule (CHR '':'')"

definition MatchExtensionRule :: "string \<Rightarrow> string \<Rightarrow> string \<Rightarrow> bool" where
  "MatchExtensionRule rule action resource =
     (case ExtensionRuleParts rule of (ruleAction, glob, scoped) \<Rightarrow>
        if ruleAction \<noteq> action then False else \<not> scoped \<or> globCovers glob resource)"

definition extensionDenyHits :: "string \<Rightarrow> string \<Rightarrow> string \<Rightarrow> bool" where
  "extensionDenyHits rule action resource =
     (case ExtensionRuleParts rule of (ruleAction, glob, scoped) \<Rightarrow>
        if ruleAction \<noteq> action then False else \<not> scoped \<or> globMayMatch glob resource)"

definition joinPatterns :: "string list \<Rightarrow> string" where
  "joinPatterns patterns = Join (dedup [] patterns) ''; ''"

record extensionDenial =
  ed_rule :: string
  ed_resources :: "string list"

fun add_denial :: "string \<Rightarrow> string \<Rightarrow> extensionDenial list \<Rightarrow> extensionDenial list" where
  "add_denial rule name [] = [\<lparr> ed_rule = rule, ed_resources = [name] \<rparr>]"
| "add_denial rule name (d # ds) =
     (if ed_rule d = rule then d \<lparr> ed_resources := ed_resources d @ [name] \<rparr> # ds
      else d # add_denial rule name ds)"

fun denials_from :: "extensionDenial list \<Rightarrow> string list \<Rightarrow> string \<Rightarrow> string list \<Rightarrow> extensionDenial list" where
  "denials_from denied deny action [] = denied"
| "denials_from denied deny action (resource # rs) =
     (case find (\<lambda>rule. extensionDenyHits rule action resource) deny of
        None \<Rightarrow> denials_from denied deny action rs
      | Some rule \<Rightarrow>
          denials_from (add_denial rule (DisplayExtensionResource resource) denied) deny action rs)"

definition extensionDenials :: "string list \<Rightarrow> string \<Rightarrow> string list \<Rightarrow> extensionDenial list" where
  "extensionDenials deny action resources = denials_from [] deny action resources"

definition denyResult :: "string \<Rightarrow> extensionDenial list \<Rightarrow> bool \<Rightarrow> CheckResult" where
  "denyResult action denied multiResource =
     (let names = filter (\<lambda>n. n \<noteq> []) (concat (map ed_resources denied));
          patterns = map (\<lambda>d. if multiResource then ed_rule d @ '' ('' @ Join (ed_resources d) '', '' @ '')''
                              else ed_rule d) denied
      in deny_policy
           (''action denied by extension policy: '' @ action @
            (if names = [] then [] else '' on '' @ Join names '', ''))
           (Join patterns ''; ''))"

section \<open>The check\<close>

record ExtensionCheck =
  ec_PolicyType :: string
  ec_GroupIDs :: "string list"
  ec_Own :: ExtensionPolicy
  ec_Action :: string
  ec_Resources :: "string list"

record ExtensionPolicyResult =
  er_CheckResult :: CheckResult
  er_Uncovered :: "string list"
  er_covering :: "string list"

definition AllowedByGrants :: "ExtensionPolicyResult \<Rightarrow> string list \<Rightarrow> CheckResult" where
  "AllowedByGrants r grants =
     CheckResult0 \<lparr> cr_Decision := Allow, cr_DecisionSource := SourceGrantAllow,
       cr_MatchedPattern := joinPatterns (er_covering r @ grants) \<rparr>"

text \<open>The loop over the resources: those no allow rule covers, and the rules that cover the others.\<close>

fun cover_loop :: "string list \<Rightarrow> string \<Rightarrow> string list \<Rightarrow> string list \<times> string list" where
  "cover_loop allow action [] = ([], [])"
| "cover_loop allow action (resource # rs) =
     (case cover_loop allow action rs of (uncovered, covering) \<Rightarrow>
        (case find (\<lambda>rule. MatchExtensionRule rule action resource) allow of
           None \<Rightarrow> (resource # uncovered, covering)
         | Some rule \<Rightarrow> (uncovered, rule # covering)))"

definition ext_rules :: "world \<Rightarrow> ExtensionCheck \<Rightarrow> string list \<times> string list" where
  "ext_rules w inp =
     (let ps = group_policies w (ec_PolicyType inp) rule_of_fields (ec_GroupIDs inp)
      in (rp_AllowList (ec_Own inp) @ concat (map rp_AllowList ps),
          rp_DenyList (ec_Own inp) @ concat (map rp_DenyList ps)))"

definition CheckExtensionPolicy :: "world \<Rightarrow> ExtensionCheck \<Rightarrow> ExtensionPolicyResult" where
  "CheckExtensionPolicy w inp =
     (case ext_rules w inp of (allow, deny) \<Rightarrow>
      let resources = ExtensionResources (ec_Resources inp);
          denied = extensionDenials deny (ec_Action inp) resources
      in if denied \<noteq> [] then
           \<lparr> er_CheckResult = denyResult (ec_Action inp) denied (1 < length resources),
             er_Uncovered = [], er_covering = [] \<rparr>
         else (case cover_loop allow (ec_Action inp) resources of (uncovered, covering) \<Rightarrow>
           if uncovered \<noteq> [] then
             \<lparr> er_CheckResult = need_confirm, er_Uncovered = uncovered, er_covering = covering \<rparr>
           else
             \<lparr> er_CheckResult = allow_policy (joinPatterns covering),
               er_Uncovered = [], er_covering = covering \<rparr>))"

section \<open>Facts\<close>

lemma quoteGlob_eq: "quoteGlob s chars = quote_with chars s"
  by (auto simp: quoteGlob_def list_ex_iff quote_with_id)

lemma display_from_quote: "CHR 0x5C \<in> set chars \<Longrightarrow> display_from (quote_with chars s) = s"
proof (induction s)
  case (Cons c s)
  show ?case
  proof (cases "c \<in> set chars")
    case True
    with Cons show ?thesis by simp
  next
    case False
    with Cons have "c \<noteq> CHR 0x5C" by auto
    with False Cons show ?thesis by (cases "quote_with chars s") auto
  qed
qed simp

lemma quote_with_no_escape:
  "CHR 0x5C \<in> set chars \<Longrightarrow> CHR 0x5C \<notin> set (quote_with chars s) \<Longrightarrow> quote_with chars s = s"
  by (induction s) (auto split: if_splits)

lemma Display_quoteGlob: "CHR 0x5C \<in> set chars \<Longrightarrow> DisplayExtensionResource (quoteGlob s chars) = s"
  using display_from_quote [of chars s] quote_with_no_escape [of chars s]
  by (auto simp: DisplayExtensionResource_def quoteGlob_eq)

lemma rule_parts_unscoped: "CHR '':'' \<notin> set a \<Longrightarrow> ExtensionRuleParts a = (a, [], False)"
  by (simp add: ExtensionRuleParts_def)

lemma rule_parts_scoped: "CHR '':'' \<notin> set a \<Longrightarrow> ExtensionRuleParts (a @ '':'' @ g) = (a, g, True)"
  by (simp add: ExtensionRuleParts_def)

lemma add_denial_ne [simp]: "add_denial r n ds \<noteq> []"
  by (cases ds) auto

lemma denials_from_Nil_iff:
  "denials_from denied deny action rs = [] \<longleftrightarrow>
     denied = [] \<and> (\<forall>x\<in>set rs. \<forall>r\<in>set deny. \<not> extensionDenyHits r action x)"
proof (induction denied deny action rs rule: denials_from.induct)
  case (2 denied deny action x rs)
  show ?case
  proof (cases "find (\<lambda>rule. extensionDenyHits rule action x) deny")
    case None
    then have "\<forall>r\<in>set deny. \<not> extensionDenyHits r action x" by (simp add: find_eq_None_iff)
    with None "2.IH"(1) [OF None] show ?thesis by simp
  next
    case (Some r)
    with "2.IH"(2) [OF Some] find_SomeD [OF Some] show ?thesis by auto
  qed
qed simp

lemma extensionDenials_Nil_iff:
  "extensionDenials deny action rs = [] \<longleftrightarrow> (\<forall>x\<in>set rs. \<forall>r\<in>set deny. \<not> extensionDenyHits r action x)"
  by (simp add: extensionDenials_def denials_from_Nil_iff)

lemma cover_loop_uncovered:
  "fst (cover_loop allow action rs) = filter (\<lambda>x. \<forall>r\<in>set allow. \<not> MatchExtensionRule r action x) rs"
proof (induction allow action rs rule: cover_loop.induct)
  case (2 allow action x rs)
  show ?case
  proof (cases "find (\<lambda>rule. MatchExtensionRule rule action x) allow")
    case None
    then have "\<forall>r\<in>set allow. \<not> MatchExtensionRule r action x" by (simp add: find_eq_None_iff)
    with 2 None show ?thesis by (simp add: case_prod_beta)
  next
    case (Some r)
    then have "\<exists>r\<in>set allow. MatchExtensionRule r action x" by (auto dest: find_SomeD)
    with 2 Some show ?thesis by (simp add: case_prod_beta)
  qed
qed simp

lemma denyResult_Deny [simp]: "cr_Decision (denyResult a d m) = Deny"
  by (simp add: denyResult_def Let_def)

lemma ExtensionResources_ne [simp]: "ExtensionResources rs \<noteq> []"
  by (simp add: ExtensionResources_def)

lemma CheckExtensionPolicy_eq:
  assumes "ext_rules w inp = (allow, deny)"
  defines "rs \<equiv> ExtensionResources (ec_Resources inp)" and "a \<equiv> ec_Action inp"
  shows "CheckExtensionPolicy w inp =
    (if \<exists>x\<in>set rs. \<exists>r\<in>set deny. extensionDenyHits r a x then
       \<lparr> er_CheckResult = denyResult a (extensionDenials deny a rs) (1 < length rs),
         er_Uncovered = [], er_covering = [] \<rparr>
     else if \<exists>x\<in>set rs. \<forall>r\<in>set allow. \<not> MatchExtensionRule r a x then
       \<lparr> er_CheckResult = need_confirm,
         er_Uncovered = filter (\<lambda>x. \<forall>r\<in>set allow. \<not> MatchExtensionRule r a x) rs,
         er_covering = snd (cover_loop allow a rs) \<rparr>
     else
       \<lparr> er_CheckResult = allow_policy (joinPatterns (snd (cover_loop allow a rs))),
         er_Uncovered = [], er_covering = snd (cover_loop allow a rs) \<rparr>)"
proof -
  have d: "(\<exists>x\<in>set rs. \<exists>r\<in>set deny. extensionDenyHits r a x) \<longleftrightarrow> extensionDenials deny a rs \<noteq> []"
    by (simp add: extensionDenials_Nil_iff)
  have u: "(\<exists>x\<in>set rs. \<forall>r\<in>set allow. \<not> MatchExtensionRule r a x) \<longleftrightarrow>
      filter (\<lambda>x. \<forall>r\<in>set allow. \<not> MatchExtensionRule r a x) rs \<noteq> []"
    by (simp add: filter_empty_conv)
  show ?thesis
    unfolding CheckExtensionPolicy_def d u cover_loop_uncovered [symmetric]
    using assms by (simp add: Let_def case_prod_beta rs_def a_def)
qed

section \<open>The tokens of a quoted resource\<close>

text \<open>
  How the parser of globs reads, rune by rune, a resource in which the characters of \<open>chars\<close>
  were put behind a backslash.
\<close>

definition add_rune :: "string \<Rightarrow> globTok list \<Rightarrow> nat \<Rightarrow> globTok list" where
  "add_rune chars toks r =
     (if r = 42 \<and> CHR ''*'' \<notin> set chars then (if toks = [] \<or> last toks \<noteq> globStar then toks @ [globStar] else toks)
      else if r = 63 \<and> CHR ''?'' \<notin> set chars then toks @ [globAny]
      else toks @ [globLit r])"

lemma parse_from_rune:
  assumes sc: "is_scalar r" and chars: "CHR ''['' \<in> set chars" "CHR 0x5C \<in> set chars" "\<forall>c\<in>set chars. is_ascii c"
  shows "parse_from toks (quote_with chars (EncodeRune r) @ rest) = parse_from (add_rune chars toks r) rest"
proof (cases "r < 128")
  case True
  define c :: char where "c = char_of r"
  have e: "EncodeRune r = [c]" using True sc by (simp add: EncodeRune_scalar c_def)
  have oc: "of_char c = r" using True by (simp add: c_def)
  have d: "DecodeRune (c # t) = (r, 1)" for t
    using DecodeRune_EncodeRune [OF sc, of t] e by simp
  have st: "r = 42 \<longleftrightarrow> c = CHR ''*''" "r = 63 \<longleftrightarrow> c = CHR ''?''"
    using oc by (auto simp: c_def char_of_def bit_0)
  show ?thesis
  proof (cases "c \<in> set chars")
    case True
    then show ?thesis using d [of rest] e st by (auto simp: parse_from.simps(2) add_rune_def)
  next
    case False
    with chars have "c \<noteq> CHR ''[''" "c \<noteq> CHR 0x5C" by auto
    with False show ?thesis using d [of rest] e st by (auto simp: parse_from.simps(2) add_rune_def)
  qed
next
  case False
  then have hi: "\<forall>c\<in>set (EncodeRune r). \<not> is_ascii c" using EncodeRune_high [of r] by auto
  then have q: "quote_with chars (EncodeRune r) = EncodeRune r"
    using chars(3) by (intro quote_with_id) auto
  obtain c cs where e: "EncodeRune r = c # cs" using EncodeRune_ne [of r] by (cases "EncodeRune r") auto
  then have c: "c \<noteq> CHR ''*''" "c \<noteq> CHR ''?''" "c \<noteq> CHR ''[''" "c \<noteq> CHR 0x5C"
    using hi by (auto simp: is_ascii_def)
  have d: "DecodeRune (c # cs @ rest) = (r, length (c # cs))"
    using DecodeRune_EncodeRune [OF sc, of rest] by (simp add: e)
  have "add_rune chars toks r = toks @ [globLit r]" using False by (simp add: add_rune_def)
  then show ?thesis using c d by (simp only: q) (simp add: e parse_from.simps(2))
qed

lemma parse_from_runes:
  assumes "list_all is_scalar rs" "CHR ''['' \<in> set chars" "CHR 0x5C \<in> set chars" "\<forall>c\<in>set chars. is_ascii c"
  shows "parse_from toks (quote_with chars (encode_runes rs) @ rest) = parse_from (foldl (add_rune chars) toks rs) rest"
  using assms(1)
  by (induction rs arbitrary: toks) (simp_all add: quote_with_append parse_from_rune assms(2-4))

lemma covers_refl: "\<forall>t\<in>set g. \<forall>c. t \<noteq> globClass c \<Longrightarrow> covers g g"
  by (induction g) (auto simp: tokenCovers_def starAbsorbs_def split: globTok.splits)

lemma covers_refl_star:
  "\<forall>t\<in>set g. \<forall>c. t \<noteq> globClass c \<Longrightarrow> covers (g @ [globStar]) g"
  by (induction g) (auto simp: tokenCovers_def starAbsorbs_def split: globTok.splits)

lemma add_rune_no_class:
  "\<forall>t\<in>set toks. \<forall>c. t \<noteq> globClass c \<Longrightarrow> \<forall>t\<in>set (foldl (add_rune chars) toks rs). \<forall>c. t \<noteq> globClass c"
proof (induction rs arbitrary: toks)
  case (Cons r rs)
  have "\<forall>t\<in>set (add_rune chars toks r). \<forall>c. t \<noteq> globClass c" using Cons.prems by (auto simp: add_rune_def)
  then show ?case using Cons.IH by simp
qed simp

lemma literal_None_iff: "literal toks = None \<longleftrightarrow> (\<exists>t\<in>set toks. \<forall>r. t \<noteq> globLit r)"
  by (induction toks rule: literal.induct) auto

lemma foldl_add_rune_set: "set toks \<subseteq> set (foldl (add_rune chars) toks rs)"
  by (induction rs arbitrary: toks) (simp, fastforce simp: add_rune_def)

lemma wildcards_stay:
  "r \<in> set rs \<Longrightarrow> r = 42 \<and> CHR ''*'' \<notin> set chars \<or> r = 63 \<and> CHR ''?'' \<notin> set chars \<Longrightarrow>
     literal (foldl (add_rune chars) toks rs) = None"
proof (induction rs arbitrary: toks)
  case (Cons x rs)
  show ?case
  proof (cases "x = r")
    case True
    then have "globStar \<in> set (add_rune chars toks x) \<or> globAny \<in> set (add_rune chars toks x)"
      using Cons.prems(2) by (auto simp: add_rune_def) (metis last_in_set)+
    then show ?thesis using foldl_add_rune_set [of "add_rune chars toks x" chars rs]
      by (fastforce simp: literal_None_iff)
  next
    case False
    with Cons show ?thesis by simp
  qed
qed simp

lemma add_rune_literal:
  "\<forall>r\<in>set rs. \<not> (r = 42 \<and> CHR ''*'' \<notin> set chars) \<and> \<not> (r = 63 \<and> CHR ''?'' \<notin> set chars) \<Longrightarrow>
     foldl (add_rune chars) toks rs = toks @ map globLit rs"
  by (induction rs arbitrary: toks) (auto simp: add_rune_def)

lemma literal_map: "literal (map globLit rs) = Some (encode_runes rs)"
  by (induction rs) auto

section \<open>Literal resources\<close>

text \<open>A quoted literal resource is a glob whose only name is that resource.\<close>

lemma parse_from_quoted:
  assumes "list_all is_scalar rs" "set ''*?['' \<subseteq> set chars" "CHR 0x5C \<in> set chars" "\<forall>c\<in>set chars. is_ascii c"
  shows "parse_from toks (quote_with chars (encode_runes rs)) = Some (toks @ map globLit rs)"
  using parse_from_runes [OF assms(1) _ assms(3,4), of toks "[]"] assms(2) by (simp add: add_rune_literal)

lemma literalGlobChars_facts:
  "set ''*?['' \<subseteq> set literalGlobChars" "CHR 0x5C \<in> set literalGlobChars" "\<forall>c\<in>set literalGlobChars. is_ascii c"
  by (auto simp: literalGlobChars_def is_ascii_def)

lemma parseGlob_literal:
  "list_all is_scalar rs \<Longrightarrow>
     parseGlob (quoteGlob (encode_runes rs) literalGlobChars) = Some (map globLit rs)"
  using parse_from_quoted [OF _ literalGlobChars_facts, of rs "[]"] by (simp add: parseGlob_def quoteGlob_eq)

lemma judged_literal:
  assumes "list_all is_scalar rs" "resource = quoteGlob (encode_runes rs) literalGlobChars"
  shows "globCovers glob resource = matchGlobPattern glob (encode_runes rs)"
    and "globMayMatch glob resource = matchGlobPattern glob (encode_runes rs)"
  using assms by (simp_all add: globCovers_def globMayMatch_def parseGlob_literal literal_map)

section \<open>A resource covers itself\<close>

text \<open>The globs the host keeps for the resources of a guest that sends valid UTF-8.\<close>

definition host_resource :: "string \<Rightarrow> bool" where
  "host_resource r \<longleftrightarrow> (\<exists>rs. list_all is_scalar rs \<and>
     (r = quoteGlob (encode_runes rs) literalGlobChars \<or> r = quoteGlob (encode_runes rs) wildcardQuotedChars))"

lemma quoted_self_covers:
  assumes rs: "list_all is_scalar rs" and chars: "CHR ''['' \<in> set chars" "CHR 0x5C \<in> set chars" "\<forall>c\<in>set chars. is_ascii c"
  defines "r \<equiv> quote_with chars (encode_runes rs)"
  shows "globCovers r r" "globCovers (r @ ''*'') r"
proof -
  define toks where "toks = foldl (add_rune chars) [] rs"
  have p: "parseGlob r = Some toks"
    using parse_from_runes [OF rs chars, of "[]" "[]"] by (simp add: parseGlob_def r_def toks_def)
  have p': "parseGlob (r @ ''*'') = Some (if toks = [] \<or> last toks \<noteq> globStar then toks @ [globStar] else toks)"
    using parse_from_runes [OF rs chars, of "[]" "''*''"]
    by (simp add: parseGlob_def r_def toks_def parse_from.simps(2))
  have nc: "\<forall>t\<in>set toks. \<forall>c. t \<noteq> globClass c" unfolding toks_def by (rule add_rune_no_class) simp
  show "globCovers r r" "globCovers (r @ ''*'') r"
  proof (atomize (full), cases "\<exists>x\<in>set rs. x = 42 \<and> CHR ''*'' \<notin> set chars \<or> x = 63 \<and> CHR ''?'' \<notin> set chars")
    case True
    then have "literal toks = None" using wildcards_stay by (auto simp: toks_def)
    then show "globCovers r r \<and> globCovers (r @ ''*'') r"
      using covers_refl [OF nc] covers_refl_star [OF nc] by (simp add: globCovers_def p p' globCoversTokens_eq)
  next
    case False
    then have "toks = map globLit rs" by (simp add: toks_def add_rune_literal)
    then have lit: "literal toks = Some (encode_runes rs)" by (simp add: literal_map)
    have "lit_of r = Some (encode_runes rs)"
      unfolding r_def
    proof (rule lit_of_quote_some [OF _ chars(2)], intro ballI impI)
      fix c assume "c \<in> set (encode_runes rs)" "c \<in> set ''*?[''"
      then show "c \<in> set chars" using False encode_runes_char [OF rs, of c] chars(1) by (auto simp: is_ascii_def)
    qed
    moreover from this have "matchGlobPattern (r @ ''*'') (encode_runes rs)"
      using path_Match_star path_Match_lit_star [OF \<open>lit_of r = Some (encode_runes rs)\<close>, of "encode_runes rs"]
      by (cases "r = []") (auto simp: matchGlobPattern_def)
    ultimately show "globCovers r r \<and> globCovers (r @ ''*'') r"
      by (simp add: globCovers_def p lit matchGlobPattern_lit)
  qed
qed

lemma host_resource_self_covers:
  assumes "host_resource r"
  shows "globCovers r r" "globCovers (r @ ''*'') r"
  using assms quoted_self_covers [of _ literalGlobChars] quoted_self_covers [of _ wildcardQuotedChars]
  by (auto simp: host_resource_def quoteGlob_eq literalGlobChars_def wildcardQuotedChars_def is_ascii_def)

end
