(* ===== verification/Grants.thy ===== *)
theory Grants
  imports PolicyTester PolicyExt
begin

text \<open>
  Session grants (\<^verbatim>\<open>internal/ai/permission/permission.go\<close>, \<^verbatim>\<open>checker.go\<close>, \<^verbatim>\<open>dynamic.go\<close>): which
  stored grant items apply to a call, how an approved subject is normalised into the patterns
  that are stored, how they are stored, and the keys under which grants of extension calls are
  kept.
\<close>

section \<open>Which items apply\<close>

definition GrantToolCp :: string where "GrantToolCp = ''cp''"
definition GrantToolCpRead :: string where "GrantToolCpRead = ''cp:read''"
definition GrantToolCpWrite :: string where "GrantToolCpWrite = ''cp:write''"

definition grantItemAppliesTo :: "GrantItem \<Rightarrow> string \<Rightarrow> bool" where
  "grantItemAppliesTo item toolName =
     (if toolName = GrantToolCp then gi_ToolName item = GrantToolCp \<or> gi_Command item = ''*''
      else gi_ToolName item \<noteq> GrantToolCp)"

definition grantItemMatchesTarget :: "GrantItem \<Rightarrow> int \<Rightarrow> int set \<Rightarrow> bool" where
  "grantItemMatchesTarget item assetID groupIDs =
     (if gi_AssetID item \<noteq> 0 then gi_AssetID item = assetID
      else if gi_GroupID item \<noteq> 0 then gi_GroupID item \<in> groupIDs
      else True)"

definition GrantItemMatchesAsset :: "world \<Rightarrow> GrantItem \<Rightarrow> Asset \<Rightarrow> bool" where
  "GrantItemMatchesAsset w item asset =
     (if gi_AssetID item \<noteq> 0 then gi_AssetID item = a_ID asset
      else if gi_GroupID item \<noteq> 0
        then list_ex (\<lambda>g. g_ID g = gi_GroupID item) (ResolveGroupChain w (a_GroupID asset))
      else True)"

definition covering_item :: "GrantItem list \<Rightarrow> int \<Rightarrow> Group list \<Rightarrow> string \<Rightarrow> MatchFunc \<Rightarrow> string \<Rightarrow> GrantItem option" where
  "covering_item items assetID groups toolName matchFn cmd =
     find (\<lambda>item. grantItemMatchesTarget item assetID (set (map g_ID groups)) \<and>
             grantItemAppliesTo item toolName \<and> matchFn (gi_Command item) cmd) items"

definition matchGrantPatternsEachWith ::
  "world \<Rightarrow> int \<Rightarrow> Group list \<Rightarrow> string list \<Rightarrow> string \<Rightarrow> MatchFunc \<Rightarrow> string list option" where
  "matchGrantPatternsEachWith w assetID groups subCmds toolName matchFn =
     (if w_Session w = [] then None
      else (case w_Grants w of
          None \<Rightarrow> None
        | Some db \<Rightarrow>
            (let items = ListApprovedItems db (w_Session w) in
             if items = [] then None
             else (case all_some (covering_item items assetID groups toolName matchFn) subCmds of
                 None \<Rightarrow> None
               | Some hits \<Rightarrow> if hits = [] then None else Some (map gi_Command hits)))))"

definition matchGrantPatternsWith ::
  "world \<Rightarrow> int \<Rightarrow> Group list \<Rightarrow> string list \<Rightarrow> string \<Rightarrow> MatchFunc \<Rightarrow> string" where
  "matchGrantPatternsWith w assetID groups subCmds toolName matchFn =
     (case matchGrantPatternsEachWith w assetID groups subCmds toolName matchFn of
        Some patterns \<Rightarrow> hd patterns | None \<Rightarrow> [])"

definition matchGrantPatterns :: "world \<Rightarrow> int \<Rightarrow> Group list \<Rightarrow> string list \<Rightarrow> string" where
  "matchGrantPatterns w assetID groups subCmds =
     matchGrantPatternsWith w assetID groups subCmds ''exec'' MatchCommandRule"

definition grantPatternsForAsset ::
  "world \<Rightarrow> int \<Rightarrow> string list \<Rightarrow> string \<Rightarrow> MatchFunc \<Rightarrow> string list option" where
  "grantPatternsForAsset w assetID subCmds toolName matchFn =
     (case w_Assets w assetID of
        None \<Rightarrow> None
      | Some asset \<Rightarrow>
          matchGrantPatternsEachWith w assetID
            (if 0 < a_GroupID asset then ResolveGroupChain w (a_GroupID asset) else [])
            subCmds toolName matchFn)"

definition matchGrantForAssetSubCmdsWith ::
  "world \<Rightarrow> int \<Rightarrow> string list \<Rightarrow> string \<Rightarrow> MatchFunc \<Rightarrow> CheckResult option" where
  "matchGrantForAssetSubCmdsWith w assetID subCmds toolName matchFn =
     (case grantPatternsForAsset w assetID subCmds toolName matchFn of
        None \<Rightarrow> None
      | Some patterns \<Rightarrow> Some (CheckResult0 \<lparr> cr_Decision := Allow,
          cr_DecisionSource := SourceGrantAllow, cr_MatchedPattern := hd patterns \<rparr>))"

definition matchGrantForAssetSubCmds :: "world \<Rightarrow> int \<Rightarrow> string list \<Rightarrow> string \<Rightarrow> CheckResult option" where
  "matchGrantForAssetSubCmds w assetID subCmds toolName =
     matchGrantForAssetSubCmdsWith w assetID subCmds toolName MatchCommandRule"

definition matchGrantForAssetWith :: "world \<Rightarrow> int \<Rightarrow> string \<Rightarrow> string \<Rightarrow> MatchFunc \<Rightarrow> CheckResult option" where
  "matchGrantForAssetWith w assetID command toolName matchFn =
     matchGrantForAssetSubCmdsWith w assetID [command] toolName matchFn"

definition matchGrantForAsset :: "world \<Rightarrow> int \<Rightarrow> string \<Rightarrow> string \<Rightarrow> CheckResult option" where
  "matchGrantForAsset w assetID command toolName =
     matchGrantForAssetWith w assetID command toolName MatchCommandRule"

section \<open>From an approved subject to stored patterns\<close>

datatype GrantOrigin = GrantOriginSystem | GrantOriginUser

definition globMetaChars :: string where "globMetaChars = ''*?['' @ [CHR 0x5C]"

definition escapeGlobMeta :: "string \<Rightarrow> string" where
  "escapeGlobMeta s = (if \<not> list_ex (\<lambda>c. c \<in> set globMetaChars) s then s else quote_with globMetaChars s)"

definition escapeOSSRuleKey :: "string \<Rightarrow> string" where
  "escapeOSSRuleKey key = (if HasSuffix key ''/'' then key else escapeGlobMeta key)"

definition ossListAction :: "string \<Rightarrow> bool" where
  "ossListAction action = HasSuffix action ''.list''"

definition isOSSPolicyString :: "string \<Rightarrow> bool" where
  "isOSSPolicyString command =
     (case Cut (TrimSpace command) (CHR '' '') of (action, _, ok) \<Rightarrow> ok \<and> CHR ''.'' \<in> set action)"

text \<open>
  The deriver of policy strings from a command of the object-storage language is registered at
  run time; \<open>None\<close> when none is, and \<open>Inl\<close> for the error it returns.
\<close>

type_synonym deriver = "(string \<Rightarrow> string + string list) option"

definition ossPolicyStrings :: "deriver \<Rightarrow> string \<Rightarrow> string + string list \<times> bool" where
  "ossPolicyStrings derive command =
     (if isOSSPolicyString command then Inr ([command], False)
      else (case derive of
          None \<Rightarrow> Inl ''oss policy string deriver not registered''
        | Some f \<Rightarrow> (case f command of Inl e \<Rightarrow> Inl e | Inr ps \<Rightarrow> Inr (ps, True))))"

definition ossGrantRule :: "string \<Rightarrow> string option" where
  "ossGrantRule ps =
     (case Cut ps (CHR '' '') of (action, resource, twoSegments) \<Rightarrow>
        if \<not> twoSegments then None
        else if HasPrefix resource ''/'' then None
        else if HasSuffix resource ''/'' \<and> \<not> ossListAction action then None
        else (case Cut resource (CHR ''/'') of (bucket, key, hasKey) \<Rightarrow>
          Some (action @ '' '' @ escapeGlobMeta bucket @
                (if hasKey then ''/'' @ escapeOSSRuleKey key else []))))"

definition ossGrantPatterns :: "deriver \<Rightarrow> string \<Rightarrow> GrantOrigin \<Rightarrow> string list" where
  "ossGrantPatterns derive command origin =
     (case ossPolicyStrings derive command of
        Inl e \<Rightarrow> []
      | Inr (policyStrings, derived) \<Rightarrow>
          if policyStrings = [] then []
          else if \<not> derived \<and> origin = GrantOriginUser then policyStrings
          else List.map_filter ossGrantRule policyStrings)"

definition cpGrantPatterns :: "string \<Rightarrow> GrantOrigin \<Rightarrow> string list" where
  "cpGrantPatterns remotePath origin =
     (if origin = GrantOriginUser then [remotePath]
      else if HasSuffix remotePath ''/'' then [escapeGlobMeta (TrimSuffix remotePath ''/'') @ ''/'']
      else [escapeGlobMeta remotePath])"

definition shellGrantPatterns :: "shell \<Rightarrow> string \<Rightarrow> GrantOrigin \<Rightarrow> string list" where
  "shellGrantPatterns sh command origin =
     (case ExtractSubCommands sh command of Inl e \<Rightarrow> [] | Inr subCmds \<Rightarrow> subCmds)"

section \<open>Storing\<close>

text \<open>
  A missing session is created as approved; a failure to create it, which only a concurrent
  creation causes, is ignored. Creation times are not kept.
\<close>

definition SaveGrantPattern :: "string \<Rightarrow> int \<Rightarrow> string \<Rightarrow> string \<Rightarrow> string \<Rightarrow> world \<Rightarrow> world" where
  "SaveGrantPattern sessionID assetID assetName toolName command w =
     (if sessionID = [] \<or> command = [] then w
      else (case w_Grants w of
          None \<Rightarrow> w
        | Some db \<Rightarrow>
            (let db' = (case GetSession db sessionID of
                          Some s \<Rightarrow> db
                        | None \<Rightarrow>
                            (case CreateSession \<lparr> gs_ID = sessionID, gs_Description = [],
                                     gs_Status = GrantStatusApproved \<rparr> db of
                               None \<Rightarrow> db | Some db1 \<Rightarrow> db1));
                 item = \<lparr> gi_GrantSessionID = sessionID, gi_ItemIndex = 0, gi_ToolName = toolName,
                          gi_AssetID = assetID, gi_AssetName = assetName, gi_GroupID = 0, gi_GroupName = [],
                          gi_Command = command, gi_Detail = [] \<rparr>
             in w \<lparr> w_Grants := Some (CreateItems [item] db') \<rparr>)))"

definition save_all :: "string \<Rightarrow> int \<Rightarrow> string \<Rightarrow> string \<Rightarrow> string list \<Rightarrow> world \<Rightarrow> world" where
  "save_all sessionID assetID assetName toolName patterns w =
     fold (SaveGrantPattern sessionID assetID assetName toolName) patterns w"

section \<open>Grants of extension calls\<close>

definition extGrantPrefix :: string where "extGrantPrefix = ''ext:''"

definition extGrantRule :: "string \<Rightarrow> string \<Rightarrow> string" where
  "extGrantRule policyType tail = extGrantPrefix @ policyType @ '':'' @ tail"

definition extGrantTail :: "string \<Rightarrow> string \<Rightarrow> string" where
  "extGrantTail action resource = action @ '':'' @ resource"

definition extGrantKey :: "string \<Rightarrow> string \<Rightarrow> string \<Rightarrow> string" where
  "extGrantKey policyType action resource = extGrantRule policyType (extGrantTail action resource)"

definition validateExtGrantEdit :: "string \<Rightarrow> string \<Rightarrow> bool" where
  "validateExtGrantEdit action edited =
     (case ExtensionRuleParts edited of (editedAction, glob, scoped) \<Rightarrow>
        editedAction = action \<and> scoped \<and> path_Match glob [] \<noteq> None)"

definition splitExtGrantKey :: "string \<Rightarrow> (string \<times> string) option" where
  "splitExtGrantKey key =
     (if \<not> HasPrefix key extGrantPrefix then None
      else (case Cut (drop (length extGrantPrefix) key) (CHR '':'') of
          (policyType, tail, ok) \<Rightarrow> if ok then Some (policyType, tail) else None))"

definition extGrantMatch :: "string \<Rightarrow> string \<Rightarrow> bool" where
  "extGrantMatch rule command =
     (case splitExtGrantKey rule of
        None \<Rightarrow> False
      | Some (ruleType, ruleTail) \<Rightarrow>
          (case splitExtGrantKey command of
             None \<Rightarrow> False
           | Some (cmdType, cmdTail) \<Rightarrow>
               if ruleType \<noteq> cmdType then False
               else (case ExtensionRuleParts cmdTail of (action, resource, _) \<Rightarrow>
                 MatchExtensionRule ruleTail action resource)))"

definition MatchExtensionGrant ::
  "world \<Rightarrow> int \<Rightarrow> string \<Rightarrow> string \<Rightarrow> string \<Rightarrow> string list \<Rightarrow> string list option" where
  "MatchExtensionGrant w assetID approvalType policyType action resources =
     map_option (dedup [])
       (grantPatternsForAsset w assetID
          (map (extGrantKey policyType action) (ExtensionResources resources)) approvalType extGrantMatch)"

fun literalGlobPrefix :: "string \<Rightarrow> string" where
  "literalGlobPrefix [] = []"
| "literalGlobPrefix [c] = (if c \<in> set ''*?['' then [] else [c])"
| "literalGlobPrefix (c # d # s) =
     (if c \<in> set ''*?['' then []
      else if c = CHR 0x5C then c # d # literalGlobPrefix s
      else c # literalGlobPrefix (d # s))"

fun commonGlobPrefix :: "string \<Rightarrow> string \<Rightarrow> string" where
  "commonGlobPrefix [] b = []"
| "commonGlobPrefix a [] = []"
| "commonGlobPrefix [x] (y # b) = (if x = CHR 0x5C \<or> x \<noteq> y then [] else [x])"
| "commonGlobPrefix (x # x' # a) (y # b) =
     (if x \<noteq> CHR 0x5C then (if x = y then x # commonGlobPrefix (x' # a) b else [])
      else (case b of
          [] \<Rightarrow> []
        | y' # b' \<Rightarrow> if x = y \<and> x' = y' then x # x' # commonGlobPrefix a b' else []))"

definition multiResourceRememberPattern :: "string \<Rightarrow> string list \<Rightarrow> string" where
  "multiResourceRememberPattern action resources =
     (let prefix = foldl (\<lambda>p r. commonGlobPrefix p (literalGlobPrefix r))
                     (literalGlobPrefix (hd resources)) (tl resources)
      in if prefix = [] then action
         else (let rule = extGrantTail action (prefix @ ''*'') in
           if list_ex (\<lambda>r. r \<noteq> prefix \<and> \<not> MatchExtensionRule rule action r) resources then action
           else if list_ex (\<lambda>r. r \<noteq> prefix) resources then rule
           else extGrantTail action prefix))"

record ExtensionClassification =
  xc_PolicyType :: string
  xc_Action :: string
  xc_Resources :: "string list"
  xc_Tool :: string
  xc_Args :: string

definition classificationGrantKeys :: "ExtensionClassification \<Rightarrow> string list" where
  "classificationGrantKeys c =
     (let resources = ExtensionResources (xc_Resources c) in
      if 1 < length resources
      then [extGrantRule (xc_PolicyType c) (multiResourceRememberPattern (xc_Action c) resources)]
      else [extGrantKey (xc_PolicyType c) (xc_Action c) (hd resources)])"

end
