(* ===== verification/Permission.thy ===== *)
theory Permission
  imports Grants
begin

text \<open>
  The permission checks of every asset type (\<^verbatim>\<open>internal/ai/permission/permission.go\<close>) and the
  collection of the policies they read (\<^verbatim>\<open>checker.go\<close>): group rules, then the policy of the
  kind, then session grants.

  A check reads its \<open>world\<close> and three pieces of code registered or linked from outside: the
  shell parser and printer, the SQL classifier, and the deriver of object-storage policy
  strings.
\<close>

record env =
  e_Shell :: shell
  e_Sql :: sqlenv
  e_OSS :: deriver

section \<open>Collecting policies\<close>

definition collectPoliciesFromChain :: "(Holder \<Rightarrow> 'p option) \<Rightarrow> Holder list \<Rightarrow> 'p list" where
  "collectPoliciesFromChain getter holders = List.map_filter getter holders"

definition policyHoldersForAsset :: "world \<Rightarrow> Asset option \<Rightarrow> Holder list" where
  "policyHoldersForAsset w asset =
     (case asset of
        None \<Rightarrow> []
      | Some a \<Rightarrow> HAsset a # (if 0 < a_GroupID a then map HGroup (ResolveGroupChain w (a_GroupID a)) else []))"

text \<open>The rules of the referenced groups are appended to a policy's own.\<close>

definition with_groups :: "(string list \<Rightarrow> string list \<times> string list) \<Rightarrow> RulePolicy \<Rightarrow> RulePolicy" where
  "with_groups resolve p =
     (if rp_Groups p = [] then p
      else (case resolve (rp_Groups p) of (grpAllow, grpDeny) \<Rightarrow>
        p \<lparr> rp_AllowList := rp_AllowList p @ grpAllow, rp_DenyList := rp_DenyList p @ grpDeny \<rparr>))"

definition collectPolicies :: "world \<Rightarrow> Asset option \<Rightarrow> Group list \<Rightarrow> CommandPolicy list" where
  "collectPolicies w asset groups =
     map (with_groups (ResolveCommandGroups w))
       (collectPoliciesFromChain GetCommandPolicy
          ((case asset of None \<Rightarrow> [] | Some a \<Rightarrow> [HAsset a]) @ map HGroup groups))"

definition collectDenyRules :: "CommandPolicy list \<Rightarrow> string list" where
  "collectDenyRules policies = concat (map rp_DenyList policies)"

definition collectAllowRules :: "CommandPolicy list \<Rightarrow> string list" where
  "collectAllowRules policies = concat (map rp_AllowList policies)"

text \<open>
  The merge the other kinds use: the first non-empty allow list from the asset upwards, and all
  deny lists. \<open>None\<close> when no holder has a readable policy.
\<close>

definition merge_collected :: "RulePolicy list \<Rightarrow> RulePolicy" where
  "merge_collected ps =
     foldl (\<lambda>merged p.
        let m = (if rp_AllowList merged = [] \<and> rp_AllowList p \<noteq> []
                 then merged \<lparr> rp_AllowList := rp_AllowList p \<rparr> else merged)
        in m \<lparr> rp_DenyList := AppendUnique (rp_DenyList m) (rp_DenyList p) \<rparr>) RulePolicy0 ps"

definition collect_rules ::
  "(string list \<Rightarrow> string list \<times> string list) \<Rightarrow> (Holder \<Rightarrow> RulePolicy option) \<Rightarrow> Holder list \<Rightarrow> RulePolicy option" where
  "collect_rules resolve getter holders =
     (let policies = collectPoliciesFromChain getter holders in
      if policies = [] then None else Some (merge_collected (map (with_groups resolve) policies)))"

definition collectRedisPolicies :: "world \<Rightarrow> Asset option \<Rightarrow> RedisPolicy option" where
  "collectRedisPolicies w asset =
     collect_rules (ResolveRedisGroups w) GetRedisPolicy (policyHoldersForAsset w asset)"

definition collectEtcdPolicies :: "world \<Rightarrow> Asset option \<Rightarrow> EtcdPolicy option" where
  "collectEtcdPolicies w asset =
     collect_rules (ResolveEtcdGroups w) GetEtcdPolicy (policyHoldersForAsset w asset)"

definition collectKafkaPolicies :: "world \<Rightarrow> Asset option \<Rightarrow> KafkaPolicy option" where
  "collectKafkaPolicies w asset =
     collect_rules (ResolveKafkaGroups w) GetKafkaPolicy (policyHoldersForAsset w asset)"

definition collectOSSPolicies :: "world \<Rightarrow> Asset option \<Rightarrow> OSSPolicy option" where
  "collectOSSPolicies w asset =
     collect_rules (ResolveOSSGroups w) GetOSSPolicy (policyHoldersForAsset w asset)"

definition collectK8sPolicies :: "world \<Rightarrow> Asset option \<Rightarrow> K8sPolicy option" where
  "collectK8sPolicies w asset =
     collect_rules (ResolveCommandGroups w) GetK8sPolicy (policyHoldersForAsset w asset)"

definition mongo_with_groups :: "world \<Rightarrow> MongoPolicy \<Rightarrow> MongoPolicy" where
  "mongo_with_groups w p =
     (if mp_Groups p = [] then p
      else (case ResolveMongoGroups w (mp_Groups p) of (grpAllow, grpDeny) \<Rightarrow>
        p \<lparr> mp_AllowTypes := mp_AllowTypes p @ grpAllow, mp_DenyTypes := mp_DenyTypes p @ grpDeny \<rparr>))"

definition collectMongoDBPolicies :: "world \<Rightarrow> Asset option \<Rightarrow> MongoPolicy option" where
  "collectMongoDBPolicies w asset =
     (let policies = collectPoliciesFromChain GetMongoPolicy (policyHoldersForAsset w asset) in
      if policies = [] then None
      else Some (foldl (\<lambda>merged p.
        let m = (if mp_AllowTypes merged = [] \<and> mp_AllowTypes p \<noteq> []
                 then merged \<lparr> mp_AllowTypes := mp_AllowTypes p \<rparr> else merged)
        in m \<lparr> mp_DenyTypes := AppendUnique (mp_DenyTypes m) (mp_DenyTypes p) \<rparr>) MongoPolicy0
          (map (mongo_with_groups w) policies)))"

definition query_with_groups :: "world \<Rightarrow> QueryPolicy \<Rightarrow> QueryPolicy" where
  "query_with_groups w p =
     (if qp_Groups p = [] then p
      else (case ResolveQueryGroups w (qp_Groups p) of (grpAllow, grpDeny, grpFlags) \<Rightarrow>
        p \<lparr> qp_AllowTypes := qp_AllowTypes p @ grpAllow, qp_DenyTypes := qp_DenyTypes p @ grpDeny,
            qp_DenyFlags := qp_DenyFlags p @ grpFlags \<rparr>))"

definition collectQueryPolicies :: "world \<Rightarrow> Asset option \<Rightarrow> QueryPolicy option" where
  "collectQueryPolicies w asset =
     (let policies = collectPoliciesFromChain GetQueryPolicy (policyHoldersForAsset w asset) in
      if policies = [] then None
      else Some (foldl (\<lambda>merged p.
        let m = (if qp_AllowTypes merged = [] \<and> qp_AllowTypes p \<noteq> []
                 then merged \<lparr> qp_AllowTypes := qp_AllowTypes p \<rparr> else merged)
        in m \<lparr> qp_DenyTypes := AppendUnique (qp_DenyTypes m) (qp_DenyTypes p),
               qp_DenyFlags := AppendUnique (qp_DenyFlags m) (qp_DenyFlags p) \<rparr>) QueryPolicy0
          (map (query_with_groups w) policies)))"

section \<open>Shell commands\<close>

definition asset_groups :: "world \<Rightarrow> Asset option \<Rightarrow> Group list" where
  "asset_groups w asset =
     (case asset of
        None \<Rightarrow> []
      | Some a \<Rightarrow> if 0 < a_GroupID a then ResolveGroupChain w (a_GroupID a) else [])"

definition checkCommandPolicyPermission :: "env \<Rightarrow> world \<Rightarrow> int \<Rightarrow> string \<Rightarrow> CheckResult" where
  "checkCommandPolicyPermission e w assetID command =
     (let asset = w_Assets w assetID;
          groups = asset_groups w asset;
          allPolicies = collectPolicies w asset groups;
          allDenyRules = ShellCommandRules (collectDenyRules allPolicies);
          allAllowRules = ShellCommandRules (collectAllowRules allPolicies)
      in case ExtractSubCommands (e_Shell e) command of
           Inl err \<Rightarrow> DecideUnenumerableShell (w_Lang w) command (Some err) allAllowRules allDenyRules
         | Inr subCmds \<Rightarrow>
             if subCmds = [] then DecideUnenumerableShell (w_Lang w) command None allAllowRules allDenyRules
             else (case first_denied MatchCommandRule allDenyRules subCmds of
                 Some (cmd, rule) \<Rightarrow>
                   (let assetName = (case asset of None \<Rightarrow> [] | Some a \<Rightarrow> a_Name a);
                        hints = FindHintRules cmd allAllowRules
                    in (deny_policy (FormatDenyMessage assetName command (msg_blocked (w_Lang w)) hints) rule)
                         \<lparr> cr_HintRules := hints \<rparr>)
               | None \<Rightarrow>
                   if allAllowRules \<noteq> [] \<and> fst (AllSubCommandsAllowed subCmds allAllowRules)
                   then allow_policy (snd (AllSubCommandsAllowed subCmds allAllowRules))
                   else (let grantPattern = matchGrantPatterns w assetID groups subCmds in
                     if grantPattern \<noteq> []
                     then CheckResult0 \<lparr> cr_Decision := Allow, cr_DecisionSource := SourceGrantAllow,
                            cr_MatchedPattern := grantPattern \<rparr>
                     else need_confirm \<lparr> cr_HintRules :=
                            dedup [] (concat (map (\<lambda>cmd. FindHintRules cmd allAllowRules) subCmds)) \<rparr>)))"

section \<open>The other kinds\<close>

text \<open>
  The end every other check shares: a group denial stands; a group permission settles what the
  policy leaves open; then grants; and a request that still needs confirmation carries the
  allowed patterns as hints.
\<close>

definition combine :: "CheckResult \<Rightarrow> CheckResult \<Rightarrow> CheckResult option \<Rightarrow> string list \<Rightarrow> CheckResult" where
  "combine groupResult result grantResult hints =
     (if cr_Decision groupResult = Deny then groupResult
      else if cr_Decision result = NeedConfirm \<and> cr_Decision groupResult = Allow then groupResult
      else if cr_Decision result \<noteq> NeedConfirm then result
      else (case grantResult of
          Some g \<Rightarrow> g
        | None \<Rightarrow> if hints \<noteq> [] then result \<lparr> cr_HintRules := hints \<rparr> else result))"

definition checkDatabasePermission :: "env \<Rightarrow> world \<Rightarrow> int \<Rightarrow> string \<Rightarrow> CheckResult" where
  "checkDatabasePermission e w assetID sqlText =
     (case ClassifyForAsset (e_Sql e) (w_Assets w assetID) sqlText of
        Inl err \<Rightarrow> CheckResult0 \<lparr> cr_Decision := Deny, cr_Message := ClassifyDenyMessage (w_Lang w) err \<rparr>
      | Inr stmts \<Rightarrow>
          (let stmtTexts = (if StmtRawTexts stmts = [] then [sqlText] else StmtRawTexts stmts);
               mergedPolicy = collectQueryPolicies w (w_Assets w assetID)
           in combine
                (CheckGroupGenericPolicy w assetID stmtTexts MatchCommandRule)
                (CheckQueryPolicy w mergedPolicy stmts)
                (matchGrantForAssetSubCmds w assetID stmtTexts ''sql'')
                (qp_AllowTypes (EffectiveQueryPolicy w mergedPolicy))))"

definition checkRedisPermission :: "env \<Rightarrow> world \<Rightarrow> int \<Rightarrow> string \<Rightarrow> CheckResult" where
  "checkRedisPermission e w assetID command =
     (let mergedPolicy = collectRedisPolicies w (w_Assets w assetID)
      in combine
           (CheckGroupGenericPolicy w assetID [command] (MatchRedisRule (e_Shell e)))
           (CheckRedisPolicy (e_Shell e) w mergedPolicy command)
           (matchGrantForAsset w assetID command ''redis'')
           (rp_AllowList (EffectiveRedisPolicy w mergedPolicy)))"

definition checkEtcdPermission :: "env \<Rightarrow> world \<Rightarrow> int \<Rightarrow> string \<Rightarrow> CheckResult" where
  "checkEtcdPermission e w assetID command =
     (let mergedPolicy = collectEtcdPolicies w (w_Assets w assetID)
      in combine
           (CheckGroupGenericPolicy w assetID [command] (MatchRedisRule (e_Shell e)))
           (CheckEtcdPolicy (e_Shell e) w mergedPolicy command)
           (matchGrantForAsset w assetID command ''etcd'')
           (rp_AllowList (EffectiveEtcdPolicy w mergedPolicy)))"

definition checkK8sPermission :: "env \<Rightarrow> world \<Rightarrow> int \<Rightarrow> string \<Rightarrow> CheckResult" where
  "checkK8sPermission e w assetID command =
     (let asset = w_Assets w assetID;
          mergedPolicy = collectK8sPolicies w asset;
          k8sPolicy = EffectiveK8sPolicy w mergedPolicy;
          (groupAllow, groupDeny) = GroupGenericCommandRules w (asset_groups w asset);
          unsplit = (\<lambda>parseErr. DecideUnenumerableShell (w_Lang w) command parseErr
             (ShellCommandRules (rp_AllowList k8sPolicy @ groupAllow))
             (ShellCommandRules (rp_DenyList k8sPolicy @ groupDeny)))
      in case ExtractSubCommands (e_Shell e) command of
           Inl err \<Rightarrow> unsplit (Some err)
         | Inr subCmds \<Rightarrow>
             if subCmds = [] then unsplit None
             else combine
               (CheckGroupGenericPolicy w assetID subCmds MatchCommandRule)
               (CheckK8sPolicy (e_Shell e) w mergedPolicy command)
               (matchGrantForAssetSubCmds w assetID subCmds ''k8s'')
               (rp_AllowList k8sPolicy))"

definition checkMongoDBPermission :: "env \<Rightarrow> world \<Rightarrow> int \<Rightarrow> string \<Rightarrow> CheckResult" where
  "checkMongoDBPermission e w assetID command =
     (let mergedPolicy = collectMongoDBPolicies w (w_Assets w assetID)
      in combine
           (CheckGroupGenericPolicy w assetID [command] (MatchMongoRule (e_Shell e)))
           (CheckMongoDBPolicy (e_Shell e) w mergedPolicy command)
           (matchGrantForAssetWith w assetID command ''mongo'' (MatchMongoRule (e_Shell e)))
           (mp_AllowTypes (EffectiveMongoPolicy w mergedPolicy)))"

definition checkKafkaPermission :: "env \<Rightarrow> world \<Rightarrow> int \<Rightarrow> string \<Rightarrow> CheckResult" where
  "checkKafkaPermission e w assetID command =
     (let mergedPolicy = collectKafkaPolicies w (w_Assets w assetID)
      in combine
           (CheckGroupGenericPolicy w assetID [command] MatchCommandRule)
           (CheckKafkaPolicy w mergedPolicy command)
           (matchGrantForAssetWith w assetID command ''kafka'' MatchKafkaRule)
           (rp_AllowList (EffectiveKafkaPolicy w mergedPolicy)))"

definition ossPolicyStringsNameBuckets :: "string list \<Rightarrow> bool" where
  "ossPolicyStringsNameBuckets policyStrings =
     list_all (\<lambda>ps. let fields = Fields ps in
        \<not> (length fields < 2 \<or> HasPrefix (fields ! 1) ''/'')) policyStrings"

definition checkOSSPermission :: "env \<Rightarrow> world \<Rightarrow> int \<Rightarrow> string \<Rightarrow> CheckResult" where
  "checkOSSPermission e w assetID command =
     (case ossPolicyStrings (e_OSS e) command of
        Inl err \<Rightarrow> need_confirm
      | Inr (policyStrings, derived) \<Rightarrow>
          if policyStrings = [] then need_confirm
          else (let groupResult = CheckGroupGenericPolicy w assetID policyStrings MatchOSSRule;
                    mergedPolicy = collectOSSPolicies w (w_Assets w assetID);
                    result = CheckOSSPolicy w mergedPolicy policyStrings
                in if cr_Decision groupResult = Deny then groupResult
                   else if cr_Decision result \<noteq> Deny \<and> \<not> ossPolicyStringsNameBuckets policyStrings
                   then need_confirm
                   else combine groupResult result
                     (matchGrantForAssetSubCmdsWith w assetID policyStrings ''oss'' MatchOSSRule)
                     (rp_AllowList (EffectiveOSSPolicy w mergedPolicy))))"

section \<open>File transfers\<close>

definition matchCpPolicyRule :: "string \<Rightarrow> string \<Rightarrow> string \<Rightarrow> bool" where
  "matchCpPolicyRule rule direction remotePath =
     (if rule = ''cp:*'' then True
      else (let prefix = ''cp:'' @ direction @ '':'' in
        if \<not> HasPrefix rule prefix then False
        else MatchPathRule (TrimPrefix rule prefix) remotePath))"

text \<open>What the rules of the asset and its groups say of a transfer; \<open>None\<close> when nothing.\<close>

definition cp_rules_result :: "world \<Rightarrow> Asset \<Rightarrow> string \<Rightarrow> string \<Rightarrow> CheckResult option" where
  "cp_rules_result w asset direction remotePath =
     (let policies = collectPolicies w (Some asset) (asset_groups w (Some asset)) in
      case find (\<lambda>rule. matchCpPolicyRule rule direction remotePath) (collectDenyRules policies) of
        Some rule \<Rightarrow> Some (deny_policy (PolicyMsg (w_Lang w) ''file transfer blocked by policy''
                       (utf8 [230, 150, 135, 228, 187, 182, 228, 188, 160, 232, 190, 147, 232, 162,
                       171, 231, 173, 150, 231, 149, 165, 231, 166, 129, 230, 173, 162])) rule)
      | None \<Rightarrow> map_option allow_policy
          (find (\<lambda>rule. matchCpPolicyRule rule direction remotePath) (collectAllowRules policies)))"

definition checkFileTransferPermissionForDirection :: "world \<Rightarrow> int \<Rightarrow> string \<Rightarrow> string \<Rightarrow> CheckResult" where
  "checkFileTransferPermissionForDirection w assetID rawPath direction =
     (let remotePath = TrimSpace rawPath in
      if remotePath = [] then need_confirm
      else (case (if direction = [] then None
                  else (case w_Assets w assetID of
                      None \<Rightarrow> None | Some asset \<Rightarrow> cp_rules_result w asset direction remotePath)) of
          Some r \<Rightarrow> r
        | None \<Rightarrow>
            (case matchGrantForAssetWith w assetID remotePath GrantToolCp MatchPathRule of
               Some g \<Rightarrow> g | None \<Rightarrow> need_confirm)))"

definition checkFileTransferPermission :: "env \<Rightarrow> world \<Rightarrow> int \<Rightarrow> string \<Rightarrow> CheckResult" where
  "checkFileTransferPermission e w assetID remotePath =
     checkFileTransferPermissionForDirection w assetID remotePath []"

definition checkFileTransferReadPermission :: "env \<Rightarrow> world \<Rightarrow> int \<Rightarrow> string \<Rightarrow> CheckResult" where
  "checkFileTransferReadPermission e w assetID remotePath =
     checkFileTransferPermissionForDirection w assetID remotePath ''read''"

definition checkFileTransferWritePermission :: "env \<Rightarrow> world \<Rightarrow> int \<Rightarrow> string \<Rightarrow> CheckResult" where
  "checkFileTransferWritePermission e w assetID remotePath =
     checkFileTransferPermissionForDirection w assetID remotePath ''write''"

section \<open>The type registry\<close>

datatype Syntax = SyntaxText | SyntaxShell | SyntaxRedis

type_synonym ClassifyFunc = "string \<Rightarrow> ExtensionClassification option"

record permissionTypeHandler =
  h_canonical :: string
  h_approvalType :: string
  h_grantPatterns :: "(env \<Rightarrow> string \<Rightarrow> GrantOrigin \<Rightarrow> string list) option"
  h_reviewSyntax :: Syntax
  h_check :: "env \<Rightarrow> world \<Rightarrow> int \<Rightarrow> string \<Rightarrow> CheckResult"
  h_classify :: "ClassifyFunc option"

type_synonym registry = "(string \<times> permissionTypeHandler) list"

datatype registry_error = InvalidRegistration | DuplicateType string

definition permissionTypeFor :: "registry \<Rightarrow> string \<Rightarrow> permissionTypeHandler option" where
  "permissionTypeFor reg name = map_of reg name"

definition addPermissionType :: "permissionTypeHandler \<Rightarrow> string list \<Rightarrow> registry \<Rightarrow> registry_error + registry" where
  "addPermissionType handler aliases reg =
     (if h_canonical handler = [] \<or> h_approvalType handler = [] then Inl InvalidRegistration
      else (let names = h_canonical handler # aliases in
        case find (\<lambda>name. map_of reg name \<noteq> None) names of
          Some name \<Rightarrow> Inl (DuplicateType name)
        | None \<Rightarrow> Inr (foldl (\<lambda>r name. put name handler r) reg names)))"

definition RegisterPolicyCheck ::
  "string \<Rightarrow> (env \<Rightarrow> world \<Rightarrow> int \<Rightarrow> string \<Rightarrow> CheckResult) \<Rightarrow> ClassifyFunc option \<Rightarrow> registry \<Rightarrow> registry_error + registry" where
  "RegisterPolicyCheck canonical check classify reg =
     addPermissionType \<lparr> h_canonical = canonical, h_approvalType = canonical, h_grantPatterns = None,
       h_reviewSyntax = SyntaxText, h_check = check, h_classify = classify \<rparr> [] reg"

definition UnregisterPolicyCheck :: "string \<Rightarrow> registry \<Rightarrow> registry" where
  "UnregisterPolicyCheck canonical reg = filter (\<lambda>e. fst e \<noteq> canonical) reg"

definition classifyFor :: "registry \<Rightarrow> string \<Rightarrow> ClassifyFunc option" where
  "classifyFor reg canonical =
     (case permissionTypeFor reg canonical of None \<Rightarrow> None | Some handler \<Rightarrow> h_classify handler)"

definition ApprovalTypeFor :: "registry \<Rightarrow> string \<Rightarrow> string" where
  "ApprovalTypeFor reg assetType =
     (case permissionTypeFor reg assetType of None \<Rightarrow> assetType | Some handler \<Rightarrow> h_approvalType handler)"

definition SupportsGrantApproval :: "registry \<Rightarrow> string \<Rightarrow> bool" where
  "SupportsGrantApproval reg approvalType \<longleftrightarrow> permissionTypeFor reg approvalType \<noteq> None"

definition handler ::
  "string \<Rightarrow> string \<Rightarrow> (env \<Rightarrow> string \<Rightarrow> GrantOrigin \<Rightarrow> string list) option \<Rightarrow> Syntax \<Rightarrow>
   (env \<Rightarrow> world \<Rightarrow> int \<Rightarrow> string \<Rightarrow> CheckResult) \<Rightarrow> permissionTypeHandler" where
  "handler canonical approvalType patterns syntax check =
     \<lparr> h_canonical = canonical, h_approvalType = approvalType, h_grantPatterns = patterns,
       h_reviewSyntax = syntax, h_check = check, h_classify = None \<rparr>"

text \<open>The registrations of \<open>init\<close>, each with its aliases.\<close>

definition builtin_types :: "(permissionTypeHandler \<times> string list) list" where
  "builtin_types =
     [(handler ''ssh'' ''exec'' (Some (\<lambda>e. shellGrantPatterns (e_Shell e))) SyntaxShell checkCommandPolicyPermission, [''exec'']),
      (handler ''serial'' ''serial'' None SyntaxShell checkCommandPolicyPermission, []),
      (handler ''database'' ''sql'' None SyntaxText checkDatabasePermission, [''sql'', ''db'']),
      (handler ''redis'' ''redis'' None SyntaxRedis checkRedisPermission, []),
      (handler ''etcd'' ''etcd'' None SyntaxText checkEtcdPermission, []),
      (handler ''mongodb'' ''mongo'' None SyntaxText checkMongoDBPermission, [''mongo'']),
      (handler ''kafka'' ''kafka'' None SyntaxText checkKafkaPermission, []),
      (handler ''k8s'' ''k8s'' (Some (\<lambda>e. shellGrantPatterns (e_Shell e))) SyntaxShell checkK8sPermission, [''kubernetes'', ''kube'']),
      (handler ''oss'' ''oss'' (Some (\<lambda>e. ossGrantPatterns (e_OSS e))) SyntaxText checkOSSPermission, []),
      (handler GrantToolCp ''cp'' (Some (\<lambda>e. cpGrantPatterns)) SyntaxText checkFileTransferPermission, []),
      (handler GrantToolCpRead ''cp'' (Some (\<lambda>e. cpGrantPatterns)) SyntaxText checkFileTransferReadPermission, []),
      (handler GrantToolCpWrite ''cp'' (Some (\<lambda>e. cpGrantPatterns)) SyntaxText checkFileTransferWritePermission, [])]"

fun register_all :: "(permissionTypeHandler \<times> string list) list \<Rightarrow> registry \<Rightarrow> registry_error + registry" where
  "register_all [] reg = Inr reg"
| "register_all ((h, aliases) # hs) reg =
     (case addPermissionType h aliases reg of Inl e \<Rightarrow> Inl e | Inr reg' \<Rightarrow> register_all hs reg')"

definition NormalizeGrantPatterns :: "registry \<Rightarrow> env \<Rightarrow> string \<Rightarrow> string \<Rightarrow> GrantOrigin \<Rightarrow> string list" where
  "NormalizeGrantPatterns reg e approvalType command origin =
     (let cmd = TrimSpace command in
      if cmd = [] then []
      else (case permissionTypeFor reg approvalType of
          None \<Rightarrow> [cmd]
        | Some h \<Rightarrow> (case h_grantPatterns h of None \<Rightarrow> [cmd] | Some f \<Rightarrow> f e cmd origin)))"

end
