(* ===== verification/Examples.thy ===== *)
theory Examples
  imports Permission
begin

text \<open>
  Concrete parameters and states at which the properties are applied: a shell whose whole syntax
  is a list of literal words, an empty state, and a group that is its own parent.
\<close>

definition words_shell :: shell where
  "words_shell =
     \<lparr> sh_Parse = (\<lambda>s. Inr [Stmt [] (Some (CallExpr [] (map (\<lambda>w. Word [Lit w]) (Fields s)))) False False]),
       sh_Print = (\<lambda>w. case w of Word [Lit s] \<Rightarrow> s | _ \<Rightarrow> []),
       sh_OpString = (\<lambda>op. ''>'') \<rparr>"

definition empty_world :: world where
  "empty_world = \<lparr> w_Assets = (\<lambda>_. None), w_Groups = (\<lambda>_. None), w_PolicyGroups = None, w_ExtGroups = [],
     w_Grants = None, w_Session = [], w_Lang = ''en'' \<rparr>"

definition example_group :: Group where
  "example_group = \<lparr> g_ID = 1, g_Name = ''ops'', g_ParentID = 1, g_CmdPolicy = JsonEmpty, g_QryPolicy = JsonEmpty,
     g_RdsPolicy = JsonEmpty, g_MgoPolicy = JsonEmpty, g_KfkPolicy = JsonEmpty, g_K8sPol = JsonEmpty,
     g_EtdPolicy = JsonEmpty, g_OssPolicy = JsonEmpty, g_ExtPolicy = ExtEmpty, g_PermissionMode = [] \<rparr>"

definition example_asset :: Asset where
  "example_asset = \<lparr> a_ID = 7, a_Name = ''web'', a_Type = ''ssh'', a_GroupID = 0, a_Config = [],
     a_CmdPolicy = JsonEmpty, a_PermissionMode = [] \<rparr>"

text \<open>One asset outside every group, in a session that has no grants yet.\<close>

definition grant_world :: world where
  "grant_world = empty_world \<lparr> w_Assets := (\<lambda>i. if i = 7 then Some example_asset else None),
     w_Grants := Some \<lparr> db_sessions = [], db_items = [] \<rparr>, w_Session := ''s1'' \<rparr>"

lemma grant_world_sel [simp]:
  "w_Assets grant_world 7 = Some example_asset" "w_Session grant_world = ''s1''"
  "w_Grants grant_world = Some \<lparr> db_sessions = [], db_items = [] \<rparr>" "w_Lang grant_world = ''en''"
  by (simp_all add: grant_world_def empty_world_def)

definition example_env :: env where
  "example_env = \<lparr> e_Shell = words_shell,
     e_Sql = \<lparr> se_Parse = (\<lambda>s. Inr []), se_ConfigDriver = (\<lambda>c. Inr []), se_Lookup = (\<lambda>n. Inl (DriverUnavailable [])) \<rparr>,
     e_OSS = None \<rparr>"

definition cyclic_world :: world where
  "cyclic_world = empty_world \<lparr> w_Groups := (\<lambda>i. if i = 1 then Some example_group else None) \<rparr>"

lemma words_shell_units:
  assumes "Fields c = [w]" "TrimSpace w = w" "w \<noteq> []"
  shows "ExtractSubCommands words_shell c = Inr [w]"
  using assms by (simp add: ExtractSubCommands_def words_shell_def printCall_def printWords_def Let_def)

lemma one_word_units: "ExtractSubCommands words_shell ''ls'' = Inr [''ls'']"
  by (rule words_shell_units) code_simp+

end
