(* ===== verification/RuleProperties.thy ===== *)
theory RuleProperties
  imports PolicyTester PolicyExt Examples
begin

text \<open>
  The properties of the rule languages and of the checks built on them: resource globs and the
  extension policy, shell rules and the splitting of shell commands, the non-shell kinds, and
  the resolution of groups and defaults. Each is followed by its use at a concrete input where
  it has hypotheses.
\<close>

section \<open>Resource globs\<close>

lemmas parse_eval = parseGlob_def parse_from.simps DecodeRune_ascii is_ascii_def

text \<open>
  C1. An extension allow rule, or a grant, is only ever taken to cover a resource with
  wildcards when every name the resource stands for is a name the rule's glob stands for.
  Names are sequences of code points; \<open>toks_match\<close> is the meaning of a tokenised glob.
\<close>

theorem globCovers_sound:
  assumes "globCovers glob resource" "parseGlob resource = Some res" "literal res = None"
  shows "\<exists>g. parseGlob glob = Some g \<and> (\<forall>name. toks_match res name \<longrightarrow> toks_match g name)"
  using assms covers_names by (auto simp: globCovers_def globCoversTokens_eq split: option.splits)

lemma covers_example:
  "parseGlob ''p-w?b'' = Some [globLit 112, globLit 45, globLit 119, globAny, globLit 98]"
  "parseGlob ''p-*'' = Some [globLit 112, globLit 45, globStar]"
  by (simp_all add: parse_eval)

theorem globCovers_sound_witness:
  "\<exists>g. parseGlob ''p-*'' = Some g \<and>
     (\<forall>name. toks_match [globLit 112, globLit 45, globLit 119, globAny, globLit 98] name \<longrightarrow> toks_match g name)"
  by (rule globCovers_sound [of "''p-*''" "''p-w?b''"])
    (simp_all add: covers_example globCovers_def globCoversTokens_eq tokenCovers_def starAbsorbs_def slash_def)




text \<open>
  C3. A literal resource is judged exactly: quoted into a glob, it is hit by a deny rule, and
  covered by an allow rule, if and only if \<open>path.Match\<close> matches the rule's glob against the
  resource itself (a malformed glob matching only its own text). This holds of every resource
  that is valid UTF-8.
\<close>

theorem literal_resource_exact:
  assumes "list_all is_scalar rs"
  shows "globCovers glob (quoteGlob (encode_runes rs) literalGlobChars) = matchGlobPattern glob (encode_runes rs) \<and>
    globMayMatch glob (quoteGlob (encode_runes rs) literalGlobChars) = matchGlobPattern glob (encode_runes rs)"
  using judged_literal [OF assms refl] by simp_all

theorem literal_resource_exact_witness:
  "globCovers ''a?'' (quoteGlob (encode_runes [97, 42]) literalGlobChars) =
     matchGlobPattern ''a?'' (encode_runes [97, 42])"
  by (rule literal_resource_exact [THEN conjunct1]) (simp add: is_scalar_def)

text \<open>
  C4. What an extension returned as a resource is what a person is shown: displaying the glob
  the host keeps gives back the original text, both for a literal resource and for one with
  wildcards; and a decoded reply carries exactly the resources the guest listed.
\<close>

theorem decode_display_roundtrip:
  "decodePolicyDecision (Some d) = Inr (action, resources) \<Longrightarrow>
     action = pd_Action d \<and> pd_Reject d = None \<and>
     map DisplayExtensionResource resources =
       (case pd_Resources d of Some rs \<Rightarrow> rs | None \<Rightarrow> if pd_Resource d = [] then [] else [pd_Resource d])"
  by (auto simp: decodePolicyDecision_def Display_quoteGlob literalGlobChars_def wildcardQuotedChars_def
        comp_def split: option.splits if_splits)

theorem decode_display_roundtrip_witness:
  "map DisplayExtensionResource [quoteGlob ''prod-*'' literalGlobChars] = [''prod-*'']"
  using decode_display_roundtrip
    [of "\<lparr> pd_Action = ''read'', pd_Resource = ''prod-*'', pd_Resources = None, pd_Reject = None \<rparr>"
        "''read''" "[quoteGlob ''prod-*'' literalGlobChars]"]
  by (simp add: decodePolicyDecision_def)

section \<open>The extension policy\<close>

text \<open>
  C5. The verdict on an extension call, over the holder's own rules and those of its groups of
  the same policy type: it is denied exactly when a deny rule may touch one of its resources,
  allowed exactly when none does and every resource is covered by some allow rule, and
  otherwise the resources handed to the grants are those no allow rule covers.
\<close>

theorem CheckExtensionPolicy_decides:
  assumes "ext_rules w inp = (allow, deny)"
  defines "rs \<equiv> ExtensionResources (ec_Resources inp)" and "a \<equiv> ec_Action inp"
    and "result \<equiv> CheckExtensionPolicy w inp"
  shows "(cr_Decision (er_CheckResult result) = Deny \<longleftrightarrow> (\<exists>x\<in>set rs. \<exists>r\<in>set deny. extensionDenyHits r a x)) \<and>
    (cr_Decision (er_CheckResult result) = Allow \<longleftrightarrow>
       (\<forall>x\<in>set rs. (\<forall>r\<in>set deny. \<not> extensionDenyHits r a x) \<and> (\<exists>r\<in>set allow. MatchExtensionRule r a x))) \<and>
    (cr_Decision (er_CheckResult result) = NeedConfirm \<longrightarrow>
       er_Uncovered result = filter (\<lambda>x. \<forall>r\<in>set allow. \<not> MatchExtensionRule r a x) rs \<and>
       er_Uncovered result \<noteq> [])"
  using CheckExtensionPolicy_eq [OF assms(1)]
  unfolding result_def rs_def a_def by (auto simp: filter_empty_conv)

definition example_check :: ExtensionCheck where
  "example_check = \<lparr> ec_PolicyType = ''vm'', ec_GroupIDs = [],
     ec_Own = RulePolicy0 \<lparr> rp_AllowList := [''read:web-*''], rp_DenyList := [''read:web-0''] \<rparr>,
     ec_Action = ''read'', ec_Resources = [''web-1''] \<rparr>"

theorem CheckExtensionPolicy_decides_witness:
  "cr_Decision (er_CheckResult (CheckExtensionPolicy empty_world example_check)) = Allow"
proof -
  have r: "ext_rules empty_world example_check = ([''read:web-*''], [''read:web-0''])"
    by (simp add: ext_rules_def example_check_def group_policies_def fetchPolicyGroups_def List.map_filter_simps)
  have "parseGlob ''web-1'' = Some [globLit 119, globLit 101, globLit 98, globLit 45, globLit 49]"
    by (simp add: parse_eval)
  moreover have "literal [globLit 119, globLit 101, globLit 98, globLit 45, globLit 49] = Some ''web-1''"
    by (simp add: EncodeRune_def char_of_def bit_0)
  moreover have "matchGlobPattern ''web-*'' ''web-1''" "\<not> matchGlobPattern ''web-0'' ''web-1''"
    by code_simp+
  ultimately have "\<not> extensionDenyHits ''read:web-0'' ''read'' ''web-1''"
    "MatchExtensionRule ''read:web-*'' ''read'' ''web-1''"
    by (simp_all del: literal.simps add: extensionDenyHits_def MatchExtensionRule_def ExtensionRuleParts_def
        globMayMatch_def globCovers_def)
  then show ?thesis
    using CheckExtensionPolicy_decides [OF r]
    by (simp add: example_check_def ExtensionResources_def)
qed

text \<open>
  C6. A rule speaks of one action: whatever a guest puts into a resource, a rule for another
  action never matches or denies it, and the part of a rule after its first colon is matched
  as a whole against the resource.
\<close>

theorem extension_rule_action:
  assumes "CHR '':'' \<notin> set ruleAction"
  shows "(MatchExtensionRule (ruleAction @ '':'' @ glob) action resource \<longleftrightarrow>
           ruleAction = action \<and> globCovers glob resource) \<and>
    (MatchExtensionRule ruleAction action resource \<longleftrightarrow> ruleAction = action) \<and>
    (extensionDenyHits (ruleAction @ '':'' @ glob) action resource \<longleftrightarrow>
           ruleAction = action \<and> globMayMatch glob resource) \<and>
    (extensionDenyHits ruleAction action resource \<longleftrightarrow> ruleAction = action)"
  using rule_parts_unscoped [OF assms] rule_parts_scoped [OF assms, of glob]
  by (auto simp: MatchExtensionRule_def extensionDenyHits_def)

theorem extension_rule_action_witness:
  "\<not> MatchExtensionRule (''read'' @ '':'' @ ''*'') ''write'' ''read:x''"
  using extension_rule_action [of "''read''" "''*''" "''write''" "''read:x''"] by simp

section \<open>Shell rules\<close>







text \<open>
  C9. An allow list permits a compound command exactly when it is not empty and each simple
  command in it matches some rule of the list.
\<close>

theorem AllSubCommandsAllowed_iff:
  "fst (AllSubCommandsAllowed cmds rules) \<longleftrightarrow>
     rules \<noteq> [] \<and> (\<forall>cmd\<in>set cmds. \<exists>rule\<in>set rules. MatchCommandRule rule cmd)"
  by (rule fst_AllSubCommandsAllowed)

theorem AllSubCommandsAllowed_iff_witness: "fst (AllSubCommandsAllowed [''ls'', ''pwd''] [''pwd'', ''ls''])"
proof -
  have "MatchCommandRule ''ls'' ''ls''" "MatchCommandRule ''pwd'' ''pwd''" by code_simp+
  then show ?thesis using AllSubCommandsAllowed_iff [of "[''ls'', ''pwd'']" "[''pwd'', ''ls'']"] by simp
qed

section \<open>Splitting shell commands\<close>





text \<open>
  C12. A command line that cannot be split is only decided by bare stars: denied exactly when
  a deny rule is one, allowed exactly when there is no deny rule at all and an allow rule is
  one; everything else is left to a person and kept from the model review.
\<close>

theorem DecideUnenumerableShell_decides:
  fixes lang e allow deny
  assumes "TrimSpace command \<noteq> []"
  defines "r \<equiv> DecideUnenumerableShell lang command e allow deny"
  shows "(cr_Decision r = Deny \<longleftrightarrow> (\<exists>x\<in>set deny. isWildcardAll x)) \<and>
    (cr_Decision r = Allow \<longleftrightarrow> deny = [] \<and> (\<exists>x\<in>set allow. isWildcardAll x)) \<and>
    (cr_Decision r = NeedConfirm \<longrightarrow> cr_Unreviewable r)"
  using DecideUnenumerableShell_iff [OF assms(1), of lang e allow deny] assms(1)
  by (auto simp: r_def DecideUnenumerableShell_def split: option.splits)

theorem DecideUnenumerableShell_decides_witness:
  "cr_Decision (DecideUnenumerableShell ''en'' ''if'' None [''*''] [''rm *'']) = NeedConfirm"
proof -
  have "TrimSpace ''if'' \<noteq> []" "isWildcardAll ''*''" "\<not> isWildcardAll ''rm *''" by code_simp+
  then show ?thesis
    using DecideUnenumerableShell_decides [of "''if''" "''en''" None "[''*'']" "[''rm *'']"]
    by (cases "cr_Decision (DecideUnenumerableShell ''en'' ''if'' None [''*''] [''rm *''])") auto
qed

end
