(* ===== verification/KindProperties.thy ===== *)
theory KindProperties
  imports Permission Examples
begin

text \<open>
  The properties of the checks of the non-shell kinds, of the merge of policies along the chain
  of groups, and of the agreement between the policy test panel and the checks at run time.
\<close>

section \<open>Deny first\<close>

lemma redis_rules_cong:
  "checkRedisPolicyRules sh lang (Some p) = checkRedisPolicyRules sh lang (Some (rules_of (rp_AllowList p) (rp_DenyList p)))"
  by (simp add: checkRedisPolicyRules_def fun_eq_iff)

lemma kafka_rules_cong:
  "checkKafkaPolicyRules lang (Some p) = checkKafkaPolicyRules lang (Some (rules_of (rp_AllowList p) (rp_DenyList p)))"
  by (simp add: checkKafkaPolicyRules_def fun_eq_iff)

lemma oss_rules_cong:
  "checkOSSPolicyRules lang p = checkOSSPolicyRules lang (rules_of (rp_AllowList p) (rp_DenyList p))"
  by (auto simp: checkOSSPolicyRules_def fun_eq_iff split: option.split)

lemma k8s_rules_cong:
  "k8s_units_check lang p = k8s_units_check lang (rules_of (rp_AllowList p) (rp_DenyList p))"
  by (auto simp: k8s_units_check_def fun_eq_iff split: option.split)

text \<open>The verdict a list of deny and allow rules gives on units, as a function.\<close>

definition verdict :: "(string \<Rightarrow> 'c \<Rightarrow> bool) \<Rightarrow> string list \<Rightarrow> string list \<Rightarrow> 'c list \<Rightarrow> Decision" where
  "verdict matches allow deny us =
     (if \<exists>u\<in>set us. \<exists>r\<in>set deny. matches r u then Deny
      else if allow = [] \<or> (\<forall>u\<in>set us. \<exists>r\<in>set allow. matches r u) then Allow
      else NeedConfirm)"

context deny_first
begin

lemma check_verdict: "us \<noteq> [] \<Longrightarrow> cr_Decision (check allow deny us) = verdict matches allow deny us"
  using denies [of us allow deny] allows [of us allow deny] confirms [of us allow deny]
  by (auto simp: verdict_def)

end

lemma redis_verdict:
  "cr_Decision (CheckRedisPolicy sh w p c) =
     verdict (MatchRedisRule sh) (rp_AllowList (EffectiveRedisPolicy w p)) (rp_DenyList (EffectiveRedisPolicy w p)) [c]"
  using redis.check_verdict [of "[c]"]
  by (simp add: single_check_one CheckRedisPolicy_def redis_rules_cong [of sh _ "EffectiveRedisPolicy w p"])

lemma etcd_verdict:
  "cr_Decision (CheckEtcdPolicy sh w p c) =
     verdict (MatchRedisRule sh) (rp_AllowList (EffectiveEtcdPolicy w p)) (rp_DenyList (EffectiveEtcdPolicy w p)) [c]"
  using redis.check_verdict [of "[c]"]
  by (simp add: single_check_one CheckEtcdPolicy_def redis_rules_cong [of sh _ "EffectiveEtcdPolicy w p"])

lemma kafka_verdict:
  "cr_Decision (CheckKafkaPolicy w p c) =
     verdict MatchKafkaRule (rp_AllowList (EffectiveKafkaPolicy w p)) (rp_DenyList (EffectiveKafkaPolicy w p)) [c]"
  using kafka.check_verdict [of "[c]"]
  by (simp add: single_check_one CheckKafkaPolicy_def kafka_rules_cong [of _ "EffectiveKafkaPolicy w p"])

lemma oss_parts_verdict:
  assumes "policyStrings \<noteq> []"
  shows "cr_Decision (CheckOSSPolicy w p policyStrings) =
    verdict MatchOSSRule (rp_AllowList (EffectiveOSSPolicy w p)) (rp_DenyList (EffectiveOSSPolicy w p)) policyStrings"
  using oss.check_verdict [OF assms]
  by (simp add: CheckOSSPolicy_def oss_rules_cong [of _ "EffectiveOSSPolicy w p"])

text \<open>
  C13. The Redis, etcd and Kafka checks: whatever the order of the rules, a matching deny rule
  denies, and otherwise the command is allowed when the effective policy has no allow rules or
  one of them matches, and put to a person when none does.
\<close>

theorem single_command_verdict:
  "cr_Decision (CheckRedisPolicy sh w p c) =
      verdict (MatchRedisRule sh) (rp_AllowList (EffectiveRedisPolicy w p)) (rp_DenyList (EffectiveRedisPolicy w p)) [c] \<and>
   cr_Decision (CheckEtcdPolicy sh w p c) =
      verdict (MatchRedisRule sh) (rp_AllowList (EffectiveEtcdPolicy w p)) (rp_DenyList (EffectiveEtcdPolicy w p)) [c] \<and>
   cr_Decision (CheckKafkaPolicy w p c) =
      verdict MatchKafkaRule (rp_AllowList (EffectiveKafkaPolicy w p)) (rp_DenyList (EffectiveKafkaPolicy w p)) [c]"
  by (simp add: redis_verdict etcd_verdict kafka_verdict)

text \<open>
  C14. The MongoDB check has the same verdict over its operation types.
\<close>

theorem mongo_verdict:
  "cr_Decision (CheckMongoDBPolicy sh w p c) =
     verdict (MatchMongoRule sh) (mp_AllowTypes (EffectiveMongoPolicy w p)) (mp_DenyTypes (EffectiveMongoPolicy w p)) [c]"
  using mongo.check_verdict [of "[c]"]
  by (simp add: single_check_one CheckMongoDBPolicy_def checkMongoPolicyRules_def)

text \<open>
  C15. A compound operation on object storage, such as a copy, which reads one resource and
  writes another, or a move, which also deletes, is denied as soon as one of its parts matches
  a deny rule and allowed only when every part is.
\<close>

theorem oss_verdict:
  assumes "policyStrings \<noteq> []"
  shows "cr_Decision (CheckOSSPolicy w p policyStrings) =
    verdict MatchOSSRule (rp_AllowList (EffectiveOSSPolicy w p)) (rp_DenyList (EffectiveOSSPolicy w p)) policyStrings"
  using assms by (rule oss_parts_verdict)

theorem oss_verdict_witness:
  "cr_Decision (CheckOSSPolicy empty_world None [''object.read b/k'', ''object.write b/l'']) =
     verdict MatchOSSRule (rp_AllowList (EffectiveOSSPolicy empty_world None))
       (rp_DenyList (EffectiveOSSPolicy empty_world None))
       [''object.read b/k'', ''object.write b/l'']"
  by (rule oss_verdict) simp

text \<open>
  C16. The Kubernetes check has that verdict over the simple commands the line splits into.
\<close>

theorem k8s_verdict:
  assumes "ExtractSubCommands sh command = Inr us" "us \<noteq> []"
  shows "cr_Decision (CheckK8sPolicy sh w p command) =
    verdict MatchCommandRule (rp_AllowList (EffectiveK8sPolicy w p)) (rp_DenyList (EffectiveK8sPolicy w p)) us"
  using k8s.check_verdict [OF assms(2)] assms
  by (simp add: CheckK8sPolicy_def checkK8sPolicyRules_def k8s_rules_cong [of _ "EffectiveK8sPolicy w p"])

theorem k8s_verdict_witness:
  "cr_Decision (CheckK8sPolicy words_shell empty_world None ''ls'') =
     verdict MatchCommandRule (rp_AllowList (EffectiveK8sPolicy empty_world None))
       (rp_DenyList (EffectiveK8sPolicy empty_world None)) [''ls'']"
  by (rule k8s_verdict [OF one_word_units]) simp

text \<open>
  C17. SQL statements are judged in order and the first that is not plainly allowed decides,
  denied or put to a person; a statement is denied by its type or by a flag of the classifier.
  In particular a denied statement behind one that only needs confirmation does not deny.
\<close>

theorem query_first_decides:
  "cr_Decision (CheckQueryPolicy w p stmts) =
     (let q = EffectiveQueryPolicy w p in
      case find (\<lambda>s. \<not> (stmt_allowed q s \<and> \<not> stmt_denied q s)) stmts of
        None \<Rightarrow> Allow
      | Some s \<Rightarrow> if stmt_denied q s then Deny else NeedConfirm)"
  by (simp add: CheckQueryPolicy_def checkQueryPolicyRules_def query_loop_first Let_def disj_commute)

section \<open>Chains and defaults\<close>
















end
