(* ===== verification/GrantFacts.thy ===== *)
theory GrantFacts
  imports Permission
begin

text \<open>
  Facts about session grants: which approved items a lookup reads, what storing a pattern adds,
  and the contract \<open>always_allow\<close> of an "always allow" answer, that a later check of the same
  subject finds the stored patterns. The contract is interpreted on every face of the approval
  dialog: file transfers, object storage, shell commands and extension calls.
\<close>


section \<open>What a lookup reads\<close>

lemma covering_item_iff:
  "covering_item items assetID groups toolName matchFn cmd \<noteq> None \<longleftrightarrow>
     (\<exists>it\<in>set items. grantItemMatchesTarget it assetID (set (map g_ID groups)) \<and>
        grantItemAppliesTo it toolName \<and> matchFn (gi_Command it) cmd)"
  by (auto simp: covering_item_def find_None_iff2 find_None_iff dest: sym)

lemma covering_item_SomeD:
  "covering_item items assetID groups toolName matchFn cmd = Some it \<Longrightarrow>
     it \<in> set items \<and> grantItemMatchesTarget it assetID (set (map g_ID groups)) \<and>
     grantItemAppliesTo it toolName \<and> matchFn (gi_Command it) cmd"
  unfolding covering_item_def by (drule find_SomeD) simp

text \<open>The approved items of the session that bear on an asset.\<close>

definition grant_items_for :: "world \<Rightarrow> int \<Rightarrow> GrantItem set" where
  "grant_items_for w assetID =
     (case w_Assets w assetID of
        None \<Rightarrow> {}
      | Some asset \<Rightarrow>
          (case w_Grants w of
             None \<Rightarrow> {}
           | Some db \<Rightarrow>
               if w_Session w = [] then {}
               else {it \<in> set (ListApprovedItems db (w_Session w)).
                 grantItemMatchesTarget it assetID (g_ID ` set (asset_groups w (Some asset)))}))"

lemma grantPatternsForAsset_each:
  assumes "grantPatternsForAsset w assetID cmds tool m = Some ps"
  shows "list_all2 (\<lambda>p c. \<exists>it\<in>grant_items_for w assetID. grantItemAppliesTo it tool \<and> gi_Command it = p \<and> m p c) ps cmds"
proof -
  from assms obtain asset db hits where *: "w_Assets w assetID = Some asset" "w_Session w \<noteq> []" "w_Grants w = Some db"
    "all_some (covering_item (ListApprovedItems db (w_Session w)) assetID (asset_groups w (Some asset)) tool m) cmds = Some hits"
    "ps = map gi_Command hits"
    by (auto simp: grantPatternsForAsset_def matchGrantPatternsEachWith_def asset_groups_def Let_def
        split: option.splits if_splits)
  have "list_all2 (\<lambda>it c. covering_item (ListApprovedItems db (w_Session w)) assetID (asset_groups w (Some asset)) tool m c = Some it) hits cmds"
    using *(4) by (simp add: all_some_iff)
  then show ?thesis
    unfolding *(5) list_all2_map1
    by (rule list_all2_mono) (use * in \<open>auto dest!: covering_item_SomeD simp: grant_items_for_def\<close>)
qed

lemma grantPatternsForAsset_eq:
  fixes tool m
  assumes "w_Session w \<noteq> []" "w_Grants w = Some db" "w_Assets w assetID = Some asset"
  defines "f \<equiv> covering_item (ListApprovedItems db (w_Session w)) assetID (asset_groups w (Some asset)) tool m"
  shows "grantPatternsForAsset w assetID cmds tool m =
     (case all_some f cmds of None \<Rightarrow> None | Some hits \<Rightarrow> if hits = [] then None else Some (map gi_Command hits))"
proof (cases "ListApprovedItems db (w_Session w) = []")
  case True
  then have "f = (\<lambda>c. None)" by (simp add: f_def fun_eq_iff covering_item_def)
  then have "all_some f cmds = (if cmds = [] then Some [] else None)" by (cases cmds) simp_all
  with True assms(1-3) show ?thesis by (simp add: grantPatternsForAsset_def matchGrantPatternsEachWith_def)
next
  case False
  with assms(1-3) show ?thesis
    by (simp add: grantPatternsForAsset_def matchGrantPatternsEachWith_def asset_groups_def f_def)
qed

lemma grantPatternsForAsset_iff:
  "grantPatternsForAsset w assetID cmds tool m \<noteq> None \<longleftrightarrow>
     cmds \<noteq> [] \<and> (\<forall>c\<in>set cmds. \<exists>it\<in>grant_items_for w assetID. grantItemAppliesTo it tool \<and> m (gi_Command it) c)"
proof (cases "w_Session w = [] \<or> w_Grants w = None \<or> w_Assets w assetID = None")
  case True
  then have "grant_items_for w assetID = {}" by (auto simp: grant_items_for_def split: option.splits)
  moreover from True have "grantPatternsForAsset w assetID cmds tool m = None"
    by (auto simp: grantPatternsForAsset_def matchGrantPatternsEachWith_def split: option.splits)
  ultimately show ?thesis by (cases cmds) auto
next
  case False
  then obtain db asset where *: "w_Session w \<noteq> []" "w_Grants w = Some db" "w_Assets w assetID = Some asset" by auto
  define f where "f = covering_item (ListApprovedItems db (w_Session w)) assetID (asset_groups w (Some asset)) tool m"
  have f: "f c \<noteq> None \<longleftrightarrow> (\<exists>it\<in>grant_items_for w assetID. grantItemAppliesTo it tool \<and> m (gi_Command it) c)" for c
    unfolding f_def covering_item_iff grant_items_for_def by (simp add: *) blast
  have "grantPatternsForAsset w assetID cmds tool m \<noteq> None \<longleftrightarrow> (\<exists>hits. all_some f cmds = Some hits \<and> hits \<noteq> [])"
    unfolding grantPatternsForAsset_eq [OF *] f_def [symmetric] by (simp split: option.split)
  then show ?thesis unfolding all_some_ne_iff f .
qed


section \<open>Storing a pattern\<close>

text \<open>A session can take grants when it is already approved or does not exist yet.\<close>

definition session_open :: "world \<Rightarrow> string \<Rightarrow> bool" where
  "session_open w sid =
     (sid \<noteq> [] \<and> (case w_Grants w of
        None \<Rightarrow> False
      | Some db \<Rightarrow> \<forall>s\<in>set (db_sessions db). gs_ID s = sid \<longrightarrow> gs_Status s = GrantStatusApproved))"

definition grant_item :: "string \<Rightarrow> int \<Rightarrow> string \<Rightarrow> string \<Rightarrow> string \<Rightarrow> GrantItem" where
  "grant_item sid assetID assetName tool command =
     \<lparr> gi_GrantSessionID = sid, gi_ItemIndex = 0, gi_ToolName = tool, gi_AssetID = assetID, gi_AssetName = assetName,
       gi_GroupID = 0, gi_GroupName = [], gi_Command = command, gi_Detail = [] \<rparr>"

definition approved_items :: "world \<Rightarrow> string \<Rightarrow> GrantItem set" where
  "approved_items w sid = (case w_Grants w of None \<Rightarrow> {} | Some db \<Rightarrow> set (ListApprovedItems db sid))"

lemma SaveGrantPattern_frame [simp]:
  "w_Assets (SaveGrantPattern sid i n t c w) = w_Assets w"
  "w_Groups (SaveGrantPattern sid i n t c w) = w_Groups w"
  "w_Session (SaveGrantPattern sid i n t c w) = w_Session w"
  "w_Lang (SaveGrantPattern sid i n t c w) = w_Lang w"
  "w_PolicyGroups (SaveGrantPattern sid i n t c w) = w_PolicyGroups w"
  "w_ExtGroups (SaveGrantPattern sid i n t c w) = w_ExtGroups w"
  by (simp_all add: SaveGrantPattern_def Let_def split: option.split)

lemma ensure_session:
  fixes db sid
  defines "db' \<equiv> (case GetSession db sid of
      Some s \<Rightarrow> db
    | None \<Rightarrow> (case CreateSession \<lparr> gs_ID = sid, gs_Description = [], gs_Status = GrantStatusApproved \<rparr> db of
                 None \<Rightarrow> db | Some db1 \<Rightarrow> db1))"
  shows "db_items db' = db_items db" "sid \<in> gs_ID ` set (db_sessions db')"
    "\<exists>new. db_sessions db' = db_sessions db @ new \<and> (\<forall>s\<in>set new. gs_ID s = sid \<and> gs_Status s = GrantStatusApproved)"
  by (auto simp: db'_def GetSession_def CreateSession_def find_None_iff list_ex_iff split: option.split dest: find_SomeD)

lemma ListApprovedItems_iff:
  "it \<in> set (ListApprovedItems db sid) \<longleftrightarrow>
     (\<exists>s\<in>set (db_sessions db). gs_ID s = sid \<and> gs_Status s = GrantStatusApproved) \<and>
     it \<in> set (db_items db) \<and> gi_GrantSessionID it = sid"
  by (auto simp: ListApprovedItems_def list_ex_iff)

lemma SaveGrantPattern_approved:
  assumes "session_open w sid" "c \<noteq> []"
  shows "grant_item sid i n t c \<in> approved_items (SaveGrantPattern sid i n t c w) sid"
    and "approved_items w sid' \<subseteq> approved_items (SaveGrantPattern sid i n t c w) sid'"
    and "session_open (SaveGrantPattern sid i n t c w) sid"
proof -
  obtain db where db: "w_Grants w = Some db" and sid: "sid \<noteq> []"
    and ok: "\<forall>s\<in>set (db_sessions db). gs_ID s = sid \<longrightarrow> gs_Status s = GrantStatusApproved"
    using assms(1) by (auto simp: session_open_def split: option.splits)
  define db' where "db' = (case GetSession db sid of
      Some s \<Rightarrow> db
    | None \<Rightarrow> (case CreateSession \<lparr> gs_ID = sid, gs_Description = [], gs_Status = GrantStatusApproved \<rparr> db of
                 None \<Rightarrow> db | Some db1 \<Rightarrow> db1))"
  note e = ensure_session [where db = db and sid = sid, folded db'_def]
  have w': "w_Grants (SaveGrantPattern sid i n t c w) = Some (CreateItems [grant_item sid i n t c] db')"
    using db sid assms(2) by (simp add: SaveGrantPattern_def db'_def Let_def grant_item_def)
  have ok': "gs_Status s = GrantStatusApproved" if "s \<in> set (db_sessions db')" "gs_ID s = sid" for s
    using that e(3) ok by auto
  from e(2) obtain s where s: "s \<in> set (db_sessions db')" "gs_ID s = sid" by auto
  have "grant_item sid i n t c \<in> set (ListApprovedItems (CreateItems [grant_item sid i n t c] db') sid)"
    unfolding ListApprovedItems_iff using s ok' [OF s] by (auto simp: CreateItems_def grant_item_def)
  then show "grant_item sid i n t c \<in> approved_items (SaveGrantPattern sid i n t c w) sid"
    by (simp add: approved_items_def w')
  from e(3) obtain new where "db_sessions db' = db_sessions db @ new" by blast
  then show "approved_items w sid' \<subseteq> approved_items (SaveGrantPattern sid i n t c w) sid'"
    by (auto simp: approved_items_def w' db ListApprovedItems_iff CreateItems_def e(1))
  from ok' sid show "session_open (SaveGrantPattern sid i n t c w) sid"
    by (auto simp: session_open_def w' CreateItems_def)
qed

lemma save_all_frame [simp]:
  "w_Assets (save_all sid i n t ps w) = w_Assets w"
  "w_Groups (save_all sid i n t ps w) = w_Groups w"
  "w_Session (save_all sid i n t ps w) = w_Session w"
  "w_Lang (save_all sid i n t ps w) = w_Lang w"
  "w_PolicyGroups (save_all sid i n t ps w) = w_PolicyGroups w"
  "w_ExtGroups (save_all sid i n t ps w) = w_ExtGroups w"
  by (induction ps arbitrary: w) (simp_all add: save_all_def)

lemma SaveGrantPattern_keeps:
  assumes "session_open w sid"
  shows "approved_items w sid' \<subseteq> approved_items (SaveGrantPattern sid i n t c w) sid'"
    and "session_open (SaveGrantPattern sid i n t c w) sid"
  using assms SaveGrantPattern_approved [OF assms, of c] by (cases "c = []"; simp add: SaveGrantPattern_def)+

lemma save_all_keeps:
  assumes "session_open w sid"
  shows "approved_items w sid' \<subseteq> approved_items (save_all sid i n t ps w) sid'"
    and "session_open (save_all sid i n t ps w) sid"
proof -
  have "approved_items w sid' \<subseteq> approved_items (save_all sid i n t ps w) sid' \<and> session_open (save_all sid i n t ps w) sid"
    using assms
  proof (induction ps arbitrary: w)
    case (Cons c ps)
    note k = SaveGrantPattern_keeps [OF Cons.prems, where i = i and n = n and t = t and c = c]
    show ?case using k(1) [of sid'] Cons.IH [OF k(2)] by (auto simp: save_all_def)
  qed (simp add: save_all_def)
  then show "approved_items w sid' \<subseteq> approved_items (save_all sid i n t ps w) sid'"
    "session_open (save_all sid i n t ps w) sid" by blast+
qed

lemma save_all_approved:
  assumes "session_open w sid" "p \<in> set ps" "p \<noteq> []"
  shows "grant_item sid i n t p \<in> approved_items (save_all sid i n t ps w) sid"
  using assms(1,2)
proof (induction ps arbitrary: w)
  case (Cons q ps)
  have o: "session_open (SaveGrantPattern sid i n t q w) sid" by (rule SaveGrantPattern_keeps(2) [OF Cons.prems(1)])
  show ?case
  proof (cases "p = q")
    case True
    then have "grant_item sid i n t p \<in> approved_items (SaveGrantPattern sid i n t q w) sid"
      using SaveGrantPattern_approved(1) [OF Cons.prems(1) assms(3)] by simp
    then show ?thesis
      using save_all_keeps(1) [OF o, where i = i and n = n and t = t and ps = ps] by (auto simp: save_all_def)
  next
    case False
    then show ?thesis using Cons.IH [OF o] Cons.prems(2) by (simp add: save_all_def)
  qed
qed simp

section \<open>Always allow\<close>

text \<open>
  The contract of a face of the approval dialog: of a subject that \<open>ok\<close> admits, the patterns
  stored for it cover every unit a later check of the same subject looks up.
\<close>

locale always_allow =
  fixes ok :: "'s \<Rightarrow> bool" and units :: "'s \<Rightarrow> string list" and patterns :: "'s \<Rightarrow> string list"
    and matches :: "string \<Rightarrow> string \<Rightarrow> bool"
  assumes units_ne: "ok x \<Longrightarrow> units x \<noteq> []"
    and covered: "ok x \<Longrightarrow> u \<in> set (units x) \<Longrightarrow> \<exists>p\<in>set (patterns x). p \<noteq> [] \<and> matches p u"
begin

lemma remembered:
  assumes "ok x" "w_Assets w assetID = Some asset" "session_open w (w_Session w)"
  shows "grantPatternsForAsset (save_all (w_Session w) assetID n tool (patterns x) w) assetID (units x) tool matches \<noteq> None"
    (is "grantPatternsForAsset ?w _ _ _ _ \<noteq> None")
proof -
  have "\<exists>it\<in>grant_items_for ?w assetID. grantItemAppliesTo it tool \<and> matches (gi_Command it) u" if "u \<in> set (units x)" for u
  proof -
    from covered [OF assms(1) that] obtain p where p: "p \<in> set (patterns x)" "p \<noteq> []" "matches p u" by blast
    have "grant_item (w_Session w) assetID n tool p \<in> approved_items ?w (w_Session w)"
      by (rule save_all_approved [OF assms(3) p(1,2)])
    then have "grant_item (w_Session w) assetID n tool p \<in> grant_items_for ?w assetID"
      using assms(2,3)
      by (auto simp: grant_items_for_def approved_items_def grantItemMatchesTarget_def grant_item_def session_open_def
          split: option.splits)
    moreover have "grantItemAppliesTo (grant_item (w_Session w) assetID n tool p) tool"
      "matches (gi_Command (grant_item (w_Session w) assetID n tool p)) u"
      using p(3) by (simp_all add: grantItemAppliesTo_def grant_item_def)
    ultimately show ?thesis by blast
  qed
  with units_ne [OF assms(1)] show ?thesis unfolding grantPatternsForAsset_iff by blast
qed

end


section \<open>File transfers\<close>

lemma escapeGlobMeta_eq: "escapeGlobMeta s = quote_with globMetaChars s"
  by (auto simp: escapeGlobMeta_def list_ex_iff quote_with_id)

lemma escapeGlobMeta_plain: "\<forall>c\<in>set s. c \<notin> set globMetaChars \<Longrightarrow> escapeGlobMeta s = s"
  by (simp add: escapeGlobMeta_eq quote_with_id)

lemma lit_of_escapeGlobMeta [simp]: "lit_of (escapeGlobMeta s) = Some s"
  unfolding escapeGlobMeta_eq by (rule lit_of_quote_with) (simp_all add: globMetaChars_def)

lemma path_matched_escape [simp]: "path_matched (escapeGlobMeta s) name \<longleftrightarrow> name = s"
  by (simp add: path_matched_lit)

lemma quote_with_Nil_iff [simp]: "quote_with chars s = [] \<longleftrightarrow> s = []"
  by (cases s) auto

lemma last_quote_with: "s \<noteq> [] \<Longrightarrow> last (quote_with chars s) = last s"
  by (cases s rule: rev_cases) (auto simp: quote_with_append)

lemma escapeGlobMeta_ends [simp]:
  "escapeGlobMeta s = [] \<longleftrightarrow> s = []" "s \<noteq> [] \<Longrightarrow> last (escapeGlobMeta s) = last s"
  by (simp_all add: escapeGlobMeta_eq last_quote_with)

definition cp_rememberable :: "string \<Rightarrow> bool" where
  "cp_rememberable p \<longleftrightarrow> p \<noteq> [] \<and> canonicalPathName p \<and>
     (HasSuffix p ''/'' \<longrightarrow> (\<forall>c\<in>set p. c \<notin> set globMetaChars))"

lemma MatchPathRule_escaped:
  assumes "p \<noteq> []" "\<not> HasSuffix p ''/''"
  shows "MatchPathRule (escapeGlobMeta p) q \<longleftrightarrow>
    q \<noteq> [] \<and> canonicalPathName q \<and> (q = p \<or> q = escapeGlobMeta p)"
proof -
  have "escapeGlobMeta p \<noteq> ''*''"
    using lit_of_escapeGlobMeta [of p] by (auto simp del: lit_of_escapeGlobMeta)
  moreover have "\<not> HasSuffix (escapeGlobMeta p) ''/''" using assms by (simp add: HasSuffix_single)
  ultimately show ?thesis using assms(1) by (auto simp: MatchPathRule_def)
qed

lemma cp_pattern_plain:
  assumes "cp_rememberable p" "HasSuffix p ''/''"
  shows "cpGrantPatterns p GrantOriginSystem = [p]"
proof -
  from assms obtain d where "p = d @ ''/''" by (auto simp: HasSuffix_iff)
  moreover from this assms have "escapeGlobMeta d = d"
    by (intro escapeGlobMeta_plain) (auto simp: cp_rememberable_def)
  ultimately show ?thesis by (simp add: cpGrantPatterns_def)
qed

interpretation cp: always_allow cp_rememberable "\<lambda>p. [p]" "\<lambda>p. cpGrantPatterns p GrantOriginSystem" MatchPathRule
proof
  fix p u
  assume ok: "cp_rememberable p" and u: "u \<in> set [p]"
  show "\<exists>pat\<in>set (cpGrantPatterns p GrantOriginSystem). pat \<noteq> [] \<and> MatchPathRule pat u"
  proof (cases "HasSuffix p ''/''")
    case True
    then show ?thesis using ok u cp_pattern_plain by (simp add: cp_rememberable_def MatchPathRule_def)
  next
    case False
    then show ?thesis using ok u
      by (simp add: cpGrantPatterns_def cp_rememberable_def MatchPathRule_escaped)
  qed
qed simp

section \<open>Extension calls\<close>

lemma splitExtGrantKey_rule [simp]:
  "CHR '':'' \<notin> set policyType \<Longrightarrow> splitExtGrantKey (extGrantRule policyType tail) = Some (policyType, tail)"
  by (simp add: splitExtGrantKey_def extGrantRule_def extGrantPrefix_def HasPrefix_def)

lemma extGrantMatch_rule:
  assumes "CHR '':'' \<notin> set policyType" "CHR '':'' \<notin> set policyType'" "CHR '':'' \<notin> set action"
  shows "extGrantMatch (extGrantRule policyType tail) (extGrantKey policyType' action resource) \<longleftrightarrow>
    policyType = policyType' \<and> MatchExtensionRule tail action resource"
  using assms rule_parts_scoped [OF assms(3), of resource]
  by (simp add: extGrantMatch_def extGrantKey_def extGrantTail_def)

lemma MatchExtensionRule_tail:
  "CHR '':'' \<notin> set action \<Longrightarrow> MatchExtensionRule (extGrantTail action glob) action resource \<longleftrightarrow> globCovers glob resource"
  "CHR '':'' \<notin> set action \<Longrightarrow> MatchExtensionRule action action resource"
  using rule_parts_scoped [of action glob] rule_parts_unscoped [of action]
  by (simp_all add: MatchExtensionRule_def extGrantTail_def)

lemma remember_pattern_covers:
  assumes "CHR '':'' \<notin> set action" "\<forall>r\<in>set resources. host_resource r" "r \<in> set resources"
  shows "MatchExtensionRule (multiResourceRememberPattern action resources) action r"
  using assms host_resource_self_covers [of r]
  by (auto simp: multiResourceRememberPattern_def Let_def MatchExtensionRule_tail list_ex_iff)

definition ext_rememberable :: "ExtensionClassification \<Rightarrow> bool" where
  "ext_rememberable c \<longleftrightarrow> CHR '':'' \<notin> set (xc_PolicyType c) \<and> CHR '':'' \<notin> set (xc_Action c) \<and>
     (\<forall>r\<in>set (xc_Resources c). host_resource r)"

definition ext_units :: "ExtensionClassification \<Rightarrow> string list" where
  "ext_units c = map (extGrantKey (xc_PolicyType c) (xc_Action c)) (ExtensionResources (xc_Resources c))"

lemma host_resource_Nil: "host_resource []"
  unfolding host_resource_def by (rule exI [of _ "[]"]) (simp add: quoteGlob_def)

lemma extGrantRule_ne [simp]: "extGrantRule t s \<noteq> []" "extGrantKey t a r \<noteq> []"
  by (simp_all add: extGrantRule_def extGrantKey_def extGrantPrefix_def)

lemma single_resource: "\<not> 1 < length (ExtensionResources rs) \<Longrightarrow> ExtensionResources rs = [hd (ExtensionResources rs)]"
  by (cases "ExtensionResources rs" rule: list.exhaust) (auto simp: ExtensionResources_def split: if_splits)

interpretation ext: always_allow ext_rememberable ext_units classificationGrantKeys extGrantMatch
proof
  fix c u
  assume ok: "ext_rememberable c" and u: "u \<in> set (ext_units c)"
  let ?rs = "ExtensionResources (xc_Resources c)"
  from u obtain r where r: "r \<in> set ?rs" "u = extGrantKey (xc_PolicyType c) (xc_Action c) r"
    by (auto simp: ext_units_def)
  have hr: "\<forall>r\<in>set ?rs. host_resource r"
    using ok host_resource_Nil by (auto simp: ext_rememberable_def ExtensionResources_def)
  show "\<exists>p\<in>set (classificationGrantKeys c). p \<noteq> [] \<and> extGrantMatch p u"
  proof (cases "1 < length ?rs")
    case True
    then show ?thesis
      using ok r remember_pattern_covers [OF _ hr r(1)]
      by (simp add: classificationGrantKeys_def Let_def ext_rememberable_def extGrantMatch_rule)
  next
    case False
    then have "hd ?rs = r" using single_resource [OF False] r(1) by (metis empty_iff empty_set set_ConsD)
    then show ?thesis
      using False ok r(2) host_resource_self_covers(1) [of r] hr r(1)
      by (simp add: classificationGrantKeys_def Let_def ext_rememberable_def extGrantKey_def [of _ _ r, symmetric]
          extGrantMatch_rule [of _ _ _ "extGrantTail (xc_Action c) r", folded extGrantKey_def] MatchExtensionRule_tail)
  qed
qed (simp add: ext_units_def)

section \<open>Object storage\<close>

lemma cut_space_word: "list_all plain_char a \<Longrightarrow> cut_space (a @ CHR '' '' # r) = Some (a, CHR '' '' # r)"
  by (induction a) auto

lemma splitOSSRule_words:
  assumes "plain_word a" "r \<noteq> []" "plain_char (hd r)" "plain_char (last r)"
  shows "splitOSSRule (a @ '' '' @ r) = Some (a, r)"
proof -
  have "TrimSpace (a @ '' '' @ r) = a @ '' '' @ r"
    by (rule TrimSpace_plain) (use assms in \<open>auto simp: plain_word_def list_all_iff hd_append\<close>)
  then show ?thesis
    using assms cut_space_word [of a r] by (simp add: splitOSSRule_def TrimSpace_blank TrimSpace_plain plain_word_def)
qed

text \<open>An operation on one object: an action, a bucket and a key.\<close>

definition oss_object :: "string \<Rightarrow> string \<Rightarrow> string \<Rightarrow> bool" where
  "oss_object action bucket key \<longleftrightarrow>
     plain_word action \<and> (\<forall>c\<in>set action. c \<notin> set globMetaChars) \<and>
     bucket \<noteq> [] \<and> CHR ''/'' \<notin> set bucket \<and> plain_char (hd bucket) \<and>
     key \<noteq> [] \<and> last key \<noteq> CHR ''/'' \<and> plain_char (last key)"

definition oss_string :: "string \<Rightarrow> string \<Rightarrow> string \<Rightarrow> string" where
  "oss_string action bucket key = action @ '' '' @ bucket @ ''/'' @ key"

lemma plain_backslash [simp]: "plain_char (CHR 0x5C)"
  by (simp add: plain_char_def ascii_space_def)

lemma hd_escapeGlobMeta: "s \<noteq> [] \<Longrightarrow> plain_char (hd s) \<Longrightarrow> plain_char (hd (escapeGlobMeta s))"
  by (cases s) (auto simp: escapeGlobMeta_eq)

lemma escape_no_slash: "CHR ''/'' \<notin> set s \<Longrightarrow> CHR ''/'' \<notin> set (escapeGlobMeta s)"
  by (induction s) (auto simp: escapeGlobMeta_eq)

lemma plain_word_no_blank: "plain_word a \<Longrightarrow> CHR '' '' \<notin> set a"
  by (auto simp: plain_word_def list_all_iff plain_char_def ascii_space_def)

lemma ossGrantRule_object:
  assumes "oss_object action bucket key"
  shows "ossGrantRule (oss_string action bucket key) = Some (oss_string action (escapeGlobMeta bucket) (escapeGlobMeta key))"
  using assms plain_word_no_blank [of action]
  by (cases bucket) (auto simp: ossGrantRule_def oss_object_def oss_string_def escapeOSSRuleKey_def HasPrefix_def HasSuffix_single)

lemma splitOSSRule_object:
  assumes "plain_word a" "b \<noteq> []" "plain_char (hd b)" "k \<noteq> []" "plain_char (last k)"
  shows "splitOSSRule (oss_string a b k) = Some (a, b @ ''/'' @ k)"
  using splitOSSRule_words [of a "b @ ''/'' @ k"] assms by (simp add: oss_string_def)

lemma lit_of_no_meta: "\<forall>c\<in>set s. c \<notin> set globMetaChars \<Longrightarrow> lit_of s = Some s"
  using lit_of_escapeGlobMeta [of s] by (simp add: escapeGlobMeta_plain)

lemma lower_char_meta: "lower_char c \<in> set globMetaChars \<Longrightarrow> c \<in> set globMetaChars"
proof (cases "65 \<le> (of_char c :: nat) \<and> (of_char c :: nat) \<le> 90")
  case True
  assume "lower_char c \<in> set globMetaChars"
  then have "of_char (lower_char c) \<in> {42, 63, 91, 92 :: nat}" by (auto simp: globMetaChars_def)
  moreover from True have "of_char (lower_char c) = (of_char c :: nat) + 32" by (simp add: lower_char_def)
  ultimately show ?thesis using True by auto
qed (simp add: lower_char_def)

lemma path_matched_lower: "\<forall>c\<in>set a. c \<notin> set globMetaChars \<Longrightarrow> path_matched (ToLower a) (ToLower b) \<longleftrightarrow> EqualFold a b"
  by (subst path_matched_lit [OF lit_of_no_meta])
    (auto simp: ToLower_def EqualFold_def dest: lower_char_meta)

lemma splitOSSResource_object: "CHR ''/'' \<notin> set b \<Longrightarrow> splitOSSResource (b @ CHR ''/'' # k) = (b, k)"
  by (simp add: splitOSSResource_def)

lemma MatchOSSRule_object:
  assumes "oss_object action bucket key" "oss_object action' bucket' key'"
  shows "MatchOSSRule (oss_string action (escapeGlobMeta bucket) (escapeGlobMeta key)) (oss_string action' bucket' key') \<longleftrightarrow>
    EqualFold action action' \<and> bucket = bucket' \<and> key = key'"
proof -
  let ?r = "oss_string action (escapeGlobMeta bucket) (escapeGlobMeta key)"
  have r: "splitOSSRule ?r = Some (action, escapeGlobMeta bucket @ ''/'' @ escapeGlobMeta key)"
    by (rule splitOSSRule_object) (use assms(1) in \<open>simp_all add: oss_object_def hd_escapeGlobMeta\<close>)
  have c: "splitOSSRule (oss_string action' bucket' key') = Some (action', bucket' @ ''/'' @ key')"
    by (rule splitOSSRule_object) (use assms(2) in \<open>simp_all add: oss_object_def\<close>)
  have "plain_char (CHR ''*'')" by (simp add: plain_char_def ascii_space_def)
  then have "\<not> isWildcardAll ?r" using r by (auto simp: isWildcardAll_def splitOSSRule_def)
  then show ?thesis
    using assms r c path_matched_lower [of action action']
    by (auto simp: MatchOSSRule_def matchOSSResource_def splitOSSResource_object escape_no_slash oss_object_def
        HasSuffix_single)
qed


definition oss_units :: "deriver \<times> string \<Rightarrow> string list" where
  "oss_units x = (case ossPolicyStrings (fst x) (snd x) of Inl e \<Rightarrow> [] | Inr (ps, _) \<Rightarrow> ps)"

definition oss_rememberable :: "deriver \<times> string \<Rightarrow> bool" where
  "oss_rememberable x \<longleftrightarrow> oss_units x \<noteq> [] \<and>
     (\<forall>u\<in>set (oss_units x). \<exists>action bucket key. oss_object action bucket key \<and> u = oss_string action bucket key)"

lemma oss_string_ne [simp]: "oss_string a b k \<noteq> []"
  by (simp add: oss_string_def)

lemma ossGrantPatterns_units:
  "oss_units (d, command) \<noteq> [] \<Longrightarrow> ossGrantPatterns d command GrantOriginSystem = List.map_filter ossGrantRule (oss_units (d, command))"
  by (auto simp: oss_units_def ossGrantPatterns_def split: sum.splits)

interpretation oss_face: always_allow oss_rememberable oss_units
  "\<lambda>x. ossGrantPatterns (fst x) (snd x) GrantOriginSystem" MatchOSSRule
proof
  fix x u
  assume ok: "oss_rememberable x" and u: "u \<in> set (oss_units x)"
  then obtain a b k where o: "oss_object a b k" "u = oss_string a b k" by (auto simp: oss_rememberable_def)
  have "ossGrantPatterns (fst x) (snd x) GrantOriginSystem = List.map_filter ossGrantRule (oss_units x)"
    using ok ossGrantPatterns_units [of "fst x" "snd x"] by (simp add: oss_rememberable_def)
  then have "oss_string a (escapeGlobMeta b) (escapeGlobMeta k) \<in> set (ossGrantPatterns (fst x) (snd x) GrantOriginSystem)"
    using u o ossGrantRule_object [OF o(1)] by (auto simp: set_map_filter)
  then show "\<exists>p\<in>set (ossGrantPatterns (fst x) (snd x) GrantOriginSystem). p \<noteq> [] \<and> MatchOSSRule p u"
    using MatchOSSRule_object [OF o(1) o(1)] o(2) by (intro bexI) auto
qed (simp add: oss_rememberable_def)

section \<open>Shell commands\<close>

text \<open>
  A simple command that a rule of the same text matches: its program is not an assignment and
  no word of it has a glob character.
\<close>

definition shell_rememberable :: "string \<Rightarrow> bool" where
  "shell_rememberable c \<longleftrightarrow>
     (case tokenize c of [] \<Rightarrow> False | p # ts \<Rightarrow> p \<noteq> [] \<and> \<not> looksLikeEnvAssign p) \<and>
     (\<forall>t\<in>set (tokenize c). \<forall>x\<in>set t. x \<notin> set globMetaChars)"

definition plain_parse :: "ParsedCommand \<Rightarrow> bool" where
  "plain_parse r \<longleftrightarrow> distinct (map fst (pc_Flags r)) \<and>
     (\<forall>w\<in>set (pc_SubCommands r) \<union> snd ` set (pc_Flags r). \<forall>x\<in>set w. x \<notin> set globMetaChars)"

lemma plain_parse_add:
  "plain_parse r \<Longrightarrow> \<forall>x\<in>set v. x \<notin> set globMetaChars \<Longrightarrow> plain_parse (add_flag k v r)"
  "plain_parse r \<Longrightarrow> \<forall>x\<in>set v. x \<notin> set globMetaChars \<Longrightarrow> plain_parse (add_sub v r)"
proof -
  assume r: "plain_parse r" and v: "\<forall>x\<in>set v. x \<notin> set globMetaChars"
  have "snd ` set (put k v (pc_Flags r)) \<subseteq> insert v (snd ` set (pc_Flags r))"
    using image_mono [OF set_put, of snd k v "pc_Flags r"] by simp
  with r v show "plain_parse (add_flag k v r)" by (simp add: plain_parse_def) blast
  from r v show "plain_parse (add_sub v r)" by (simp add: plain_parse_def)
qed

lemma plain_parse_command_token:
  assumes "plain_parse r" "\<forall>x\<in>set t. x \<notin> set globMetaChars"
  shows "plain_parse (command_token t r)"
proof -
  have "plain_parse (flag_token t r)"
  proof (cases "Cut t (CHR ''='')")
    case (fields k v b)
    then have "set v \<subseteq> set t" using Cut_sets [of t "CHR ''=''"] by auto
    with assms have "\<forall>x\<in>set v. x \<notin> set globMetaChars" by auto
    with fields assms(1) show ?thesis by (simp add: flag_token_def plain_parse_add)
  qed
  with assms show ?thesis by (simp add: command_token_def plain_parse_add)
qed

lemma plain_parse_loop:
  "plain_parse r \<Longrightarrow> \<forall>t\<in>set ts. \<forall>x\<in>set t. x \<notin> set globMetaChars \<Longrightarrow> plain_parse (command_loop ts r)"
  by (induction ts r rule: command_loop.induct) (auto intro!: plain_parse_add plain_parse_command_token)

lemma MatchCommandRule_refl:
  assumes "shell_rememberable c"
  shows "MatchCommandRule c c"
proof -
  obtain p ts where t: "tokenize c = p # ts" "p \<noteq> []" "\<not> looksLikeEnvAssign p"
    using assms by (cases "tokenize c") (simp_all add: shell_rememberable_def)
  have m: "\<forall>t\<in>set (p # ts). \<forall>x\<in>set t. x \<notin> set globMetaChars" using assms t by (simp add: shell_rememberable_def)
  define r where "r = command_loop ts (ParsedCommand0 \<lparr> pc_Program := p \<rparr>)"
  have "''*'' \<notin> set ts"
  proof
    assume "''*'' \<in> set ts"
    with m have "\<forall>x\<in>set ''*''. x \<notin> set globMetaChars" by (intro bspec [OF m]) simp
    then show False by (simp add: globMetaChars_def)
  qed
  then have r: "ParseCommandRule c = r" "ParseActualCommand c = r"
    using t by (simp_all add: ParseCommandRule_def ParseActualCommand_def rule_loop_eq_command_loop r_def)
  have "plain_parse r" unfolding r_def by (rule plain_parse_loop) (use m in \<open>simp_all add: plain_parse_def\<close>)
  then have lit: "matchGlobPattern w w" if "w \<in> set (pc_SubCommands r) \<union> snd ` set (pc_Flags r)" for w
    using that unfolding plain_parse_def by (blast intro: matchGlobPattern_lit [OF lit_of_no_meta, THEN iffD2])
  have "match_flag (pc_Flags r) fv" if "fv \<in> set (pc_Flags r)" for fv
  proof -
    have "map_of (pc_Flags r) (fst fv) = Some (snd fv)"
      using \<open>plain_parse r\<close> that by (simp add: plain_parse_def)
    moreover from that have "matchGlobPattern (snd fv) (snd fv)" by (intro lit) simp
    ultimately show ?thesis by (simp add: match_flag_def)
  qed
  moreover have "set (map fst (pc_Flags r)) \<subseteq> dom (map_of (pc_Flags r))" by (simp add: dom_map_of_conv_image_fst)
  moreover have "pc_Program r = p" by (simp add: r_def)
  moreover have "\<forall>sub\<in>set (pc_SubCommands r). \<exists>w\<in>set (pc_SubCommands r). matchGlobPattern sub w"
    using lit by (intro ballI bexI) simp_all
  ultimately have "\<not> isWildcardAll c \<Longrightarrow> ?thesis"
    using t(2) by (simp add: MatchCommandRule_iff r del: set_map)
  moreover have "isWildcardAll c \<Longrightarrow> ?thesis" by (simp add: MatchCommandRule_def isWildcardAll_def)
  ultimately show ?thesis by blast
qed

definition shell_units :: "shell \<times> string \<Rightarrow> string list" where
  "shell_units x = (case ExtractSubCommands (fst x) (snd x) of Inl e \<Rightarrow> [] | Inr cmds \<Rightarrow> cmds)"

interpretation shell_face: always_allow "\<lambda>x. shell_units x \<noteq> [] \<and> (\<forall>u\<in>set (shell_units x). shell_rememberable u)"
  shell_units "\<lambda>x. shellGrantPatterns (fst x) (snd x) GrantOriginSystem" MatchCommandRule
proof
  fix x u
  assume ok: "shell_units x \<noteq> [] \<and> (\<forall>u\<in>set (shell_units x). shell_rememberable u)" and u: "u \<in> set (shell_units x)"
  then have "shell_rememberable u" by blast
  then have "u \<noteq> []" "MatchCommandRule u u"
    by (auto simp: MatchCommandRule_refl shell_rememberable_def tokenize_def)
  then show "\<exists>p\<in>set (shellGrantPatterns (fst x) (snd x) GrantOriginSystem). p \<noteq> [] \<and> MatchCommandRule p u"
    using u by (auto simp: shell_units_def shellGrantPatterns_def)
qed simp

end
