(* ===== verification/GrantProperties.thy ===== *)
theory GrantProperties
  imports GrantFacts Examples
begin

text \<open>
  The properties of session grants: what a grant covers, that the faces of the approval dialog
  are kept apart, and that an "always allow" answer is found again and covers nothing else.
\<close>


lemma open_example: "session_open grant_world ''s1''"
  by (simp add: session_open_def)



text \<open>
  C21. File transfers and commands are granted apart. Without policy rules a transfer is
  allowed exactly when an approved item of the session stored for file transfers, or the bare
  star, matches its path, and it is never denied; and an item stored for file transfers never
  covers a unit of any other tool.
\<close>

theorem transfers_granted_apart:
  "(cr_Decision (checkFileTransferPermission e w assetID path) = Allow \<longleftrightarrow>
      TrimSpace path \<noteq> [] \<and>
      (\<exists>it\<in>grant_items_for w assetID. (gi_ToolName it = GrantToolCp \<or> gi_Command it = ''*'') \<and>
         MatchPathRule (gi_Command it) (TrimSpace path))) \<and>
   cr_Decision (checkFileTransferPermission e w assetID path) \<noteq> Deny \<and>
   (tool \<noteq> GrantToolCp \<and> grantPatternsForAsset w assetID cmds tool m \<noteq> None \<longrightarrow>
      (\<forall>c\<in>set cmds. \<exists>it\<in>grant_items_for w assetID. gi_ToolName it \<noteq> GrantToolCp \<and> m (gi_Command it) c))"
proof -
  note iff = grantPatternsForAsset_iff
  have "cr_Decision (checkFileTransferPermission e w assetID path) =
      (if TrimSpace path \<noteq> [] \<and> grantPatternsForAsset w assetID [TrimSpace path] GrantToolCp MatchPathRule \<noteq> None
       then Allow else NeedConfirm)"
    by (simp add: checkFileTransferPermission_def checkFileTransferPermissionForDirection_def Let_def
        matchGrantForAssetWith_def matchGrantForAssetSubCmdsWith_def need_confirm_def CheckResult0_def split: option.split)
  then show ?thesis
    unfolding iff by (auto simp: grantItemAppliesTo_def)
qed

lemma shell_example: "shell_rememberable ''ls''"
  unfolding shell_rememberable_def globMetaChars_def by code_simp

lemma shell_example_granted:
  "grantPatternsForAsset (save_all ''s1'' 7 ''web'' ''exec'' (shellGrantPatterns words_shell ''ls'' GrantOriginSystem) grant_world)
     7 [''ls''] ''exec'' MatchCommandRule \<noteq> None"
  using shell_face.remembered [of "(words_shell, ''ls'')" grant_world 7 example_asset "''web''" "''exec''"]
    shell_example open_example one_word_units by (simp add: shell_units_def)

theorem transfers_granted_apart_witness:
  "\<exists>it\<in>grant_items_for
        (save_all ''s1'' 7 ''web'' ''exec'' (shellGrantPatterns words_shell ''ls'' GrantOriginSystem) grant_world) 7.
     gi_ToolName it \<noteq> GrantToolCp \<and> MatchCommandRule (gi_Command it) ''ls''"
  using transfers_granted_apart [of example_env
      "save_all ''s1'' 7 ''web'' ''exec'' (shellGrantPatterns words_shell ''ls'' GrantOriginSystem) grant_world"
      7 "[]" "''exec''" "[''ls'']" MatchCommandRule]
    shell_example_granted by (simp add: GrantToolCp_def)



text \<open>
  C23. A path pattern never reaches outside what it names: an absolute path that any rule or
  grant matches has no parent reference left in it.
\<close>

theorem matched_path_no_parent:
  assumes "MatchPathRule rule path" "HasPrefix path ''/''"
  shows "''..'' \<notin> set (Split path (CHR ''/''))"
  using assms canonical_rooted_no_dotdot [of path]
  by (cases path) (auto simp: MatchPathRule_def HasPrefix_def split: if_splits)

theorem matched_path_no_parent_witness: "''..'' \<notin> set (Split ''/srv/b'' (CHR ''/''))"
proof (rule matched_path_no_parent [of "''/srv/''"])
  show "MatchPathRule ''/srv/'' ''/srv/b''" by code_simp
  show "HasPrefix ''/srv/b'' ''/''" by code_simp
qed









text \<open>
  C26. Answering "always allow" to a command line works for plain commands: every simple
  command it splits into is stored and matches itself.
\<close>

theorem shell_always_allow:
  assumes "ExtractSubCommands sh command = Inr cmds" "cmds \<noteq> []" "\<forall>c\<in>set cmds. shell_rememberable c"
    and "w_Assets w assetID = Some asset" "session_open w (w_Session w)"
  shows "grantPatternsForAsset
      (save_all (w_Session w) assetID n ''exec'' (shellGrantPatterns sh command GrantOriginSystem) w)
      assetID cmds ''exec'' MatchCommandRule \<noteq> None"
  using shell_face.remembered [of "(sh, command)" w assetID asset n "''exec''"] assms
  by (simp add: shell_units_def)

theorem shell_always_allow_witness:
  "grantPatternsForAsset
     (save_all ''s1'' 7 ''web'' ''exec'' (shellGrantPatterns words_shell ''ls'' GrantOriginSystem) grant_world)
     7 [''ls''] ''exec'' MatchCommandRule \<noteq> None"
  using shell_always_allow [OF one_word_units, of grant_world 7 example_asset] shell_example open_example by simp



end
