(* ===== verification/Review.thy ===== *)
theory Review
  imports Permission
begin

text \<open>
  Model review of commands that need confirmation (\<^verbatim>\<open>internal/ai/permission/review.go\<close>,
  \<^verbatim>\<open>review_port.go\<close>) and the entry points \<open>CheckPermission\<close> and \<open>CheckPermissions\<close>
  (\<^verbatim>\<open>permission.go\<close>). Under the default mode a person is asked; under the assisted mode a command
  that passes the review runs and any other is put to a person; under autopilot a command that
  does not pass is refused.
\<close>

section \<open>Reasons and messages\<close>

definition ReviewReasonNotConfigured :: string where "ReviewReasonNotConfigured = ''not_configured''"
definition ReviewReasonInvalidAPIKey :: string where "ReviewReasonInvalidAPIKey = ''invalid_api_key''"
definition ReviewReasonTimeout :: string where "ReviewReasonTimeout = ''timeout''"
definition ReviewReasonUnavailable :: string where "ReviewReasonUnavailable = ''unavailable''"
definition ReviewReasonTooLong :: string where "ReviewReasonTooLong = ''too_long''"
definition ReviewReasonUnparseable :: string where "ReviewReasonUnparseable = ''unparseable''"
definition ReviewReasonUndecodable :: string where "ReviewReasonUndecodable = ''undecodable''"
definition ReviewReasonInvalidResult :: string where "ReviewReasonInvalidResult = ''invalid_result''"
definition ReviewReasonNoReviewer :: string where "ReviewReasonNoReviewer = ''no_reviewer''"
definition ReviewReasonReviewerUnavailable :: string where
  "ReviewReasonReviewerUnavailable = ''reviewer_unavailable''"

text \<open>A sentence in English and in Chinese.\<close>

record bilingual =
  bl_en :: string
  bl_zh :: string

record failReasonText =
  fr_label :: bilingual
  fr_next :: bilingual

definition bi :: "string \<Rightarrow> string \<Rightarrow> bilingual" where
  "bi en zh = \<lparr> bl_en = en, bl_zh = zh \<rparr>"

definition retryLater :: bilingual where
  "retryLater = bi ''You may retry later.'' (utf8 [229, 143, 175, 228, 187, 165, 231, 168, 141, 229,
        144, 142, 233, 135, 141, 232, 175, 149, 227, 128, 130])"

definition fixSettings :: bilingual where
  "fixSettings = bi
     (''Retrying will not help until the user fixes the command review settings; leave the '' @
      ''command to the user.'')
     (utf8 [231, 148, 168, 230, 136, 183, 228, 191, 174, 230, 173, 163, 229, 145, 189, 228, 187,
        164, 229, 174, 161, 230, 160, 184, 231, 154, 132, 232, 174, 190, 231, 189, 174, 228, 185,
        139, 229, 137, 141, 233, 135, 141, 232, 175, 149, 228, 185, 159, 228, 184, 141, 228, 188,
        154, 230, 136, 144, 229, 138, 159, 239, 188, 140, 230, 138, 138, 229, 145, 189, 228, 187,
        164, 231, 149, 153, 231, 187, 153, 231, 148, 168, 230, 136, 183, 229, 164, 132, 231, 144,
        134, 227, 128, 130])"

definition failReasons :: "(string \<times> bilingual \<times> bilingual) list" where
  "failReasons =
     [(ReviewReasonNoReviewer, bi ''no command review extension is available''
         (utf8 [230, 178, 161, 230, 156, 137, 229, 143, 175, 231, 148, 168, 231, 154, 132, 229, 145,
         189, 228, 187, 164, 229, 174, 161, 230, 160, 184, 230, 137, 169, 229, 177, 149]), fixSettings),
      (ReviewReasonNotConfigured, bi ''the command review extension is not configured''
         (utf8 [229, 145, 189, 228, 187, 164, 229, 174, 161, 230, 160, 184, 230, 137, 169, 229, 177,
         149, 232, 191, 152, 230, 178, 161, 233, 133, 141, 231, 189, 174, 229, 165, 189]), fixSettings),
      (ReviewReasonInvalidAPIKey, bi ''the command review API key is invalid''
         (utf8 [229, 145, 189, 228, 187, 164, 229, 174, 161, 230, 160, 184, 231, 154,
         132] @ '' API key '' @ utf8 [230, 151, 160, 230, 149, 136]), fixSettings),
      (ReviewReasonTimeout, bi ''timed out'' (utf8 [232, 182, 133, 230, 151, 182]), retryLater),
      (ReviewReasonUnavailable, bi ''service unavailable'' (utf8 [230, 156, 141, 229, 138, 161, 228,
        184, 141, 229, 143, 175, 231, 148, 168]), retryLater),
      (ReviewReasonTooLong, bi ''command too long'' (utf8 [229, 145, 189, 228, 187, 164, 232, 191,
        135, 233, 149, 191]),
       bi ''Retrying it as-is gives the same result: shorten it or split it into several commands.''
          (utf8 [229, 142, 159, 230, 160, 183, 233, 135, 141, 232, 175, 149, 231, 187, 147, 230,
          158, 156, 228, 184, 128, 230, 160, 183, 239, 188, 140, 230, 138, 138, 229, 145, 189, 228,
          187, 164, 231, 188, 169, 231, 159, 173, 230, 136, 150, 230, 139, 134, 230, 136, 144, 229,
          135, 160, 230, 157, 161, 229, 134, 141, 230, 137, 167, 232, 161, 140, 227, 128, 130])),
      (ReviewReasonUnparseable, bi ''the command cannot be parsed'' (utf8 [229, 145, 189, 228, 187,
        164, 230, 151, 160, 230, 179, 149, 232, 167, 163, 230, 158, 144]),
       bi ''Retrying it as-is gives the same result: fix the command syntax first.''
          (utf8 [229, 142, 159, 230, 160, 183, 233, 135, 141, 232, 175, 149, 231, 187, 147, 230,
          158, 156, 228, 184, 128, 230, 160, 183, 239, 188, 140, 229, 133, 136, 228, 191, 174, 230,
          173, 163, 229, 145, 189, 228, 187, 164, 232, 175, 173, 230, 179, 149, 227, 128, 130])),
      (ReviewReasonUndecodable, bi ''the command hides the code it runs behind decoding''
         (utf8 [229, 145, 189, 228, 187, 164, 230, 138, 138, 232, 166, 129, 230, 137, 167, 232, 161,
         140, 231, 154, 132, 229, 134, 133, 229, 174, 185, 232, 151, 143, 229, 156, 168, 232, 167,
         163, 231, 160, 129, 229, 144, 142, 233, 157, 162]),
       bi (''Retrying it as-is gives the same result: send the script itself instead of wrapping it '' @
           ''so it can be reviewed, or leave the command to the user.'')
          (utf8 [229, 142, 159, 230, 160, 183, 233, 135, 141, 232, 175, 149, 231, 187, 147, 230,
          158, 156, 228, 184, 128, 230, 160, 183, 239, 188, 140, 230, 138, 138, 232, 166, 129, 230,
          137, 167, 232, 161, 140, 231, 154, 132, 232, 132, 154, 230, 156, 172, 231, 155, 180, 230,
          142, 165, 229, 134, 153, 229, 135, 186, 230, 157, 165, 229, 134, 141, 233, 128, 129, 229,
          174, 161, 239, 188, 140, 230, 136, 150, 232, 128, 133, 230, 138, 138, 229, 145, 189, 228,
          187, 164, 231, 149, 153, 231, 187, 153, 231, 148, 168, 230, 136, 183, 229, 164, 132, 231,
          144, 134, 227, 128, 130])),
      (ReviewReasonReviewerUnavailable, bi ''the selected review extension is unavailable''
         (utf8 [233, 128, 137, 228, 184, 173, 231, 154, 132, 229, 174, 161, 230, 160, 184, 230, 137,
         169, 229, 177, 149, 228, 184, 141, 229, 143, 175, 231, 148, 168]), fixSettings),
      (ReviewReasonInvalidResult, bi ''the review extension returned an invalid result''
         (utf8 [229, 174, 161, 230, 160, 184, 230, 137, 169, 229, 177, 149, 232, 191, 148, 229, 155,
         158, 228, 186, 134, 230, 151, 160, 230, 149, 136, 231, 154, 132, 231, 187, 147, 230, 158,
         156]),
       bi (''Retrying will not help until the review extension is fixed or replaced; leave the '' @
           ''command to the user.'')
          (utf8 [229, 174, 161, 230, 160, 184, 230, 137, 169, 229, 177, 149, 228, 191, 174, 229,
          165, 189, 230, 136, 150, 230, 141, 162, 230, 142, 137, 228, 185, 139, 229, 137, 141, 233,
          135, 141, 232, 175, 149, 228, 185, 159, 228, 184, 141, 228, 188, 154, 230, 136, 144, 229,
          138, 159, 239, 188, 140, 230, 138, 138, 229, 145, 189, 228, 187, 164, 231, 149, 153, 231,
          187, 153, 231, 148, 168, 230, 136, 183, 229, 164, 132, 231, 144, 134, 227, 128, 130]))]"

definition failReasonOf :: "string \<Rightarrow> failReasonText" where
  "failReasonOf reason =
     (case map_of failReasons reason of
        Some (label, next) \<Rightarrow> \<lparr> fr_label = label, fr_next = next \<rparr>
      | None \<Rightarrow> \<lparr> fr_label = bi ''service unavailable'' (utf8 [230, 156, 141, 229,
        138, 161, 228, 184, 141, 229, 143, 175, 231, 148, 168]), fr_next = retryLater \<rparr>)"

definition reviewFailReason :: "string \<Rightarrow> string \<Rightarrow> string" where
  "reviewFailReason lang reason =
     (let label = fr_label (failReasonOf reason) in PolicyMsg lang (bl_en label) (bl_zh label))"

definition reviewQuestionLabel :: "string \<Rightarrow> string \<Rightarrow> (string \<times> string) list \<Rightarrow> string" where
  "reviewQuestionLabel lang question names =
     (let name = (\<lambda>l. case map_of names l of None \<Rightarrow> [] | Some n \<Rightarrow> n) in
      if IsZh lang \<and> name ''zh-CN'' \<noteq> [] then name ''zh-CN''
      else if name ''en'' \<noteq> [] then name ''en'' else question)"

definition ReviewSummary :: "string \<Rightarrow> ReviewInfo \<Rightarrow> string" where
  "ReviewSummary lang info =
     (case ri_Outcome info of
        ReviewPass \<Rightarrow> PolicyMsg lang ''Model review passed'' (utf8 [230, 168, 161, 229,
        158, 139, 229, 174, 161, 230, 160, 184, 233, 128, 154, 232, 191, 135])
      | ReviewReject \<Rightarrow>
          PolicyFmt lang ''Model review did not pass (%s)'' (utf8 [230, 168, 161, 229, 158, 139,
          229, 174, 161, 230, 160, 184, 230, 156, 170, 233, 128, 154, 232, 191, 135, 239, 188,
          136] @ ''%s'' @ utf8 [239, 188, 137])
            [Join (map (\<lambda>q. reviewQuestionLabel lang q
                      (case map_of (ri_FailedNames info) q of None \<Rightarrow> [] | Some ns \<Rightarrow> ns)) (ri_Failed info))
               (PolicyMsg lang '', '' (utf8 [227, 128, 129]))]
      | ReviewFail \<Rightarrow>
          PolicyFmt lang ''Model review failed (%s)'' (utf8 [230, 168, 161, 229, 158, 139, 229, 174,
          161, 230, 160, 184, 229, 164, 177, 232, 180, 165, 239, 188, 136] @ ''%s'' @ utf8 [239,
          188, 137])
            [reviewFailReason lang (ri_Reason info)])"

definition autopilotDenyMessage :: "string \<Rightarrow> ReviewInfo \<Rightarrow> string" where
  "autopilotDenyMessage lang info =
     (let summary = ReviewSummary lang info in
      if ri_Outcome info = ReviewReject then
        PolicyFmt lang
          (''%s; the command was not executed. Do not retry it as-is: take a safer approach, or leave '' @
           ''it for the user to run manually.'')
          (''%s'' @ utf8 [239, 188, 140, 229, 145, 189, 228, 187, 164, 230, 178, 161, 230, 156, 137,
          230, 137, 167, 232, 161, 140, 227, 128, 130, 228, 184, 141, 232, 166, 129, 229, 142, 159,
          230, 160, 183, 233, 135, 141, 232, 175, 149, 239, 188, 140, 230, 141, 162, 228, 184, 128,
          228, 184, 170, 230, 155, 180, 229, 174, 137, 229, 133, 168, 231, 154, 132, 229, 129, 154,
          230, 179, 149, 239, 188, 140, 230, 136, 150, 232, 128, 133, 231, 149, 153, 231, 187, 153,
          231, 148, 168, 230, 136, 183, 230, 137, 139, 229, 138, 168, 230, 137, 167, 232, 161, 140,
          227, 128, 130]) [summary]
      else (let next = fr_next (failReasonOf (ri_Reason info)) in
        PolicyFmt lang ''%s; the command was not executed. %s'' (''%s'' @ utf8 [239, 188, 140, 229,
        145, 189, 228, 187, 164, 230, 178, 161, 230, 156, 137, 230, 137, 167, 232, 161, 140, 227,
        128, 130] @ ''%s'')
          [summary, PolicyMsg lang (bl_en next) (bl_zh next)]))"

definition unreviewableDenyMessage :: "string \<Rightarrow> string \<Rightarrow> string" where
  "unreviewableDenyMessage lang reason =
     PolicyFmt lang
       (''%s. Autopilot does not send a command the policy cannot check to the model review; the '' @
        ''command was not executed.'')
       (''%s'' @ utf8 [227, 128, 130] @ ''Autopilot '' @ utf8 [228, 184, 141, 228, 188, 154, 230,
        138, 138, 232, 167, 132, 229, 136, 153, 230, 151, 160, 230, 179, 149, 230, 163, 128, 230,
        159, 165, 231, 154, 132, 229, 145, 189, 228, 187, 164, 228, 186, 164, 231, 187, 153, 230,
        168, 161, 229, 158, 139, 229, 174, 161, 230, 160, 184, 239, 188, 140, 229, 145, 189, 228,
        187, 164, 230, 178, 161, 230, 156, 137, 230, 137, 167, 232, 161, 140, 227, 128, 130]) [reason]"

definition pipedInputDenyMessage :: "string \<Rightarrow> string" where
  "pipedInputDenyMessage lang =
     PolicyMsg lang
       (''The command also reads piped input, which the model review cannot see, so Autopilot does not '' @
        ''run it; the command was not executed. If nothing needs to be piped in, redirect stdin from '' @
        ''/dev/null (< /dev/null); to upload a file, use opsctl cp; otherwise leave the command to the user.'')
       (utf8 [229, 145, 189, 228, 187, 164, 232, 191, 152, 228, 188, 154, 228, 187, 142, 231, 174,
        161, 233, 129, 147, 232, 175, 187, 229, 133, 165, 229, 134, 133, 229, 174, 185, 239, 188,
        140, 230, 168, 161, 229, 158, 139, 229, 174, 161, 230, 160, 184, 231, 156, 139, 228, 184,
        141, 229, 136, 176, 232, 191, 153, 233, 131, 168, 229, 136, 134, 239, 188,
        140] @ ''Autopilot '' @ utf8 [228, 184, 141, 228, 188, 154, 230, 137, 167, 232, 161, 140,
        239, 188, 140, 229, 145, 189, 228, 187, 164, 230, 178, 161, 230, 156, 137, 230, 137, 167,
        232, 161, 140, 227, 128, 130, 230, 178, 161, 230, 156, 137, 232, 166, 129, 228, 188, 160,
        231, 154, 132, 229, 134, 133, 229, 174, 185, 229, 176, 177, 230, 138,
        138] @ '' stdin '' @ utf8 [233, 135, 141, 229, 174, 154, 229, 144, 145, 229, 136,
        176] @ '' /dev/null'' @ utf8 [239, 188, 136] @ ''< /dev/null'' @ utf8 [239, 188, 137, 239,
        188, 155, 232, 166, 129, 228, 184, 138, 228, 188, 160, 230, 150, 135, 228, 187, 182, 231,
        148, 168] @ '' opsctl cp'' @ utf8 [239, 188, 155, 229, 144, 166, 229, 136, 153, 230, 138,
        138, 229, 145, 189, 228, 187, 164, 231, 149, 153, 231, 187, 153, 231, 148, 168, 230, 136,
        183, 229, 164, 132, 231, 144, 134, 227, 128, 130])"

definition autopilotGrantMessage :: "string \<Rightarrow> string list \<Rightarrow> string" where
  "autopilotGrantMessage lang assets =
     PolicyFmt lang
       (''Asset(s) %s use Autopilot: grant requests are not accepted there and not needed, and nothing '' @
        ''was granted for them. Run the commands directly; each one is reviewed by the model. Do not '' @
        ''use a grant request to get around a command the review refused; leave that command to the user.'')
       (utf8 [232, 181, 132, 228, 186, 167] @ '' %s '' @ utf8 [228, 189, 191, 231, 148,
        168] @ '' Autopilot'' @ utf8 [239, 188, 154, 228, 184, 141, 230, 142, 165, 229, 143, 151,
        230, 142, 136, 230, 157, 131, 231, 148, 179, 232, 175, 183, 239, 188, 140, 228, 185, 159,
        228, 184, 141, 233, 156, 128, 232, 166, 129, 239, 188, 140, 230, 178, 161, 230, 156, 137,
        228, 184, 186, 229, 174, 131, 230, 142, 136, 228, 186, 136, 228, 187, 187, 228, 189, 149,
        230, 157, 131, 233, 153, 144, 227, 128, 130, 232, 175, 183, 231, 155, 180, 230, 142, 165,
        230, 137, 167, 232, 161, 140, 229, 145, 189, 228, 187, 164, 239, 188, 140, 230, 175, 143,
        230, 157, 161, 229, 145, 189, 228, 187, 164, 228, 188, 154, 231, 148, 177, 230, 168, 161,
        229, 158, 139, 229, 141, 149, 231, 139, 172, 229, 174, 161, 230, 160, 184, 239, 188, 155,
        232, 162, 171, 229, 174, 161, 230, 160, 184, 230, 139, 146, 231, 187, 157, 231, 154, 132,
        229, 145, 189, 228, 187, 164, 228, 184, 141, 232, 166, 129, 230, 148, 185, 231, 148, 168,
        230, 142, 136, 230, 157, 131, 231, 148, 179, 232, 175, 183, 231, 187, 149, 232, 191, 135,
        239, 188, 140, 228, 186, 164, 231, 187, 153, 231, 148, 168, 230, 136, 183, 229, 164, 132,
        231, 144, 134, 227, 128, 130])
       [Join assets '', '']"

section \<open>Permission modes\<close>

definition permissionModeOf :: "world \<Rightarrow> Asset \<Rightarrow> string" where
  "permissionModeOf w asset =
     (if a_PermissionMode asset \<noteq> PermissionModeInherit then a_PermissionMode asset
      else (case find (\<lambda>g. g_PermissionMode g \<noteq> PermissionModeInherit)
                   (ResolveGroupChain w (a_GroupID asset)) of
          Some g \<Rightarrow> g_PermissionMode g | None \<Rightarrow> PermissionModeDefault))"

definition resolvePermissionMode :: "world \<Rightarrow> int \<Rightarrow> string" where
  "resolvePermissionMode w assetID =
     (case w_Assets w assetID of None \<Rightarrow> PermissionModeDefault | Some asset \<Rightarrow> permissionModeOf w asset)"

definition reviewedMode :: "string \<Rightarrow> bool" where
  "reviewedMode mode \<longleftrightarrow> mode = PermissionModeAssisted \<or> mode = PermissionModeAutopilot"

definition ReviewsCommands :: "world \<Rightarrow> int \<Rightarrow> bool" where
  "ReviewsCommands w assetID = reviewedMode (resolvePermissionMode w assetID)"

section \<open>The review port\<close>

record ReviewRequest =
  rr_AssetType :: string
  rr_Command :: string
  rr_Syntax :: Syntax

record PermissionRequest =
  pr_AssetType :: string
  pr_AssetID :: int
  pr_Command :: string
  pr_PipedInput :: bool

text \<open>
  The reviewer is injected at start-up. Whether a shell command both decodes data and runs code
  is decided by \<^verbatim>\<open>internal/pkg/shelldecode\<close> over the parsed command; here it is a given function
  with its two kinds of error.
\<close>

datatype decode_error = ErrTooLong | ErrParse string

record review_port =
  rv_Reviewer :: "(ReviewRequest list \<Rightarrow> ReviewInfo list) option"
  rv_DecodesAndRuns :: "string \<Rightarrow> decode_error + bool"

definition ReviewInfo0 :: ReviewInfo where
  "ReviewInfo0 = \<lparr> ri_Mode = [], ri_Outcome = ReviewFail, ri_Reason = [], ri_Failed = [], ri_Scores = [],
     ri_DurationMs = 0, ri_Cached = False, ri_Attempts = 0, ri_Extension = [], ri_Version = [],
     ri_FailedNames = [] \<rparr>"

definition reviewCommands :: "review_port \<Rightarrow> ReviewRequest list \<Rightarrow> ReviewInfo list" where
  "reviewCommands port reqs =
     (case rv_Reviewer port of
        Some f \<Rightarrow> f reqs
      | None \<Rightarrow> map (\<lambda>_. ReviewInfo0 \<lparr> ri_Outcome := ReviewFail, ri_Reason := ReviewReasonNoReviewer \<rparr>) reqs)"

definition reviewTypeFor :: "registry \<Rightarrow> string \<Rightarrow> string \<times> Syntax" where
  "reviewTypeFor reg assetType =
     (case permissionTypeFor reg assetType of
        Some h \<Rightarrow> (h_canonical h, h_reviewSyntax h) | None \<Rightarrow> (assetType, SyntaxText))"

definition applyReview :: "string \<Rightarrow> CheckResult \<Rightarrow> ReviewInfo \<Rightarrow> CheckResult" where
  "applyReview lang result info =
     (if ri_Outcome info = ReviewPass then
        CheckResult0 \<lparr> cr_Decision := Allow,
          cr_DecisionSource := (if ri_Mode info = PermissionModeAutopilot then SourceAutopilotAllow
                                else SourceAssistedAllow),
          cr_Review := Some info \<rparr>
      else if ri_Mode info = PermissionModeAssisted then result \<lparr> cr_Review := Some info \<rparr>
      else CheckResult0 \<lparr> cr_Decision := Deny, cr_DecisionSource := SourceAutopilotDeny,
             cr_Message := autopilotDenyMessage lang info, cr_Review := Some info \<rparr>)"

text \<open>\<open>Inl\<close> is the final result of a command that is not sent, \<open>Inr\<close> the request that is.\<close>

definition reviewRequestFor ::
  "review_port \<Rightarrow> registry \<Rightarrow> string \<Rightarrow> PermissionRequest \<Rightarrow> CheckResult \<Rightarrow> string \<Rightarrow> CheckResult + ReviewRequest" where
  "reviewRequestFor port reg lang req result mode =
     (case reviewTypeFor reg (pr_AssetType req) of (assetType, syntax) \<Rightarrow>
      let review = \<lparr> rr_AssetType = assetType, rr_Command = pr_Command req, rr_Syntax = syntax \<rparr>;
          refuse = (\<lambda>reason. Inl (applyReview lang result
            (ReviewInfo0 \<lparr> ri_Mode := mode, ri_Outcome := ReviewFail, ri_Reason := reason \<rparr>)))
      in if syntax \<noteq> SyntaxShell then Inr review
         else (case rv_DecodesAndRuns port (pr_Command req) of
             Inl ErrTooLong \<Rightarrow> refuse ReviewReasonTooLong
           | Inl (ErrParse _) \<Rightarrow> refuse ReviewReasonUnparseable
           | Inr hidden \<Rightarrow> if hidden then refuse ReviewReasonUndecodable else Inr review))"

text \<open>
  The first loop of \<open>applyReviews\<close> for one result: \<open>Inl\<close> when it is settled, \<open>Inr\<close> with the
  mode and request when it waits for the reviewer.
\<close>

definition review_step ::
  "review_port \<Rightarrow> registry \<Rightarrow> world \<Rightarrow> PermissionRequest \<Rightarrow> CheckResult \<Rightarrow> CheckResult + string \<times> ReviewRequest" where
  "review_step port reg w req r =
     (if cr_Decision r \<noteq> NeedConfirm then Inl r
      else (let mode = resolvePermissionMode w (pr_AssetID req) in
        if \<not> reviewedMode mode then Inl r
        else if cr_Unreviewable r then
          Inl (if mode = PermissionModeAutopilot
               then CheckResult0 \<lparr> cr_Decision := Deny, cr_DecisionSource := SourceAutopilotDeny,
                      cr_Message := unreviewableDenyMessage (w_Lang w) (cr_Message r) \<rparr>
               else r)
        else if pr_PipedInput req then
          Inl (if mode = PermissionModeAutopilot
               then CheckResult0 \<lparr> cr_Decision := Deny, cr_DecisionSource := SourceAutopilotDeny,
                      cr_Message := pipedInputDenyMessage (w_Lang w) \<rparr>
               else r)
        else (case reviewRequestFor port reg (w_Lang w) req r mode of
            Inl final \<Rightarrow> Inl final | Inr review \<Rightarrow> Inr (mode, review))))"

text \<open>
  The second loop: the reviews are handed out in order to the results that wait. Fewer reviews
  than requests leave the rest as they were; one more than there are requests is an index out
  of range.
\<close>

fun hand_out :: "string \<Rightarrow> (CheckResult \<times> (CheckResult + string \<times> ReviewRequest)) list \<Rightarrow> ReviewInfo list \<Rightarrow> CheckResult list option" where
  "hand_out lang [] infos = (if infos = [] then Some [] else None)"
| "hand_out lang ((r, Inl final) # rest) infos = map_option (\<lambda>rs. final # rs) (hand_out lang rest infos)"
| "hand_out lang ((r, Inr (mode, q)) # rest) [] = map_option (\<lambda>rs. r # rs) (hand_out lang rest [])"
| "hand_out lang ((r, Inr (mode, q)) # rest) (info # infos) =
     map_option (\<lambda>rs. applyReview lang r (info \<lparr> ri_Mode := mode \<rparr>) # rs) (hand_out lang rest infos)"

fun pending_requests :: "(CheckResult \<times> (CheckResult + string \<times> ReviewRequest)) list \<Rightarrow> ReviewRequest list" where
  "pending_requests [] = []"
| "pending_requests ((r, Inl final) # rest) = pending_requests rest"
| "pending_requests ((r, Inr (mode, q)) # rest) = q # pending_requests rest"

definition applyReviews ::
  "review_port \<Rightarrow> registry \<Rightarrow> world \<Rightarrow> PermissionRequest list \<Rightarrow> CheckResult list \<Rightarrow> CheckResult list option" where
  "applyReviews port reg w reqs results =
     (let steps = map2 (\<lambda>req r. (r, review_step port reg w req r)) reqs results;
          pending = pending_requests steps
      in hand_out (w_Lang w) steps (if pending = [] then [] else reviewCommands port pending))"

definition check_one :: "registry \<Rightarrow> env \<Rightarrow> world \<Rightarrow> PermissionRequest \<Rightarrow> CheckResult" where
  "check_one reg e w r =
     (case permissionTypeFor reg (pr_AssetType r) of
        None \<Rightarrow> need_confirm
      | Some h \<Rightarrow> h_check h e w (pr_AssetID r) (pr_Command r))"

definition CheckPermissions ::
  "review_port \<Rightarrow> registry \<Rightarrow> env \<Rightarrow> world \<Rightarrow> PermissionRequest list \<Rightarrow> CheckResult list option" where
  "CheckPermissions port reg e w reqs = applyReviews port reg w reqs (map (check_one reg e w) reqs)"

definition CheckPermission ::
  "review_port \<Rightarrow> registry \<Rightarrow> env \<Rightarrow> world \<Rightarrow> string \<Rightarrow> int \<Rightarrow> string \<Rightarrow> CheckResult option" where
  "CheckPermission port reg e w assetType assetID command =
     map_option hd (CheckPermissions port reg e w
       [\<lparr> pr_AssetType = assetType, pr_AssetID = assetID, pr_Command = command, pr_PipedInput = False \<rparr>])"

section \<open>Facts\<close>

text \<open>A reviewer that keeps to its contract answers every request, in order.\<close>

definition one_to_one :: "review_port \<Rightarrow> bool" where
  "one_to_one port \<longleftrightarrow> (\<forall>f. rv_Reviewer port = Some f \<longrightarrow> (\<forall>reqs. length (f reqs) = length reqs))"

lemma reviewCommands_length: "one_to_one port \<Longrightarrow> length (reviewCommands port reqs) = length reqs"
  by (auto simp: reviewCommands_def one_to_one_def split: option.splits)

text \<open>
  What a step becomes: its settled result, or, when it waits, one of the reviews applied to it.
\<close>

definition settles :: "string \<Rightarrow> ReviewInfo set \<Rightarrow> CheckResult \<times> (CheckResult + string \<times> ReviewRequest) \<Rightarrow> CheckResult \<Rightarrow> bool" where
  "settles lang infos step r' =
     (case step of (r, st) \<Rightarrow>
        (case st of
           Inl final \<Rightarrow> r' = final
         | Inr (mode, q) \<Rightarrow> \<exists>info\<in>infos. r' = applyReview lang r (info \<lparr> ri_Mode := mode \<rparr>)))"

lemma hand_out_spec:
  "length infos = length (pending_requests steps) \<Longrightarrow> set infos \<subseteq> I \<Longrightarrow>
   \<exists>rs. hand_out lang steps infos = Some rs \<and> list_all2 (settles lang I) steps rs"
  by (induction lang steps infos rule: hand_out.induct) (auto simp: settles_def)

text \<open>With a one-to-one reviewer every request gets a result.\<close>

lemma applyReviews_spec:
  fixes reqs results reg w
  assumes "one_to_one port" "length results = length reqs"
  defines "steps \<equiv> map2 (\<lambda>req r. (r, review_step port reg w req r)) reqs results"
  shows "\<exists>rs. applyReviews port reg w reqs results = Some rs \<and>
    list_all2 (settles (w_Lang w) (set (reviewCommands port (pending_requests steps)))) steps rs"
proof (cases "pending_requests steps = []")
  case True
  then show ?thesis
    using hand_out_spec [of "[]" steps "set (reviewCommands port (pending_requests steps))"]
    by (simp add: applyReviews_def Let_def steps_def [symmetric])
next
  case False
  then show ?thesis
    using hand_out_spec [of "reviewCommands port (pending_requests steps)" steps]
      reviewCommands_length [OF assms(1)]
    by (simp add: applyReviews_def Let_def steps_def [symmetric])
qed

lemma applyReview_Allow:
  "cr_Decision (applyReview lang r info) = Allow \<Longrightarrow> cr_Decision r = NeedConfirm \<Longrightarrow> ri_Outcome info = ReviewPass"
  by (auto simp: applyReview_def split: if_splits)

lemma reviewRequestFor_Inl:
  "reviewRequestFor port reg lang req r mode = Inl final \<Longrightarrow>
     \<exists>info. final = applyReview lang r info \<and> ri_Outcome info = ReviewFail \<and> ri_Mode info = mode"
  by (auto simp: reviewRequestFor_def Let_def split: prod.splits if_splits sum.splits decode_error.splits)

end
