(* ===== verification/Approval.thy ===== *)
theory Approval
  imports Review
begin

text \<open>
  Approvals (\<^verbatim>\<open>internal/ai/permission/approval.go\<close>, \<^verbatim>\<open>checker.go\<close>, \<^verbatim>\<open>rule_ext.go\<close>): the item a person
  is shown, the one place where an answer is parsed, what an "always allow" stores, and grant
  requests. The person, or the front end in between, is a function from the request to a
  response; what it may answer is unconstrained.
\<close>

section \<open>Extension rule sinks\<close>

text \<open>An extension type's permanent-rule sink: its policy type and the actions it declares.\<close>

record ext_sink =
  sk_PolicyType :: string
  sk_Actions :: "string list"

type_synonym sinks = "(string \<times> ext_sink) list"

datatype land_error = EmptyPattern | UnknownAction string | EmptyGlob string | BadGlob string | EmptyRequest

definition extLand :: "string list \<Rightarrow> string \<Rightarrow> land_error + string list" where
  "extLand actions pattern =
     (let rule = TrimSpace pattern in
      if rule = [] then Inl EmptyPattern
      else (case ExtensionRuleParts rule of (action, glob, scoped) \<Rightarrow>
        if action \<notin> set actions then Inl (UnknownAction action)
        else if scoped \<and> glob = [] then Inl (EmptyGlob pattern)
        else if scoped \<and> path_Match glob [] = None then Inl (BadGlob pattern)
        else Inr [rule]))"

definition extRuleShadows :: "string \<Rightarrow> string \<Rightarrow> bool" where
  "extRuleShadows denyRule rule =
     (let deny = TrimSpace denyRule in
      case ExtensionRuleParts (TrimSpace rule) of (action, glob, scoped) \<Rightarrow>
        if \<not> scoped then
          (case ExtensionRuleParts deny of (denyAction, _, denyScoped) \<Rightarrow> \<not> denyScoped \<and> denyAction = action)
        else MatchExtensionRule deny action glob)"

record ExtensionGrant =
  xg_Type :: string
  xg_Rules :: "string list"

fun land_lines :: "ext_sink \<Rightarrow> string list \<Rightarrow> land_error + string list" where
  "land_lines sink [] = Inr []"
| "land_lines sink (line # lines) =
     (if TrimSpace line = [] then land_lines sink lines
      else (case extLand (sk_Actions sink) (TrimSpace line) of
          Inl err \<Rightarrow> Inl err
        | Inr landed \<Rightarrow>
            (case land_lines sink lines of
               Inl err \<Rightarrow> Inl err
             | Inr rules \<Rightarrow> Inr (map (extGrantRule (sk_PolicyType sink)) landed @ rules))))"

text \<open>\<open>None\<close> for a type whose grant requests are commands (\<open>isExt\<close> false).\<close>

definition extensionGrantFor :: "sinks \<Rightarrow> string \<Rightarrow> string \<Rightarrow> (land_error + ExtensionGrant) option" where
  "extensionGrantFor sinks assetType patterns =
     (case map_of sinks assetType of
        None \<Rightarrow> None
      | Some sink \<Rightarrow> Some
          (case land_lines sink (Split patterns (CHR 0x0A)) of
             Inl err \<Rightarrow> Inl err
           | Inr rules \<Rightarrow> if rules = [] then Inl EmptyRequest
                          else Inr \<lparr> xg_Type = assetType, xg_Rules = rules \<rparr>))"

definition ExtensionGrantForAsset :: "sinks \<Rightarrow> world \<Rightarrow> int \<Rightarrow> string \<Rightarrow> (land_error + ExtensionGrant) option" where
  "ExtensionGrantForAsset sinks w assetID patterns =
     (case w_Assets w assetID of
        None \<Rightarrow> None | Some asset \<Rightarrow> extensionGrantFor sinks (a_Type asset) patterns)"

definition SaveGrantPatternsForApproval ::
  "registry \<Rightarrow> sinks \<Rightarrow> env \<Rightarrow> string \<Rightarrow> int \<Rightarrow> string \<Rightarrow> string \<Rightarrow> string \<Rightarrow> GrantOrigin \<Rightarrow> world \<Rightarrow> world" where
  "SaveGrantPatternsForApproval reg sinks e sessionID assetID assetName approvalType command origin w =
     (case extensionGrantFor sinks approvalType command of
        None \<Rightarrow> save_all sessionID assetID assetName approvalType
                  (NormalizeGrantPatterns reg e approvalType command origin) w
      | Some (Inl err) \<Rightarrow> w
      | Some (Inr grant) \<Rightarrow> save_all sessionID assetID assetName approvalType (xg_Rules grant) w)"

section \<open>Approval items and kinds\<close>

record ApprovalItem =
  ai_Type :: string
  ai_AssetID :: int
  ai_AssetName :: string
  ai_GroupID :: int
  ai_GroupName :: string
  ai_Command :: string
  ai_Detail :: string
  ai_Action :: string
  ai_Resource :: string
  ai_Resources :: "string list"
  ai_RememberPattern :: string
  ai_Review :: "ReviewInfo option"

record ApprovalResponse =
  ar_Decision :: string
  ar_EditedItems :: "ApprovalItem list"

definition ApprovalKindSingle :: string where "ApprovalKindSingle = ''single''"
definition ApprovalKindOnce :: string where "ApprovalKindOnce = ''once''"
definition ApprovalKindBatch :: string where "ApprovalKindBatch = ''batch''"
definition ApprovalKindGrant :: string where "ApprovalKindGrant = ''grant''"
definition ApprovalKindLocalTool :: string where "ApprovalKindLocalTool = ''local_tool''"
definition ApprovalKindDelete :: string where "ApprovalKindDelete = ''delete''"
definition ApprovalTypeDelete :: string where "ApprovalTypeDelete = ''delete''"

lemmas approval_kinds =
  ApprovalKindSingle_def ApprovalKindOnce_def ApprovalKindBatch_def ApprovalKindGrant_def
  ApprovalKindLocalTool_def ApprovalKindDelete_def

datatype ApprovalDecision = ApprovalDeny | ApprovalAllow | ApprovalAllowAll

record ParsedApprovalResponse =
  pa_Decision :: ApprovalDecision
  pa_EditedItems :: "ApprovalItem list"

datatype approval_error =
  InvalidDecision string | AllowAllUnsupported string | InvalidKind string | EditsNotAccepted
  | EditTypeRequired nat | EditCommandRequired nat | EditCount nat nat | EditScope nat | EditInvalid nat

text \<open>The first loop over the edited items, which wants a type and a command of each.\<close>

fun edit_fields_error :: "nat \<Rightarrow> ApprovalItem list \<Rightarrow> approval_error option" where
  "edit_fields_error i [] = None"
| "edit_fields_error i (item # items) =
     (if TrimSpace (ai_Type item) = [] then Some (EditTypeRequired i)
      else if TrimSpace (ai_Command item) = [] then Some (EditCommandRequired i)
      else edit_fields_error (Suc i) items)"

text \<open>The second loop, against the items that were shown: the normalised items and whether one changed.\<close>

fun edit_items :: "sinks \<Rightarrow> string \<Rightarrow> nat \<Rightarrow> ApprovalItem list \<Rightarrow> ApprovalItem list \<Rightarrow> approval_error + ApprovalItem list \<times> bool" where
  "edit_items sinks kind i (item # items) (want # wants) =
     (if ai_Type item \<noteq> ai_Type want \<or> ai_AssetID item \<noteq> ai_AssetID want \<or> ai_GroupID item \<noteq> ai_GroupID want
      then Inl (EditScope i)
      else if ai_Action want \<noteq> [] \<and> \<not> validateExtGrantEdit (ai_Action want) (ai_Command item) \<and>
              ai_Command item \<noteq> ai_RememberPattern want
      then Inl (EditInvalid i)
      else if kind = ApprovalKindGrant \<and>
              (case extensionGrantFor sinks (ai_Type want) (ai_Command item) of Some (Inl _) \<Rightarrow> True | _ \<Rightarrow> False)
      then Inl (EditInvalid i)
      else (case edit_items sinks kind (Suc i) items wants of
          Inl err \<Rightarrow> Inl err
        | Inr (normalized, changed) \<Rightarrow>
            (let proposed = (if ai_Action want \<noteq> [] then ai_RememberPattern want else ai_Command want) in
             Inr (want \<lparr> ai_Command := ai_Command item \<rparr> # normalized,
                  ai_Command item \<noteq> proposed \<or> changed))))"
| "edit_items sinks kind i _ _ = Inr ([], False)"

definition approval_kind_list :: "string list" where
  "approval_kind_list = [ApprovalKindSingle, ApprovalKindOnce, ApprovalKindBatch, ApprovalKindGrant,
     ApprovalKindLocalTool, ApprovalKindDelete]"

definition parsed :: "ApprovalDecision \<Rightarrow> ApprovalItem list \<Rightarrow> ParsedApprovalResponse" where
  "parsed d items = \<lparr> pa_Decision = d, pa_EditedItems = items \<rparr>"

text \<open>The part after the decision word is recognised as \<open>allow\<close> or \<open>allowAll\<close>.\<close>

definition parse_edits ::
  "sinks \<Rightarrow> string \<Rightarrow> ApprovalDecision \<Rightarrow> ApprovalItem list \<Rightarrow> ApprovalItem list option \<Rightarrow> approval_error + ParsedApprovalResponse" where
  "parse_edits sinks kind decision edited expectedItems =
     (if kind \<notin> set approval_kind_list then Inl (InvalidKind kind)
      else (let mayEdit = (decision = ApprovalAllowAll \<or> kind = ApprovalKindGrant \<and> decision = ApprovalAllow) in
        if edited \<noteq> [] \<and> \<not> mayEdit then Inl EditsNotAccepted
        else if \<not> mayEdit then Inr (parsed decision edited)
        else (case edit_fields_error 0 edited of
            Some err \<Rightarrow> Inl err
          | None \<Rightarrow>
              (case expectedItems of
                 None \<Rightarrow> Inr (parsed decision edited)
               | Some expected \<Rightarrow>
                   if edited = [] then Inr (parsed decision edited)
                   else if length edited \<noteq> length expected then Inl (EditCount (length edited) (length expected))
                   else (case edit_items sinks kind 0 edited expected of
                       Inl err \<Rightarrow> Inl err
                     | Inr (normalized, changed) \<Rightarrow> Inr (parsed decision (if changed then normalized else [])))))))"

definition ParseApprovalResponse ::
  "sinks \<Rightarrow> string \<Rightarrow> ApprovalResponse \<Rightarrow> ApprovalItem list option \<Rightarrow> approval_error + ParsedApprovalResponse" where
  "ParseApprovalResponse sinks kind resp expectedItems =
     (if ar_Decision resp = ''deny'' then Inr (parsed ApprovalDeny [])
      else if ar_Decision resp = ''allow'' then
        parse_edits sinks kind ApprovalAllow (ar_EditedItems resp) expectedItems
      else if ar_Decision resp = ''allowAll'' then
        (if kind \<noteq> ApprovalKindSingle \<and> kind \<noteq> ApprovalKindLocalTool then Inl (AllowAllUnsupported kind)
         else parse_edits sinks kind ApprovalAllowAll (ar_EditedItems resp) expectedItems)
      else Inl (InvalidDecision (ar_Decision resp)))"

definition ApprovalKindFor :: "registry \<Rightarrow> env \<Rightarrow> string \<Rightarrow> string \<Rightarrow> string" where
  "ApprovalKindFor reg e approvalType command =
     (if approvalType = ApprovalTypeDelete then ApprovalKindDelete
      else if SupportsGrantApproval reg approvalType \<and>
              NormalizeGrantPatterns reg e approvalType command GrantOriginSystem \<noteq> []
      then ApprovalKindSingle else ApprovalKindOnce)"

section \<open>Building an item\<close>

text \<open>
  Two texts are taken as given: the indented JSON of a tool call shown beside an item, and the
  rendering of a refused extension grant.
\<close>

record texts =
  tx_Detail :: "string \<Rightarrow> string \<Rightarrow> string"
  tx_Error :: "land_error \<Rightarrow> string"

record itemClassification =
  ic_classify :: "ClassifyFunc option"
  ic_classification :: "ExtensionClassification option"

definition plain_item :: "string \<Rightarrow> int \<Rightarrow> string \<Rightarrow> string \<Rightarrow> string \<Rightarrow> ApprovalItem" where
  "plain_item typ assetID assetName command detail =
     \<lparr> ai_Type = typ, ai_AssetID = assetID, ai_AssetName = assetName, ai_GroupID = 0, ai_GroupName = [],
       ai_Command = command, ai_Detail = detail, ai_Action = [], ai_Resource = [], ai_Resources = [],
       ai_RememberPattern = [], ai_Review = None \<rparr>"

definition classified_item :: "texts \<Rightarrow> ExtensionClassification \<Rightarrow> ApprovalItem \<Rightarrow> ApprovalItem" where
  "classified_item tx c item =
     (let resources = ExtensionResources (xc_Resources c);
          item' = item \<lparr> ai_Action := xc_Action c,
                    ai_Resources := map DisplayExtensionResource (xc_Resources c),
                    ai_Detail := tx_Detail tx (xc_Tool c) (xc_Args c) \<rparr>
      in if length resources = 1
         then item' \<lparr> ai_Resource := DisplayExtensionResource (hd resources),
                ai_RememberPattern := extGrantTail (xc_Action c) (hd resources) \<rparr>
         else item' \<lparr> ai_RememberPattern := multiResourceRememberPattern (xc_Action c) resources \<rparr>)"

definition buildApprovalItem ::
  "registry \<Rightarrow> texts \<Rightarrow> int \<Rightarrow> string \<Rightarrow> string \<Rightarrow> string \<Rightarrow> string \<Rightarrow> ApprovalItem \<times> itemClassification" where
  "buildApprovalItem reg tx assetID assetName assetType command detail =
     (let item = plain_item (ApprovalTypeFor reg assetType) assetID assetName command detail;
          classify = classifyFor reg assetType
      in case classify of
           None \<Rightarrow> (item, \<lparr> ic_classify = None, ic_classification = None \<rparr>)
         | Some f \<Rightarrow>
             (case f command of
                None \<Rightarrow> (item, \<lparr> ic_classify = Some f, ic_classification = None \<rparr>)
              | Some c \<Rightarrow> (classified_item tx c item, \<lparr> ic_classify = Some f, ic_classification = Some c \<rparr>)))"

definition ApprovalItemFor :: "registry \<Rightarrow> texts \<Rightarrow> int \<Rightarrow> string \<Rightarrow> string \<Rightarrow> string \<Rightarrow> string \<Rightarrow> ApprovalItem" where
  "ApprovalItemFor reg tx assetID assetName assetType command detail =
     fst (buildApprovalItem reg tx assetID assetName assetType command detail)"

definition ApprovalRuleSubjects :: "registry \<Rightarrow> env \<Rightarrow> string \<Rightarrow> ApprovalItem \<Rightarrow> string list" where
  "ApprovalRuleSubjects reg e face item =
     (if ai_Action item \<noteq> [] then
        (if ai_Resources item = [] then [ai_Action item] else [ai_RememberPattern item])
      else if classifyFor reg face \<noteq> None then []
      else NormalizeGrantPatterns reg e face (ai_Command item) GrantOriginSystem)"

definition ApprovalKindForItem :: "registry \<Rightarrow> env \<Rightarrow> string \<Rightarrow> ApprovalItem \<Rightarrow> string" where
  "ApprovalKindForItem reg e face item =
     (let kind = ApprovalKindFor reg e face (ai_Command item) in
      if kind = ApprovalKindSingle \<and> ApprovalRuleSubjects reg e face item = [] then ApprovalKindOnce else kind)"

definition classifiedItemGrants :: "string \<Rightarrow> ApprovalItem \<Rightarrow> ApprovalItem list \<Rightarrow> string list" where
  "classifiedItemGrants policyType item edited =
     (if edited = [] then [extGrantRule policyType (ai_RememberPattern item)]
      else map (\<lambda>e. extGrantRule policyType (ai_Command e)) edited)"

definition extensionGrantPatterns ::
  "ClassifyFunc \<Rightarrow> ExtensionClassification option \<Rightarrow> ApprovalItem \<Rightarrow> ApprovalItem list \<Rightarrow> string list" where
  "extensionGrantPatterns classify cls item edited =
     (case cls of
        Some c \<Rightarrow> classifiedItemGrants (xc_PolicyType c) item edited
      | None \<Rightarrow> concat (map (\<lambda>e. case classify (ai_Command e) of
            None \<Rightarrow> [] | Some c \<Rightarrow> classificationGrantKeys c) edited))"

text \<open>\<open>None\<close> is the error of an item that is not a classified extension call.\<close>

definition SaveExtensionItemGrant ::
  "sinks \<Rightarrow> string \<Rightarrow> ApprovalItem \<Rightarrow> ApprovalItem list \<Rightarrow> world \<Rightarrow> world option" where
  "SaveExtensionItemGrant sinks sessionID item edited w =
     (case map_of sinks (ai_Type item) of
        None \<Rightarrow> None
      | Some sink \<Rightarrow>
          if ai_Action item = [] then None
          else Some (save_all sessionID (ai_AssetID item) (ai_AssetName item) (ai_Type item)
                       (classifiedItemGrants (sk_PolicyType sink) item edited) w))"

section \<open>Confirming a command\<close>

datatype audit_event = GrantSubmit int string "string list" | GrantDiscarded int string string

text \<open>What an answered "always allow" stores.\<close>

definition allow_all_patterns ::
  "registry \<Rightarrow> env \<Rightarrow> itemClassification \<Rightarrow> ApprovalItem \<Rightarrow> string \<Rightarrow> string \<Rightarrow> ApprovalItem list \<Rightarrow> string list" where
  "allow_all_patterns reg e cls item assetType command edited =
     (case ic_classify cls of
        Some f \<Rightarrow> extensionGrantPatterns f (ic_classification cls) item edited
      | None \<Rightarrow>
          if edited \<noteq> [] then concat (map (\<lambda>it. NormalizeGrantPatterns reg e assetType (ai_Command it) GrantOriginUser) edited)
          else NormalizeGrantPatterns reg e assetType command GrantOriginSystem)"

definition user_result :: "Decision \<Rightarrow> string \<Rightarrow> CheckResult" where
  "user_result d msg =
     CheckResult0 \<lparr> cr_Decision := d, cr_Message := msg,
       cr_DecisionSource := (if d = Allow then SourceUserAllow else SourceUserDeny) \<rparr>"

definition msg_user_denied :: "string \<Rightarrow> string \<Rightarrow> string" where
  "msg_user_denied lang command =
     PolicyFmt lang
       (''USER DENIED: The user has denied execution of command: %s. Stop the current task immediately.'')
       (utf8 [231, 148, 168, 230, 136, 183, 230, 139, 146, 231, 187, 157, 239, 188, 154, 231, 148,
        168, 230, 136, 183, 229, 183, 178, 230, 139, 146, 231, 187, 157, 230, 137, 167, 232, 161,
        140, 229, 145, 189, 228, 187, 164] @ '': %s'' @ utf8 [227, 128, 130, 232, 175, 183, 231,
        171, 139, 229, 141, 179, 229, 129, 156, 230, 173, 162, 229, 189, 147, 229, 137, 141, 228,
        187, 187, 229, 138, 161, 227, 128, 130]) [command]"

type_synonym confirm_func = "string \<Rightarrow> ApprovalItem list \<Rightarrow> ApprovalResponse"

definition handleConfirm ::
  "registry \<Rightarrow> sinks \<Rightarrow> env \<Rightarrow> texts \<Rightarrow> confirm_func option \<Rightarrow> int \<Rightarrow> string \<Rightarrow> string \<Rightarrow> ReviewInfo option \<Rightarrow> string \<Rightarrow>
   world \<Rightarrow> CheckResult \<times> world \<times> audit_event list" where
  "handleConfirm reg sinks e tx confirm assetID assetType command review detail w =
     (case confirm of
        None \<Rightarrow>
          ((deny_policy (PolicyMsg (w_Lang w) ''command not authorized and no confirmation mechanism''
              (utf8 [229, 145, 189, 228, 187, 164, 230, 156, 170, 230, 142, 136, 230, 157, 131, 228,
              184, 148, 230, 151, 160, 231, 161, 174, 232, 174, 164, 230, 156, 186, 229, 136,
              182])) []) \<lparr> cr_Review := review \<rparr>, w, [])
      | Some ask \<Rightarrow>
          (let assetName = (case w_Assets w assetID of None \<Rightarrow> [] | Some a \<Rightarrow> a_Name a) in
           case buildApprovalItem reg tx assetID assetName assetType command detail of (item0, cls) \<Rightarrow>
           let item = item0 \<lparr> ai_Review := review \<rparr>;
               kind = ApprovalKindFor reg e (ai_Type item) command;
               denied = (user_result Deny (msg_user_denied (w_Lang w) command)) \<lparr> cr_Review := review \<rparr>;
               allowed = (user_result Allow []) \<lparr> cr_Review := review \<rparr>
           in case ParseApprovalResponse sinks kind (ask kind [item]) (Some [item]) of
                Inl err \<Rightarrow> (denied, w, [])
              | Inr p \<Rightarrow>
                  (case pa_Decision p of
                     ApprovalDeny \<Rightarrow> (denied, w, [])
                   | ApprovalAllow \<Rightarrow> (allowed, w, [])
                   | ApprovalAllowAll \<Rightarrow>
                       if w_Session w = [] then
                         ((user_result Deny (PolicyMsg (w_Lang w)
                             ''allowAll requires a grant session; execution denied''
                             (utf8 [229, 133, 168, 233, 131, 168, 229, 133, 129, 232, 174, 184, 233,
                             156, 128, 232, 166, 129, 230, 142, 136, 230, 157, 131, 228, 188, 154,
                             232, 175, 157, 239, 188, 140, 230, 139, 146, 231, 187, 157, 230, 137,
                             167, 232, 161, 140]))) \<lparr> cr_Review := review \<rparr>, w, [])
                       else (let patterns = allow_all_patterns reg e cls item assetType command (pa_EditedItems p) in
                         if patterns \<noteq> [] then
                           (allowed, save_all (w_Session w) assetID assetName (ai_Type item) patterns w,
                            [GrantSubmit assetID assetName patterns])
                         else (allowed, w, [GrantDiscarded assetID assetName command])))))"

definition HandleConfirm ::
  "registry \<Rightarrow> sinks \<Rightarrow> env \<Rightarrow> texts \<Rightarrow> confirm_func option \<Rightarrow> int \<Rightarrow> string \<Rightarrow> string \<Rightarrow> string \<Rightarrow>
   world \<Rightarrow> CheckResult \<times> world \<times> audit_event list" where
  "HandleConfirm reg sinks e tx confirm assetID assetType command detail w =
     handleConfirm reg sinks e tx confirm assetID assetType command None detail w"

text \<open>
  \<open>CommandPolicyChecker.CheckForAsset\<close>: the check, and the confirmation when it is needed;
  \<open>None\<close> only when the reviewer breaks its contract.
\<close>

definition CheckForAsset ::
  "review_port \<Rightarrow> registry \<Rightarrow> sinks \<Rightarrow> env \<Rightarrow> texts \<Rightarrow> confirm_func option \<Rightarrow> int \<Rightarrow> string \<Rightarrow> string \<Rightarrow> string \<Rightarrow>
   world \<Rightarrow> (CheckResult \<times> world \<times> audit_event list) option" where
  "CheckForAsset port reg sinks e tx confirm assetID assetType command detail w =
     (case CheckPermission port reg e w assetType assetID command of
        None \<Rightarrow> None
      | Some result \<Rightarrow>
          if cr_Decision result \<noteq> NeedConfirm then Some (result, w, [])
          else Some (handleConfirm reg sinks e tx confirm assetID assetType command (cr_Review result) detail w))"

definition Check ::
  "review_port \<Rightarrow> registry \<Rightarrow> sinks \<Rightarrow> env \<Rightarrow> texts \<Rightarrow> confirm_func option \<Rightarrow> int \<Rightarrow> string \<Rightarrow>
   world \<Rightarrow> (CheckResult \<times> world \<times> audit_event list) option" where
  "Check port reg sinks e tx confirm assetID command w =
     CheckForAsset port reg sinks e tx confirm assetID ''ssh'' command [] w"

section \<open>Grant requests\<close>

record GrantRequestItem =
  gr_AssetID :: int
  gr_Patterns :: "string list"

type_synonym grant_func = "ApprovalItem list \<Rightarrow> string \<Rightarrow> bool \<times> string list"

fun splitAutopilotGrants :: "world \<Rightarrow> GrantRequestItem list \<Rightarrow> GrantRequestItem list \<times> string list" where
  "splitAutopilotGrants w [] = ([], [])"
| "splitAutopilotGrants w (item # items) =
     (case splitAutopilotGrants w items of (rest, autopilot) \<Rightarrow>
        (case (if 0 < gr_AssetID item then w_Assets w (gr_AssetID item) else None) of
           None \<Rightarrow> (item # rest, autopilot)
         | Some asset \<Rightarrow>
             if permissionModeOf w asset = PermissionModeAutopilot then (rest, a_Name asset # autopilot)
             else (item # rest, autopilot)))"

definition joinNote :: "string \<Rightarrow> string \<Rightarrow> string" where
  "joinNote msg note = (if note = [] then msg else msg @ [CHR 0x0A] @ note)"

text \<open>The items shown for a request, or the refusal of a pattern no extension rule can be.\<close>

fun grant_items ::
  "sinks \<Rightarrow> texts \<Rightarrow> string \<Rightarrow> world \<Rightarrow> GrantRequestItem list \<Rightarrow> CheckResult + ApprovalItem list" where
  "grant_items sinks tx reason w [] = Inr []"
| "grant_items sinks tx reason w (item # items) =
     (let asset = (if 0 < gr_AssetID item then w_Assets w (gr_AssetID item) else None);
          assetName = (case asset of None \<Rightarrow> [] | Some a \<Rightarrow> a_Name a);
          shown = (\<lambda>typ. map (\<lambda>p. plain_item typ (gr_AssetID item) assetName p reason) (gr_Patterns item));
          more = (\<lambda>typ. case grant_items sinks tx reason w items of
                     Inl r \<Rightarrow> Inl r | Inr rest \<Rightarrow> Inr (shown typ @ rest))
      in case (case asset of None \<Rightarrow> None
               | Some a \<Rightarrow> extensionGrantFor sinks (a_Type a) (Join (gr_Patterns item) [CHR 0x0A])) of
           None \<Rightarrow> more ''grant''
         | Some (Inr grant) \<Rightarrow> more (xg_Type grant)
         | Some (Inl err) \<Rightarrow> Inl (CheckResult0 \<lparr> cr_Decision := Deny, cr_DecisionSource := SourceGrantDeny,
             cr_MatchedPattern := Join (gr_Patterns item) ''; '',
             cr_Message := PolicyFmt (w_Lang w)
               (''GRANT REQUEST REFUSED for asset %s (nothing was granted): %v. Grant patterns for this '' @
                ''extension asset are <action> or <action>:<resource-glob>, using the policy actions listed '' @
                ''in its help.'')
               (''Grant '' @ utf8 [232, 175, 183, 230, 177, 130, 232, 162, 171, 230, 139, 146, 231,
               187, 157, 239, 188, 136, 230, 156, 170, 230, 142, 136, 228, 186, 136, 228, 187, 187,
               228, 189, 149, 230, 157, 131, 233, 153, 144, 239, 188, 137, 239, 188, 140, 232, 181,
               132, 228, 186, 167] @ '' %s'' @ utf8 [239, 188, 154] @ ''%v'' @ utf8 [227, 128, 130,
               232, 175, 165, 230, 137, 169, 229, 177, 149, 232, 181, 132, 228, 186, 167, 231, 154,
               132] @ '' grant pattern '' @ utf8 [230, 152, 175] @ '' <action> '' @ utf8 [230, 136,
               150] @ '' <action>:<resource-glob>'' @ utf8 [239, 188, 140, 229, 138, 168, 228, 189,
               156, 232, 167, 129, 229, 133, 182, 229, 184, 174, 229, 138, 169, 230, 150, 135, 230,
               161, 163, 229, 136, 151, 229, 135, 186, 231, 154, 132, 231, 173, 150, 231, 149, 165,
               229, 138, 168, 228, 189, 156, 227, 128, 130])
               [assetName, tx_Error tx err] \<rparr>))"

definition SubmitGrantMulti ::
  "sinks \<Rightarrow> texts \<Rightarrow> grant_func option \<Rightarrow> world \<Rightarrow> GrantRequestItem list \<Rightarrow> string \<Rightarrow> CheckResult" where
  "SubmitGrantMulti sinks tx grantRequest w requested reason =
     (case grantRequest of
        None \<Rightarrow> CheckResult0 \<lparr> cr_Decision := Deny,
          cr_Message := PolicyMsg (w_Lang w) ''no grant approval mechanism'' (utf8 [230, 151,
          160] @ '' Grant '' @ utf8 [229, 174, 161, 230, 137, 185, 230, 156, 186, 229, 136,
          182]) \<rparr>
      | Some ask \<Rightarrow>
          (case splitAutopilotGrants w requested of (items, autopilot) \<Rightarrow>
           let autopilotNote = (if autopilot = [] then [] else autopilotGrantMessage (w_Lang w) autopilot) in
           if autopilot \<noteq> [] \<and> items = [] then
             CheckResult0 \<lparr> cr_Decision := Deny, cr_DecisionSource := SourceAutopilotDeny,
               cr_Message := autopilotNote \<rparr>
           else (case grant_items sinks tx reason w items of
               Inl refused \<Rightarrow> refused
             | Inr approvalItems \<Rightarrow>
                 (case ask approvalItems reason of (approved, finalPatterns) \<Rightarrow>
                    if \<not> approved then
                      CheckResult0 \<lparr> cr_Decision := Deny, cr_DecisionSource := SourceGrantDeny,
                        cr_Message := joinNote (PolicyMsg (w_Lang w)
                          (''USER DENIED: The user has denied the grant approval request. Stop the current '' @
                           ''task immediately.'')
                          (utf8 [231, 148, 168, 230, 136, 183, 230, 139, 146, 231, 187, 157, 239,
                          188, 154, 231, 148, 168, 230, 136, 183, 229, 183, 178, 230, 139, 146, 231,
                          187, 157] @ '' Grant '' @ utf8 [229, 174, 161, 230, 137, 185, 232, 175,
                          183, 230, 177, 130, 227, 128, 130, 232, 175, 183, 231, 171, 139, 229, 141,
                          179, 229, 129, 156, 230, 173, 162, 229, 189, 147, 229, 137, 141, 228, 187,
                          187, 229, 138, 161, 227, 128, 130])) autopilotNote,
                        cr_MatchedPattern := Join (map ai_Command approvalItems) ''; '' \<rparr>
                    else
                      CheckResult0 \<lparr> cr_Decision := Allow, cr_DecisionSource := SourceGrantAllow,
                        cr_Message := joinNote (PolicyFmt (w_Lang w) ''grant approved, %d patterns''
                          (''Grant '' @ utf8 [229, 183, 178, 230, 137, 185, 229, 135, 134, 239, 188,
                          140, 229, 133, 177] @ '' %d '' @ utf8 [230, 157, 161, 230, 168, 161, 229,
                          188, 143]) [FormatInt (int (length finalPatterns))]) autopilotNote,
                        cr_MatchedPattern := Join finalPatterns ''; '' \<rparr>))))"

definition SubmitGrant ::
  "sinks \<Rightarrow> texts \<Rightarrow> grant_func option \<Rightarrow> world \<Rightarrow> int \<Rightarrow> string list \<Rightarrow> string \<Rightarrow> CheckResult" where
  "SubmitGrant sinks tx grantRequest w assetID patterns reason =
     SubmitGrantMulti sinks tx grantRequest w [\<lparr> gr_AssetID = assetID, gr_Patterns = patterns \<rparr>] reason"

section \<open>Extension checks on an asset\<close>

text \<open>
  The groups and own rules of the holders on one extension policy type; nothing when no loaded
  extension has registered that type.
\<close>

definition ExtensionPolicyForAsset :: "sinks \<Rightarrow> world \<Rightarrow> int \<Rightarrow> string \<Rightarrow> string list \<times> string list \<times> string list" where
  "ExtensionPolicyForAsset sinks w assetID policyType =
     (case w_Assets w assetID of
        None \<Rightarrow> ([], [], [])
      | Some asset \<Rightarrow>
          if \<not> list_ex (\<lambda>s. sk_PolicyType (snd s) = policyType) sinks then ([], [], [])
          else (let ps = List.map_filter (\<lambda>h. GetExtensionPolicy h policyType) (policyHoldersForAsset w (Some asset))
                in (dedup [] (concat (map rp_Groups ps)), concat (map rp_AllowList ps), concat (map rp_DenyList ps))))"

end
