(* ===== verification/OpsctlApproval.thy ===== *)
theory OpsctlApproval
  imports Approval
begin

text \<open>
  The approval channel between \<^verbatim>\<open>opsctl\<close>, the desktop application and the AI chat
  (\<^verbatim>\<open>internal/app/opsctl/approval.go\<close>, \<^verbatim>\<open>internal/app/ai/approval.go\<close>): single approvals, batches
  and grant requests, with what each stores, and the registration of pending approvals that an
  answer has to find.

  A handler that waits for a person is given the \<open>outcome\<close> of the wait. The grant request
  writes to the tables both before and after it, so it is two functions with the wait between
  them.
\<close>

section \<open>Requests and responses\<close>

record wire_grant_item =
  wg_Type :: string
  wg_AssetID :: int
  wg_AssetName :: string
  wg_GroupID :: int
  wg_GroupName :: string
  wg_Command :: string
  wg_Detail :: string

record BatchItem =
  bi_Type :: string
  bi_AssetID :: int
  bi_AssetName :: string
  bi_Command :: string
  bi_Detail :: string
  bi_Action :: string
  bi_Resource :: string
  bi_Resources :: "string list"
  bi_RememberPattern :: string
  bi_Review :: "ReviewInfo option"

record ApprovalRequest =
  rq_Type :: string
  rq_AssetID :: int
  rq_AssetName :: string
  rq_Command :: string
  rq_Detail :: string
  rq_SessionID :: string
  rq_GrantItems :: "wire_grant_item list"
  rq_BatchItems :: "BatchItem list"
  rq_Description :: string
  rq_Action :: string
  rq_Resource :: string
  rq_Resources :: "string list"
  rq_RememberPattern :: string
  rq_Review :: "ReviewInfo option"

record WireResponse =
  wr_Approved :: bool
  wr_Reason :: string
  wr_SessionID :: string
  wr_EditedItems :: "wire_grant_item list"

definition approved :: WireResponse where
  "approved = \<lparr> wr_Approved = True, wr_Reason = [], wr_SessionID = [], wr_EditedItems = [] \<rparr>"

definition refused :: "string \<Rightarrow> WireResponse" where
  "refused reason = \<lparr> wr_Approved = False, wr_Reason = reason, wr_SessionID = [], wr_EditedItems = [] \<rparr>"

text \<open>How a wait ends: an answer, the caller going away, or the application closing.\<close>

datatype outcome = Answered ApprovalResponse | CallerGone | AppClosing

definition ApprovalItemOfRequest :: "ApprovalRequest \<Rightarrow> ApprovalItem" where
  "ApprovalItemOfRequest req =
     \<lparr> ai_Type = rq_Type req, ai_AssetID = rq_AssetID req, ai_AssetName = rq_AssetName req, ai_GroupID = 0,
       ai_GroupName = [], ai_Command = rq_Command req, ai_Detail = rq_Detail req, ai_Action = rq_Action req,
       ai_Resource = rq_Resource req, ai_Resources = rq_Resources req,
       ai_RememberPattern = rq_RememberPattern req, ai_Review = rq_Review req \<rparr>"

definition ApprovalItemOfBatchItem :: "BatchItem \<Rightarrow> ApprovalItem" where
  "ApprovalItemOfBatchItem item =
     \<lparr> ai_Type = bi_Type item, ai_AssetID = bi_AssetID item, ai_AssetName = bi_AssetName item, ai_GroupID = 0,
       ai_GroupName = [], ai_Command = bi_Command item, ai_Detail = bi_Detail item, ai_Action = bi_Action item,
       ai_Resource = bi_Resource item, ai_Resources = bi_Resources item,
       ai_RememberPattern = bi_RememberPattern item, ai_Review = bi_Review item \<rparr>"

section \<open>Single and batch approvals\<close>

definition awaitSingleApproval ::
  "registry \<Rightarrow> sinks \<Rightarrow> env \<Rightarrow> ApprovalItem \<Rightarrow> outcome \<Rightarrow> ParsedApprovalResponse \<times> string" where
  "awaitSingleApproval reg sinks e item reply =
     (let kind = ApprovalKindForItem reg e (ai_Type item) item;
          denied = parsed ApprovalDeny []
      in case reply of
           Answered resp \<Rightarrow>
             (case ParseApprovalResponse sinks kind resp (Some [item]) of
                Inl err \<Rightarrow> (denied, ''invalid approval response'')
              | Inr p \<Rightarrow> (p, if pa_Decision p = ApprovalDeny then ''user denied'' else []))
         | CallerGone \<Rightarrow> (denied, ''call canceled'')
         | AppClosing \<Rightarrow> (denied, ''app shutting down''))"

definition grantPatternAndOrigin :: "string \<Rightarrow> ApprovalItem list \<Rightarrow> string \<times> GrantOrigin" where
  "grantPatternAndOrigin command edited =
     (case edited of [] \<Rightarrow> (command, GrantOriginSystem) | item # _ \<Rightarrow> (ai_Command item, GrantOriginUser))"

definition requestSingleApproval ::
  "registry \<Rightarrow> sinks \<Rightarrow> env \<Rightarrow> ApprovalRequest \<Rightarrow> outcome \<Rightarrow> world \<Rightarrow> WireResponse \<times> world" where
  "requestSingleApproval reg sinks e req reply w =
     (let item = ApprovalItemOfRequest req in
      case awaitSingleApproval reg sinks e item reply of (p, reason) \<Rightarrow>
        (case pa_Decision p of
           ApprovalAllow \<Rightarrow> (approved, w)
         | ApprovalAllowAll \<Rightarrow>
             if rq_SessionID req = [] then (refused ''approval does not support a grant without a session'', w)
             else if ai_Action item \<noteq> [] then
               (approved, (case SaveExtensionItemGrant sinks (rq_SessionID req) item (pa_EditedItems p) w of
                   None \<Rightarrow> w | Some w' \<Rightarrow> w'))
             else (case grantPatternAndOrigin (rq_Command req) (pa_EditedItems p) of (pattern, origin) \<Rightarrow>
               (approved, SaveGrantPatternsForApproval reg sinks e (rq_SessionID req) (rq_AssetID req)
                  (rq_AssetName req) (rq_Type req) pattern origin w))
         | ApprovalDeny \<Rightarrow> (refused reason, w)))"

definition handleBatchApproval :: "sinks \<Rightarrow> ApprovalRequest \<Rightarrow> outcome \<Rightarrow> WireResponse" where
  "handleBatchApproval sinks req reply =
     (case reply of
        Answered resp \<Rightarrow>
          (case ParseApprovalResponse sinks ApprovalKindBatch resp
                  (Some (map ApprovalItemOfBatchItem (rq_BatchItems req))) of
             Inl err \<Rightarrow> refused ''user denied''
           | Inr p \<Rightarrow> if pa_Decision p \<noteq> ApprovalAllow then refused ''user denied'' else approved)
      | CallerGone \<Rightarrow> refused ''app shutting down''
      | AppClosing \<Rightarrow> refused ''app shutting down'')"

section \<open>Grant requests of opsctl\<close>

text \<open>The extension grants of the items, by position; the error names the position that failed.\<close>

fun extensionGrantsFrom :: "sinks \<Rightarrow> world \<Rightarrow> nat \<Rightarrow> ApprovalItem list \<Rightarrow> (nat \<times> land_error) + ExtensionGrant option list" where
  "extensionGrantsFrom sinks w i [] = Inr []"
| "extensionGrantsFrom sinks w i (item # items) =
     (case (if ai_AssetID item = 0 then None else ExtensionGrantForAsset sinks w (ai_AssetID item) (ai_Command item)) of
        Some (Inl err) \<Rightarrow> Inl (i, err)
      | Some (Inr grant) \<Rightarrow> map_sum id (\<lambda>gs. Some grant # gs) (extensionGrantsFrom sinks w (Suc i) items)
      | None \<Rightarrow> map_sum id (\<lambda>gs. None # gs) (extensionGrantsFrom sinks w (Suc i) items))"

definition extensionGrantsFor :: "sinks \<Rightarrow> world \<Rightarrow> ApprovalItem list \<Rightarrow> (nat \<times> land_error) + ExtensionGrant option list" where
  "extensionGrantsFor sinks w items = extensionGrantsFrom sinks w 0 items"

fun persist_from :: "string \<Rightarrow> nat \<Rightarrow> wire_grant_item list \<Rightarrow> ExtensionGrant option list \<Rightarrow> GrantItem list" where
  "persist_from sessionID i (item # items) (g # gs) =
     (let (toolName, commands) = (case g of None \<Rightarrow> (wg_Type item, [wg_Command item]) | Some x \<Rightarrow> (xg_Type x, xg_Rules x))
      in map (\<lambda>command. \<lparr> gi_GrantSessionID = sessionID, gi_ItemIndex = i, gi_ToolName = toolName,
               gi_AssetID = wg_AssetID item, gi_AssetName = wg_AssetName item, gi_GroupID = wg_GroupID item,
               gi_GroupName = wg_GroupName item, gi_Command = command, gi_Detail = wg_Detail item \<rparr>) commands)
     @ persist_from sessionID (Suc i) items gs"
| "persist_from sessionID i _ _ = []"

definition grantItemsForPersistence :: "string \<Rightarrow> wire_grant_item list \<Rightarrow> ExtensionGrant option list \<Rightarrow> GrantItem list" where
  "grantItemsForPersistence sessionID reqItems extGrants = persist_from sessionID 0 reqItems extGrants"

definition expected_item :: "wire_grant_item \<Rightarrow> ApprovalItem" where
  "expected_item item =
     (plain_item (wg_Type item) (wg_AssetID item) (wg_AssetName item) (wg_Command item) (wg_Detail item))
       \<lparr> ai_GroupID := wg_GroupID item, ai_GroupName := wg_GroupName item \<rparr>"

text \<open>What the handler does before it shows the dialog: the expected items, and the new state.\<close>

definition open_grant_request ::
  "sinks \<Rightarrow> (land_error \<Rightarrow> string) \<Rightarrow> ApprovalRequest \<Rightarrow> world \<Rightarrow> WireResponse + ApprovalItem list \<times> world" where
  "open_grant_request sinks errorText req w =
     (let sessionID = rq_SessionID req; expected = map expected_item (rq_GrantItems req) in
      case extensionGrantsFor sinks w expected of
        Inl (i, err) \<Rightarrow> Inl (refused (errorText err))
      | Inr grants \<Rightarrow>
          (let expected' = map2 (\<lambda>item g. case g of None \<Rightarrow> item | Some x \<Rightarrow> item \<lparr> ai_Type := xg_Type x \<rparr>) expected grants in
           case w_Grants w of
             None \<Rightarrow> Inl (refused ''failed to create grant session'')
           | Some db \<Rightarrow>
               (let db' = (case CreateSession \<lparr> gs_ID = sessionID, gs_Description = rq_Description req,
                              gs_Status = GrantStatusPending \<rparr> db of None \<Rightarrow> db | Some db1 \<Rightarrow> db1);
                    items = grantItemsForPersistence sessionID (rq_GrantItems req) grants
                in Inr (expected', w \<lparr> w_Grants := Some (CreateItems items db') \<rparr>))))"

fun edit_rows :: "string \<Rightarrow> nat \<Rightarrow> ApprovalItem list \<Rightarrow> ExtensionGrant option list \<Rightarrow> GrantItem list" where
  "edit_rows sessionID i (item # items) (g # gs) =
     (let (toolName, lines) = (case g of None \<Rightarrow> (''exec'', Split (ai_Command item) (CHR 0x0A)) | Some x \<Rightarrow> (xg_Type x, xg_Rules x))
      in map (\<lambda>line. \<lparr> gi_GrantSessionID = sessionID, gi_ItemIndex = i, gi_ToolName = toolName,
               gi_AssetID = ai_AssetID item, gi_AssetName = ai_AssetName item, gi_GroupID = ai_GroupID item,
               gi_GroupName = ai_GroupName item, gi_Command = line, gi_Detail = [] \<rparr>)
           (filter (\<lambda>line. line \<noteq> []) (map TrimSpace lines)))
     @ edit_rows sessionID (Suc i) items gs"
| "edit_rows sessionID i _ _ = []"

definition with_db :: "(grant_db \<Rightarrow> grant_db) \<Rightarrow> world \<Rightarrow> world" where
  "with_db f w = w \<lparr> w_Grants := map_option f (w_Grants w) \<rparr>"

definition wire_item :: "GrantItem \<Rightarrow> wire_grant_item" where
  "wire_item it =
     \<lparr> wg_Type = gi_ToolName it, wg_AssetID = gi_AssetID it, wg_AssetName = gi_AssetName it, wg_GroupID = gi_GroupID it,
       wg_GroupName = gi_GroupName it, wg_Command = gi_Command it, wg_Detail = gi_Detail it \<rparr>"

text \<open>What it does with the outcome.\<close>

definition close_grant_request ::
  "sinks \<Rightarrow> string \<Rightarrow> ApprovalItem list \<Rightarrow> outcome \<Rightarrow> world \<Rightarrow> WireResponse \<times> world" where
  "close_grant_request sinks sessionID expected reply w =
     (let reject = with_db (UpdateSessionStatus sessionID GrantStatusRejected) w in
      case reply of
        Answered resp \<Rightarrow>
          (case (case ParseApprovalResponse sinks ApprovalKindGrant resp (Some expected) of
                   Inl err \<Rightarrow> None
                 | Inr p \<Rightarrow> (case extensionGrantsFor sinks w (pa_EditedItems p) of
                     Inl err \<Rightarrow> None
                   | Inr grants \<Rightarrow> if pa_Decision p \<noteq> ApprovalAllow then None else Some (pa_EditedItems p, grants))) of
             None \<Rightarrow> ((refused ''user denied'') \<lparr> wr_SessionID := sessionID \<rparr>, reject)
           | Some (edited, grants) \<Rightarrow>
               (let w1 = with_db (UpdateSessionStatus sessionID GrantStatusApproved) w;
                    rows = edit_rows sessionID 0 edited grants;
                    w2 = (if rows \<noteq> [] then with_db (UpdateItems sessionID rows) w1 else w1)
                in (approved \<lparr> wr_SessionID := sessionID,
                      wr_EditedItems := (case w_Grants w2 of None \<Rightarrow> [] | Some db \<Rightarrow> map wire_item (ListItems db sessionID)) \<rparr>, w2)))
      | CallerGone \<Rightarrow> (refused ''app shutting down'', reject)
      | AppClosing \<Rightarrow> (refused ''app shutting down'', reject))"

definition handleGrantApproval ::
  "sinks \<Rightarrow> (land_error \<Rightarrow> string) \<Rightarrow> ApprovalRequest \<Rightarrow> outcome \<Rightarrow> world \<Rightarrow> WireResponse \<times> world" where
  "handleGrantApproval sinks errorText req reply w =
     (case open_grant_request sinks errorText req w of
        Inl resp \<Rightarrow> (resp, w)
      | Inr (expected, w1) \<Rightarrow> close_grant_request sinks (rq_SessionID req) expected reply w1)"

section \<open>Grant requests of the AI chat\<close>

definition conv_session :: "int \<Rightarrow> string" where
  "conv_session convID = ''conv_'' @ FormatInt convID"

definition grantRequest ::
  "registry \<Rightarrow> sinks \<Rightarrow> env \<Rightarrow> int \<Rightarrow> ApprovalItem list \<Rightarrow> outcome \<Rightarrow> world \<Rightarrow> (bool \<times> string list) \<times> world" where
  "grantRequest reg sinks e convID items reply w =
     (case reply of
        Answered resp \<Rightarrow>
          (case ParseApprovalResponse sinks ApprovalKindGrant resp (Some items) of
             Inl err \<Rightarrow> ((False, []), w)
           | Inr p \<Rightarrow>
               if pa_Decision p \<noteq> ApprovalAllow then ((False, []), w)
               else (let sessionID = conv_session convID;
                         save = (\<lambda>item cmd origin. SaveGrantPatternsForApproval reg sinks e sessionID
                                   (ai_AssetID item) (ai_AssetName item) (ai_Type item) cmd origin)
                     in if pa_EditedItems p \<noteq> [] then
                          (let kept = filter (\<lambda>item. TrimSpace (ai_Command item) \<noteq> []) (pa_EditedItems p)
                           in ((True, map (\<lambda>item. TrimSpace (ai_Command item)) kept),
                               fold (\<lambda>item. save item (TrimSpace (ai_Command item)) GrantOriginUser) kept w))
                        else ((True, map ai_Command items),
                              fold (\<lambda>item. save item (ai_Command item) GrantOriginSystem) items w)))
      | CallerGone \<Rightarrow> ((False, []), w)
      | AppClosing \<Rightarrow> ((False, []), w))"

section \<open>Pending approvals\<close>

text \<open>
  A handler that waits has registered its dialog under an identifier together with a channel
  that holds one answer. \<open>RespondApproval\<close> is the entry point of the frontend, which both
  binders have in the same form: it looks the identifier up, turns an answer that does not pass
  the validation into a denial, and drops an answer that finds no entry or a full channel.
\<close>

type_synonym pending = "(string \<times> string \<times> ApprovalItem list) list"

definition deny_response :: ApprovalResponse where
  "deny_response = \<lparr> ar_Decision = ''deny'', ar_EditedItems = [] \<rparr>"

definition RespondApproval ::
  "sinks \<Rightarrow> pending \<Rightarrow> string \<Rightarrow> ApprovalResponse \<Rightarrow> ApprovalResponse option \<Rightarrow> ApprovalResponse option" where
  "RespondApproval sinks pend confirmID resp box =
     (case map_of pend confirmID of
        None \<Rightarrow> box
      | Some (kind, items) \<Rightarrow>
          (let resp' = (case ParseApprovalResponse sinks kind resp (Some items) of Inl err \<Rightarrow> deny_response | Inr p \<Rightarrow> resp)
           in case box of None \<Rightarrow> Some resp' | Some r \<Rightarrow> Some r))"

text \<open>
  The life of one wait. The opsctl handlers register the dialog and then show it
  (\<open>register_first\<close>); the callbacks of the AI chat emit the event that shows it and register
  it afterwards. The person answers once, at any moment after the dialog is shown.
\<close>

datatype wait_pc = Begin | Registered | Emitted | Waiting | Finished

record waiter =
  wt_pc :: wait_pc
  wt_pending :: pending
  wt_box :: "ApprovalResponse option"
  wt_answered :: bool

definition waiter0 :: waiter where
  "waiter0 = \<lparr> wt_pc = Begin, wt_pending = [], wt_box = None, wt_answered = False \<rparr>"

definition shown :: "waiter \<Rightarrow> bool" where
  "shown s \<longleftrightarrow> wt_pc s = Emitted \<or> wt_pc s = Waiting \<or> wt_pc s = Finished"

inductive wait_step :: "sinks \<Rightarrow> bool \<Rightarrow> string \<Rightarrow> string \<Rightarrow> ApprovalItem list \<Rightarrow> waiter \<Rightarrow> waiter \<Rightarrow> bool"
  for sinks register_first i kind items where
  register: "wt_pc s = (if register_first then Begin else Emitted) \<Longrightarrow>
    wait_step sinks register_first i kind items s
      (s \<lparr> wt_pc := (if register_first then Registered else Waiting), wt_pending := put i (kind, items) (wt_pending s) \<rparr>)"
| emit: "wt_pc s = (if register_first then Registered else Begin) \<Longrightarrow>
    wait_step sinks register_first i kind items s (s \<lparr> wt_pc := (if register_first then Waiting else Emitted) \<rparr>)"
| answer: "shown s \<Longrightarrow> \<not> wt_answered s \<Longrightarrow>
    wait_step sinks register_first i kind items s
      (s \<lparr> wt_box := RespondApproval sinks (wt_pending s) i resp (wt_box s), wt_answered := True \<rparr>)"
| receive: "wt_pc s = Waiting \<Longrightarrow> wt_box s \<noteq> None \<Longrightarrow>
    wait_step sinks register_first i kind items s
      (s \<lparr> wt_pc := Finished, wt_pending := filter (\<lambda>e. fst e \<noteq> i) (wt_pending s) \<rparr>)"

inductive_cases wait_stepE: "wait_step sinks register_first i kind items s t"

inductive wait_reach :: "sinks \<Rightarrow> bool \<Rightarrow> string \<Rightarrow> string \<Rightarrow> ApprovalItem list \<Rightarrow> waiter \<Rightarrow> bool"
  for sinks register_first i kind items where
  init: "wait_reach sinks register_first i kind items waiter0"
| step: "wait_reach sinks register_first i kind items s \<Longrightarrow> wait_step sinks register_first i kind items s t \<Longrightarrow>
    wait_reach sinks register_first i kind items t"

end
