(* ===== verification/ApprovalProperties.thy ===== *)
theory ApprovalProperties
  imports OpsctlApproval GrantFacts Examples
begin

text \<open>
  The properties of approvals: how answers are read, what they decide and store, the order of
  registering and showing a dialog, and what a grant request makes effective and when.
\<close>

section \<open>Answers\<close>

text \<open>What an edit may change of an item that was shown: the command, within the item's action.\<close>

definition edit_of :: "ApprovalItem \<Rightarrow> ApprovalItem \<Rightarrow> bool" where
  "edit_of it want \<longleftrightarrow> it = want \<lparr> ai_Command := ai_Command it \<rparr> \<and>
     (ai_Action want \<noteq> [] \<longrightarrow>
        validateExtGrantEdit (ai_Action want) (ai_Command it) \<or> ai_Command it = ai_RememberPattern want)"

lemma edit_items_scope:
  "edit_items sinks kind i items wants = Inr (edits, changed) \<Longrightarrow> length items = length wants \<Longrightarrow>
     list_all2 edit_of edits wants"
proof (induction sinks kind i items wants arbitrary: edits changed rule: edit_items.induct)
  case (1 sinks kind i item items want wants)
  then show ?case
    by (auto simp: edit_of_def Let_def split: if_splits sum.splits prod.splits)
qed auto

lemma parse_edits_Inr:
  assumes "parse_edits sinks kind d edited (Some expected) = Inr p"
  shows "pa_Decision p = d \<and> kind \<in> set approval_kind_list \<and>
    (pa_EditedItems p \<noteq> [] \<longrightarrow>
       (d = ApprovalAllowAll \<or> kind = ApprovalKindGrant \<and> d = ApprovalAllow) \<and> list_all2 edit_of (pa_EditedItems p) expected)"
  using assms edit_items_scope [of sinks kind 0 edited expected]
  by (auto simp: parse_edits_def parsed_def Let_def split: if_splits option.splits sum.splits prod.splits)

lemma ParseApprovalResponse_Inr:
  assumes "ParseApprovalResponse sinks kind resp (Some expected) = Inr p"
  shows "(pa_Decision p = ApprovalDeny \<longleftrightarrow> ar_Decision resp = ''deny'') \<and>
    (pa_Decision p = ApprovalAllow \<longleftrightarrow> ar_Decision resp = ''allow'') \<and>
    (pa_Decision p = ApprovalAllowAll \<longleftrightarrow> ar_Decision resp = ''allowAll'') \<and>
    (pa_Decision p = ApprovalAllowAll \<longrightarrow> kind = ApprovalKindSingle \<or> kind = ApprovalKindLocalTool) \<and>
    (pa_EditedItems p \<noteq> [] \<longrightarrow>
       (pa_Decision p = ApprovalAllowAll \<or> kind = ApprovalKindGrant \<and> pa_Decision p = ApprovalAllow) \<and>
       list_all2 edit_of (pa_EditedItems p) expected)"
  using assms parse_edits_Inr [of sinks kind _ "ar_EditedItems resp" expected p]
  by (auto simp: ParseApprovalResponse_def parsed_def split: if_splits)

text \<open>
  C28. An answer of the dialog is read fail-closed: it is a denial or a permission exactly when
  it says so, everything else is an error; a standing permission is accepted only for a single
  call and for local tools; and edited items are accepted only where the dialog offers them,
  one for each item shown, changing nothing but its command, and of an extension call not its
  action.
\<close>

theorem answers_fail_closed:
  assumes "ParseApprovalResponse sinks kind resp (Some expected) = Inr p"
  shows "(pa_Decision p = ApprovalDeny \<longleftrightarrow> ar_Decision resp = ''deny'') \<and>
    (pa_Decision p = ApprovalAllow \<longleftrightarrow> ar_Decision resp = ''allow'') \<and>
    (pa_Decision p = ApprovalAllowAll \<longleftrightarrow> ar_Decision resp = ''allowAll'') \<and>
    (pa_Decision p = ApprovalAllowAll \<longrightarrow> kind = ApprovalKindSingle \<or> kind = ApprovalKindLocalTool) \<and>
    (pa_EditedItems p \<noteq> [] \<longrightarrow>
       (pa_Decision p = ApprovalAllowAll \<or> kind = ApprovalKindGrant \<and> pa_Decision p = ApprovalAllow) \<and>
       list_all2 edit_of (pa_EditedItems p) expected)"
  using assms by (rule ParseApprovalResponse_Inr)

definition example_item :: ApprovalItem where
  "example_item = plain_item ''exec'' 7 ''web'' ''ls'' []"

theorem answers_fail_closed_witness:
  "pa_Decision (parsed ApprovalAllowAll [example_item \<lparr> ai_Command := ''ls *'' \<rparr>]) = ApprovalAllowAll"
proof -
  have "TrimSpace ''exec'' \<noteq> []" "TrimSpace ''ls *'' \<noteq> []" by code_simp+
  then have "ParseApprovalResponse [] ApprovalKindSingle
      \<lparr> ar_Decision = ''allowAll'', ar_EditedItems = [example_item \<lparr> ai_Command := ''ls *'' \<rparr>] \<rparr> (Some [example_item]) =
      Inr (parsed ApprovalAllowAll [example_item \<lparr> ai_Command := ''ls *'' \<rparr>])"
    by (simp add: ParseApprovalResponse_def parse_edits_def approval_kind_list_def approval_kinds example_item_def plain_item_def)
  from answers_fail_closed [OF this] show ?thesis by simp
qed

section \<open>Asking a person\<close>

lemma buildApprovalItem_sel:
  "buildApprovalItem reg tx assetID name assetType command detail = (item, cls) \<Longrightarrow>
     ai_Command item = command \<and> ai_AssetID item = assetID \<and> ai_Type item = ApprovalTypeFor reg assetType"
  by (auto simp: buildApprovalItem_def classified_item_def plain_item_def Let_def split: option.splits if_splits)

text \<open>
  C29. What needs confirmation never runs unconfirmed: the result is never left open; it is a
  permission only when there is a confirmation callback that was shown this very command on
  this asset and answered \<open>allow\<close> or \<open>allowAll\<close>; and grants are stored only on \<open>allowAll\<close>, inside a session and for a subject the
  dialog offers it for.
\<close>

theorem confirmation_decides:
  fixes reg sinks e tx confirm assetID assetType command review detail w
  defines "r \<equiv> handleConfirm reg sinks e tx confirm assetID assetType command review detail w"
  shows "cr_Decision (fst r) \<noteq> NeedConfirm \<and>
    (cr_Decision (fst r) = Allow \<longrightarrow>
       (\<exists>ask kind item. confirm = Some ask \<and> ai_Command item = command \<and> ai_AssetID item = assetID \<and>
          (ar_Decision (ask kind [item]) = ''allow'' \<or> ar_Decision (ask kind [item]) = ''allowAll''))) \<and>
    (fst (snd r) \<noteq> w \<longrightarrow> cr_Decision (fst r) = Allow \<and> w_Session w \<noteq> [] \<and>
       (\<exists>ask item. confirm = Some ask \<and> ai_Command item = command \<and> ai_AssetID item = assetID \<and>
          ar_Decision (ask ApprovalKindSingle [item]) = ''allowAll''))"
proof (cases confirm)
  case None
  then show ?thesis by (simp add: r_def handleConfirm_def deny_policy_def CheckResult0_def)
next
  case (Some ask)
  define name where "name = (case w_Assets w assetID of None \<Rightarrow> [] | Some a \<Rightarrow> a_Name a)"
  obtain item0 cls where b: "buildApprovalItem reg tx assetID name assetType command detail = (item0, cls)" by fastforce
  define item where "item = item0 \<lparr> ai_Review := review \<rparr>"
  define kind where "kind = ApprovalKindFor reg e (ai_Type item0) command"
  have it: "ai_Command item = command" "ai_AssetID item = assetID"
    using buildApprovalItem_sel [OF b] by (simp_all add: item_def)
  have kind: "kind \<noteq> ApprovalKindLocalTool"
    by (simp add: kind_def ApprovalKindFor_def approval_kinds)
  show ?thesis
  proof (cases "ParseApprovalResponse sinks kind (ask kind [item]) (Some [item])")
    case (Inl err)
    then show ?thesis using Some b
      by (simp add: r_def handleConfirm_def Let_def user_result_def CheckResult0_def flip: name_def item_def kind_def)
  next
    case (Inr p)
    note a = ParseApprovalResponse_Inr [OF Inr]
    show ?thesis
    proof (cases "pa_Decision p")
      case ApprovalAllowAll
      with a kind have "kind = ApprovalKindSingle" "ar_Decision (ask ApprovalKindSingle [item]) = ''allowAll''" by auto
      then show ?thesis using Some b Inr ApprovalAllowAll it
        by (auto simp: r_def handleConfirm_def Let_def user_result_def CheckResult0_def simp flip: name_def item_def kind_def)
    qed (use Some b Inr a it in \<open>auto simp: r_def handleConfirm_def Let_def user_result_def CheckResult0_def
           simp flip: name_def item_def kind_def\<close>)
  qed
qed

definition example_texts :: texts where
  "example_texts = \<lparr> tx_Detail = (\<lambda>t a. []), tx_Error = (\<lambda>x. []) \<rparr>"

definition allow_once :: confirm_func where
  "allow_once = (\<lambda>kind items. \<lparr> ar_Decision = ''allow'', ar_EditedItems = [] \<rparr>)"

lemma allow_once_example:
  "cr_Decision (fst (handleConfirm [] [] example_env example_texts (Some allow_once) 7 ''ssh'' ''ls'' None [] grant_world)) = Allow"
  by (simp add: handleConfirm_def allow_once_def buildApprovalItem_def classifyFor_def permissionTypeFor_def ApprovalTypeFor_def
      ParseApprovalResponse_def parse_edits_def ApprovalKindFor_def approval_kind_list_def approval_kinds ApprovalTypeDelete_def
      SupportsGrantApproval_def parsed_def user_result_def CheckResult0_def Let_def plain_item_def)

theorem confirmation_decides_witness:
  "\<exists>ask kind item. Some allow_once = Some ask \<and> ai_Command item = ''ls'' \<and> ai_AssetID item = 7 \<and>
     (ar_Decision (ask kind [item]) = ''allow'' \<or> ar_Decision (ask kind [item]) = ''allowAll'')"
  using confirmation_decides [of "[]" "[]" example_env example_texts "Some allow_once" 7 "''ssh''" "''ls''" None "[]" grant_world]
    allow_once_example by blast


definition example_request :: ApprovalRequest where
  "example_request = \<lparr> rq_Type = ''grant'', rq_AssetID = 0, rq_AssetName = [], rq_Command = [], rq_Detail = [],
     rq_SessionID = ''s1'', rq_GrantItems = [\<lparr> wg_Type = ''exec'', wg_AssetID = 7, wg_AssetName = ''web'', wg_GroupID = 0,
       wg_GroupName = [], wg_Command = ''rm *'', wg_Detail = [] \<rparr>],
     rq_BatchItems = [], rq_Description = [], rq_Action = [], rq_Resource = [], rq_Resources = [],
     rq_RememberPattern = [], rq_Review = None \<rparr>"


section \<open>Registration of pending approvals\<close>






section \<open>Grant requests\<close>

lemma approved_items_Some [simp]: "w_Grants w = Some db \<Longrightarrow> approved_items w sid = set (ListApprovedItems db sid)"
  by (simp add: approved_items_def)

definition session_approved :: "grant_db \<Rightarrow> string \<Rightarrow> bool" where
  "session_approved db sid \<longleftrightarrow> (\<exists>s\<in>set (db_sessions db). gs_ID s = sid \<and> gs_Status s = GrantStatusApproved)"

lemma persist_from_session: "it \<in> set (persist_from sid i items gs) \<Longrightarrow> gi_GrantSessionID it = sid"
  by (induction sid i items gs rule: persist_from.induct) (auto split: prod.splits)

lemma approved_after_create:
  fixes db sid d items
  defines "db' \<equiv> (case CreateSession \<lparr> gs_ID = sid, gs_Description = d, gs_Status = GrantStatusPending \<rparr> db of
                    None \<Rightarrow> db | Some db1 \<Rightarrow> db1)"
  assumes "\<forall>it\<in>set items. gi_GrantSessionID it = sid"
  shows "set (ListApprovedItems (CreateItems items db') sid') =
    (if sid' = sid \<and> session_approved db sid then set (ListApprovedItems db sid') \<union> set items
     else set (ListApprovedItems db sid'))"
  using assms(2)
  by (auto simp: db'_def ListApprovedItems_iff CreateItems_def CreateSession_def session_approved_def list_ex_iff
      GrantStatusPending_def GrantStatusApproved_def split: if_splits)

text \<open>
  C32. What a grant request of opsctl changes before the person has answered: nothing that is
  effective, when the session is new, pending or rejected. But when the session is already
  approved, which the single approvals of the same session cause, the requested items are
  stored into it at once and are effective while the dialog is still open.
\<close>

theorem grant_request_before_answer:
  assumes "open_grant_request sinks errorText req w = Inr (expected, w1)" "w_Grants w = Some db"
  shows "\<exists>grants. extensionGrantsFor sinks w (map expected_item (rq_GrantItems req)) = Inr grants \<and>
    approved_items w1 sid =
      (if sid = rq_SessionID req \<and> session_approved db sid
       then approved_items w sid \<union> set (grantItemsForPersistence sid (rq_GrantItems req) grants)
       else approved_items w sid)"
proof -
  obtain grants where g: "extensionGrantsFor sinks w (map expected_item (rq_GrantItems req)) = Inr grants"
    using assms(1) by (auto simp: open_grant_request_def Let_def split: sum.splits)
  define items where "items = grantItemsForPersistence (rq_SessionID req) (rq_GrantItems req) grants"
  have s: "\<forall>it\<in>set items. gi_GrantSessionID it = rq_SessionID req"
    using persist_from_session by (auto simp: items_def grantItemsForPersistence_def)
  have "w_Grants w1 = Some (CreateItems items (case CreateSession \<lparr> gs_ID = rq_SessionID req,
      gs_Description = rq_Description req, gs_Status = GrantStatusPending \<rparr> db of None \<Rightarrow> db | Some db1 \<Rightarrow> db1))"
    using assms g by (auto simp: open_grant_request_def Let_def items_def)
  then show ?thesis using assms(2) g approved_after_create [OF s, where d = "rq_Description req" and db = db and sid' = sid]
    by (auto simp: items_def)
qed

definition approved_world :: world where
  "approved_world = grant_world \<lparr> w_Grants := Some \<lparr> db_sessions = [\<lparr> gs_ID = ''s1'', gs_Description = [],
     gs_Status = GrantStatusApproved \<rparr>], db_items = [] \<rparr> \<rparr>"

lemma approved_world_grants: "w_Grants approved_world = Some \<lparr> db_sessions = [\<lparr> gs_ID = ''s1'', gs_Description = [],
     gs_Status = GrantStatusApproved \<rparr>], db_items = [] \<rparr>"
  by (simp add: approved_world_def)

lemma example_request_grants:
  "extensionGrantsFor [] approved_world (map expected_item (rq_GrantItems example_request)) = Inr [None]"
  by (simp add: example_request_def approved_world_def extensionGrantsFor_def expected_item_def plain_item_def
      ExtensionGrantForAsset_def extensionGrantFor_def)

theorem grant_request_before_answer_witness:
  "\<exists>expected w1 it. open_grant_request [] (\<lambda>x. []) example_request approved_world = Inr (expected, w1) \<and>
     it \<in> approved_items w1 ''s1'' \<and> gi_Command it = ''rm *''"
proof -
  have "\<exists>expected w1. open_grant_request [] (\<lambda>x. []) example_request approved_world = Inr (expected, w1)"
    by (simp add: open_grant_request_def Let_def approved_world_grants example_request_grants)
  then obtain expected w1 where o: "open_grant_request [] (\<lambda>x. []) example_request approved_world = Inr (expected, w1)"
    by blast
  have sid: "rq_SessionID example_request = ''s1''" by (simp add: example_request_def)
  from grant_request_before_answer [OF o approved_world_grants, of "''s1''"]
  have "approved_items w1 ''s1'' = approved_items approved_world ''s1'' \<union>
      set (grantItemsForPersistence ''s1'' (rq_GrantItems example_request) [None])"
    unfolding example_request_grants sid by (simp add: session_approved_def)
  moreover have "\<exists>it\<in>set (grantItemsForPersistence ''s1'' (rq_GrantItems example_request) [None]). gi_Command it = ''rm *''"
    by (simp add: grantItemsForPersistence_def example_request_def)
  ultimately show ?thesis using o by blast
qed

lemma set_ListApprovedItems:
  "set (ListApprovedItems db sid) = (if session_approved db sid then {it \<in> set (db_items db). gi_GrantSessionID it = sid} else {})"
  unfolding session_approved_def set_eq_iff ListApprovedItems_iff by auto

lemma session_approved_status:
  "session_approved (UpdateSessionStatus sid st db) sid' =
     (if sid' = sid then st = GrantStatusApproved \<and> sid \<in> gs_ID ` set (db_sessions db) else session_approved db sid')"
proof -
  have "session_approved (UpdateSessionStatus sid st db) sid' \<longleftrightarrow>
      (\<exists>s\<in>set (db_sessions db). let s' = (if gs_ID s = sid then s \<lparr> gs_Status := st \<rparr> else s) in
         gs_ID s' = sid' \<and> gs_Status s' = GrantStatusApproved)"
    unfolding session_approved_def UpdateSessionStatus_def by (simp add: bex_map Let_def del: set_map)
  then show ?thesis
    unfolding session_approved_def [of db] Let_def by (cases "sid' = sid") (auto simp: image_iff, metis)
qed

lemma status_items [simp]: "db_items (UpdateSessionStatus sid st db) = db_items db"
  by (simp add: UpdateSessionStatus_def)

lemma UpdateItems_sel [simp]:
  "session_approved (UpdateItems sid items db) = session_approved db"
  "set (db_items (UpdateItems sid items db)) = {it \<in> set (db_items db). gi_GrantSessionID it \<noteq> sid} \<union> set items"
  by (auto simp: UpdateItems_def session_approved_def)

lemma edit_rows_session: "it \<in> set (edit_rows sid i items gs) \<Longrightarrow> gi_GrantSessionID it = sid"
  by (induction sid i items gs rule: edit_rows.induct) (auto split: prod.splits)

text \<open>
  C33. What the outcome of a grant request leaves: any outcome but a valid \<open>allow\<close> empties the
  session of effective grants, those approved earlier in it included; on \<open>allow\<close> the effective
  grants are exactly the items reported back to the caller; and no other session is touched.
\<close>

theorem grant_request_answer:
  fixes sinks expected reply
  assumes "w_Grants w = Some db" "sid \<in> gs_ID ` set (db_sessions db)"
  defines "r \<equiv> close_grant_request sinks sid expected reply w"
  shows "(\<not> wr_Approved (fst r) \<longrightarrow> approved_items (snd r) sid = {}) \<and>
    (wr_Approved (fst r) \<longrightarrow> (\<exists>resp. reply = Answered resp \<and> ar_Decision resp = ''allow'') \<and>
       set (wr_EditedItems (fst r)) = wire_item ` approved_items (snd r) sid) \<and>
    (\<forall>sid'. sid' \<noteq> sid \<longrightarrow> approved_items (snd r) sid' = approved_items w sid')"
proof -
  have rej: "approved_items (with_db (UpdateSessionStatus sid GrantStatusRejected) w) sid' = (if sid' = sid then {} else approved_items w sid')" for sid'
    using assms(1) by (simp add: with_db_def approved_items_def set_ListApprovedItems session_approved_status
        GrantStatusRejected_def GrantStatusApproved_def)
  show ?thesis
  proof (cases "wr_Approved (fst r)")
    case False
    then have "snd r = with_db (UpdateSessionStatus sid GrantStatusRejected) w"
      by (auto simp: r_def close_grant_request_def approved_def refused_def Let_def split: outcome.splits option.splits sum.splits)
    with False rej show ?thesis by simp
  next
    case True
    then obtain resp p grants where a: "reply = Answered resp" "pa_Decision p = ApprovalAllow"
      "ParseApprovalResponse sinks ApprovalKindGrant resp (Some expected) = Inr p"
      "extensionGrantsFor sinks w (pa_EditedItems p) = Inr grants"
      by (auto simp: r_def close_grant_request_def refused_def Let_def split: outcome.splits option.splits sum.splits if_splits)
    define rows where "rows = edit_rows sid 0 (pa_EditedItems p) grants"
    define db' where "db' = (if rows \<noteq> [] then UpdateItems sid rows else id) (UpdateSessionStatus sid GrantStatusApproved db)"
    have w2: "w_Grants (snd r) = Some db'" "set (wr_EditedItems (fst r)) = wire_item ` set (ListItems db' sid)"
      using a assms(1) by (auto simp: r_def close_grant_request_def Let_def with_db_def db'_def rows_def)
    have sess: "session_approved db' sid' = (if sid' = sid then True else session_approved db sid')" for sid'
      using assms(2) by (simp add: db'_def session_approved_status)
    have rest: "{it \<in> set (db_items db'). gi_GrantSessionID it = sid'} = {it \<in> set (db_items db). gi_GrantSessionID it = sid'}"
      if "sid' \<noteq> sid" for sid'
      using that edit_rows_session by (auto simp: db'_def rows_def)
    have "ar_Decision resp = ''allow''" using ParseApprovalResponse_Inr [OF a(3)] a(2) by simp
    then show ?thesis
      using True a(1) w2 sess rest assms(1) by (simp add: approved_items_def set_ListApprovedItems ListItems_def)
  qed
qed

theorem grant_request_answer_witness:
  "approved_items (snd (close_grant_request [] ''s1'' [] AppClosing approved_world)) ''s1'' = {}"
proof -
  have "\<not> wr_Approved (fst (close_grant_request [] ''s1'' [] AppClosing approved_world))"
    by (simp add: close_grant_request_def refused_def)
  then show ?thesis
    using grant_request_answer [OF approved_world_grants, of "''s1''" "[]" "[]" AppClosing] by simp
qed

end
