(* ===== verification/Spec2Isabelle.thy ===== *)
theory Spec2Isabelle
  imports RuleProperties KindProperties GrantProperties ApprovalProperties
begin

text \<open>
  \<^bold>\<open>OpsKat: the permission system.\<close>
\<close>

end
